(* ===== verification/Prelude.thy ===== *)
theory Prelude
  imports Main
begin

text \<open>
  Shared vocabulary of the development.

  \<^item> Actions: an \<open>async\<close> TypeScript function that reads and writes state and may throw is a
    function from the state to an outcome (\<open>Inl\<close> what was thrown, \<open>Inr\<close> what was returned) and
    the state at that moment.  Every write made before a throw stays, as in the source.
  \<^item> \<open>ret\<close>, \<open>throw\<close>, \<open>andThen\<close> sequence actions; \<open>tryCatch\<close> and \<open>tryFinally\<close> are the two
    statements of the language, with its rule that a throw inside \<open>finally\<close> replaces the pending
    outcome.
  \<^item> Loops over arrays: \<open>eachM\<close> (\<open>for ... of\<close> with \<open>await\<close>) and \<open>mapM\<close> (the same, collecting).
  \<^item> Array idioms used all over the code: \<open>uniq\<close> (\<open>[...new Set(xs)]\<close>), \<open>joinWith\<close>
    (\<open>xs.join(sep)\<close>) and the generic list lemmas the components share.
\<close>

named_theorems action_simps \<open>unfolding rules of the action combinators\<close>

type_synonym ('s, 'e, 'a) action = "'s \<Rightarrow> ('e + 'a) \<times> 's"

definition ret :: "'a \<Rightarrow> ('s, 'e, 'a) action" where
  "ret a = (\<lambda>s. (Inr a, s))"

definition throw :: "'e \<Rightarrow> ('s, 'e, 'a) action" where
  "throw e = (\<lambda>s. (Inl e, s))"

definition andThen :: "('s, 'e, 'a) action \<Rightarrow> ('a \<Rightarrow> ('s, 'e, 'b) action) \<Rightarrow> ('s, 'e, 'b) action" where
  "andThen m f = (\<lambda>s. case m s of (Inl e, s') \<Rightarrow> (Inl e, s') | (Inr a, s') \<Rightarrow> f a s')"

definition tryCatch :: "('s, 'e, 'a) action \<Rightarrow> ('e \<Rightarrow> ('s, 'e, 'a) action) \<Rightarrow> ('s, 'e, 'a) action" where
  "tryCatch m h = (\<lambda>s. case m s of (Inl e, s') \<Rightarrow> h e s' | (Inr a, s') \<Rightarrow> (Inr a, s'))"

definition tryFinally :: "('s, 'e, 'a) action \<Rightarrow> ('s, 'e, unit) action \<Rightarrow> ('s, 'e, 'a) action" where
  "tryFinally m f = (\<lambda>s. case m s of (r, s') \<Rightarrow>
     (case f s' of (Inl e, s'') \<Rightarrow> (Inl e, s'') | (Inr _, s'') \<Rightarrow> (r, s'')))"

definition getS :: "('s \<Rightarrow> 'a) \<Rightarrow> ('s, 'e, 'a) action" where
  "getS f = (\<lambda>s. (Inr (f s), s))"

definition modifyS :: "('s \<Rightarrow> 's) \<Rightarrow> ('s, 'e, unit) action" where
  "modifyS f = (\<lambda>s. (Inr (), f s))"

text \<open>\<open>try { x = await m } catch (e) { err = e }\<close>: the outcome becomes a value.\<close>

definition attempt :: "('s, 'e, 'a) action \<Rightarrow> ('s, 'e, 'e + 'a) action" where
  "attempt m = (\<lambda>s. case m s of (x, s') \<Rightarrow> (Inr x, s'))"

fun eachM :: "('a \<Rightarrow> ('s, 'e, 'b) action) \<Rightarrow> 'a list \<Rightarrow> ('s, 'e, unit) action" where
  "eachM f [] = ret ()"
| "eachM f (x # xs) = andThen (f x) (\<lambda>_. eachM f xs)"

fun mapM :: "('a \<Rightarrow> ('s, 'e, 'b) action) \<Rightarrow> 'a list \<Rightarrow> ('s, 'e, 'b list) action" where
  "mapM f [] = ret []"
| "mapM f (x # xs) = andThen (f x) (\<lambda>y. andThen (mapM f xs) (\<lambda>ys. ret (y # ys)))"

lemma ret_apply [simp, action_simps]: "ret a s = (Inr a, s)"
  by (simp add: ret_def)

lemma throw_apply [simp, action_simps]: "throw e s = (Inl e, s)"
  by (simp add: throw_def)

lemma getS_apply [simp, action_simps]: "getS f s = (Inr (f s), s)"
  by (simp add: getS_def)

lemma modifyS_apply [simp, action_simps]: "modifyS f s = (Inr (), f s)"
  by (simp add: modifyS_def)

lemma andThen_apply [action_simps]:
  "andThen m f s = (case m s of (Inl e, s') \<Rightarrow> (Inl e, s') | (Inr a, s') \<Rightarrow> f a s')"
  by (simp add: andThen_def)

lemma andThen_Inr [simp]: "m s = (Inr a, s') \<Longrightarrow> andThen m f s = f a s'"
  by (simp add: andThen_def)

lemma andThen_Inl [simp]: "m s = (Inl e, s') \<Longrightarrow> andThen m f s = (Inl e, s')"
  by (simp add: andThen_def)

lemma tryCatch_apply [action_simps]:
  "tryCatch m h s = (case m s of (Inl e, s') \<Rightarrow> h e s' | (Inr a, s') \<Rightarrow> (Inr a, s'))"
  by (simp add: tryCatch_def)

lemma tryFinally_apply [action_simps]:
  "tryFinally m f s = (case m s of (r, s') \<Rightarrow>
     (case f s' of (Inl e, s'') \<Rightarrow> (Inl e, s'') | (Inr _, s'') \<Rightarrow> (r, s'')))"
  by (simp add: tryFinally_def)

lemma attempt_apply [action_simps]: "attempt m s = (case m s of (x, s') \<Rightarrow> (Inr x, s'))"
  by (simp add: attempt_def)

lemma ret_andThen [simp]: "andThen (ret a) f = f a"
  by (rule ext) (simp add: andThen_def)

lemma throw_andThen [simp]: "andThen (throw e) f = throw e"
  by (rule ext) (simp add: andThen_def)

lemma andThen_assoc: "andThen (andThen m f) g = andThen m (\<lambda>a. andThen (f a) g)"
  by (rule ext) (simp add: andThen_def split: prod.splits sum.splits)

lemma andThen_Inr_iff:
  "andThen m f s = (Inr b, s'') \<longleftrightarrow> (\<exists>a s'. m s = (Inr a, s') \<and> f a s' = (Inr b, s''))"
  by (auto simp: andThen_def split: prod.splits sum.splits)

lemma eachM_append: "eachM f (xs @ ys) = andThen (eachM f xs) (\<lambda>_. eachM f ys)"
  by (induction xs) (simp_all add: andThen_assoc)

text \<open>
  An action keeps a property of the state when it holds afterwards whatever the outcome; the
  combinators keep what their parts keep.
\<close>

definition keeps :: "('s \<Rightarrow> bool) \<Rightarrow> ('s, 'e, 'a) action \<Rightarrow> bool" where
  "keeps P m \<longleftrightarrow> (\<forall>s. P s \<longrightarrow> P (snd (m s)))"

lemma keepsI [intro?]: "(\<And>s. P s \<Longrightarrow> P (snd (m s))) \<Longrightarrow> keeps P m"
  by (simp add: keeps_def)

lemma keepsD: "keeps P m \<Longrightarrow> P s \<Longrightarrow> m s = (r, s') \<Longrightarrow> P s'"
  by (auto simp: keeps_def dest: spec [where x = s])

lemma keeps_ret [simp, intro]: "keeps P (ret a)"
  by (simp add: keeps_def)

lemma keeps_throw [simp, intro]: "keeps P (throw e)"
  by (simp add: keeps_def)

lemma keeps_getS [simp, intro]: "keeps P (getS f)"
  by (simp add: keeps_def)

lemma keeps_andThen [intro]:
  "keeps P m \<Longrightarrow> (\<And>a. keeps P (f a)) \<Longrightarrow> keeps P (andThen m f)"
  by (fastforce simp: keeps_def andThen_def split: prod.splits sum.splits)

lemma keeps_tryCatch [intro]:
  "keeps P m \<Longrightarrow> (\<And>e. keeps P (h e)) \<Longrightarrow> keeps P (tryCatch m h)"
  by (fastforce simp: keeps_def tryCatch_def split: prod.splits sum.splits)

lemma keeps_tryFinally [intro]:
  "keeps P m \<Longrightarrow> keeps P f \<Longrightarrow> keeps P (tryFinally m f)"
  by (fastforce simp: keeps_def tryFinally_def split: prod.splits sum.splits)

lemma keeps_attempt [intro]: "keeps P m \<Longrightarrow> keeps P (attempt m)"
  by (fastforce simp: keeps_def attempt_def split: prod.splits)

lemma keeps_eachM [intro]: "(\<And>x. x \<in> set xs \<Longrightarrow> keeps P (f x)) \<Longrightarrow> keeps P (eachM f xs)"
  by (induction xs) auto

lemma keeps_mapM [intro]: "(\<And>x. x \<in> set xs \<Longrightarrow> keeps P (f x)) \<Longrightarrow> keeps P (mapM f xs)"
  by (induction xs) auto

text \<open>An action that never throws.\<close>

definition returns :: "('s, 'e, 'a) action \<Rightarrow> bool" where
  "returns m \<longleftrightarrow> (\<forall>s. \<exists>a s'. m s = (Inr a, s'))"

lemma returnsE:
  assumes "returns m"
  obtains a s' where "m s = (Inr a, s')"
proof -
  from assms have "\<exists>a s'. m s = (Inr a, s')" unfolding returns_def by (rule spec)
  with that show thesis by blast
qed

lemma returns_ret [intro]: "returns (ret a)"
  by (simp add: returns_def)

lemma returns_andThen [intro]: "returns m \<Longrightarrow> (\<And>a. returns (f a)) \<Longrightarrow> returns (andThen m f)"
proof -
  assume m: "returns m" and f: "\<And>a. returns (f a)"
  have "\<exists>b s''. andThen m f s = (Inr b, s'')" for s
  proof -
    obtain a s' where "m s = (Inr a, s')" using m by (rule returnsE)
    moreover obtain b s'' where "f a s' = (Inr b, s'')" using f by (rule returnsE)
    ultimately show ?thesis by simp
  qed
  then show ?thesis by (simp add: returns_def)
qed

lemma returns_mapM [intro]: "(\<And>x. returns (f x)) \<Longrightarrow> returns (mapM f xs)"
  by (induction xs) auto

lemma returns_eachM [intro]: "(\<And>x. returns (f x)) \<Longrightarrow> returns (eachM f xs)"
  by (induction xs) auto

lemma returns_attempt [intro]: "returns (attempt m)"
  by (auto simp: returns_def attempt_def split: prod.splits)

section \<open>Actions that may not return\<close>

text \<open>
  The code that runs a loop without a bound: \<open>None\<close> is a call that never returns.  The combinators
  are those of actions.
\<close>

type_synonym ('s, 'e, 'a) paction = "'s \<Rightarrow> (('e + 'a) \<times> 's) option"

definition always :: "('s, 'e, 'a) action \<Rightarrow> ('s, 'e, 'a) paction" where
  "always m = (\<lambda>s. Some (m s))"

definition pThen :: "('s, 'e, 'a) paction \<Rightarrow> ('a \<Rightarrow> ('s, 'e, 'b) paction) \<Rightarrow> ('s, 'e, 'b) paction" where
  "pThen m f = (\<lambda>s. case m s of
     None \<Rightarrow> None | Some (Inl e, s') \<Rightarrow> Some (Inl e, s') | Some (Inr a, s') \<Rightarrow> f a s')"

definition pAttempt :: "('s, 'e, 'a) paction \<Rightarrow> ('s, 'e, 'e + 'a) paction" where
  "pAttempt m = (\<lambda>s. case m s of None \<Rightarrow> None | Some (x, s') \<Rightarrow> Some (Inr x, s'))"

definition pFinally :: "('s, 'e, 'a) paction \<Rightarrow> ('s, 'e, unit) action \<Rightarrow> ('s, 'e, 'a) paction" where
  "pFinally m f = (\<lambda>s. case m s of None \<Rightarrow> None
     | Some (r, s') \<Rightarrow> Some (case f s' of (Inl e, s'') \<Rightarrow> (Inl e, s'') | (Inr _, s'') \<Rightarrow> (r, s'')))"

lemma always_apply [simp, action_simps]: "always m s = Some (m s)"
  by (simp add: always_def)

lemma pThen_apply [action_simps]:
  "pThen m f s = (case m s of
     None \<Rightarrow> None | Some (Inl e, s') \<Rightarrow> Some (Inl e, s') | Some (Inr a, s') \<Rightarrow> f a s')"
  by (simp add: pThen_def)

lemma pAttempt_apply [action_simps]:
  "pAttempt m s = (case m s of None \<Rightarrow> None | Some (x, s') \<Rightarrow> Some (Inr x, s'))"
  by (simp add: pAttempt_def)

lemma pThen_Inr_iff:
  "pThen m f s = Some (Inr b, s'') \<longleftrightarrow> (\<exists>a s'. m s = Some (Inr a, s') \<and> f a s' = Some (Inr b, s''))"
  by (auto simp: pThen_def split: option.splits prod.splits sum.splits)

lemma pAttempt_Inr_iff: "pAttempt m s = Some (Inr x, s') \<longleftrightarrow> m s = Some (x, s')"
  by (auto simp: pAttempt_def split: option.splits)

lemma pThen_ret [simp]: "pThen (always (ret a)) f = f a"
  by (rule ext) (simp add: pThen_def)

lemma pThen_throw [simp]: "pThen (always (throw e)) f = always (throw e)"
  by (rule ext) (simp add: pThen_def)

lemma pThen_assoc: "pThen (pThen m f) g = pThen m (\<lambda>a. pThen (f a) g)"
  by (rule ext) (simp add: pThen_def split: option.splits prod.splits sum.splits)

lemma pThen_pAttempt_iff:
  "pThen (pAttempt m) f s = Some (Inr b, s'') \<longleftrightarrow>
     (\<exists>e s'. m s = Some (Inl e, s') \<and> f (Inl e) s' = Some (Inr b, s'')) \<or>
     (\<exists>a s'. m s = Some (Inr a, s') \<and> f (Inr a) s' = Some (Inr b, s''))"
proof (cases "m s")
  case None
  then show ?thesis by (simp add: pThen_def pAttempt_def)
next
  case (Some r)
  obtain x s' where r: "r = (x, s')" by (rule prod.exhaust)
  with Some show ?thesis by (cases x) (simp_all add: pThen_def pAttempt_def)
qed

lemma pFinally_Inr_iff:
  "pFinally m f s = Some (Inr x, s'') \<longleftrightarrow>
     (\<exists>s'. m s = Some (Inr x, s') \<and> f s' = (Inr (), s''))"
  by (auto simp: pFinally_def split: option.splits prod.splits sum.splits)

section \<open>Arrays and strings\<close>

text \<open>\<open>[...new Set(xs)]\<close>: a \<open>Set\<close> iterates in insertion order, so the first occurrence stays.\<close>

fun uniq :: "'a list \<Rightarrow> 'a list" where
  "uniq [] = []"
| "uniq (x # xs) = x # removeAll x (uniq xs)"

lemma set_uniq [simp]: "set (uniq xs) = set xs"
  by (induction xs) auto

lemma distinct_uniq [simp]: "distinct (uniq xs)"
  by (induction xs) (auto simp: distinct_removeAll)

lemma uniq_distinct: "distinct xs \<Longrightarrow> uniq xs = xs"
  by (induction xs) (auto simp: removeAll_id)

lemma uniq_idem [simp]: "uniq (uniq xs) = uniq xs"
  by (rule uniq_distinct) simp

fun joinWith :: "'a list \<Rightarrow> 'a list list \<Rightarrow> 'a list" where
  "joinWith sep [] = []"
| "joinWith sep [x] = x"
| "joinWith sep (x # y # zs) = x @ sep @ joinWith sep (y # zs)"

text \<open>\<open>id.split(c)\<close> for a one-character separator: \<open>"".split("|")\<close> is \<open>[""]\<close>.\<close>

fun splitOn :: "'a \<Rightarrow> 'a list \<Rightarrow> 'a list list" where
  "splitOn c [] = [[]]"
| "splitOn c (x # xs) =
     (if x = c then [] # splitOn c xs
      else (case splitOn c xs of [] \<Rightarrow> [[x]] | w # ws \<Rightarrow> (x # w) # ws))"

lemma splitOn_not_Nil [simp]: "splitOn c xs \<noteq> []"
  by (induction xs) (auto split: list.splits)

lemma splitOn_no_sep: "c \<notin> set xs \<Longrightarrow> splitOn c xs = [xs]"
  by (induction xs) auto

lemma splitOn_append_sep: "c \<notin> set xs \<Longrightarrow> splitOn c (xs @ c # ys) = xs # splitOn c ys"
  by (induction xs) auto

lemma splitOn_joinWith:
  assumes "ws \<noteq> []" and "\<And>w. w \<in> set ws \<Longrightarrow> c \<notin> set w"
  shows "splitOn c (joinWith [c] ws) = ws"
  using assms
  by (induction "[c]" ws rule: joinWith.induct) (auto simp: splitOn_no_sep splitOn_append_sep)

lemma joinWith_splitOn: "joinWith [c] (splitOn c xs) = xs"
proof (induction xs)
  case Nil
  then show ?case by simp
next
  case (Cons x xs)
  obtain w ws where w: "splitOn c xs = w # ws"
    by (cases "splitOn c xs") auto
  then show ?case
    using Cons.IH by (cases ws) auto
qed

end
