(* ===== verification/Js_Object.thy ===== *)
theory Js_Object
  imports Prelude
begin

text \<open>
  The two keyed collections of the language that the code builds on: \<open>Map\<close> objects and plain
  objects used as dictionaries (\<open>context.memo\<close>, \<open>Crupde\<close>, \<open>ModsIndexedByTable\<close>, ...).
  Both are association lists in iteration order.  A \<open>Map\<close> iterates in insertion order; a plain
  object iterates its array-index keys first, in ascending order, then the others in insertion
  order, and both keep a key's place when its value is overwritten.  Their common contract is the
  locale \<open>keyed_store\<close>, interpreted for both.
\<close>

section \<open>The contract\<close>

locale keyed_store =
  fixes empty_store :: "'m"
    and find_key :: "'m \<Rightarrow> 'k \<Rightarrow> 'v option"
    and put :: "'k \<Rightarrow> 'v \<Rightarrow> 'm \<Rightarrow> 'm"
    and drop_key :: "'k \<Rightarrow> 'm \<Rightarrow> 'm"
    and entries :: "'m \<Rightarrow> ('k \<times> 'v) list"
    and invar :: "'m \<Rightarrow> bool"
  assumes find_empty: "find_key empty_store k = None"
    and find_put: "invar m \<Longrightarrow> find_key (put k v m) = (find_key m)(k := Some v)"
    and find_drop: "invar m \<Longrightarrow> find_key (drop_key k m) = (find_key m)(k := None)"
    and entries_find: "invar m \<Longrightarrow> map_of (entries m) = find_key m"
    and entries_distinct: "invar m \<Longrightarrow> distinct (map fst (entries m))"
    and invar_empty: "invar empty_store"
    and invar_put: "invar m \<Longrightarrow> invar (put k v m)"
    and invar_drop: "invar m \<Longrightarrow> invar (drop_key k m)"
begin

lemma fold_put_invar: "invar m \<Longrightarrow> invar (fold (\<lambda>(k, v). put k v) kvs m)"
  by (induction kvs arbitrary: m) (auto simp: invar_put)

text \<open>Filling a store from a list of entries: the last entry of a key wins.\<close>

lemma fold_put_find:
  "invar m \<Longrightarrow> find_key (fold (\<lambda>(k, v). put k v) kvs m) = find_key m ++ map_of (rev kvs)"
proof (induction kvs arbitrary: m)
  case Nil
  then show ?case by simp
next
  case (Cons kv kvs)
  obtain k v where [simp]: "kv = (k, v)" by force
  from Cons.prems have "invar (put k v m)" by (rule invar_put)
  then show ?case
    using Cons.IH [of "put k v m"] Cons.prems
    by (simp add: find_put) (rule ext, simp add: map_add_def split: option.splits)
qed

lemma in_entries_iff: "invar m \<Longrightarrow> (k, v) \<in> set (entries m) \<longleftrightarrow> find_key m k = Some v"
  using entries_find [of m] entries_distinct [of m]
  by (metis map_of_eq_Some_iff)

lemma keys_iff: "invar m \<Longrightarrow> k \<in> fst ` set (entries m) \<longleftrightarrow> find_key m k \<noteq> None"
  using entries_find [of m] by (metis map_of_eq_None_iff)

lemma find_drop_other: "invar m \<Longrightarrow> k' \<noteq> k \<Longrightarrow> find_key (drop_key k m) k' = find_key m k'"
  by (simp add: find_drop)

end

section \<open>Map objects\<close>

type_synonym ('k, 'v) jsmap = "('k \<times> 'v) list"

definition jsmap_has :: "('k, 'v) jsmap \<Rightarrow> 'k \<Rightarrow> bool" where
  "jsmap_has m k = (map_of m k \<noteq> None)"

fun jsmap_set :: "'k \<Rightarrow> 'v \<Rightarrow> ('k, 'v) jsmap \<Rightarrow> ('k, 'v) jsmap" where
  "jsmap_set k v [] = [(k, v)]"
| "jsmap_set k v ((k', v') # m) = (if k' = k then (k, v) # m else (k', v') # jsmap_set k v m)"

definition jsmap_delete :: "'k \<Rightarrow> ('k, 'v) jsmap \<Rightarrow> ('k, 'v) jsmap" where
  "jsmap_delete k m = filter (\<lambda>(k', _). k' \<noteq> k) m"

text \<open>\<open>new Map(entries)\<close>\<close>

definition jsmap_of :: "('k \<times> 'v) list \<Rightarrow> ('k, 'v) jsmap" where
  "jsmap_of kvs = fold (\<lambda>(k, v). jsmap_set k v) kvs []"

abbreviation wf_keys :: "('k \<times> 'v) list \<Rightarrow> bool" where
  "wf_keys m \<equiv> distinct (map fst m)"

lemma map_of_jsmap_set: "map_of (jsmap_set k v m) = (map_of m)(k := Some v)"
  by (induction m) (auto simp: fun_upd_twist)

lemma keys_jsmap_set:
  "map fst (jsmap_set k v m) = (if k \<in> fst ` set m then map fst m else map fst m @ [k])"
  by (induction k v m rule: jsmap_set.induct) auto

lemma map_of_filter_key: "map_of (filter (\<lambda>(k', _). k' \<noteq> k) m) = (map_of m)(k := None)"
  by (induction m) auto

lemma wf_filter: "wf_keys m \<Longrightarrow> wf_keys (filter P m)"
  by (induction m) auto

interpretation jsmap: keyed_store "[]" map_of jsmap_set jsmap_delete "\<lambda>m. m" wf_keys
proof unfold_locales
  fix m :: "('a, 'b) jsmap" and k v
  assume wf: "wf_keys m"
  then show "wf_keys (jsmap_set k v m)"
    by (auto simp: keys_jsmap_set)
  show "wf_keys (jsmap_delete k m)"
    using wf by (simp add: jsmap_delete_def wf_filter)
qed (auto simp: map_of_jsmap_set jsmap_delete_def map_of_filter_key)

lemma jsmap_of_wf [simp]: "wf_keys (jsmap_of kvs)"
  unfolding jsmap_of_def by (rule jsmap.fold_put_invar) simp

lemma jsmap_of_find: "map_of (jsmap_of kvs) = map_of (rev kvs)"
  unfolding jsmap_of_def by (subst jsmap.fold_put_find) auto

lemma jsmap_of_keys: "fst ` set (jsmap_of kvs) = fst ` set kvs"
proof -
  have "k \<in> fst ` set (jsmap_of kvs) \<longleftrightarrow> k \<in> fst ` set kvs" for k
    using jsmap.keys_iff [OF jsmap_of_wf, of k kvs]
    by (simp add: jsmap_of_find map_of_eq_None_iff)
  then show ?thesis by blast
qed

lemma jsmap_set_new: "k \<notin> fst ` set m \<Longrightarrow> jsmap_set k v m = m @ [(k, v)]"
  by (induction m) auto

lemma fold_jsmap_set_new:
  "wf_keys (m @ kvs) \<Longrightarrow> fold (\<lambda>(k, v). jsmap_set k v) kvs m = m @ kvs"
proof (induction kvs arbitrary: m)
  case (Cons kv kvs)
  obtain k v where [simp]: "kv = (k, v)" by force
  from Cons.prems have "jsmap_set k v m = m @ [(k, v)]"
    by (intro jsmap_set_new) auto
  with Cons show ?case by auto
qed simp

lemma jsmap_of_id: "wf_keys kvs \<Longrightarrow> jsmap_of kvs = kvs"
  unfolding jsmap_of_def using fold_jsmap_set_new [of "[]" kvs] by simp

section \<open>Plain objects\<close>

text \<open>
  An array-index key is the canonical decimal form of an integer below \<open>2^32 - 1\<close>.  Keys inherited
  from \<open>Object.prototype\<close> (such as \<open>constructor\<close>) are outside the model: the code's keys are entity
  names, table names and cloud identifiers.
\<close>

type_synonym 'v obj = "(string \<times> 'v) list"

definition digit_value :: "char \<Rightarrow> nat option" where
  "digit_value c =
     (let n = of_char c in if 48 \<le> n \<and> n \<le> (57::nat) then Some (n - 48) else None)"

fun digits_value :: "nat \<Rightarrow> string \<Rightarrow> nat option" where
  "digits_value acc [] = Some acc"
| "digits_value acc (c # cs) =
     (case digit_value c of None \<Rightarrow> None | Some d \<Rightarrow> digits_value (10 * acc + d) cs)"

definition array_index :: "string \<Rightarrow> nat option" where
  "array_index k =
     (if k = [] \<or> (hd k = CHR ''0'' \<and> k \<noteq> ''0'') then None
      else (case digits_value 0 k of None \<Rightarrow> None
            | Some n \<Rightarrow> if n < 4294967295 then Some n else None))"

definition key_before :: "string \<Rightarrow> string \<Rightarrow> bool" where
  "key_before k k' =
     (case array_index k of None \<Rightarrow> False
      | Some i \<Rightarrow> (case array_index k' of None \<Rightarrow> True | Some j \<Rightarrow> i < j))"

fun obj_insert :: "string \<Rightarrow> 'v \<Rightarrow> 'v obj \<Rightarrow> 'v obj" where
  "obj_insert k v [] = [(k, v)]"
| "obj_insert k v ((k', v') # o') =
     (if key_before k k' then (k, v) # (k', v') # o' else (k', v') # obj_insert k v o')"

definition obj_set :: "string \<Rightarrow> 'v \<Rightarrow> 'v obj \<Rightarrow> 'v obj" where
  "obj_set k v ob = (if k \<in> fst ` set ob then jsmap_set k v ob else obj_insert k v ob)"

definition obj_delete :: "string \<Rightarrow> 'v obj \<Rightarrow> 'v obj" where
  "obj_delete k ob = jsmap_delete k ob"

definition obj_keys :: "'v obj \<Rightarrow> string list" where
  "obj_keys ob = map fst ob"

definition obj_values :: "'v obj \<Rightarrow> 'v list" where
  "obj_values ob = map snd ob"

text \<open>\<open>Object.fromEntries(entries)\<close>\<close>

definition obj_of :: "(string \<times> 'v) list \<Rightarrow> 'v obj" where
  "obj_of kvs = fold (\<lambda>(k, v). obj_set k v) kvs []"

lemma set_obj_insert [simp]: "set (obj_insert k v ob) = insert (k, v) (set ob)"
  by (induction k v ob rule: obj_insert.induct) auto

lemma map_of_obj_insert:
  "k \<notin> fst ` set ob \<Longrightarrow> map_of (obj_insert k v ob) = (map_of ob)(k := Some v)"
  by (induction k v ob rule: obj_insert.induct) (auto simp: fun_upd_twist)

lemma wf_obj_insert: "k \<notin> fst ` set ob \<Longrightarrow> wf_keys ob \<Longrightarrow> wf_keys (obj_insert k v ob)"
  by (induction k v ob rule: obj_insert.induct) (auto simp: image_iff)

interpretation jsobj: keyed_store "[]" map_of obj_set obj_delete "\<lambda>ob. ob" wf_keys
proof unfold_locales
  fix m :: "'v obj" and k v
  assume wf: "wf_keys m"
  show "map_of (obj_set k v m) = (map_of m)(k := Some v)"
    by (simp add: obj_set_def map_of_jsmap_set map_of_obj_insert)
  show "map_of (obj_delete k m) = (map_of m)(k := None)"
    unfolding obj_delete_def using wf by (rule jsmap.find_drop)
  show "wf_keys (obj_set k v m)"
    using wf by (simp add: obj_set_def wf_obj_insert jsmap.invar_put)
  show "wf_keys (obj_delete k m)"
    unfolding obj_delete_def using wf by (rule jsmap.invar_drop)
qed auto

lemma map_of_obj_set [simp]: "map_of (obj_set k v ob) = (map_of ob)(k := Some v)"
  by (simp add: obj_set_def map_of_jsmap_set map_of_obj_insert)

lemma map_of_obj_delete [simp]: "map_of (obj_delete k ob) = (map_of ob)(k := None)"
  by (simp add: obj_delete_def jsmap_delete_def map_of_filter_key)

lemma keys_obj_set [simp]: "fst ` set (obj_set k v ob) = insert k (fst ` set ob)"
proof (cases "k \<in> fst ` set ob")
  case True
  then have "map fst (obj_set k v ob) = map fst ob"
    by (simp add: obj_set_def keys_jsmap_set)
  then have "set (map fst (obj_set k v ob)) = set (map fst ob)" by metis
  then show ?thesis using True by auto
qed (simp add: obj_set_def)

lemma obj_of_find: "map_of (obj_of kvs) = map_of (rev kvs)"
  unfolding obj_of_def by (subst jsobj.fold_put_find) auto

lemma obj_of_wf [simp]: "wf_keys (obj_of kvs)"
  unfolding obj_of_def by (rule jsobj.fold_put_invar) simp

text \<open>
  An object is in iteration order when no array-index key comes after a key that it precedes; such
  an object rebuilt from its own entries is unchanged.
\<close>

definition js_ordered :: "'v obj \<Rightarrow> bool" where
  "js_ordered ob = sorted_wrt (\<lambda>k k'. \<not> key_before k' k) (map fst ob)"

lemma not_key_before_trans:
  "\<not> key_before b a \<Longrightarrow> \<not> key_before c b \<Longrightarrow> \<not> key_before c a"
  by (auto simp: key_before_def split: option.splits)

lemma key_before_le_trans: "key_before a b \<Longrightarrow> \<not> key_before c b \<Longrightarrow> \<not> key_before c a"
  by (auto simp: key_before_def split: option.splits)

lemma js_ordered_Cons:
  "js_ordered ((k, v) # ob) \<longleftrightarrow> (\<forall>k' \<in> fst ` set ob. \<not> key_before k' k) \<and> js_ordered ob"
  by (auto simp: js_ordered_def)

lemma js_ordered_insert: "js_ordered ob \<Longrightarrow> js_ordered (obj_insert k v ob)"
proof (induction k v ob rule: obj_insert.induct)
  case (2 k v k' v' ob)
  show ?case
  proof (cases "key_before k k'")
    case True
    then have "\<not> key_before x k" if "x \<in> fst ` set ((k', v') # ob)" for x
      using 2(2) that key_before_le_trans [OF True]
      by (auto simp: js_ordered_Cons) (auto simp: key_before_def split: option.splits)
    with True 2(2) show ?thesis by (simp add: js_ordered_Cons)
  next
    case False
    with 2 show ?thesis by (auto simp: js_ordered_Cons)
  qed
qed (simp add: js_ordered_def)

lemma js_ordered_set: "js_ordered ob \<Longrightarrow> js_ordered (obj_set k v ob)"
  by (simp add: obj_set_def js_ordered_insert) (simp add: js_ordered_def keys_jsmap_set)

lemma js_ordered_fold: "js_ordered ob \<Longrightarrow> js_ordered (fold (\<lambda>(k, v). obj_set k v) kvs ob)"
  by (induction kvs arbitrary: ob) (auto simp: js_ordered_set)

lemma js_ordered_obj_of: "js_ordered (obj_of kvs)"
  unfolding obj_of_def by (rule js_ordered_fold) (simp add: js_ordered_def)

lemma obj_insert_last: "\<forall>k' \<in> fst ` set ob. \<not> key_before k k' \<Longrightarrow> obj_insert k v ob = ob @ [(k, v)]"
  by (induction k v ob rule: obj_insert.induct) auto

lemma fold_obj_set_ordered:
  "wf_keys (m @ kvs) \<Longrightarrow> js_ordered (m @ kvs) \<Longrightarrow> fold (\<lambda>(k, v). obj_set k v) kvs m = m @ kvs"
proof (induction kvs arbitrary: m)
  case (Cons kv kvs)
  obtain k v where [simp]: "kv = (k, v)" by (rule prod.exhaust)
  have "obj_set k v m = m @ [(k, v)]"
    using Cons.prems
    by (subst obj_set_def, subst obj_insert_last) (auto simp: js_ordered_def sorted_wrt_append)
  with Cons show ?case by simp
qed simp

lemma obj_of_idem: "obj_of (obj_of kvs) = obj_of kvs"
  using fold_obj_set_ordered [of "[]" "obj_of kvs"] js_ordered_obj_of [of kvs]
  by (simp add: obj_of_def [of "obj_of kvs"])

end
