(* ===== verification/Diff_Service.thy ===== *)
theory Diff_Service
  imports Js_Object
begin

text \<open>
  \<open>src/src/services/diff.ts\<close>: the comparison of the entities read from the database with the ones
  read from the cloud.  \<open>mapSegmentation\<close> and \<open>findDiff\<close> keep the source's iteration order; the
  lemmas say which entity lands in which part of the result and when a diff is empty.
\<close>

definition mapSegmentation ::
  "('k, 'v) jsmap \<Rightarrow> ('k, 'v) jsmap \<Rightarrow> ('k, 'v) jsmap \<times> ('k, 'v \<times> 'v) jsmap \<times> ('k, 'v) jsmap" where
  "mapSegmentation a b =
     (let (left, intersect) =
        fold (\<lambda>(k, v) (l, i).
               case map_of b k of
                 Some bv \<Rightarrow> (l, jsmap_set k (v, bv) i)
               | None \<Rightarrow> (jsmap_set k v l, i)) a ([], []);
      right = fold (\<lambda>(k, v) r. if jsmap_has a k then r else jsmap_set k v r) b []
      in (left, intersect, right))"

record 'e diff =
  entitiesInDbOnly :: "'e list"
  entitiesInAwsOnly :: "'e list"
  entitiesChanged :: "('e \<times> 'e) list"   \<comment> \<open>the objects \<open>{ db, cloud }\<close>\<close>

definition findDiff ::
  "'e list \<Rightarrow> 'e list \<Rightarrow> ('e \<Rightarrow> 'k) \<Rightarrow> ('e \<Rightarrow> 'e \<Rightarrow> bool) \<Rightarrow> 'e diff" where
  "findDiff dbEntities cloudEntities idGen comparator =
     (let dbEntitiesById = jsmap_of (map (\<lambda>e. (idGen e, e)) dbEntities);
          cloudEntitiesById = jsmap_of (map (\<lambda>e. (idGen e, e)) cloudEntities);
          (dbOnly, remaining, cloudOnly) = mapSegmentation dbEntitiesById cloudEntitiesById
      in \<lparr> entitiesInDbOnly = map snd dbOnly,
           entitiesInAwsOnly = map snd cloudOnly,
           entitiesChanged = filter (\<lambda>(d, c). \<not> comparator d c) (map snd remaining) \<rparr>)"

text \<open>On maps with distinct keys the two loops are filters in iteration order.\<close>

lemma segmentation_left:
  assumes "wf_keys (l @ a)" and "wf_keys (i @ map (\<lambda>(k, v). (k, (v, the (map_of b k)))) a)"
  shows "fold (\<lambda>(k, v) (l, i). case map_of b k of Some bv \<Rightarrow> (l, jsmap_set k (v, bv) i)
                               | None \<Rightarrow> (jsmap_set k v l, i)) a (l, i)
       = (l @ filter (\<lambda>(k, v). map_of b k = None) a,
          i @ map (\<lambda>(k, v). (k, (v, the (map_of b k)))) (filter (\<lambda>(k, v). map_of b k \<noteq> None) a))"
  using assms
proof (induction a arbitrary: l i)
  case (Cons x a)
  obtain k v where [simp]: "x = (k, v)" by force
  show ?case
  proof (cases "map_of b k")
    case None
    moreover have "jsmap_set k v l = l @ [(k, v)]"
      using Cons.prems by (intro jsmap_set_new) auto
    ultimately show ?thesis
      using Cons by (simp add: case_prod_unfold)
  next
    case (Some bv)
    moreover have "jsmap_set k (v, bv) i = i @ [(k, (v, bv))]"
      using Cons.prems by (intro jsmap_set_new) auto
    ultimately show ?thesis
      using Cons by (simp add: case_prod_unfold)
  qed
qed simp

lemma segmentation_right:
  "wf_keys (r @ b) \<Longrightarrow>
   fold (\<lambda>(k, v) r. if jsmap_has a k then r else jsmap_set k v r) b r
     = r @ filter (\<lambda>(k, v). map_of a k = None) b"
proof (induction b arbitrary: r)
  case (Cons x b)
  obtain k v where [simp]: "x = (k, v)" by force
  have "jsmap_set k v r = r @ [(k, v)]"
    using Cons.prems by (intro jsmap_set_new) auto
  then show ?case
    using Cons by (simp add: jsmap_has_def)
qed simp

lemma mapSegmentation_filters:
  assumes "wf_keys a" and "wf_keys b"
  shows "mapSegmentation a b =
    (filter (\<lambda>(k, v). map_of b k = None) a,
     map (\<lambda>(k, v). (k, (v, the (map_of b k)))) (filter (\<lambda>(k, v). map_of b k \<noteq> None) a),
     filter (\<lambda>(k, v). map_of a k = None) b)"
proof -
  have "wf_keys (map (\<lambda>(k, v). (k, (v, the (map_of b k)))) a)"
    using assms(1) by (simp add: comp_def case_prod_unfold)
  then show ?thesis
    using segmentation_left [of "[]" a "[]" b] segmentation_right [of "[]" b a] assms
    by (simp add: mapSegmentation_def)
qed

text \<open>
  The last entity with an id, which is the one a \<open>Map\<close> built from the list holds.
\<close>

definition lastWith :: "('e \<Rightarrow> 'k) \<Rightarrow> 'e list \<Rightarrow> 'k \<Rightarrow> 'e option" where
  "lastWith idGen es k = map_of (rev (map (\<lambda>e. (idGen e, e)) es)) k"

lemma lastWith_id: "lastWith idGen es k = Some e \<Longrightarrow> idGen e = k \<and> e \<in> set es"
  unfolding lastWith_def by (auto dest!: map_of_SomeD)

lemma lastWith_key: "lastWith idGen es k = Some e \<Longrightarrow> k = idGen e"
  using lastWith_id by fastforce

lemma lastWith_None: "lastWith idGen es k = None \<longleftrightarrow> k \<notin> idGen ` set es"
  unfolding lastWith_def by (auto simp: map_of_eq_None_iff image_iff)

lemma lastWith_distinct:
  assumes "distinct (map idGen es)" and "e \<in> set es"
  shows "lastWith idGen es (idGen e) = Some e"
proof -
  have "distinct (map fst (rev (map (\<lambda>e. (idGen e, e)) es)))"
    using assms(1) by (simp add: rev_map [symmetric] comp_def)
  then show ?thesis
    unfolding lastWith_def using assms(2) by (intro map_of_is_SomeI) auto
qed

lemma byId_map_of:
  "map_of (jsmap_of (map (\<lambda>e. (idGen e, e)) es)) = lastWith idGen es"
  by (rule ext) (simp add: jsmap_of_find lastWith_def)

lemma byId_in:
  "(k, e) \<in> set (jsmap_of (map (\<lambda>e. (idGen e, e)) es)) \<longleftrightarrow> lastWith idGen es k = Some e"
  by (simp add: jsmap.in_entries_iff byId_map_of)

lemma in_snd_filter: "e \<in> snd ` {x \<in> S. P (fst x) (snd x)} \<longleftrightarrow> (\<exists>k. (k, e) \<in> S \<and> P k e)"
  by force

lemmas findDiff_unfold = findDiff_def Let_def mapSegmentation_filters [OF jsmap_of_wf jsmap_of_wf]

lemma in_dbOnly:
  "e \<in> set (entitiesInDbOnly (findDiff db cl idGen cmp)) \<longleftrightarrow>
   lastWith idGen db (idGen e) = Some e \<and> idGen e \<notin> idGen ` set cl"
proof -
  have "e \<in> set (entitiesInDbOnly (findDiff db cl idGen cmp)) \<longleftrightarrow>
      (\<exists>k. lastWith idGen db k = Some e \<and> lastWith idGen cl k = None)"
    using in_snd_filter [of e "set (jsmap_of (map (\<lambda>e. (idGen e, e)) db))" "\<lambda>k _. lastWith idGen cl k = None"]
    by (simp add: findDiff_unfold byId_map_of byId_in case_prod_unfold)
  then show ?thesis
    by (metis lastWith_None lastWith_key)
qed

lemma in_awsOnly:
  "e \<in> set (entitiesInAwsOnly (findDiff db cl idGen cmp)) \<longleftrightarrow>
   lastWith idGen cl (idGen e) = Some e \<and> idGen e \<notin> idGen ` set db"
proof -
  have "e \<in> set (entitiesInAwsOnly (findDiff db cl idGen cmp)) \<longleftrightarrow>
      (\<exists>k. lastWith idGen cl k = Some e \<and> lastWith idGen db k = None)"
    using in_snd_filter [of e "set (jsmap_of (map (\<lambda>e. (idGen e, e)) cl))" "\<lambda>k _. lastWith idGen db k = None"]
    by (simp add: findDiff_unfold byId_map_of byId_in case_prod_unfold)
  then show ?thesis
    by (metis lastWith_None lastWith_key)
qed

lemma in_changed:
  "(d, c) \<in> set (entitiesChanged (findDiff db cl idGen cmp)) \<longleftrightarrow>
   idGen d = idGen c \<and> lastWith idGen db (idGen d) = Some d \<and>
   lastWith idGen cl (idGen d) = Some c \<and> \<not> cmp d c"
proof -
  have "(d, c) \<in> set (entitiesChanged (findDiff db cl idGen cmp)) \<longleftrightarrow>
      (\<exists>k. lastWith idGen db k = Some d \<and> lastWith idGen cl k = Some c \<and> \<not> cmp d c)"
    by (simp add: findDiff_unfold byId_map_of) (force simp: byId_in image_iff Bex_def)
  also have "\<dots> \<longleftrightarrow> idGen d = idGen c \<and> lastWith idGen db (idGen d) = Some d \<and>
      lastWith idGen cl (idGen d) = Some c \<and> \<not> cmp d c"
    using lastWith_key [of idGen db _ d] lastWith_key [of idGen cl _ c] by auto
  finally show ?thesis .
qed

lemmas findDiff_membership = in_dbOnly in_awsOnly in_changed

lemma lastWith_distinct_iff:
  "distinct (map idGen es) \<Longrightarrow> lastWith idGen es k = Some e \<longleftrightarrow> e \<in> set es \<and> idGen e = k"
  using lastWith_distinct [of idGen es e] lastWith_id [of idGen es k e] by blast

lemma dbOnly_distinct:
  "distinct (map idGen db) \<Longrightarrow>
   set (entitiesInDbOnly (findDiff db cl idGen cmp)) = {d \<in> set db. idGen d \<notin> idGen ` set cl}"
  by (rule set_eqI) (simp add: in_dbOnly lastWith_distinct_iff)

lemma awsOnly_distinct:
  "distinct (map idGen cl) \<Longrightarrow>
   set (entitiesInAwsOnly (findDiff db cl idGen cmp)) = {c \<in> set cl. idGen c \<notin> idGen ` set db}"
  by (rule set_eqI) (simp add: in_awsOnly lastWith_distinct_iff)

lemma changed_distinct:
  "distinct (map idGen db) \<Longrightarrow> distinct (map idGen cl) \<Longrightarrow>
   (d, c) \<in> set (entitiesChanged (findDiff db cl idGen cmp)) \<longleftrightarrow>
   d \<in> set db \<and> c \<in> set cl \<and> idGen d = idGen c \<and> \<not> cmp d c"
  by (simp add: in_changed lastWith_distinct_iff) metis



text \<open>
  The diff of two sides that agree is empty: with unique ids, the three parts are empty exactly when
  both sides have the same ids and the comparator accepts every pair.
\<close>

lemma dbOnly_empty:
  "distinct (map idGen db) \<Longrightarrow>
   entitiesInDbOnly (findDiff db cl idGen cmp) = [] \<longleftrightarrow> idGen ` set db \<subseteq> idGen ` set cl"
  unfolding set_empty [symmetric] by (simp add: dbOnly_distinct) blast

lemma awsOnly_empty:
  "distinct (map idGen cl) \<Longrightarrow>
   entitiesInAwsOnly (findDiff db cl idGen cmp) = [] \<longleftrightarrow> idGen ` set cl \<subseteq> idGen ` set db"
  unfolding set_empty [symmetric] by (simp add: awsOnly_distinct) blast

lemma changed_empty:
  assumes "distinct (map idGen db)" and "distinct (map idGen cl)"
  shows "entitiesChanged (findDiff db cl idGen cmp) = [] \<longleftrightarrow>
     (\<forall>d \<in> set db. \<forall>c \<in> set cl. idGen d = idGen c \<longrightarrow> cmp d c)"
proof -
  have "entitiesChanged (findDiff db cl idGen cmp) = [] \<longleftrightarrow>
      (\<forall>d c. (d, c) \<notin> set (entitiesChanged (findDiff db cl idGen cmp)))"
    by (cases "entitiesChanged (findDiff db cl idGen cmp)") auto
  then show ?thesis
    by (simp add: changed_distinct [OF assms]) blast
qed

end
