(* ===== verification/Lazy_Dep.thy ===== *)
theory Lazy_Dep
  imports Prelude "HOL-Library.Multiset"
begin

text \<open>
  \<open>src/src/services/lazy-dep.ts\<close>: \<open>lazyLoader\<close> runs a list of promise generators one after
  the other, keeps the ones that failed and runs those again, until none is left or a whole pass
  made no progress.  A generator is a value \<open>'g\<close> with an interpretation \<open>run\<close> as an action.  What
  a generator throws is either an error object or a value on which the catch block's
  \<open>err.stack = e.stack ?? err.stack\<close> itself throws a \<open>TypeError\<close> (a primitive, \<open>null\<close> or
  \<open>undefined\<close>); that second error leaves the loader.
\<close>

datatype 'e thrown = ErrObj 'e | NonObject

datatype ('g, 'e) dep_error =
    DepError "'g list" "'e list"   \<comment> \<open>\<open>metadata.generatorsToRun\<close> and \<open>metadata.failures\<close>\<close>
  | LoaderTypeError

type_synonym ('g, 's, 'e, 'r) runner = "'g \<Rightarrow> ('s, 'e thrown, 'r) action"

text \<open>The \<open>for\<close> loop: the generators to re-run and the errors collected so far.\<close>

fun runRound :: "('g, 's, 'e, 'r) runner \<Rightarrow> 'g list \<Rightarrow> 'e list \<Rightarrow>
    ('s, ('g, 'e) dep_error, 'g list \<times> 'e list) action" where
  "runRound run [] failures = ret ([], failures)"
| "runRound run (g # gs) failures = (\<lambda>s. case run g s of
       (Inr _, s') \<Rightarrow> runRound run gs failures s'
     | (Inl NonObject, s') \<Rightarrow> (Inl LoaderTypeError, s')
     | (Inl (ErrObj e), s') \<Rightarrow>
         andThen (runRound run gs (failures @ [e])) (\<lambda>(rerun, fs). ret (g # rerun, fs)) s')"

lemma runRound_ConsE:
  assumes "runRound run (g # gs) fs s = (Inr (rerun, fs'), s')"
  obtains (ok) r s1 where "run g s = (Inr r, s1)" "runRound run gs fs s1 = (Inr (rerun, fs'), s')"
    | (failed) e s1 rerun' where "run g s = (Inl (ErrObj e), s1)"
        "runRound run gs (fs @ [e]) s1 = (Inr (rerun', fs'), s')" "rerun = g # rerun'"
proof -
  obtain x s1 where x: "run g s = (x, s1)" by (rule prod.exhaust)
  show thesis
  proof (cases x)
    case (Inr r)
    with x assms show thesis by (intro ok) auto
  next
    case (Inl t)
    show thesis
    proof (cases t)
      case (ErrObj e)
      obtain y s2 where y: "runRound run gs (fs @ [e]) s1 = (y, s2)" by (rule prod.exhaust)
      from x assms Inl ErrObj y obtain rerun' where "y = Inr (rerun', fs')" "s2 = s'" "rerun = g # rerun'"
        by (cases y) (auto simp: andThen_apply)
      with x y Inl ErrObj show thesis by (intro failed) auto
    next
      case NonObject
      with x assms Inl show thesis by simp
    qed
  qed
qed

lemma runRound_length:
  "runRound run gs fs s = (Inr (rerun, fs'), s') \<Longrightarrow> length rerun \<le> length gs"
proof (induction gs arbitrary: fs s rerun)
  case (Cons g gs)
  from Cons.prems show ?case
    by (cases rule: runRound_ConsE) (use Cons.IH in \<open>fastforce+\<close>)
qed simp

lemma runRound_same_length:
  "runRound run gs fs s = (Inr (rerun, fs'), s') \<Longrightarrow> length rerun = length gs \<Longrightarrow> rerun = gs"
proof (induction gs arbitrary: fs s rerun)
  case (Cons g gs)
  from Cons.prems(1) show ?case
  proof (cases rule: runRound_ConsE)
    case (ok r s1)
    then show ?thesis using runRound_length [OF ok(2)] Cons.prems(2) by simp
  next
    case (failed e s1 rerun')
    then show ?thesis using Cons.IH [OF failed(2)] Cons.prems(2) by simp
  qed
qed simp

text \<open>The \<open>do ... while\<close> loop and the code after it.\<close>

function lazyLoop :: "('g, 's, 'e, 'r) runner \<Rightarrow> 'g list \<Rightarrow> 'e list \<Rightarrow>
    's \<Rightarrow> (('g, 'e) dep_error + bool) \<times> 's" where
  "lazyLoop run gs fs s =
     (case runRound run gs fs s of
        (Inl x, s') \<Rightarrow> (Inl x, s')
      | (Inr (rerun, fs'), s') \<Rightarrow>
          if length gs = length rerun
          then (if gs = [] then (Inr True, s') else (Inl (DepError gs fs'), s'))
          else if rerun = [] then (Inr True, s')
          else lazyLoop run rerun fs' s')"
  by pat_completeness auto
termination
  by (relation "measure (\<lambda>(run, gs, fs, s). length gs)")
     (auto dest!: runRound_length [OF sym])

declare lazyLoop.simps [simp del]

lemma lazyLoop_round:
  "runRound run gs fs s = (Inr (rerun, fs'), s') \<Longrightarrow> lazyLoop run gs fs s =
     (if length gs = length rerun
      then (if gs = [] then (Inr True, s') else (Inl (DepError gs fs'), s'))
      else if rerun = [] then (Inr True, s')
      else lazyLoop run rerun fs' s')"
  by (simp add: lazyLoop.simps [of run gs])

lemma lazyLoop_abort:
  "runRound run gs fs s = (Inl x, s') \<Longrightarrow> lazyLoop run gs fs s = (Inl x, s')"
  by (simp add: lazyLoop.simps [of run gs])

definition lazyLoader :: "('g, 's, 'e, 'r) runner \<Rightarrow> 'g list \<Rightarrow>
    ('s, ('g, 'e) dep_error, bool) action" where
  "lazyLoader run gs = lazyLoop run gs []"

section \<open>Which generators ran\<close>

text \<open>
  An observer for the statements below: the same runner with the list of generators called so far
  and the list of those that succeeded beside the state.
\<close>

definition observed :: "('g, 's, 'e, 'r) runner \<Rightarrow> ('g, 's \<times> 'g list \<times> 'g list, 'e, 'r) runner" where
  "observed run g = (\<lambda>(s, calls, oks).
     case run g s of
       (Inr r, s') \<Rightarrow> (Inr r, (s', calls @ [g], oks @ [g]))
     | (Inl e, s') \<Rightarrow> (Inl e, (s', calls @ [g], oks)))"

lemma observed_eq:
  "observed run g (s, calls, oks) =
     (case run g s of (Inr r, s') \<Rightarrow> (Inr r, (s', calls @ [g], oks @ [g]))
      | (Inl e, s') \<Rightarrow> (Inl e, (s', calls @ [g], oks)))"
  by (simp add: observed_def)

lemma runRound_observed:
  assumes "runRound (observed run) gs fs (s, calls, oks) = (Inr (rerun, fs'), (s', calls', oks'))"
  shows "calls' = calls @ gs \<and> mset oks' + mset rerun = mset oks + mset gs"
  using assms
proof (induction gs arbitrary: fs s calls oks rerun)
  case (Cons g gs)
  obtain x s1 where x: "run g s = (x, s1)" by (rule prod.exhaust)
  from Cons.prems show ?case
  proof (cases rule: runRound_ConsE)
    case (ok r st)
    then have "st = (s1, calls @ [g], oks @ [g])"
      using x by (cases x) (auto simp: observed_eq)
    with Cons.IH [OF ok(2) [unfolded this]] show ?thesis by simp
  next
    case (failed e st rerun')
    then have "st = (s1, calls @ [g], oks)"
      using x by (cases x) (auto simp: observed_eq)
    with Cons.IH [OF failed(2) [unfolded this]] failed(3) show ?thesis by simp
  qed
qed simp

lemma runRound_objects:
  assumes "\<And>g s. fst (run g s) \<noteq> Inl NonObject"
  shows "\<exists>rerun fs' s'. runRound run gs fs s = (Inr (rerun, fs'), s')"
proof (induction gs arbitrary: fs s)
  case (Cons g gs)
  obtain x s1 where x: "run g s = (x, s1)" by (rule prod.exhaust)
  show ?case
  proof (cases x)
    case (Inr r)
    with x Cons.IH [of fs s1] show ?thesis by simp
  next
    case (Inl t)
    with x assms [of g s] obtain e where t: "t = ErrObj e" by (cases t) auto
    obtain rerun fs' s' where "runRound run gs (fs @ [e]) s1 = (Inr (rerun, fs'), s')"
      using Cons.IH by blast
    with x Inl t show ?thesis by simp
  qed
qed simp

lemma runRound_Inl: "runRound run gs fs s = (Inl x, s') \<Longrightarrow> x = LoaderTypeError"
proof (induction gs arbitrary: fs s)
  case (Cons g gs)
  obtain y s1 where y: "run g s = (y, s1)" by (rule prod.exhaust)
  from Cons.prems y show ?case
    by (auto simp: andThen_apply dest: Cons.IH split: sum.splits thrown.splits prod.splits)
qed simp

text \<open>
  The multiset accounting of the loop: at every exit the successes and the generators still to run
  are together the generators given, and each generator succeeded at most once.
\<close>

lemma lazyLoop_accounting:
  assumes "lazyLoop (observed run) gs fs (s, calls, oks) = (r, (s', calls', oks'))"
  shows "(r = Inr True \<longrightarrow> mset oks' = mset oks + mset gs)
    \<and> (\<forall>rem fs'. r = Inl (DepError rem fs') \<longrightarrow>
         rem \<noteq> [] \<and> mset oks' + mset rem = mset oks + mset gs \<and> (\<exists>pre. calls' = pre @ rem))
    \<and> r \<noteq> Inr False"
  using assms
proof (induction "length gs" arbitrary: gs fs s calls oks rule: less_induct)
  case less
  obtain rr s1 calls1 oks1 where R: "runRound (observed run) gs fs (s, calls, oks) = (rr, (s1, calls1, oks1))"
    by (metis prod.exhaust)
  show ?case
  proof (cases rr)
    case (Inl x)
    with R have "x = LoaderTypeError" by (auto dest: runRound_Inl)
    with less.prems lazyLoop_abort [OF R [unfolded Inl]] show ?thesis by auto
  next
    case (Inr y)
    obtain rerun fs1 where y: "y = (rerun, fs1)" by (rule prod.exhaust)
    note R' = R [unfolded Inr y]
    note step = less.prems [unfolded lazyLoop_round [OF R']]
    have acc: "calls1 = calls @ gs" "mset oks1 + mset rerun = mset oks + mset gs"
      using runRound_observed [OF R'] by simp_all
    show ?thesis
    proof (cases "length gs = length rerun")
      case True
      then have "rerun = gs"
        using runRound_same_length [OF R'] by simp
      then have "mset oks1 = mset oks" using acc(2) by simp
      moreover have "oks' = oks1 \<and> calls' = calls1 \<and>
          r = (if gs = [] then Inr True else Inl (DepError gs fs1))"
        using step True by (simp split: if_splits)
      ultimately show ?thesis using acc(1) by (simp split: if_splits)
    next
      case False
      then have "length rerun < length gs"
        using runRound_length [OF R'] by simp
      note IH = less.hyps [OF this, of fs1 s1 calls1 oks1]
      show ?thesis
      proof (cases "rerun = []")
        case True
        with step False have "r = Inr True" "oks' = oks1" by simp_all
        with acc True show ?thesis by simp
      next
        case rr: False
        have "lazyLoop (observed run) rerun fs1 (s1, calls1, oks1) = (r, (s', calls', oks'))"
          using step False rr by simp
        from IH [OF this] show ?thesis unfolding acc(2) .
      qed
    qed
  qed
qed

text \<open>
  \<open>lazyLoader\<close> runs each generator to success exactly once or reports it: when it returns, it
  returns \<open>true\<close> and the successful runs are exactly the given generators; when it throws a
  \<open>DepError\<close>, its metadata lists exactly the generators that never succeeded, at least one, and the
  last calls made were one run of each of them in which all failed.
\<close>

theorem lazyLoader_accounting:
  assumes "lazyLoader (observed run) gs (s, [], []) = (r, (s', calls, oks))"
  shows "(r = Inr True \<longrightarrow> mset oks = mset gs)
    \<and> (\<forall>rem fs. r = Inl (DepError rem fs) \<longrightarrow>
         rem \<noteq> [] \<and> mset oks + mset rem = mset gs \<and> (\<exists>pre. calls = pre @ rem))
    \<and> r \<noteq> Inr False"
  using lazyLoop_accounting [OF assms [unfolded lazyLoader_def]] by simp

definition evenFirst :: "(nat, nat, nat, unit) runner" where
  "evenFirst g = (\<lambda>n. if g = n then (Inr (), Suc n) else (Inl (ErrObj g), n))"

theorem lazyLoader_accounting_witness:
  "lazyLoader (observed evenFirst) [2, 1, 0, 7] (0, [], [])
     = (Inl (DepError [7] [2, 1, 7, 2, 7, 7, 7]), (3, [2, 1, 0, 7, 2, 1, 7, 2, 7, 7], [0, 1, 2]))
   \<and> mset [0, 1, 2] + mset [7] = mset [2, 1, 0, 7::nat]"
proof -
  have run: "lazyLoader (observed evenFirst) [2, 1, 0, 7] (0, [], [])
     = (Inl (DepError [7] [2, 1, 7, 2, 7, 7, 7]), (3, [2, 1, 0, 7, 2, 1, 7, 2, 7, 7], [0, 1, 2]))"
    by (simp add: lazyLoader_def lazyLoop.simps observed_eq evenFirst_def andThen_apply)
  from lazyLoader_accounting [OF run] run show ?thesis by simp
qed

section \<open>How many calls\<close>

lemma lazyLoop_calls:
  assumes "lazyLoop (observed run) gs fs (s, calls, oks) = (r, (s', calls', oks'))"
    and "\<And>g s. fst (run g s) \<noteq> Inl NonObject"
  shows "2 * length calls' \<le> 2 * length calls + length gs * Suc (length gs)"
  using assms(1)
proof (induction "length gs" arbitrary: gs fs s calls oks rule: less_induct)
  case less
  have obj: "fst (observed run g st) \<noteq> Inl NonObject" for g st
    using assms(2) [of g "fst st"] by (cases st) (auto simp: observed_eq split: prod.splits sum.splits)
  obtain rerun fs1 s1 calls1 oks1
    where R: "runRound (observed run) gs fs (s, calls, oks) = (Inr (rerun, fs1), (s1, calls1, oks1))"
    using runRound_objects [of "observed run", OF obj] by (metis prod.exhaust)
  note step = less.prems [unfolded lazyLoop_round [OF R]]
  have acc: "calls1 = calls @ gs"
    using runRound_observed [OF R] by simp
  show ?case
  proof (cases "length gs \<noteq> length rerun \<and> rerun \<noteq> []")
    case True
    then have lt: "length rerun < length gs"
      using runRound_length [OF R] by simp
    have "2 * length calls' \<le> 2 * length calls1 + length rerun * Suc (length rerun)"
      using less.hyps [OF lt, of fs1 s1 calls1 oks1] step True by simp
    moreover have "length rerun * Suc (length rerun) \<le> (length gs - 1) * length gs"
      using lt by (intro mult_le_mono) simp_all
    moreover have "2 * length gs + (length gs - 1) * length gs = length gs * Suc (length gs)"
      using lt by (cases "length gs") simp_all
    ultimately show ?thesis unfolding acc by simp
  next
    case False
    then have "calls' = calls1"
      using step by (cases "gs = []") (auto split: if_splits)
    moreover have "2 * length gs \<le> length gs * Suc (length gs)"
      by (cases gs) simp_all
    ultimately show ?thesis using acc by simp
  qed
qed

text \<open>
  \<open>lazyLoader\<close> makes at most \<open>n(n+1)/2\<close> generator calls for \<open>n\<close> generators, whatever they do,
  as long as they throw error objects.
\<close>

theorem lazyLoader_call_bound:
  assumes "\<And>g s. fst (run g s) \<noteq> Inl NonObject"
    and "lazyLoader (observed run) gs (s, [], []) = (r, (s', calls, oks))"
  shows "2 * length calls \<le> length gs * (length gs + 1)"
  using lazyLoop_calls [OF assms(2) [unfolded lazyLoader_def] assms(1)] by simp

theorem lazyLoader_call_bound_witness:
  "lazyLoader (observed evenFirst) [2, 1, 0] (0, [], [])
     = (Inr True, (3, [2, 1, 0, 2, 1, 2], [0, 1, 2])) \<and> (2::nat) * 6 \<le> 3 * (3 + 1)"
proof -
  have run: "lazyLoader (observed evenFirst) [2, 1, 0] (0, [], [])
     = (Inr True, (3, [2, 1, 0, 2, 1, 2], [0, 1, 2]))"
    by (simp add: lazyLoader_def lazyLoop.simps observed_eq evenFirst_def andThen_apply)
  have obj: "\<And>g s. fst (evenFirst g s) \<noteq> Inl NonObject"
    by (simp add: evenFirst_def)
  from lazyLoader_call_bound [OF obj run] run show ?thesis by simp
qed

section \<open>When it succeeds\<close>

text \<open>
  Generators that wait for one another: \<open>g\<close> succeeds once everything it needs (\<open>(h, g) \<in> P\<close>) is done,
  success makes it done, and nothing done is undone.
\<close>

definition orderly ::
  "('g, 's, 'e, 'r) runner \<Rightarrow> ('g \<times> 'g) set \<Rightarrow> ('g \<Rightarrow> 's \<Rightarrow> bool) \<Rightarrow> bool" where
  "orderly run P fin \<longleftrightarrow>
     (\<forall>g s r s'. run g s = (Inr r, s') \<longrightarrow> fin g s') \<and>
     (\<forall>g s. (\<forall>h. (h, g) \<in> P \<longrightarrow> fin h s) \<longrightarrow> (\<exists>r. fst (run g s) = Inr r)) \<and>
     (\<forall>g h s. fin h s \<longrightarrow> fin h (snd (run g s))) \<and>
     (\<forall>g s. fst (run g s) \<noteq> Inl NonObject)"

lemma orderlyD:
  assumes "orderly run P fin"
  shows "run g s = (Inr r, s') \<Longrightarrow> fin g s'"
    and "(\<And>h. (h, g) \<in> P \<Longrightarrow> fin h s) \<Longrightarrow> \<exists>r. fst (run g s) = Inr r"
    and "fin h s \<Longrightarrow> run g s = (x, s') \<Longrightarrow> fin h s'"
    and "fst (run g s) \<noteq> Inl NonObject"
  using assms unfolding orderly_def by (blast, blast, metis snd_conv, blast)

lemma runRound_keeps_fin:
  "orderly run P fin \<Longrightarrow> runRound run gs fs s = (Inr (rerun, fs'), s') \<Longrightarrow> fin h s \<Longrightarrow> fin h s'"
proof (induction gs arbitrary: fs s rerun)
  case (Cons g gs)
  from Cons.prems(2) show ?case
    by (cases rule: runRound_ConsE)
       (metis Cons.IH Cons.prems(1,3) orderlyD(3))+
qed simp

lemma runRound_rerun_or_fin:
  "orderly run P fin \<Longrightarrow> runRound run gs fs s = (Inr (rerun, fs'), s') \<Longrightarrow> g \<in> set gs \<Longrightarrow>
   g \<in> set rerun \<or> fin g s'"
proof (induction gs arbitrary: fs s rerun)
  case (Cons x gs)
  from Cons.prems(2) show ?case
  proof (cases rule: runRound_ConsE)
    case (ok r s1)
    then show ?thesis
      using Cons.IH [OF Cons.prems(1) ok(2)] Cons.prems(1,3) orderlyD(1) [OF Cons.prems(1) ok(1)]
        runRound_keeps_fin [OF Cons.prems(1) ok(2)] by auto
  next
    case (failed e s1 rerun')
    then show ?thesis
      using Cons.IH [OF Cons.prems(1) failed(2)] Cons.prems(3) by auto
  qed
qed simp

lemma runRound_subset: "runRound run gs fs s = (Inr (rerun, fs'), s') \<Longrightarrow> set rerun \<subseteq> set gs"
proof (induction gs arbitrary: fs s rerun)
  case (Cons g gs)
  from Cons.prems show ?case
    by (cases rule: runRound_ConsE) (use Cons.IH in fastforce)+
qed simp

lemma runRound_ready:
  assumes "orderly run P fin" and "\<And>h. (h, g) \<in> P \<Longrightarrow> fin h s"
    and "runRound run gs fs s = (Inr (rerun, fs'), s')"
  shows "g \<notin> set rerun"
  using assms(2,3)
proof (induction gs arbitrary: fs s rerun)
  case (Cons x gs)
  from Cons.prems(2) show ?case
  proof (cases rule: runRound_ConsE)
    case (ok r s1)
    then show ?thesis
      using Cons.IH Cons.prems(1) orderlyD(3) [OF assms(1)] by blast
  next
    case (failed e s1 rerun')
    have "\<exists>r. fst (run g s) = Inr r"
      by (rule orderlyD(2) [OF assms(1)]) (rule Cons.prems(1))
    then have "x \<noteq> g"
      using failed(1) by auto
    moreover have "g \<notin> set rerun'"
      using Cons.IH Cons.prems(1) orderlyD(3) [OF assms(1)] failed(1,2) by blast
    ultimately show ?thesis using failed(3) by simp
  qed
qed simp

lemma lazyLoop_succeeds:
  assumes "orderly run P fin" and "wf P"
    and "\<And>g h. g \<in> set gs \<Longrightarrow> (h, g) \<in> P \<Longrightarrow> h \<in> set gs \<or> fin h s"
  shows "\<exists>s'. lazyLoop run gs fs s = (Inr True, s') \<and> (\<forall>g \<in> set gs. fin g s')
      \<and> (\<forall>h. fin h s \<longrightarrow> fin h s')"
  using assms(3)
proof (induction "length gs" arbitrary: gs fs s rule: less_induct)
  case less
  obtain rerun fs' s' where R: "runRound run gs fs s = (Inr (rerun, fs'), s')"
    using runRound_objects [of run, OF orderlyD(4) [OF assms(1)]] by blast
  note kept = runRound_keeps_fin [OF assms(1) R] and rof = runRound_rerun_or_fin [OF assms(1) R]
  show ?case
  proof (cases "gs = []")
    case True
    with runRound_length [OF R] kept show ?thesis
      unfolding lazyLoop_round [OF R] by simp
  next
    case False
    obtain g where g: "g \<in> set gs" "\<And>h. (h, g) \<in> P \<Longrightarrow> h \<notin> set gs"
      using wfE_min [OF assms(2), of "hd gs" "set gs"] False by (metis hd_in_set)
    then have "g \<notin> set rerun"
      using runRound_ready [OF assms(1) _ R] less.prems by blast
    with g(1) have ne: "length gs \<noteq> length rerun"
      using runRound_same_length [OF R] by auto
    show ?thesis
    proof (cases "rerun = []")
      case True
      with ne R kept rof show ?thesis by (auto simp: lazyLoop_round [OF R])
    next
      case False
      have "length rerun < length gs"
        using runRound_length [OF R] ne by simp
      moreover have "h \<in> set rerun \<or> fin h s'" if "k \<in> set rerun" "(h, k) \<in> P" for k h
        using that runRound_subset [OF R] less.prems kept rof by blast
      ultimately obtain t where t: "lazyLoop run rerun fs' s' = (Inr True, t)"
          "\<forall>g \<in> set rerun. fin g t" "\<forall>h. fin h s' \<longrightarrow> fin h t"
        using less.hyps [of rerun s' fs'] by blast
      then show ?thesis
        using ne False R kept rof by (simp add: lazyLoop_round [OF R]) blast
    qed
  qed
qed

text \<open>
  C3. Retrying resolves dependencies: when the generators wait for one another along a well-founded
  relation whose prerequisites are among the generators or done already, \<open>lazyLoader\<close> succeeds in
  whatever order they are given, and everything is done.
\<close>

theorem lazyLoader_resolves:
  assumes "orderly run P fin" and "wf P"
    and "\<And>g h. g \<in> set gs \<Longrightarrow> (h, g) \<in> P \<Longrightarrow> h \<in> set gs \<or> fin h s"
  shows "\<exists>s'. lazyLoader run gs s = (Inr True, s') \<and> (\<forall>g \<in> set gs. fin g s')"
  using lazyLoop_succeeds [OF assms(1,2), of gs s "[]"] assms(3) unfolding lazyLoader_def by blast

definition countUp :: "(nat, nat, nat, unit) runner" where
  "countUp g = (\<lambda>n. if g \<le> n then (Inr (), max n (Suc g)) else (Inl (ErrObj g), n))"

theorem lazyLoader_resolves_witness:
  "\<exists>s'. lazyLoader countUp [2, 1, 0] 0 = (Inr True, s') \<and> (\<forall>g \<in> set [2, 1, 0]. g < s')"
proof (rule lazyLoader_resolves)
  show "orderly countUp {(h, g). Suc h = g} (<)"
    unfolding orderly_def
  proof (intro conjI allI impI)
    fix g s :: nat
    assume "\<forall>h. (h, g) \<in> {(h, g). Suc h = g} \<longrightarrow> h < s"
    then have "g \<le> s" by (cases g) auto
    then show "\<exists>r. fst (countUp g s) = Inr r" by (simp add: countUp_def)
  qed (auto simp: countUp_def split: if_splits)
  show "wf {(h::nat, g). Suc h = g}"
    by (rule wf_subset [OF wf_less]) auto
qed auto

end
