(* ===== verification/Mod_Sort.thy ===== *)
theory Mod_Sort
  imports Js_Object "HOL-Library.Multiset"
begin

text \<open>
  The module descriptions of \<open>src/src/modules/interfaces.ts\<close> (the fields the engine sorts and
  installs by) and \<open>src/src/services/mod-sort.ts\<close>: \<open>sortModules\<close> rotates a queue of modules and
  emits one as soon as everything it depends on is known.  The loop has no other exit, so it is a
  \<open>partial_function\<close>: \<open>None\<close> is a call that never returns.
\<close>

record module =
  modName :: string
  modVersion :: string
  dependencies :: "string list"
  provTables :: "string list"   \<comment> \<open>\<open>provides.tables\<close>\<close>

text \<open>\<open>`${m.name}@${m.version}`\<close>\<close>

definition modKey :: "'a module_scheme \<Rightarrow> string" where
  "modKey m = modName m @ ''@'' @ modVersion m"

text \<open>\<open>(m.dependencies.length ?? 0) === 0 || m.dependencies.every(dep => sortedModuleNames[dep])\<close>\<close>

definition depsKnown :: "string list \<Rightarrow> 'a module_scheme \<Rightarrow> bool" where
  "depsKnown known m = (dependencies m = [] \<or> list_all (\<lambda>dep. dep \<in> set known) (dependencies m))"

text \<open>
  The queue holds \<open>None\<close> where the caller's list holds \<open>undefined\<close> (a name that no module has);
  the loop stops there.  The keys of \<open>sortedModuleNames\<close> are a list.
\<close>

partial_function (option) sortLoop ::
  "'a module_scheme option list \<Rightarrow> string list \<Rightarrow> 'a module_scheme list \<Rightarrow> 'a module_scheme list option" where
  "sortLoop queue known acc =
     (case queue of
        [] \<Rightarrow> Some acc
      | None # _ \<Rightarrow> Some acc
      | Some m # rest \<Rightarrow>
          if depsKnown known m
          then (if rest = [] then Some (acc @ [m])
                else sortLoop rest (modKey m # known) (acc @ [m]))
          else sortLoop (rest @ [Some m]) known acc)"

declare sortLoop.simps [code]

definition sortModules ::
  "'a module_scheme option list \<Rightarrow> string list \<Rightarrow> 'a module_scheme list option" where
  "sortModules modules existingModules = sortLoop modules existingModules []"

lemma depsKnown_iff: "depsKnown known m \<longleftrightarrow> set (dependencies m) \<subseteq> set known"
  by (auto simp: depsKnown_def list_all_iff)

lemma sortLoop_Nil [simp]: "sortLoop [] known acc = Some acc"
  by (simp add: sortLoop.simps)

lemma sortLoop_None [simp]: "sortLoop (None # rest) known acc = Some acc"
  by (simp add: sortLoop.simps)

lemma sortLoop_ready:
  "depsKnown known m \<Longrightarrow>
   sortLoop (Some m # rest) known acc = sortLoop rest (modKey m # known) (acc @ [m])"
  by (cases rest) (simp_all add: sortLoop.simps [of "Some m # _"])

lemma sortLoop_rotate:
  "\<not> depsKnown known m \<Longrightarrow>
   sortLoop (Some m # rest) known acc = sortLoop (rest @ [Some m]) known acc"
  by (simp add: sortLoop.simps [of "Some m # rest"])

lemma sortLoop_rotate_many:
  "\<forall>m \<in> set pre. \<not> depsKnown known m \<Longrightarrow>
   sortLoop (map Some pre @ rest) known acc = sortLoop (rest @ map Some pre) known acc"
proof (induction pre arbitrary: rest)
  case (Cons m pre)
  then show ?case
    using Cons.IH [of "rest @ [Some m]"] by (simp add: sortLoop_rotate)
qed simp

section \<open>The order it returns\<close>

text \<open>Every module comes after everything it depends on that is not installed already.\<close>

fun dependency_order :: "string list \<Rightarrow> 'a module_scheme list \<Rightarrow> bool" where
  "dependency_order known [] = True"
| "dependency_order known (m # ms) = (depsKnown known m \<and> dependency_order (modKey m # known) ms)"

lemma dependency_order_snoc:
  "dependency_order known (ms @ [m]) \<longleftrightarrow>
   dependency_order known ms \<and> depsKnown (rev (map modKey ms) @ known) m"
  by (induction ms arbitrary: known) (auto simp: depsKnown_iff)

definition sort_inv :: "string list \<Rightarrow> 'a module_scheme list \<Rightarrow> 'a module_scheme option list \<Rightarrow>
    string list \<Rightarrow> 'a module_scheme list \<Rightarrow> bool" where
  "sort_inv existing modules queue known acc \<longleftrightarrow>
     dependency_order existing acc \<and> set known = modKey ` set acc \<union> set existing \<and>
     (None \<notin> set queue \<longrightarrow> mset acc + mset (map the queue) = mset modules)"

lemma sortLoop_inv:
  assumes "sortLoop queue known acc = Some out" and "sort_inv existing modules queue known acc"
  shows "dependency_order existing out \<and> (None \<notin> set queue \<longrightarrow> mset out = mset modules)"
proof (rule sortLoop.raw_induct [where P = "\<lambda>queue known acc out.
    sort_inv existing modules queue known acc \<longrightarrow>
    dependency_order existing out \<and> (None \<notin> set queue \<longrightarrow> mset out = mset modules)",
    OF _ assms(1), THEN mp, OF _ assms(2)])
  fix f queue known acc out
  assume IH: "\<And>queue known acc out. f queue known acc = Some out \<Longrightarrow>
      sort_inv existing modules queue known acc \<longrightarrow>
      dependency_order existing out \<and> (None \<notin> set queue \<longrightarrow> mset out = mset modules)"
    and eq: "(case queue of [] \<Rightarrow> Some acc | None # _ \<Rightarrow> Some acc
      | Some m # rest \<Rightarrow>
          if depsKnown known m
          then (if rest = [] then Some (acc @ [m]) else f rest (modKey m # known) (acc @ [m]))
          else f (rest @ [Some m]) known acc) = Some out"
  show "sort_inv existing modules queue known acc \<longrightarrow>
      dependency_order existing out \<and> (None \<notin> set queue \<longrightarrow> mset out = mset modules)"
  proof
    assume inv: "sort_inv existing modules queue known acc"
    show "dependency_order existing out \<and> (None \<notin> set queue \<longrightarrow> mset out = mset modules)"
    proof (cases queue)
      case Nil
      with eq inv show ?thesis by (simp add: sort_inv_def)
    next
      case (Cons x rest)
      show ?thesis
      proof (cases x)
        case None
        with Cons eq inv show ?thesis by (simp add: sort_inv_def)
      next
        case (Some m)
        show ?thesis
        proof (cases "depsKnown known m")
          case True
          then have inv': "sort_inv existing modules rest (modKey m # known) (acc @ [m])"
            using inv Cons Some by (auto simp: sort_inv_def dependency_order_snoc depsKnown_iff)
          show ?thesis
          proof (cases "rest = []")
            case True
            with eq Cons Some \<open>depsKnown known m\<close> have "out = acc @ [m]" by simp
            with inv' True Cons Some show ?thesis by (simp add: sort_inv_def)
          next
            case False
            with eq Cons Some True have "f rest (modKey m # known) (acc @ [m]) = Some out" by simp
            from IH [OF this] inv' show ?thesis using Cons Some by simp
          qed
        next
          case False
          with eq Cons Some have "f (rest @ [Some m]) known acc = Some out" by simp
          moreover have "sort_inv existing modules (rest @ [Some m]) known acc"
            using inv Cons Some by (auto simp: sort_inv_def)
          ultimately show ?thesis using IH [of "rest @ [Some m]"] Cons Some by auto
        qed
      qed
    qed
  qed
qed

text \<open>
  C6. What \<open>sortModules\<close> returns is a dependency order: every module it emits comes after all of its
  dependencies (emitted earlier or already installed), and when the list holds no \<open>undefined\<close>, the
  result is a rearrangement of the modules given.
\<close>

theorem sortModules_order:
  assumes "sortModules modules existing = Some out"
  shows "dependency_order existing out \<and>
    (None \<notin> set modules \<longrightarrow> mset out = mset (map the modules))"
  using sortLoop_inv [OF assms [unfolded sortModules_def], of existing "map the modules"]
  by (simp add: sort_inv_def)

definition demoMod :: "string \<Rightarrow> string list \<Rightarrow> module" where
  "demoMod n deps = \<lparr> modName = n, modVersion = ''1'', dependencies = deps, provTables = [] \<rparr>"

lemmas demo_sort_simps = demoMod_def sortModules_def sortLoop.simps depsKnown_def modKey_def

theorem sortModules_order_witness:
  "sortModules [Some (demoMod ''b'' [''a@1'']), Some (demoMod ''a'' [''p@1''])] [''p@1'']
     = Some [demoMod ''a'' [''p@1''], demoMod ''b'' [''a@1'']]
   \<and> dependency_order [''p@1''] [demoMod ''a'' [''p@1''], demoMod ''b'' [''a@1'']]"
proof -
  have run: "sortModules [Some (demoMod ''b'' [''a@1'']), Some (demoMod ''a'' [''p@1''])] [''p@1'']
     = Some [demoMod ''a'' [''p@1''], demoMod ''b'' [''a@1'']]"
    by (simp add: demo_sort_simps)
  from sortModules_order [OF run] run show ?thesis by simp
qed

section \<open>When it returns\<close>

lemma sortLoop_returns:
  assumes "\<And>m d. m \<in> set ms \<Longrightarrow> d \<in> set (dependencies m) \<Longrightarrow>
      d \<in> set known \<or> (\<exists>m' \<in> set ms. modKey m' = d \<and> rank m' < (rank m :: nat))"
  shows "\<exists>out. sortLoop (map Some ms) known acc = Some out"
  using assms
proof (induction "length ms" arbitrary: ms known acc)
  case (Suc n)
  have "\<exists>m \<in> set ms. depsKnown known m"
  proof -
    have ne: "set ms \<noteq> {}" using Suc.hyps(2) by auto
    then obtain m where m: "m \<in> set ms" "\<And>m'. m' \<in> set ms \<Longrightarrow> rank m \<le> rank m'"
      using ex_min_if_finite [of "rank ` set ms"] by (auto simp: not_less)
    have "set (dependencies m) \<subseteq> set known"
      using Suc.prems [OF m(1)] m(2) by (meson leD subsetI)
    with m(1) show ?thesis by (auto simp: depsKnown_iff)
  qed
  then obtain pre m post where ms: "ms = pre @ m # post" "depsKnown known m"
      "\<forall>m \<in> set pre. \<not> depsKnown known m"
    using split_list_first_prop [of ms "depsKnown known"] by blast
  have "sortLoop (map Some ms) known acc
      = sortLoop (map Some (post @ pre)) (modKey m # known) (acc @ [m])"
    using ms sortLoop_rotate_many [of pre known "Some m # map Some post"]
    by (simp add: sortLoop_ready)
  moreover have "\<exists>out. sortLoop (map Some (post @ pre)) (modKey m # known) (acc @ [m]) = Some out"
  proof (rule Suc.hyps(1))
    show "n = length (post @ pre)" using Suc.hyps(2) ms(1) by simp
    fix k d assume "k \<in> set (post @ pre)" and d: "d \<in> set (dependencies k)"
    then have "k \<in> set ms" using ms(1) by auto
    from Suc.prems [OF this d]
    show "d \<in> set (modKey m # known) \<or> (\<exists>m' \<in> set (post @ pre). modKey m' = d \<and> rank m' < rank k)"
      using ms(1) by auto
  qed
  ultimately show ?case by simp
qed simp

text \<open>
  \<open>sortModules\<close> returns whenever the modules can be ordered at all: when every dependency is
  already installed or belongs to a module of the list of smaller rank (no cycle, nothing missing),
  the queue empties.
\<close>

theorem sortModules_returns:
  assumes "\<And>m d. m \<in> set ms \<Longrightarrow> d \<in> set (dependencies m) \<Longrightarrow>
      d \<in> set existing \<or> (\<exists>m' \<in> set ms. modKey m' = d \<and> rank m' < (rank m :: nat))"
  shows "\<exists>out. sortModules (map Some ms) existing = Some out"
  unfolding sortModules_def using assms by (rule sortLoop_returns)

theorem sortModules_returns_witness:
  "\<exists>out. sortModules (map Some [demoMod ''b'' [''a@1''], demoMod ''a'' [''p@1'']]) [''p@1''] = Some out"
  by (rule sortModules_returns [where rank = "\<lambda>m. if modName m = ''a'' then 0 else 1"])
     (auto simp: demoMod_def modKey_def)

text \<open>
  A part \<open>S\<close> of the queue is blocked when each of its modules needs something unknown that only
  modules of \<open>S\<close> could provide.
\<close>

definition blocked :: "string list \<Rightarrow> 'a module_scheme set \<Rightarrow> 'a module_scheme set \<Rightarrow> bool" where
  "blocked known Q S \<longleftrightarrow> (\<forall>m \<in> S. \<exists>d \<in> set (dependencies m). d \<notin> set known \<and>
     (\<forall>m' \<in> Q. modKey m' = d \<longrightarrow> m' \<in> S))"

lemma blocked_not_ready: "blocked known Q S \<Longrightarrow> m \<in> S \<Longrightarrow> \<not> depsKnown known m"
  by (auto simp: blocked_def depsKnown_iff)

lemma blocked_emit:
  "blocked known (insert m Q) S \<Longrightarrow> m \<notin> S \<Longrightarrow> blocked (modKey m # known) Q S"
proof -
  assume bl: "blocked known (insert m Q) S" and m: "m \<notin> S"
  show ?thesis
    unfolding blocked_def
  proof
    fix k assume "k \<in> S"
    with bl obtain d where d: "d \<in> set (dependencies k)" "d \<notin> set known"
        "\<forall>m' \<in> insert m Q. modKey m' = d \<longrightarrow> m' \<in> S"
      unfolding blocked_def by blast
    with m have "d \<noteq> modKey m" by blast
    with d show "\<exists>d \<in> set (dependencies k). d \<notin> set (modKey m # known) \<and>
        (\<forall>m' \<in> Q. modKey m' = d \<longrightarrow> m' \<in> S)" by auto
  qed
qed

lemma sortLoop_stuck:
  assumes "sortLoop queue known acc = Some out"
  shows "\<not> (None \<notin> set queue \<and> (\<exists>m \<in> S. Some m \<in> set queue) \<and> blocked known {m. Some m \<in> set queue} S)"
proof (rule sortLoop.raw_induct [where P = "\<lambda>queue known acc out.
    \<not> (None \<notin> set queue \<and> (\<exists>m \<in> S. Some m \<in> set queue) \<and> blocked known {m. Some m \<in> set queue} S)",
    OF _ assms], rule notI, elim conjE)
  fix f queue known acc out
  assume IH: "\<And>queue known acc out. f queue known acc = Some out \<Longrightarrow>
      \<not> (None \<notin> set queue \<and> (\<exists>m \<in> S. Some m \<in> set queue) \<and> blocked known {m. Some m \<in> set queue} S)"
    and eq: "(case queue of [] \<Rightarrow> Some acc | None # _ \<Rightarrow> Some acc
      | Some m # rest \<Rightarrow>
          if depsKnown known m
          then (if rest = [] then Some (acc @ [m]) else f rest (modKey m # known) (acc @ [m]))
          else f (rest @ [Some m]) known acc) = Some out"
    and nn: "None \<notin> set queue" and ex: "\<exists>m \<in> S. Some m \<in> set queue"
    and bl: "blocked known {m. Some m \<in> set queue} S"
  from ex obtain x rest where "queue = x # rest" by (cases queue) auto
  with nn obtain m where q: "queue = Some m # rest" by (cases x) auto
  have Q: "{k. Some k \<in> set queue} = insert m {k. Some k \<in> set rest}" using q by auto
  show False
  proof (cases "depsKnown known m")
    case True
    then have mS: "m \<notin> S" using blocked_not_ready [OF bl] by blast
    with ex q have "rest \<noteq> []" by auto
    with eq q True have f: "f rest (modKey m # known) (acc @ [m]) = Some out" by simp
    have "blocked (modKey m # known) {k. Some k \<in> set rest} S"
      using bl mS unfolding Q by (rule blocked_emit)
    with IH [OF f] nn ex q mS show False by auto
  next
    case False
    with eq q have f: "f (rest @ [Some m]) known acc = Some out" by simp
    have "{k. Some k \<in> set (rest @ [Some m])} = {k. Some k \<in> set queue}" using q by auto
    with IH [OF f] nn ex bl q show False by auto
  qed
qed

text \<open>
  \<open>sortModules\<close> never returns when some of its modules cannot be ordered: if every module of a
  non-empty part \<open>S\<close> of the list needs something that is not installed and that no module of the
  list outside \<open>S\<close> provides (a missing dependency, a cycle), the queue rotates for ever.
\<close>

theorem sortModules_diverges:
  assumes "m \<in> S" and "m \<in> set ms" and "blocked existing (set ms) S"
  shows "sortModules (map Some ms) existing = None"
proof (rule ccontr)
  assume "sortModules (map Some ms) existing \<noteq> None"
  then obtain out where out: "sortLoop (map Some ms) existing [] = Some out"
    unfolding sortModules_def by blast
  have "{k. Some k \<in> set (map Some ms)} = set ms" by auto
  with sortLoop_stuck [OF out, of S] assms show False by auto
qed

theorem sortModules_diverges_witness:
  "sortModules (map Some [demoMod ''a'' [''b@1''], demoMod ''b'' [''a@1'']]) [] = None"
  by (rule sortModules_diverges [where S = "{demoMod ''a'' [''b@1''], demoMod ''b'' [''a@1'']}"
        and m = "demoMod ''a'' [''b@1'']"])
     (auto simp: demoMod_def modKey_def blocked_def)

end
