(* ===== verification/Js_Value.thy ===== *)
theory Js_Value
  imports Js_Object "HOL-Library.Multiset" "HOL-Library.List_Lexorder" "HOL-Library.Char_ord"
begin

text \<open>
  The values of the language that the modelled code inspects dynamically, with the operations it
  uses on them: truthiness, string coercion, \<open>Object.keys\<close>, property access, \<open>typeof\<close>.  Numbers are
  integers (the code compares ports, counts and generated ids); strings are lists of characters
  below 256.  Objects of other classes (\<open>Date\<close>, functions) are not values of this type.
\<close>

datatype jsval =
    JUndef
  | JNull
  | JBool bool
  | JNum int
  | JStr string
  | JArr "jsval list"
  | JObj "(string \<times> jsval) list"

fun digits :: "nat \<Rightarrow> string" where
  "digits n = (if n < 10 then [char_of (48 + n)] else digits (n div 10) @ [char_of (48 + n mod 10)])"

declare digits.simps [simp del]

definition intStr :: "int \<Rightarrow> string" where
  "intStr i = (if i < 0 then CHR ''-'' # digits (nat (- i)) else digits (nat i))"

lemma digits_not_Nil [simp]: "digits n \<noteq> []"
  by (subst digits.simps) simp

fun truthy :: "jsval \<Rightarrow> bool" where
  "truthy JUndef = False"
| "truthy JNull = False"
| "truthy (JBool b) = b"
| "truthy (JNum n) = (n \<noteq> 0)"
| "truthy (JStr s) = (s \<noteq> [])"
| "truthy (JArr _) = True"
| "truthy (JObj _) = True"

text \<open>\<open>v + ''\<close>; inside \<open>join\<close>, \<open>undefined\<close> and \<open>null\<close> give the empty string instead.\<close>

fun toStr :: "jsval \<Rightarrow> string" where
  "toStr JUndef = ''undefined''"
| "toStr JNull = ''null''"
| "toStr (JBool b) = (if b then ''true'' else ''false'')"
| "toStr (JNum n) = intStr n"
| "toStr (JStr s) = s"
| "toStr (JArr vs) =
     joinWith '','' (map (\<lambda>v. if v = JUndef \<or> v = JNull then [] else toStr v) vs)"
| "toStr (JObj _) = ''[object Object]''"

definition joinStr :: "jsval \<Rightarrow> string" where
  "joinStr v = (if v = JUndef \<or> v = JNull then [] else toStr v)"

text \<open>
  The own enumerable properties, as \<open>Object.entries\<close> lists them; \<open>None\<close> is the \<open>TypeError\<close> of
  \<open>Object.keys(null)\<close> and \<open>Object.keys(undefined)\<close>.
\<close>

definition indexed :: "jsval list \<Rightarrow> (string \<times> jsval) list" where
  "indexed vs = zip (map digits [0..<length vs]) vs"

fun ownEntries :: "jsval \<Rightarrow> (string \<times> jsval) list option" where
  "ownEntries JUndef = None"
| "ownEntries JNull = None"
| "ownEntries (JBool _) = Some []"
| "ownEntries (JNum _) = Some []"
| "ownEntries (JStr s) = Some (indexed (map (\<lambda>c. JStr [c]) s))"
| "ownEntries (JArr vs) = Some (indexed vs)"
| "ownEntries (JObj es) = Some es"

text \<open>Property access on a value that has properties.\<close>

definition getProp :: "jsval \<Rightarrow> string \<Rightarrow> jsval" where
  "getProp v k =
     (case ownEntries v of None \<Rightarrow> JUndef
      | Some es \<Rightarrow> (case map_of es k of Some w \<Rightarrow> w
          | None \<Rightarrow> (case v of
                JStr s \<Rightarrow> (if k = ''length'' then JNum (int (length s)) else JUndef)
              | JArr vs \<Rightarrow> (if k = ''length'' then JNum (int (length vs)) else JUndef)
              | _ \<Rightarrow> JUndef)))"

fun isObject :: "jsval \<Rightarrow> bool" where   \<comment> \<open>\<open>typeof v === 'object'\<close>\<close>
  "isObject JNull = True"
| "isObject (JArr _) = True"
| "isObject (JObj _) = True"
| "isObject _ = False"

fun isString :: "jsval \<Rightarrow> bool" where   \<comment> \<open>\<open>services/common.ts\<close>\<close>
  "isString (JStr _) = True"
| "isString _ = False"

definition orEmpty :: "jsval \<Rightarrow> jsval" where   \<comment> \<open>a parameter with default \<open>{}\<close>\<close>
  "orEmpty v = (if v = JUndef then JObj [] else v)"

lemma size_ownEntries:
  "ownEntries v = Some es \<Longrightarrow> (k, w) \<in> set es \<Longrightarrow> isObject w \<Longrightarrow> size w < size v"
proof (cases v)
  case (JStr s)
  then show "ownEntries v = Some es \<Longrightarrow> (k, w) \<in> set es \<Longrightarrow> isObject w \<Longrightarrow> ?thesis"
    by (auto simp: indexed_def dest!: set_zip_rightD)
next
  case (JArr vs)
  moreover have "x \<in> set vs \<Longrightarrow> size x < Suc (size_list size vs)" for x
    by (induction vs) auto
  ultimately show "ownEntries v = Some es \<Longrightarrow> (k, w) \<in> set es \<Longrightarrow> isObject w \<Longrightarrow> ?thesis"
    by (auto simp: indexed_def dest!: set_zip_rightD)
next
  case (JObj ps)
  moreover have "(a, x) \<in> set ps \<Longrightarrow> size x < Suc (size_list (size_prod (\<lambda>_. 0) size) ps)" for a x
    by (induction ps) auto
  ultimately show "ownEntries v = Some es \<Longrightarrow> (k, w) \<in> set es \<Longrightarrow> isObject w \<Longrightarrow> ?thesis"
    by simp
qed auto

text \<open>Distinct decimal strings.\<close>

lemma digit_value_char: "d < 10 \<Longrightarrow> digit_value (char_of (48 + d)) = Some d"
  by (simp add: digit_value_def Let_def)

lemma digits_value_snoc:
  "digits_value acc (xs @ [c]) =
     (case digits_value acc xs of None \<Rightarrow> None
      | Some v \<Rightarrow> (case digit_value c of None \<Rightarrow> None | Some d \<Rightarrow> Some (10 * v + d)))"
  by (induction acc xs rule: digits_value.induct) (auto split: option.splits)

lemma digits_value_digits: "digits_value 0 (digits n) = Some n"
proof (induction n rule: digits.induct)
  case (1 n)
  show ?case
  proof (cases "n < 10")
    case True
    then show ?thesis by (subst digits.simps) (simp add: digit_value_char)
  next
    case False
    with 1 show ?thesis
      by (subst digits.simps) (simp add: digits_value_snoc digit_value_char)
  qed
qed

lemma digits_inj: "digits m = digits n \<Longrightarrow> m = n"
  by (metis digits_value_digits option.inject)

lemma distinct_indexed: "wf_keys (indexed vs)"
proof -
  have "map fst (indexed vs) = map digits [0..<length vs]"
    by (simp add: indexed_def)
  moreover have "inj_on digits (set [0..<length vs])"
    by (rule inj_onI) (rule digits_inj)
  ultimately show ?thesis by (simp add: distinct_map)
qed

lemma in_indexed: "(k, v) \<in> set (indexed vs) \<Longrightarrow> v \<in> set vs"
  by (auto simp: indexed_def dest!: set_zip_rightD)

end
