(* ===== verification/Aws_Diff.thy ===== *)
theory Aws_Diff
  imports Js_Value
begin

text \<open>
  \<open>objectsAreSame\<close> of \<open>src/src/services/aws-diff.ts\<close>, the structural comparison the mappers use
  for JSON columns.  The result is a \<open>bool\<close> or the \<open>TypeError\<close> of \<open>Object.keys(null)\<close>.
  (The source sorts two string arrays in place; the model compares sorted copies.)
\<close>

datatype js_error = TypeError

definition stringArray :: "jsval \<Rightarrow> string list option" where
  "stringArray v = (case v of
     JArr vs \<Rightarrow> (if list_all isString vs then Some (map toStr vs) else None)
   | _ \<Rightarrow> None)"

text \<open>\<open>Object.keys(o).filter(key => o[key] !== undefined).length\<close>\<close>

definition definedKeys :: "(string \<times> jsval) list \<Rightarrow> nat" where
  "definedKeys es = length (filter (\<lambda>(k, v). v \<noteq> JUndef) es)"

text \<open>The loop over \<open>Object.keys(obj1)\<close>, with the recursive call as an argument.\<close>

fun sameEntries :: "(jsval \<Rightarrow> jsval \<Rightarrow> js_error + bool) \<Rightarrow> (string \<times> jsval) list \<Rightarrow> jsval \<Rightarrow>
    js_error + bool" where
  "sameEntries rec [] obj2 = Inr True"
| "sameEntries rec ((k, v) # es) obj2 =
     (if isObject v
      then (case rec v (getProp obj2 k) of
              Inr True \<Rightarrow> sameEntries rec es obj2
            | r \<Rightarrow> r)
      else if v \<noteq> getProp obj2 k then Inr False
      else sameEntries rec es obj2)"

lemma sameEntries_cong [fundef_cong]:
  assumes "es = es'" and "obj2 = obj2'"
    and "\<And>k v w. (k, v) \<in> set es' \<Longrightarrow> isObject v \<Longrightarrow> rec v w = rec' v w"
  shows "sameEntries rec es obj2 = sameEntries rec' es' obj2'"
proof -
  have "(\<And>k v w. (k, v) \<in> set es \<Longrightarrow> isObject v \<Longrightarrow> rec v w = rec' v w) \<Longrightarrow>
      sameEntries rec es obj2 = sameEntries rec' es obj2"
  proof (induction es)
    case (Cons e es)
    obtain k v where [simp]: "e = (k, v)" by (rule prod.exhaust)
    have "sameEntries rec es obj2 = sameEntries rec' es obj2"
      using Cons.prems by (intro Cons.IH) auto
    moreover have "isObject v \<Longrightarrow> rec v w = rec' v w" for w
      using Cons.prems [of k v w] by simp
    ultimately show ?case by (simp split: sum.splits bool.splits)
  qed simp
  with assms show ?thesis by blast
qed

definition singleton :: "'a list option \<Rightarrow> bool" where
  "singleton x = (case x of Some [_] \<Rightarrow> True | _ \<Rightarrow> False)"

lemma size_orEmpty_entries:
  "ownEntries (orEmpty a) = Some es \<Longrightarrow> (k, v) \<in> set es \<Longrightarrow> isObject v \<Longrightarrow> size v < size a"
  using size_ownEntries [of a es k v] by (auto simp: orEmpty_def split: if_splits)

text \<open>The part after the string-array cases: count the defined keys, then loop.\<close>

function objectsAreSame :: "jsval \<Rightarrow> jsval \<Rightarrow> js_error + bool" where
  "objectsAreSame a b =
     (let obj1 = orEmpty a; obj2 = orEmpty b; sa1 = stringArray obj1; sa2 = stringArray obj2 in
      if singleton sa1 \<and> isString obj2 then Inr (JStr (hd (the sa1)) = obj2)
      else if singleton sa2 \<and> isString obj1 then Inr (JStr (hd (the sa2)) = obj1)
      else if sa1 \<noteq> None \<and> sa2 \<noteq> None
      then Inr (if length (the sa1) \<noteq> length (the sa2) then False
                else sort (the sa1) = sort (the sa2))
      else (case (ownEntries obj1, ownEntries obj2) of
              (Some es1, Some es2) \<Rightarrow>
                if definedKeys es1 \<noteq> definedKeys es2 then Inr False
                else sameEntries objectsAreSame es1 obj2
            | _ \<Rightarrow> Inl TypeError))"
  by pat_completeness auto
termination
  by (relation "measure (\<lambda>(a, b). size a)") (auto intro: size_orEmpty_entries [OF sym])

declare objectsAreSame.simps [simp del]


lemma stringArray_JArr: "stringArray (JArr (map JStr xs)) = Some xs"
  by (simp add: stringArray_def list_all_iff comp_def)

lemma stringArray_cases: "stringArray v = Some xs \<longleftrightarrow> v = JArr (map JStr xs)"
proof
  assume "stringArray v = Some xs"
  then obtain vs where v: "v = JArr vs" "list_all isString vs" "xs = map toStr vs"
    by (auto simp: stringArray_def split: jsval.splits if_splits)
  have "map JStr (map toStr vs) = vs"
    using v(2) by (induction vs) (auto elim: isString.elims)
  with v show "v = JArr (map JStr xs)" by simp
qed (simp add: stringArray_JArr)

text \<open>
  On two arrays of strings \<open>objectsAreSame\<close> compares them as multisets: the order of the
  elements does not matter, their number of occurrences does.
\<close>

theorem objectsAreSame_string_arrays:
  "objectsAreSame (JArr (map JStr xs)) (JArr (map JStr ys)) = Inr (mset xs = mset ys)"
proof -
  have "sort xs = sort ys \<longleftrightarrow> mset xs = mset ys"
    by (metis mset_sort properties_for_sort sorted_sort)
  moreover have "mset xs = mset ys \<Longrightarrow> length xs = length ys"
    by (metis size_mset)
  ultimately show ?thesis
    by (auto simp: objectsAreSame.simps orEmpty_def Let_def stringArray_JArr)
qed

text \<open>
  A value is plain when it holds no \<open>null\<close> and no object with a repeated key.
\<close>

fun plain :: "jsval \<Rightarrow> bool" where
  "plain JNull = False"
| "plain (JArr vs) = list_all plain vs"
| "plain (JObj es) = (wf_keys es \<and> list_all (\<lambda>(k, v). plain v) es)"
| "plain _ = True"

lemma plain_ownEntries:
  "plain v \<Longrightarrow> v \<noteq> JUndef \<Longrightarrow> \<exists>es. ownEntries v = Some es \<and> wf_keys es \<and> (\<forall>(k, w) \<in> set es. plain w)"
  by (cases v) (auto simp: distinct_indexed list_all_iff dest!: in_indexed)

lemma sameEntries_refl:
  assumes "\<And>k v. (k, v) \<in> set es \<Longrightarrow> getProp ob k = v"
    and "\<And>k v. (k, v) \<in> set es \<Longrightarrow> isObject v \<Longrightarrow> rec v v = Inr True"
  shows "sameEntries rec es ob = Inr True"
  using assms by (induction es) fastforce+

lemma objectsAreSame_refl_aux: "plain v \<Longrightarrow> objectsAreSame v v = Inr True"
proof (induction "size v" arbitrary: v rule: less_induct)
  case less
  define ob where "ob = orEmpty v"
  have ob: "plain ob" "ob \<noteq> JUndef"
    using less.prems by (auto simp: ob_def orEmpty_def)
  then obtain es where es: "ownEntries ob = Some es" "wf_keys es" "\<forall>(k, w) \<in> set es. plain w"
    using plain_ownEntries by blast
  have "sameEntries objectsAreSame es ob = Inr True"
  proof (rule sameEntries_refl)
    fix k w assume kw: "(k, w) \<in> set es"
    show "getProp ob k = w"
      using es(1,2) kw by (simp add: getProp_def)
    assume "isObject w"
    then show "objectsAreSame w w = Inr True"
      using less.hyps [of w] size_orEmpty_entries [of v es k w] es kw ob_def by auto
  qed
  then show ?case
    using es(1)
    by (auto simp: objectsAreSame.simps [of v v] Let_def ob_def [symmetric] singleton_def
        stringArray_cases split: option.splits list.splits)
qed

text \<open>
  \<open>objectsAreSame\<close> is reflexive on plain values: comparing a value without \<open>null\<close> inside with
  itself answers \<open>true\<close>, so an entity that did not change is never reported as changed.
\<close>

theorem objectsAreSame_refl: "plain v \<Longrightarrow> objectsAreSame v v = Inr True"
  by (rule objectsAreSame_refl_aux)

theorem objectsAreSame_refl_witness:
  "objectsAreSame (JObj [(''a'', JArr [JStr ''x'', JNum 1])]) (JObj [(''a'', JArr [JStr ''x'', JNum 1])])
     = Inr True"
  by (rule objectsAreSame_refl) simp

text \<open>
  Three inputs on which it answers otherwise than its comment says (\<open>true if the objects are the
  same\<close>): an array of characters and the string they spell, an empty object and a number, and a
  \<open>null\<close> property, on which it throws.
\<close>

lemmas same_eval = objectsAreSame.simps orEmpty_def Let_def stringArray_def singleton_def definedKeys_def
  indexed_def getProp_def digits.simps

lemma objectsAreSame_spelled_string:
  "objectsAreSame (JArr [JStr ''a'', JStr ''b'']) (JStr ''ab'') = Inr True"
  by (simp add: same_eval)

lemma objectsAreSame_empty_object_number:
  "objectsAreSame (JObj [(''p'', JObj [])]) (JObj [(''p'', JNum 5)]) = Inr True"
  by (simp add: same_eval)

lemma objectsAreSame_null_throws:
  "objectsAreSame (JObj [(''p'', JNull)]) (JObj [(''p'', JNull)]) = Inl TypeError"
  by (simp add: same_eval)

end
