(* ===== verification/Iam_Policy.thy ===== *)
theory Iam_Policy
  imports Js_Value
begin

text \<open>
  \<open>src/src/services/canonical-iam-policy.ts\<close> and \<open>policiesAreSame\<close> of
  \<open>src/src/services/aws-diff.ts\<close>: policies are normalised (one value becomes an array, actions are
  lower-cased and sorted, resources sorted, condition keys lower-cased, condition values turned into
  strings without repetitions) and the normal forms are compared structurally.
\<close>

datatype string_or_array = One string | Many "string list"

record principal_map =
  pAWS :: "string_or_array option"
  pService :: "string_or_array option"
  pFederated :: "string_or_array option"

datatype principal = Star | PMap principal_map

datatype scalar = SStr string | SBool bool | SNum int

datatype condition_value = CScalar scalar | CArray "scalar list"

type_synonym condition = "(condition_value obj) obj"

record statement =
  stAction :: "string_or_array option"
  stNotAction :: "string_or_array option"
  stPrincipal :: "principal option"
  stNotPrincipal :: "principal option"
  stResource :: "string_or_array option"
  stNotResource :: "string_or_array option"
  stCondition :: "condition option"
  stEffect :: string
  stSid :: "string option"

datatype statements = OneStatement statement | ManyStatements "statement list"

record policy =
  polId :: "string option"
  polStatement :: statements
  polVersion :: string

definition lowerChar :: "char \<Rightarrow> char" where
  "lowerChar c = (let n = of_char c in if 65 \<le> n \<and> n \<le> (90::nat) then char_of (n + 32) else c)"

definition toLowerCase :: "string \<Rightarrow> string" where
  "toLowerCase = map lowerChar"

fun asArray :: "string_or_array \<Rightarrow> string list" where
  "asArray (One s) = [s]"
| "asArray (Many ss) = ss"

fun normalizeAction :: "string_or_array \<Rightarrow> string_or_array" where
  "normalizeAction action = Many (sort (map toLowerCase (asArray action)))"

text \<open>\<open>if (p && !Array.isArray(p)) p = [p]\<close>: the empty string is left alone.\<close>

fun wrapArray :: "string_or_array option \<Rightarrow> string_or_array option" where
  "wrapArray (Some (One s)) = (if s \<noteq> [] then Some (Many [s]) else Some (One s))"
| "wrapArray x = x"

definition normalizePrincipal :: "principal \<Rightarrow> principal" where
  "normalizePrincipal pr =
     (let m = (case pr of
                 Star \<Rightarrow> \<lparr> pAWS = Some (Many [''*'']), pService = None, pFederated = None \<rparr>
               | PMap m \<Rightarrow> m)
      in PMap \<lparr> pAWS = wrapArray (pAWS m), pService = wrapArray (pService m),
                pFederated = wrapArray (pFederated m) \<rparr>)"

fun normalizeResource :: "string_or_array \<Rightarrow> string_or_array" where
  "normalizeResource resource = Many (sort (asArray resource))"

fun scalarStr :: "scalar \<Rightarrow> string" where   \<comment> \<open>\<open>_.toString\<close>\<close>
  "scalarStr (SStr s) = s"
| "scalarStr (SBool b) = (if b then ''true'' else ''false'')"
| "scalarStr (SNum n) = intStr n"

fun scalars :: "condition_value \<Rightarrow> scalar list" where
  "scalars (CScalar s) = [s]"
| "scalars (CArray ss) = ss"

fun normalizeValue :: "condition_value \<Rightarrow> condition_value" where
  "normalizeValue v = CArray (map SStr (uniq (map scalarStr (scalars v))))"

text \<open>Keys that agree up to case collapse, and the last one wins, as in the source.\<close>

definition normalizeKeys :: "condition_value obj \<Rightarrow> condition_value obj" where
  "normalizeKeys keyVal = obj_of (map (\<lambda>(key, v). (toLowerCase key, normalizeValue v)) keyVal)"

definition normalizeCondition :: "condition \<Rightarrow> condition" where
  "normalizeCondition c = obj_of (map (\<lambda>(operator, keyVal). (operator, normalizeKeys keyVal)) c)"

fun truthyField :: "string_or_array \<Rightarrow> bool" where
  "truthyField (One s) = (s \<noteq> [])"
| "truthyField (Many _) = True"

text \<open>\<open>if (statement.Action) statement.Action = normalizeAction(statement.Action)\<close> and its like\<close>

definition ifTruthy :: "(string_or_array \<Rightarrow> string_or_array) \<Rightarrow> string_or_array option \<Rightarrow>
    string_or_array option" where
  "ifTruthy f x = (case x of None \<Rightarrow> None | Some v \<Rightarrow> if truthyField v then Some (f v) else Some v)"

definition normalizeStatement :: "statement \<Rightarrow> statement" where
  "normalizeStatement st = st\<lparr>
     stAction := ifTruthy normalizeAction (stAction st),
     stNotAction := ifTruthy normalizeAction (stNotAction st),
     stPrincipal := map_option normalizePrincipal (stPrincipal st),
     stNotPrincipal := map_option normalizePrincipal (stNotPrincipal st),
     stResource := ifTruthy normalizeResource (stResource st),
     stNotResource := ifTruthy normalizeResource (stNotResource st),
     stCondition := map_option normalizeCondition (stCondition st) \<rparr>"

fun statementList :: "statements \<Rightarrow> statement list" where
  "statementList (OneStatement s) = [s]"
| "statementList (ManyStatements ss) = ss"

definition normalizePolicy :: "policy \<Rightarrow> policy" where
  "normalizePolicy p =
     p\<lparr> polStatement := ManyStatements (map normalizeStatement (statementList (polStatement p))) \<rparr>"

section \<open>Structural equality of normal forms\<close>

text \<open>\<open>_.isEqual\<close> ignores the order of an object's keys and minds the order of arrays.\<close>

definition objEq :: "('v \<Rightarrow> 'v \<Rightarrow> bool) \<Rightarrow> 'v obj \<Rightarrow> 'v obj \<Rightarrow> bool" where
  "objEq eq a b = (length a = length b \<and>
     list_all (\<lambda>(k, v). case map_of b k of None \<Rightarrow> False | Some w \<Rightarrow> eq v w) a)"

definition optEq :: "('v \<Rightarrow> 'v \<Rightarrow> bool) \<Rightarrow> 'v option \<Rightarrow> 'v option \<Rightarrow> bool" where
  "optEq eq a b = (case (a, b) of (None, None) \<Rightarrow> True | (Some x, Some y) \<Rightarrow> eq x y | _ \<Rightarrow> False)"

definition statementEq :: "statement \<Rightarrow> statement \<Rightarrow> bool" where
  "statementEq a b =
     (stAction a = stAction b \<and> stNotAction a = stNotAction b \<and>
      stPrincipal a = stPrincipal b \<and> stNotPrincipal a = stNotPrincipal b \<and>
      stResource a = stResource b \<and> stNotResource a = stNotResource b \<and>
      optEq (objEq (objEq (=))) (stCondition a) (stCondition b) \<and>
      stEffect a = stEffect b \<and> stSid a = stSid b)"

definition policyEq :: "policy \<Rightarrow> policy \<Rightarrow> bool" where
  "policyEq a b = (polId a = polId b \<and> polVersion a = polVersion b \<and>
     list_all2 statementEq (statementList (polStatement a)) (statementList (polStatement b)))"

definition policiesAreSame :: "policy option \<Rightarrow> policy option \<Rightarrow> bool" where
  "policiesAreSame a b = (case (a, b) of
       (Some p, Some q) \<Rightarrow> policyEq (normalizePolicy p) (normalizePolicy q)
     | (None, None) \<Rightarrow> True
     | _ \<Rightarrow> False)"

section \<open>Normal forms are normal\<close>

lemma lowerChar_idem [simp]: "lowerChar (lowerChar c) = lowerChar c"
  by (auto simp: lowerChar_def Let_def)

lemma toLowerCase_idem [simp]: "toLowerCase (toLowerCase s) = toLowerCase s"
  by (simp add: toLowerCase_def comp_def)

lemma sort_lower_idem:
  "sort (map toLowerCase (sort (map toLowerCase xs))) = sort (map toLowerCase xs)"
proof -
  have "map toLowerCase (sort (map toLowerCase xs)) = sort (map toLowerCase xs)"
    by (rule map_idI) auto
  then show ?thesis by (simp add: sorted_sort_id)
qed

lemma ifTruthy_idem:
  assumes "\<And>v. truthyField (f v)" and "\<And>v. f (f v) = f v"
  shows "ifTruthy f (ifTruthy f x) = ifTruthy f x"
  using assms by (auto simp: ifTruthy_def split: option.splits)

lemma wrapArray_idem: "wrapArray (wrapArray x) = wrapArray x"
  by (cases x rule: wrapArray.cases) auto

lemma normalizePrincipal_idem: "normalizePrincipal (normalizePrincipal p) = normalizePrincipal p"
  by (simp add: normalizePrincipal_def Let_def wrapArray_idem)

lemma normalizeValue_idem: "normalizeValue (normalizeValue v) = normalizeValue v"
  by (simp add: comp_def)

lemma obj_of_values:
  assumes "\<And>k v. (k, v) \<in> set es \<Longrightarrow> P k v"
  shows "(k, v) \<in> set (obj_of es) \<Longrightarrow> P k v"
proof -
  assume "(k, v) \<in> set (obj_of es)"
  then have "map_of (obj_of es) k = Some v"
    by (rule map_of_is_SomeI [OF obj_of_wf])
  then have "map_of (rev es) k = Some v"
    unfolding obj_of_find .
  then have "(k, v) \<in> set (rev es)"
    by (rule map_of_SomeD)
  then have "(k, v) \<in> set es" by simp
  then show ?thesis by (rule assms)
qed

lemma obj_of_map_idem:
  assumes "\<And>k v. (k, v) \<in> set es \<Longrightarrow> f (k, v) = (k, v)"
  shows "obj_of (map f (obj_of es)) = obj_of es"
proof -
  have "f kv = kv" if "kv \<in> set (obj_of es)" for kv
    using obj_of_values [of es "\<lambda>k v. f (k, v) = (k, v)" "fst kv" "snd kv"] assms that by simp
  then have "map f (obj_of es) = obj_of es"
    by (simp add: map_idI)
  then show ?thesis by (simp add: obj_of_idem)
qed

lemma normalizeKeys_idem: "normalizeKeys (normalizeKeys kv) = normalizeKeys kv"
  unfolding normalizeKeys_def
  by (rule obj_of_map_idem) (auto simp del: normalizeValue.simps simp: normalizeValue_idem)

lemma normalizeCondition_idem: "normalizeCondition (normalizeCondition c) = normalizeCondition c"
  unfolding normalizeCondition_def
  by (rule obj_of_map_idem) (auto simp: normalizeKeys_idem)

lemma normalizeStatement_idem: "normalizeStatement (normalizeStatement s) = normalizeStatement s"
proof -
  have "ifTruthy normalizeAction (ifTruthy normalizeAction x) = ifTruthy normalizeAction x" for x
    by (rule ifTruthy_idem) (simp_all add: sort_lower_idem)
  moreover have "ifTruthy normalizeResource (ifTruthy normalizeResource x) = ifTruthy normalizeResource x" for x
    by (rule ifTruthy_idem) (simp_all add: sorted_sort_id)
  ultimately show ?thesis
    by (simp add: normalizeStatement_def option.map_comp comp_def normalizePrincipal_idem
        normalizeCondition_idem)
qed

text \<open>
  \<open>normalizePolicy\<close> is idempotent: a policy that was normalised is its own normal form, so it
  makes no difference whether a stored policy was normalised before.
\<close>

theorem normalizePolicy_idempotent: "normalizePolicy (normalizePolicy p) = normalizePolicy p"
  by (simp add: normalizePolicy_def normalizeStatement_idem comp_def)

lemma objEq_refl: "wf_keys a \<Longrightarrow> (\<And>k v. (k, v) \<in> set a \<Longrightarrow> eq v v) \<Longrightarrow> objEq eq a a"
  by (auto simp: objEq_def list_all_iff map_of_is_SomeI)

lemma normalizeCondition_eq_refl: "objEq (objEq (=)) (normalizeCondition c) (normalizeCondition c)"
proof (rule objEq_refl)
  show "wf_keys (normalizeCondition c)"
    by (simp add: normalizeCondition_def obj_of_wf)
  fix k v assume "(k, v) \<in> set (normalizeCondition c)"
  then have "wf_keys v"
    unfolding normalizeCondition_def
    by (rule obj_of_values [rotated]) (auto simp: normalizeKeys_def obj_of_wf)
  then show "objEq (=) v v" by (rule objEq_refl) simp
qed

lemma normal_statementEq:
  assumes "normalizeStatement a = normalizeStatement b"
  shows "statementEq (normalizeStatement a) (normalizeStatement b)"
  unfolding assms
  by (auto simp: statementEq_def optEq_def normalizeStatement_def normalizeCondition_eq_refl
      split: option.splits)

text \<open>
  The same access written differently: each list-valued field of \<open>b\<close> is that of \<open>a\<close> with its
  elements rearranged, one element possibly written without the brackets, and actions in any case.
\<close>

definition sameActions :: "string_or_array option \<Rightarrow> string_or_array option \<Rightarrow> bool" where
  "sameActions x y = optEq (\<lambda>u v. truthyField u \<and> truthyField v \<and>
     mset (map toLowerCase (asArray u)) = mset (map toLowerCase (asArray v))) x y"

definition sameResources :: "string_or_array option \<Rightarrow> string_or_array option \<Rightarrow> bool" where
  "sameResources x y = optEq (\<lambda>u v. truthyField u \<and> truthyField v \<and> mset (asArray u) = mset (asArray v)) x y"

definition rewritten :: "statement \<Rightarrow> statement \<Rightarrow> bool" where
  "rewritten a b \<longleftrightarrow>
     sameActions (stAction a) (stAction b) \<and> sameActions (stNotAction a) (stNotAction b) \<and>
     sameResources (stResource a) (stResource b) \<and> sameResources (stNotResource a) (stNotResource b) \<and>
     stPrincipal a = stPrincipal b \<and> stNotPrincipal a = stNotPrincipal b \<and>
     stCondition a = stCondition b \<and> stEffect a = stEffect b \<and> stSid a = stSid b"

lemma sort_eq_mset: "mset xs = mset ys \<Longrightarrow> sort xs = sort ys"
  by (rule properties_for_sort) simp_all

lemma sameActions_normal: "sameActions x y \<Longrightarrow> ifTruthy normalizeAction x = ifTruthy normalizeAction y"
  by (cases x; cases y) (auto simp: sameActions_def optEq_def ifTruthy_def intro!: sort_eq_mset)

lemma sameResources_normal:
  "sameResources x y \<Longrightarrow> ifTruthy normalizeResource x = ifTruthy normalizeResource y"
  by (cases x; cases y) (auto simp: sameResources_def optEq_def ifTruthy_def intro!: sort_eq_mset)

lemma rewritten_normal: "rewritten a b \<Longrightarrow> normalizeStatement a = normalizeStatement b"
  unfolding rewritten_def normalizeStatement_def
  using sameActions_normal [of "stAction a" "stAction b"] sameActions_normal [of "stNotAction a" "stNotAction b"]
    sameResources_normal [of "stResource a" "stResource b"]
    sameResources_normal [of "stNotResource a" "stNotResource b"]
  by simp

text \<open>
  \<open>policiesAreSame\<close> answers \<open>true\<close> for two spellings of one policy: actions in another order
  or case, resources in another order, a single statement, action or resource with or without its
  brackets.
\<close>

theorem policiesAreSame_rewritten:
  assumes "polId p = polId q" and "polVersion p = polVersion q"
    and "list_all2 rewritten (statementList (polStatement p)) (statementList (polStatement q))"
  shows "policiesAreSame (Some p) (Some q)"
proof -
  have "list_all2 (\<lambda>a b. statementEq (normalizeStatement a) (normalizeStatement b))
      (statementList (polStatement p)) (statementList (polStatement q))"
    using assms(3) by (rule list_all2_mono) (blast intro: normal_statementEq rewritten_normal)
  then show ?thesis
    using assms(1,2)
    by (simp add: policiesAreSame_def policyEq_def normalizePolicy_def list_all2_map1 list_all2_map2)
qed

definition demoStatement :: "string_or_array \<Rightarrow> principal option \<Rightarrow> statement" where
  "demoStatement act pr = \<lparr> stAction = Some act, stNotAction = None, stPrincipal = pr,
     stNotPrincipal = None, stResource = Some (One ''*''), stNotResource = None,
     stCondition = None, stEffect = ''Allow'', stSid = None \<rparr>"

definition demoPolicy :: "statements \<Rightarrow> policy" where
  "demoPolicy s = \<lparr> polId = None, polStatement = s, polVersion = ''2012-10-17'' \<rparr>"

theorem policiesAreSame_rewritten_witness:
  "policiesAreSame
     (Some (demoPolicy (OneStatement (demoStatement (Many [''s3:Get'', ''s3:Put'']) None))))
     (Some (demoPolicy (ManyStatements [demoStatement (Many [''S3:PUT'', ''s3:get'']) None])))"
proof -
  have low: "toLowerCase ''s3:Get'' = ''s3:get''" "toLowerCase ''s3:Put'' = ''s3:put''"
      "toLowerCase ''S3:PUT'' = ''s3:put''" "toLowerCase ''s3:get'' = ''s3:get''"
    by code_simp+
  show ?thesis
    by (rule policiesAreSame_rewritten)
       (simp_all add: low add_mset_commute demoPolicy_def demoStatement_def rewritten_def sameActions_def
         sameResources_def optEq_def)
qed

text \<open>
  The order of principals does matter, although the comment on \<open>policiesAreSame\<close> promises equality of
  meaning regardless of structure.
\<close>

lemma policiesAreSame_principal_order:
  "\<not> policiesAreSame
     (Some (demoPolicy (OneStatement (demoStatement (One ''a'')
        (Some (PMap \<lparr> pAWS = Some (Many [''1'', ''2'']), pService = None, pFederated = None \<rparr>))))))
     (Some (demoPolicy (OneStatement (demoStatement (One ''a'')
        (Some (PMap \<lparr> pAWS = Some (Many [''2'', ''1'']), pService = None, pFederated = None \<rparr>))))))"
  by (simp add: policiesAreSame_def policyEq_def normalizePolicy_def demoPolicy_def demoStatement_def
      statementEq_def normalizeStatement_def normalizePrincipal_def Let_def)

end
