(* ===== verification/Mapper_Id.thy ===== *)
theory Mapper_Id
  imports Js_Value
begin

text \<open>
  Cloud identifiers: the decorator tables of \<open>src/src/services/cloud-id.ts\<close> and
  \<open>src/src/services/aws-resolve-support.ts\<close>, and \<open>MapperBase.init\<close> of
  \<open>src/src/modules/interfaces.ts\<close>, which derives \<open>generateId\<close>, \<open>entityId\<close> and \<open>idFields\<close> from the
  columns marked with \<open>@cloudId\<close> and checks that a mapper is complete.  The first primary column,
  which TypeORM's metadata gives, is an argument.
\<close>

section \<open>The decorator tables\<close>

type_synonym decorator_table = "(string, string list) jsmap"

definition cloudId :: "string \<Rightarrow> string \<Rightarrow> decorator_table \<Rightarrow> decorator_table" where
  "cloudId cls nm table =
     (let t = (if jsmap_has table cls then table else jsmap_set cls [] table)
      in jsmap_set cls (the (map_of t cls) @ [nm]) t)"

definition getCloudId :: "decorator_table \<Rightarrow> string \<Rightarrow> string + string list" where
  "getCloudId table cls =
     (if \<not> jsmap_has table cls then Inl (''No @cloudId decorator usage on '' @ cls)
      else Inr (the (map_of table cls)))"

definition awsResolveSupport :: "'c \<Rightarrow> string \<Rightarrow> ('c, string list) jsmap \<Rightarrow> ('c, string list) jsmap" where
  "awsResolveSupport cls nm table =
     (let t = (if jsmap_has table cls then table else jsmap_set cls [] table)
      in jsmap_set cls (the (map_of t cls) @ [nm]) t)"

definition getAwsResolveSupport :: "('c, string list) jsmap \<Rightarrow> 'c \<Rightarrow> string list" where
  "getAwsResolveSupport table cls =
     (if jsmap_has table cls then the (map_of table cls) else [])"

lemma getCloudId_after_decorating:
  "getCloudId (cloudId cls nm table) cls' =
     (if cls' = cls
      then Inr ((case map_of table cls of None \<Rightarrow> [] | Some ns \<Rightarrow> ns) @ [nm])
      else getCloudId table cls')"
  by (auto simp: getCloudId_def cloudId_def jsmap_has_def map_of_jsmap_set Let_def split: option.splits)

section \<open>Identifiers\<close>

type_synonym entity_obj = "jsval obj"

definition field :: "entity_obj \<Rightarrow> string \<Rightarrow> jsval" where
  "field e k = (case map_of e k of None \<Rightarrow> JUndef | Some v \<Rightarrow> v)"

text \<open>\<open>cloudColumns\<close> is \<open>None\<close> where \<open>getCloudId\<close> gave an error.\<close>

definition generateId :: "string list option \<Rightarrow> string \<Rightarrow> entity_obj \<Rightarrow> string + string" where
  "generateId cloudColumns primaryColumn fields =
     (case cloudColumns of
        Some cols \<Rightarrow>
          if length fields \<noteq> length cols \<or> \<not> list_all (\<lambda>fk. fk \<in> set cols) (obj_keys fields)
          then Inl (''Id generation error. Valid fields to generate id are: '' @ joinWith '', '' cols
                    @ ''. Receiving: '' @ joinWith '', '' (obj_keys fields))
          else (let out = joinWith ''|'' (map (\<lambda>col. joinStr (field fields col)) cols)
                in Inr (if out = [] then toStr (field fields primaryColumn) else out))
      | None \<Rightarrow>
          if length fields \<noteq> 1 \<or> \<not> list_all (\<lambda>fk. fk = primaryColumn) (obj_keys fields)
          then Inl (''Id generation error. Valid field to generate id is: '' @ primaryColumn
                    @ ''. Receiving: '' @ joinWith '', '' (obj_keys fields))
          else Inr (toStr (field fields primaryColumn)))"

definition entityId :: "string list option \<Rightarrow> string \<Rightarrow> entity_obj \<Rightarrow> string" where
  "entityId cloudColumns primaryColumn e =
     (case cloudColumns of
        Some cols \<Rightarrow>
          if list_ex (\<lambda>col. \<not> truthy (field e col)) cols then toStr (field e primaryColumn)
          else (let out = joinWith ''|'' (map (\<lambda>col. joinStr (field e col)) cols)
                in if out = [] then toStr (field e primaryColumn) else out)
      | None \<Rightarrow> toStr (field e primaryColumn))"

text \<open>\<open>splittedId[i]\<close> past the end is \<open>undefined\<close>.\<close>

definition nthOrUndef :: "string list \<Rightarrow> nat \<Rightarrow> jsval" where
  "nthOrUndef ws i = (if i < length ws then JStr (ws ! i) else JUndef)"

definition idFields :: "string list option \<Rightarrow> string \<Rightarrow> string \<Rightarrow> entity_obj" where
  "idFields cloudColumns primaryColumn ident =
     (let splittedId = splitOn CHR ''|'' ident in
      case cloudColumns of
        Some cols \<Rightarrow> obj_of (map (\<lambda>i. (cols ! i, nthOrUndef splittedId i)) [0..<length cols])
      | None \<Rightarrow> [(primaryColumn, JStr (last splittedId))])"

text \<open>The \<open>where\<close> object of the automatically built \<open>db.read\<close>.\<close>

definition readWhere :: "string list \<Rightarrow> string \<Rightarrow> entity_obj" where
  "readWhere cloudColumns ident =
     (let ws = splitOn CHR ''|'' ident in
      obj_of (map (\<lambda>i. (if i < length cloudColumns then cloudColumns ! i else ''undefined'', JStr (ws ! i)))
                  [0..<length ws]))"

section \<open>Initialising a mapper\<close>

datatype source = SrcDb | SrcCloud

datatype 'c db_binding = GivenDb 'c | GeneratedDb "string list"

record 'c mapper_def =
  mdModule :: "string option"
  mdEntity :: "string option"
  mdGenerateId :: "(entity_obj \<Rightarrow> string + string) option"
  mdEntityId :: "(entity_obj \<Rightarrow> string) option"
  mdIdFields :: "(string \<Rightarrow> entity_obj) option"
  mdEquals :: "(entity_obj \<Rightarrow> entity_obj \<Rightarrow> bool) option"
  mdSource :: "source option"
  mdDb :: "'c option"
  mdCloud :: "'c option"

record 'c mapper =
  mpModule :: string
  mpEntity :: string
  mpGenerateId :: "entity_obj \<Rightarrow> string + string"
  mpEntityId :: "entity_obj \<Rightarrow> string"
  mpIdFields :: "string \<Rightarrow> entity_obj"
  mpEquals :: "entity_obj \<Rightarrow> entity_obj \<Rightarrow> bool"
  mpSource :: source
  mpDb :: "'c db_binding"
  mpCloud :: 'c

definition orElse :: "'a option \<Rightarrow> 'a \<Rightarrow> 'a" where
  "orElse x d = (case x of None \<Rightarrow> d | Some v \<Rightarrow> v)"

definition mapperInit :: "decorator_table \<Rightarrow> (string \<Rightarrow> string) \<Rightarrow> 'c mapper_def \<Rightarrow> string + 'c mapper" where
  "mapperInit table primaryColumnOf d =
     (case mdModule d of None \<Rightarrow> Inl ''No module link established for this mapper''
      | Some md \<Rightarrow>
      (case mdEntity d of None \<Rightarrow> Inl ''No entity defined for this mapper''
       | Some entity \<Rightarrow>
       (let cols = (case getCloudId table entity of Inl _ \<Rightarrow> None | Inr cs \<Rightarrow> Some cs);
            pc = primaryColumnOf entity in
        case mdEquals d of None \<Rightarrow> Inl ''No entity equals method defined''
        | Some eq \<Rightarrow>
        (case (case mdDb d of Some c \<Rightarrow> Some (GivenDb c) | None \<Rightarrow> map_option GeneratedDb cols) of
           None \<Rightarrow> Inl ''Cannot automatically build database bindings without @cloudId decorator''
         | Some db \<Rightarrow>
         (case mdCloud d of None \<Rightarrow> Inl ''No cloud entity CRUD defined''
          | Some cloud \<Rightarrow>
            Inr \<lparr> mpModule = md, mpEntity = entity,
                  mpGenerateId = orElse (mdGenerateId d) (generateId cols pc),
                  mpEntityId = orElse (mdEntityId d) (entityId cols pc),
                  mpIdFields = orElse (mdIdFields d) (idFields cols pc),
                  mpEquals = eq,
                  mpSource = orElse (mdSource d) SrcDb,
                  mpDb = db, mpCloud = cloud \<rparr>)))))"

text \<open>
  A mapper initialises exactly when it has a module, an entity, an equality, a cloud binding and
  either database bindings of its own or an entity with \<open>@cloudId\<close> columns to build them from.
\<close>

theorem mapperInit_succeeds_iff:
  "(\<exists>m. mapperInit table pcOf d = Inr m) \<longleftrightarrow>
     mdModule d \<noteq> None \<and> mdEquals d \<noteq> None \<and> mdCloud d \<noteq> None \<and>
     (\<exists>e. mdEntity d = Some e \<and> (mdDb d \<noteq> None \<or> jsmap_has table e))"
  by (auto simp: mapperInit_def Let_def getCloudId_def split: option.splits)

definition demoMapper :: "nat mapper_def" where
  "demoMapper = \<lparr> mdModule = Some ''aws_iam'', mdEntity = Some ''IamRole'', mdGenerateId = None,
     mdEntityId = None, mdIdFields = None, mdEquals = Some (\<lambda>a b. a = b), mdSource = None,
     mdDb = None, mdCloud = Some 0 \<rparr>"

theorem mapperInit_succeeds_iff_witness:
  "(\<exists>m. mapperInit [(''IamRole'', [''roleName''])] (\<lambda>_. ''roleName'') demoMapper = Inr m) \<and>
   \<not> (\<exists>m. mapperInit [] (\<lambda>_. ''roleName'') demoMapper = Inr m)"
  unfolding mapperInit_succeeds_iff by (simp add: demoMapper_def jsmap_has_def)

section \<open>Round trips\<close>

text \<open>The fields of an identifier: one string without \<open>|\<close> for each cloud column.\<close>

definition proper_fields :: "string list \<Rightarrow> entity_obj \<Rightarrow> bool" where
  "proper_fields cols flds \<longleftrightarrow>
     wf_keys flds \<and> set (obj_keys flds) = set cols \<and>
     (\<forall>v \<in> set (obj_values flds). \<exists>s. v = JStr s \<and> s \<noteq> [] \<and> CHR ''|'' \<notin> set s)"

lemma proper_field:
  assumes "proper_fields cols flds" and "col \<in> set cols"
  obtains s where "field flds col = JStr s" "s \<noteq> []" "CHR ''|'' \<notin> set s" "map_of flds col = Some (JStr s)"
proof -
  have "col \<in> fst ` set flds"
    using assms by (simp add: proper_fields_def obj_keys_def)
  then obtain v where v: "map_of flds col = Some v"
    by (metis map_of_eq_None_iff option.exhaust)
  then have "v \<in> set (obj_values flds)"
    by (force simp: obj_values_def dest: map_of_SomeD)
  then obtain s where "v = JStr s" "s \<noteq> []" "CHR ''|'' \<notin> set s"
    using assms(1) unfolding proper_fields_def by blast
  with v that show thesis by (simp add: field_def)
qed

definition fieldStr :: "entity_obj \<Rightarrow> string \<Rightarrow> string" where
  "fieldStr flds col = joinStr (field flds col)"

lemma proper_split:
  assumes "proper_fields cols flds" and "cols \<noteq> []"
  shows "splitOn CHR ''|'' (joinWith ''|'' (map (fieldStr flds) cols)) = map (fieldStr flds) cols"
proof (rule splitOn_joinWith)
  fix w assume "w \<in> set (map (fieldStr flds) cols)"
  then obtain col where "col \<in> set cols" "w = fieldStr flds col" by auto
  then show "CHR ''|'' \<notin> set w"
    using assms(1) by (auto elim!: proper_field simp: fieldStr_def joinStr_def)
qed (use assms(2) in simp)

lemma proper_generateId_nonempty:
  assumes "proper_fields cols flds" and "cols \<noteq> []"
  shows "joinWith ''|'' (map (fieldStr flds) cols) \<noteq> []"
proof
  assume "joinWith ''|'' (map (fieldStr flds) cols) = []"
  then have "map (fieldStr flds) cols = [[]]"
    using proper_split [OF assms] by simp
  then obtain c where "cols = [c]" "fieldStr flds c = []" by auto
  then show False
    using proper_field [OF assms(1), of c] by (force simp: fieldStr_def joinStr_def)
qed

lemma proper_generateId:
  assumes "proper_fields cols flds" and "distinct cols" and "cols \<noteq> []"
  shows "generateId (Some cols) pc flds = Inr (joinWith ''|'' (map (fieldStr flds) cols))"
proof -
  have "length flds = length cols"
    using assms(1,2) unfolding proper_fields_def obj_keys_def
    by (metis distinct_card length_map)
  with proper_generateId_nonempty [OF assms(1,3)] show ?thesis
    using assms(1)
    by (simp add: generateId_def proper_fields_def list_all_iff fieldStr_def [abs_def] Let_def)
qed

lemma idFields_lookup:
  assumes "distinct cols" and "i < length cols"
  shows "map_of (idFields (Some cols) pc ident) (cols ! i) = Some (nthOrUndef (splitOn CHR ''|'' ident) i)"
proof -
  let ?kvs = "map (\<lambda>i. (cols ! i, nthOrUndef (splitOn CHR ''|'' ident) i)) [0..<length cols]"
  have "map fst ?kvs = cols"
    by (simp add: comp_def map_nth)
  then have "wf_keys (rev ?kvs)"
    using assms(1) by (metis distinct_rev rev_map)
  then have "map_of (rev ?kvs) (cols ! i) = Some (nthOrUndef (splitOn CHR ''|'' ident) i)"
    using assms(2) by (intro map_of_is_SomeI) auto
  then show ?thesis by (simp add: idFields_def Let_def obj_of_find)
qed

lemma idFields_other:
  "k \<notin> set cols \<Longrightarrow> map_of (idFields (Some cols) pc ident) k = None"
  by (auto simp: idFields_def Let_def obj_of_find map_of_eq_None_iff in_set_conv_nth)

text \<open>
  Identifiers round-trip: with distinct cloud columns and non-empty values that hold no \<open>|\<close>,
  \<open>idFields\<close> recovers from a generated id exactly the fields it was generated from.
\<close>

theorem idFields_generateId:
  assumes "proper_fields cols flds" and "distinct cols" and "cols \<noteq> []"
  shows "\<exists>ident. generateId (Some cols) pc flds = Inr ident \<and>
    map_of (idFields (Some cols) pc ident) = map_of flds"
proof (intro exI conjI, rule proper_generateId [OF assms], rule ext)
  fix k
  let ?ident = "joinWith ''|'' (map (fieldStr flds) cols)"
  show "map_of (idFields (Some cols) pc ?ident) k = map_of flds k"
  proof (cases "k \<in> set cols")
    case True
    then obtain i where i: "i < length cols" "k = cols ! i" by (auto simp: in_set_conv_nth)
    obtain v where v: "field flds k = JStr v" "map_of flds k = Some (JStr v)"
      using proper_field [OF assms(1) True] by metis
    show ?thesis
      using idFields_lookup [OF assms(2) i(1), of pc ?ident] i v
      by (simp add: proper_split [OF assms(1,3)] nthOrUndef_def fieldStr_def joinStr_def)
  next
    case False
    then have "map_of flds k = None"
      using assms(1) by (simp add: proper_fields_def obj_keys_def map_of_eq_None_iff)
    with False show ?thesis by (simp add: idFields_other)
  qed
qed

theorem idFields_generateId_witness:
  "\<exists>ident. generateId (Some [''vpcId'', ''region'']) ''id''
       [(''region'', JStr ''us-east-1''), (''vpcId'', JStr ''vpc-1'')] = Inr ident \<and>
     map_of (idFields (Some [''vpcId'', ''region'']) ''id'' ident)
       = map_of [(''region'', JStr ''us-east-1''), (''vpcId'', JStr ''vpc-1'')]"
  by (rule idFields_generateId) (auto simp: proper_fields_def obj_keys_def obj_values_def)

text \<open>
  The id of an entity is the id generated from its cloud columns: when every cloud column of an
  entity is filled, \<open>entityId\<close> and \<open>generateId\<close> on those columns agree, so an entity is stored and
  looked up under one key.
\<close>

theorem entityId_generateId:
  assumes "distinct cols" and "cols \<noteq> []"
    and "\<And>col. col \<in> set cols \<Longrightarrow> \<exists>s. field e col = JStr s \<and> s \<noteq> [] \<and> CHR ''|'' \<notin> set s"
  shows "generateId (Some cols) pc (map (\<lambda>col. (col, field e col)) cols) = Inr (entityId (Some cols) pc e)"
proof -
  let ?flds = "map (\<lambda>col. (col, field e col)) cols"
  have pf: "proper_fields cols ?flds"
    using assms by (auto simp: proper_fields_def obj_keys_def obj_values_def comp_def)
  have fe: "field ?flds col = field e col" if "col \<in> set cols" for col
    using that by (simp add: field_def [of ?flds] map_of_map_restrict)
  have all: "\<not> list_ex (\<lambda>col. \<not> truthy (field e col)) cols"
    using assms(3) by (force simp: list_ex_iff)
  have eq: "map (\<lambda>col. joinStr (field ?flds col)) cols = map (\<lambda>col. joinStr (field e col)) cols"
    using fe by simp
  have "generateId (Some cols) pc ?flds = Inr (joinWith ''|'' (map (\<lambda>col. joinStr (field e col)) cols))"
    using proper_generateId [OF pf assms(1,2), of pc] eq by (simp add: fieldStr_def [abs_def])
  moreover have "joinWith ''|'' (map (\<lambda>col. joinStr (field e col)) cols) \<noteq> []"
    using proper_generateId_nonempty [OF pf assms(2)] eq by (simp add: fieldStr_def [abs_def])
  ultimately show ?thesis
    using all by (simp add: entityId_def Let_def)
qed

theorem entityId_generateId_witness:
  "generateId (Some [''groupId'', ''region'']) ''id''
      (map (\<lambda>col. (col, field [(''id'', JNum 7), (''groupId'', JStr ''sg-1''), (''region'', JStr ''r'')] col))
         [''groupId'', ''region''])
   = Inr (entityId (Some [''groupId'', ''region'']) ''id''
      [(''id'', JNum 7), (''groupId'', JStr ''sg-1''), (''region'', JStr ''r'')])"
  by (rule entityId_generateId) (auto simp: field_def)

text \<open>
  The separator is not escaped: two different pairs of values get one id.
\<close>

lemma generateId_collision:
  "generateId (Some [''a'', ''b'']) ''id'' [(''a'', JStr ''x|y''), (''b'', JStr ''z'')]
   = generateId (Some [''a'', ''b'']) ''id'' [(''a'', JStr ''x''), (''b'', JStr ''y|z'')]"
  by (simp add: generateId_def obj_keys_def field_def joinStr_def)

end
