(* ===== verification/Crud_Cache.thy ===== *)
theory Crud_Cache
  imports Js_Object Lazy_Dep
begin

text \<open>
  The \<open>Crud\<close> class of \<open>src/src/modules/interfaces.ts\<close>: every mapper reads and writes its entities
  through it, and it keeps one object per identifier in \<open>ctx.memo\<close>, so that all references to an
  entity are references to one object.  Objects therefore live in an explicit heap: an entity is an
  address, \<open>ctx.memo\<close> maps an entity name and an identifier to an address, and the CRUD functions a
  mapper supplies are actions on the whole state (heap, memo and the outside world \<open>'x\<close>: database and
  cloud).
\<close>

section \<open>Errors and state\<close>

datatype js_err =
    Err string                              \<comment> \<open>\<open>new Error(message)\<close>\<close>
  | Dep string "nat option" "string list"   \<comment> \<open>\<open>DepError\<close>: message, \<open>generatorsToRun.length\<close>, failures\<close>

fun errMessage :: "js_err \<Rightarrow> string" where
  "errMessage (Err m) = m"
| "errMessage (Dep m _ _) = m"

fun setMessage :: "string \<Rightarrow> js_err \<Rightarrow> js_err" where
  "setMessage m (Err _) = Err m"
| "setMessage m (Dep _ n fs) = Dep m n fs"

text \<open>
  \<open>err.message = `... error: ${err.message}`\<close> in a catch block: on a thrown value that is not an
  object the assignment throws a \<open>TypeError\<close> instead.
\<close>

fun prefixError :: "string \<Rightarrow> js_err thrown \<Rightarrow> js_err thrown" where
  "prefixError p (ErrObj e) = ErrObj (setMessage (p @ errMessage e) e)"
| "prefixError p NonObject = ErrObj (Err ''TypeError'')"

type_synonym addr = nat

type_synonym 'v heap = "addr \<Rightarrow> 'v obj"

datatype dest = DestDb | DestCloud

record ('v, 'x) ctx =
  heap :: "'v heap"
  nextAddr :: addr
  memoDb :: "(addr obj) obj"       \<comment> \<open>\<open>ctx.memo.db[entityName][id]\<close>\<close>
  memoCloud :: "(addr obj) obj"
  world :: 'x

type_synonym ('v, 'x, 'a) op = "(('v, 'x) ctx, js_err thrown, 'a) action"

text \<open>What the CRUD functions take and give: one entity, an array, or nothing.\<close>

datatype arg = Single addr | Several "addr list"

fun argList :: "arg \<Rightarrow> addr list" where
  "argList (Single a) = [a]"
| "argList (Several as) = as"

record ('v, 'x) crud =
  entityName :: string
  crDest :: dest
  newEntity :: "'v obj"                         \<comment> \<open>\<open>new this.entity()\<close>\<close>
  idOf :: "'v heap \<Rightarrow> addr \<Rightarrow> string"
  createFn :: "addr list \<Rightarrow> ('v, 'x, arg option) op"
  readFn :: "string option \<Rightarrow> ('v, 'x, arg option) op"
  updateFn :: "addr list \<Rightarrow> ('v, 'x, arg option) op"
  deleteFn :: "addr list \<Rightarrow> ('v, 'x, arg option) op"
  replaceFn :: "('v heap \<Rightarrow> addr \<Rightarrow> addr \<Rightarrow> bool) option"   \<comment> \<open>\<open>updateOrReplace\<close> gives \<open>replace\<close>\<close>

section \<open>The memo table\<close>

definition memoOf :: "dest \<Rightarrow> ('v, 'x) ctx \<Rightarrow> (addr obj) obj" where
  "memoOf d s = (case d of DestDb \<Rightarrow> memoDb s | DestCloud \<Rightarrow> memoCloud s)"

definition setMemoOf :: "dest \<Rightarrow> (addr obj) obj \<Rightarrow> ('v, 'x) ctx \<Rightarrow> ('v, 'x) ctx" where
  "setMemoOf d m s = (case d of DestDb \<Rightarrow> s\<lparr>memoDb := m\<rparr> | DestCloud \<Rightarrow> s\<lparr>memoCloud := m\<rparr>)"

text \<open>\<open>ctx.memo[dest][entityName] ?? {}\<close>\<close>

definition memoTable :: "('v, 'x) crud \<Rightarrow> ('v, 'x) ctx \<Rightarrow> addr obj" where
  "memoTable c s = (case map_of (memoOf (crDest c) s) (entityName c) of None \<Rightarrow> [] | Some t \<Rightarrow> t)"

definition setMemoTable :: "('v, 'x) crud \<Rightarrow> addr obj \<Rightarrow> ('v, 'x) ctx \<Rightarrow> ('v, 'x) ctx" where
  "setMemoTable c t s = setMemoOf (crDest c) (obj_set (entityName c) t (memoOf (crDest c) s)) s"

definition memoFind :: "('v, 'x) crud \<Rightarrow> ('v, 'x) ctx \<Rightarrow> string \<Rightarrow> addr option" where
  "memoFind c s ident = map_of (memoTable c s) ident"

definition memoPut :: "('v, 'x) crud \<Rightarrow> string \<Rightarrow> addr \<Rightarrow> ('v, 'x) ctx \<Rightarrow> ('v, 'x) ctx" where
  "memoPut c ident a s = setMemoTable c (obj_set ident a (memoTable c s)) s"

definition memoDrop :: "('v, 'x) crud \<Rightarrow> string \<Rightarrow> ('v, 'x) ctx \<Rightarrow> ('v, 'x) ctx" where
  "memoDrop c ident s = setMemoTable c (obj_delete ident (memoTable c s)) s"

lemma memoOf_setMemoOf [simp]: "memoOf d (setMemoOf d' m s) = (if d = d' then m else memoOf d s)"
  by (cases d; cases d') (simp_all add: memoOf_def setMemoOf_def)

lemma setMemoOf_frame [simp]:
  "heap (setMemoOf d m s) = heap s" "nextAddr (setMemoOf d m s) = nextAddr s"
  "world (setMemoOf d m s) = world s"
  by (cases d; simp add: setMemoOf_def)+

lemma memoOf_heap [simp]: "memoOf d (heap_update h s) = memoOf d s"
  by (cases d) (simp_all add: memoOf_def)

lemma memoTable_set [simp]: "memoTable c (setMemoTable c t s) = t"
  by (simp add: memoTable_def setMemoTable_def)

lemma memoOf_alloc [simp]: "memoOf d (nextAddr_update f s) = memoOf d s"
  by (cases d) (simp_all add: memoOf_def)

lemma memoTable_heap [simp]: "memoTable c (heap_update h s) = memoTable c s"
  by (simp add: memoTable_def)

lemma memo_frame [simp]:
  "heap (memoPut c k a s) = heap s" "heap (memoDrop c k s) = heap s"
  "world (memoPut c k a s) = world s" "world (memoDrop c k s) = world s"
  by (simp_all add: memoPut_def memoDrop_def setMemoTable_def)

lemma memoFind_heap [simp]:
  "memoFind c (heap_update h s) = memoFind c s" "memoFind c (nextAddr_update f s) = memoFind c s"
  by (rule ext, simp add: memoFind_def memoTable_def)+

lemma memoFind_put [simp]: "memoFind c (memoPut c k a s) = (memoFind c s)(k := Some a)"
  by (rule ext) (simp add: memoFind_def memoPut_def)

lemma memoFind_drop [simp]: "memoFind c (memoDrop c k s) = (memoFind c s)(k := None)"
  by (rule ext) (simp add: memoFind_def memoDrop_def)

definition memo_wf :: "('v, 'x) crud \<Rightarrow> ('v, 'x) ctx \<Rightarrow> bool" where
  "memo_wf c s = wf_keys (memoTable c s)"

definition clearTable :: "('v, 'x) crud \<Rightarrow> ('v, 'x) ctx \<Rightarrow> ('v, 'x) ctx" where
  "clearTable c s = setMemoTable c [] s"

interpretation memo: keyed_store "clearTable c s" "memoFind c" "memoPut c" "memoDrop c"
    "memoTable c" "memo_wf c"
  for c :: "('v, 'x) crud" and s :: "('v, 'x) ctx"
  by unfold_locales
     (auto simp: memo_wf_def memoFind_def clearTable_def memoPut_def memoDrop_def
       jsobj.invar_put jsobj.invar_drop)

section \<open>memo and unmemo\<close>

text \<open>\<open>Object.keys(e).forEach(k => (realE[k] = e[k]))\<close>\<close>

definition copyProps :: "addr \<Rightarrow> addr \<Rightarrow> 'v heap \<Rightarrow> 'v heap" where
  "copyProps src dst h = h(dst := fold (\<lambda>(k, v). obj_set k v) (h src) (h dst))"

definition memoOne :: "('v, 'x) crud \<Rightarrow> addr \<Rightarrow> ('v, 'x) ctx \<Rightarrow> addr \<times> ('v, 'x) ctx" where
  "memoOne c e s =
     (let ident = idOf c (heap s) e in
      case memoFind c s ident of
        None \<Rightarrow> (e, memoPut c ident e s)
      | Some realE \<Rightarrow> (realE, s\<lparr>heap := copyProps e realE (heap s)\<rparr>))"

fun memoAll :: "('v, 'x) crud \<Rightarrow> addr list \<Rightarrow> ('v, 'x) ctx \<Rightarrow> addr list \<times> ('v, 'x) ctx" where
  "memoAll c [] s = ([], s)"
| "memoAll c (e # es) s =
     (let (e', s1) = memoOne c e s; (es', s2) = memoAll c es s1 in (e' # es', s2))"

text \<open>
  \<open>memo(entity, ctx, input)\<close>: nothing for nothing; the array itself, updated in place, for an array
  when the input was an array or absent (\<open>keepArray\<close>); otherwise the first element.
\<close>

definition memoArg :: "('v, 'x) crud \<Rightarrow> arg option \<Rightarrow> bool \<Rightarrow> ('v, 'x, arg option) op" where
  "memoArg c entity keepArray s =
     (case entity of
        None \<Rightarrow> (Inr None, s)
      | Some (Single e) \<Rightarrow> (case memoOne c e s of (e', s') \<Rightarrow> (Inr (Some (Single e')), s'))
      | Some (Several es) \<Rightarrow>
          (case memoAll c es s of (es', s') \<Rightarrow>
             (Inr (if keepArray then Some (Several es')
                   else (case es' of [] \<Rightarrow> None | e' # _ \<Rightarrow> Some (Single e'))), s')))"

fun unmemoAll :: "('v, 'x) crud \<Rightarrow> addr list \<Rightarrow> ('v, 'x) ctx \<Rightarrow> ('v, 'x) ctx" where
  "unmemoAll c [] s = s"
| "unmemoAll c (e # es) s = unmemoAll c es (memoDrop c (idOf c (heap s) e) s)"

lemma unmemoAll_heap [simp]: "heap (unmemoAll c es s) = heap s"
  by (induction es arbitrary: s) simp_all

lemma unmemoAll_find:
  "memoFind c (unmemoAll c es s) k = (if k \<in> idOf c (heap s) ` set es then None else memoFind c s k)"
  by (induction es arbitrary: s) auto

section \<open>The five operations\<close>

fun isArray :: "arg \<Rightarrow> bool" where
  "isArray (Single _) = False"
| "isArray (Several _) = True"

definition crudError :: "('v, 'x) crud \<Rightarrow> string \<Rightarrow> js_err thrown \<Rightarrow> js_err thrown" where
  "crudError c verb e = prefixError (entityName c @ '' ''
     @ (case crDest c of DestDb \<Rightarrow> ''db'' | DestCloud \<Rightarrow> ''cloud'') @ '' '' @ verb @ '' error: '') e"

text \<open>
  \<open>create\<close> reserves the ids before the call.  Given an array, \<open>memo\<close> replaces its elements in place,
  so \<open>createFn\<close> gets the memoised objects; given one entity, it gets that entity.
\<close>

definition create :: "('v, 'x) crud \<Rightarrow> arg \<Rightarrow> ('v, 'x, arg option) op" where
  "create c e s =
     (case memoAll c (argList e) s of (es', s1) \<Rightarrow>
      let es = (if isArray e then es' else argList e) in
      (case createFn c es s1 of
         (Inl err, s2) \<Rightarrow> (Inl (crudError c ''create'' err), unmemoAll c es s2)
       | (Inr out, s2) \<Rightarrow> memoArg c out (isArray e) s2))"

text \<open>
  \<open>read\<close> with an id: a placeholder reserves the id, so that a circular read finds it; an object with
  properties is a hit and is returned without a call.
\<close>

definition reserve :: "('v, 'x) crud \<Rightarrow> string \<Rightarrow> ('v, 'x) ctx \<Rightarrow> ('v, 'x) ctx" where
  "reserve c ident s =
     (case memoFind c s ident of
        Some _ \<Rightarrow> s
      | None \<Rightarrow> memoPut c ident (nextAddr s)
          (s\<lparr> heap := (heap s)(nextAddr s := newEntity c), nextAddr := Suc (nextAddr s) \<rparr>))"

definition fetchById :: "('v, 'x) crud \<Rightarrow> string \<Rightarrow> ('v, 'x, arg option) op" where
  "fetchById c ident s =
     (case readFn c (Some ident) s of
        (Inl err, s') \<Rightarrow> (Inl (crudError c ''read'' err), memoDrop c ident s')
      | (Inr None, s') \<Rightarrow> (Inr None, memoDrop c ident s')
      | (Inr (Some (Several [])), s') \<Rightarrow> (Inr None, memoDrop c ident s')
      | (Inr (Some (Several [e])), s') \<Rightarrow> memoArg c (Some (Single e)) False s'
      | (Inr out, s') \<Rightarrow> memoArg c out False s')"

definition readAll :: "('v, 'x) crud \<Rightarrow> ('v, 'x, arg option) op" where
  "readAll c s =
     (case readFn c None s of
        (Inl err, s') \<Rightarrow> (Inl (crudError c ''read'' err), s')
      | (Inr None, s') \<Rightarrow> (Inr None, s')
      | (Inr (Some (Several [])), s') \<Rightarrow> (Inr (Some (Several [])), s')
      | (Inr out, s') \<Rightarrow> memoArg c out True s')"

definition read :: "('v, 'x) crud \<Rightarrow> string option \<Rightarrow> ('v, 'x, arg option) op" where
  "read c ident s =
     (case ident of
        None \<Rightarrow> readAll c s
      | Some i \<Rightarrow>
          if i = [] then readAll c s
          else (case memoFind c s i of
                  Some a \<Rightarrow>
                    if heap s a = [] then fetchById c i s else (Inr (Some (Single a)), s)
                | None \<Rightarrow> fetchById c i (reserve c i s)))"

definition update :: "('v, 'x) crud \<Rightarrow> arg \<Rightarrow> ('v, 'x, arg option) op" where
  "update c e s =
     (case updateFn c (argList e) s of
        (Inl err, s') \<Rightarrow> (Inl (crudError c ''update'' err), s')
      | (Inr out, s') \<Rightarrow> memoArg c out (isArray e) s')"

text \<open>\<open>es.map(e2 => ({ ...e2 }))\<close>: fresh objects with the same properties\<close>

fun cloneAll :: "addr list \<Rightarrow> ('v, 'x) ctx \<Rightarrow> addr list \<times> ('v, 'x) ctx" where
  "cloneAll [] s = ([], s)"
| "cloneAll (e # es) s =
     (let s1 = s\<lparr> heap := (heap s)(nextAddr s := heap s e), nextAddr := Suc (nextAddr s) \<rparr>;
          (es', s2) = cloneAll es s1
      in (nextAddr s # es', s2))"

definition delete :: "('v, 'x) crud \<Rightarrow> arg \<Rightarrow> ('v, 'x, arg option) op" where
  "delete c e s =
     (case cloneAll (argList e) s of (esClone, s1) \<Rightarrow>
      (case deleteFn c (argList e) s1 of
         (Inl err, s2) \<Rightarrow> (Inl (crudError c ''delete'' err), s2)
       | (Inr out, s2) \<Rightarrow>
           (Inr (case out of
                   Some (Several os) \<Rightarrow>
                     if isArray e then out
                     else (case os of [] \<Rightarrow> None | x # _ \<Rightarrow> Some (Single x))
                 | _ \<Rightarrow> out),
            unmemoAll c esClone s2)))"

definition replaces :: "('v, 'x) crud \<Rightarrow> 'v heap \<Rightarrow> addr \<Rightarrow> addr \<Rightarrow> bool" where
  "replaces c h prev next = (case replaceFn c of None \<Rightarrow> False | Some f \<Rightarrow> f h prev next)"

section \<open>What the cache guarantees\<close>

lemma fold_obj_set_find:
  "map_of (fold (\<lambda>(k, v). obj_set k v) kvs ob) = map_of ob ++ map_of (rev kvs)"
proof (induction kvs arbitrary: ob)
  case (Cons kv kvs)
  obtain k v where [simp]: "kv = (k, v)" by (rule prod.exhaust)
  show ?case
    using Cons.IH [of "obj_set k v ob"]
    by (simp add: map_add_assoc [symmetric] del: map_add_assoc) (rule ext, simp add: map_add_def split: option.splits)
qed simp

lemma map_of_rev_wf: "wf_keys m \<Longrightarrow> map_of (rev m) = map_of m"
proof (rule ext)
  fix k
  assume "wf_keys m"
  then have "map_of (rev m) k = Some v \<longleftrightarrow> map_of m k = Some v" for v
    by (simp add: map_of_eq_Some_iff rev_map [symmetric] distinct_rev)
  then show "map_of (rev m) k = map_of m k"
    by (metis not_Some_eq)
qed

lemma copyProps_find:
  "wf_keys (h src) \<Longrightarrow> map_of (copyProps src dst h dst) = map_of (h dst) ++ map_of (h src)"
  by (simp add: copyProps_def fold_obj_set_find map_of_rev_wf)

lemma memoOne_find:
  "memoOne c e s = (e', s') \<Longrightarrow> memoFind c s' (idOf c (heap s) e) = Some e'"
  by (auto simp: memoOne_def Let_def split: option.splits)

lemma memoOne_stable:
  "memoOne c e s = (e', s') \<Longrightarrow> memoFind c s k = Some a \<Longrightarrow> memoFind c s' k = Some a"
  by (auto simp: memoOne_def Let_def split: option.splits)

lemma memoAll_stable:
  "memoAll c es s = (es', s') \<Longrightarrow> memoFind c s k = Some a \<Longrightarrow> memoFind c s' k = Some a"
proof (induction es arbitrary: s es')
  case (Cons e es)
  obtain e1 s1 where one: "memoOne c e s = (e1, s1)" by (rule prod.exhaust)
  obtain es1 s2 where rest: "memoAll c es s1 = (es1, s2)" by (rule prod.exhaust)
  from Cons.prems(1) one rest have eq: "s2 = s'" by simp
  show ?case
    using Cons.IH [OF rest [unfolded eq] memoOne_stable [OF one Cons.prems(2)]] .
qed simp

text \<open>
  C11. One object per identifier: when an object is already memoised under the id of \<open>e\<close>, memoising
  \<open>e\<close> answers that very object, leaves every id where it was, and gives the object the properties of
  \<open>e\<close> on top of its own; so every other reference to the entity sees the update.
\<close>

theorem memo_keeps_identity:
  assumes "memoFind c s (idOf c (heap s) e) = Some a" and "wf_keys (heap s e)"
  shows "\<exists>s'. memoOne c e s = (a, s') \<and> memoFind c s' = memoFind c s \<and>
    map_of (heap s' a) = map_of (heap s a) ++ map_of (heap s e) \<and>
    (\<forall>b. b \<noteq> a \<longrightarrow> heap s' b = heap s b)"
  using assms
  by (simp add: memoOne_def copyProps_find) (simp add: copyProps_def)

lemma memoArg_Inr: "\<exists>r. fst (memoArg c out k s) = Inr r"
  by (auto simp: memoArg_def split: option.splits arg.splits prod.splits list.splits)

lemma memoAll_length: "memoAll c es s = (es', s') \<Longrightarrow> length es' = length es"
  by (induction es arbitrary: s es') (auto split: prod.splits)

lemma memoArg_None: "memoArg c out k s = (Inr None, s') \<Longrightarrow> out = None \<or> out = Some (Several [])"
  by (auto simp: memoArg_def split: option.splits arg.splits prod.splits list.splits if_splits
      dest!: memoAll_length)

text \<open>
  A hit costs nothing: an id under which an object with properties is memoised is answered from
  the memo, without calling the mapper's read function and without changing the state.
\<close>

theorem read_hit:
  assumes "memoFind c s i = Some a" and "heap s a \<noteq> []" and "i \<noteq> []"
  shows "read c (Some i) s = (Inr (Some (Single a)), s)"
  using assms by (simp add: read_def)

lemma fetch_forgets:
  assumes "fetchById c i s = (r, s')" and "\<forall>x. r \<noteq> Inr (Some x)"
  shows "memoFind c s' i = None"
proof -
  obtain q s1 where q: "readFn c (Some i) s = (q, s1)" by (rule prod.exhaust)
  have arg: "\<not> (\<exists>k e. memoArg c (Some e) k s1 = (r, s') \<and> e \<noteq> Several [])"
    using assms(2) memoArg_Inr [of c _ _ s1] memoArg_None by (metis fst_conv option.distinct(1) option.exhaust option.inject)
  show ?thesis
  proof (cases q)
    case (Inl err)
    with assms(1) q show ?thesis by (auto simp: fetchById_def)
  next
    case (Inr out)
    consider "out = None" | "out = Some (Several [])" | e where "out = Some e" "e \<noteq> Several []" by blast
    then show ?thesis
    proof cases
      case 3
      with assms(1) q Inr arg show ?thesis
        by (cases e) (auto simp: fetchById_def split: list.splits)
    qed (use assms(1) q Inr in \<open>auto simp: fetchById_def\<close>)
  qed
qed

text \<open>
  A read that finds nothing leaves nothing behind: when \<open>read\<close> by id throws or answers
  \<open>undefined\<close>, the placeholder that reserved the id is gone from the memo.
\<close>

theorem read_forgets_placeholder:
  assumes "read c (Some i) s = (r, s')" and "i \<noteq> []" and "\<forall>x. r \<noteq> Inr (Some x)"
  shows "memoFind c s' i = None"
  using assms by (auto simp: read_def split: option.splits if_splits dest: fetch_forgets)

text \<open>
  A placeholder does not stop a circular read: an id whose placeholder is still empty is fetched again.
\<close>

lemma read_placeholder_fetches:
  assumes "memoFind c s i = Some a" and "heap s a = []" and "i \<noteq> []"
  shows "read c (Some i) s = fetchById c i s"
  using assms by (simp add: read_def)

text \<open>
  A create that fails frees the ids it had reserved: afterwards none of the objects handed to the
  mapper's create function is memoised under its id.
\<close>

theorem create_failure_unmemos:
  assumes "create c e s = (Inl err, s')"
  shows "\<forall>a \<in> set (if isArray e then fst (memoAll c (argList e) s) else argList e).
    memoFind c s' (idOf c (heap s') a) = None"
proof -
  obtain es' s1 where m: "memoAll c (argList e) s = (es', s1)" by (rule prod.exhaust)
  let ?es = "if isArray e then es' else argList e"
  obtain q s2 where q: "createFn c ?es s1 = (q, s2)" by (rule prod.exhaust)
  show ?thesis
  proof (cases q)
    case (Inl x)
    with assms m q have "s' = unmemoAll c ?es s2" by (simp add: create_def Let_def)
    then show ?thesis by (simp add: m unmemoAll_find)
  next
    case (Inr out)
    with assms m q have "memoArg c out (isArray e) s2 = (Inl err, s')" by (simp add: create_def Let_def)
    then show ?thesis using memoArg_Inr [of c out "isArray e" s2] by simp
  qed
qed

lemma cloneAll_props:
  assumes "\<forall>a \<in> set es. a < nextAddr s"
  shows "\<exists>es' s1. cloneAll es s = (es', s1) \<and> map (heap s1) es' = map (heap s) es
     \<and> (\<forall>a < nextAddr s. heap s1 a = heap s a) \<and> memoFind c s1 = memoFind c s"
  using assms
proof (induction es arbitrary: s)
  case (Cons e es)
  define t where "t = s\<lparr> heap := (heap s)(nextAddr s := heap s e), nextAddr := Suc (nextAddr s) \<rparr>"
  have "\<forall>a \<in> set es. a < nextAddr t" using Cons.prems by (auto simp: t_def)
  from Cons.IH [OF this] obtain es' s1 where IH: "cloneAll es t = (es', s1)"
      "map (heap s1) es' = map (heap t) es" "\<forall>a < nextAddr t. heap s1 a = heap t a"
      "memoFind c s1 = memoFind c t" by blast
  have "map (heap t) es = map (heap s) es"
    using Cons.prems by (auto simp: t_def)
  with IH show ?case by (auto simp: t_def [symmetric] Let_def) (auto simp: t_def)
qed simp

text \<open>
  A successful delete forgets the deleted entities by the ids they had before the call, even when
  the mapper's delete function strips the generated id from the objects: the clones made beforehand
  hold the properties of the originals, and no id of a clone is memoised afterwards.
\<close>

theorem delete_forgets:
  assumes "delete c e s = (Inr out, s')" and "\<forall>a \<in> set (argList e). a < nextAddr s"
  shows "\<exists>clones s1. cloneAll (argList e) s = (clones, s1) \<and>
    map (heap s1) clones = map (heap s) (argList e) \<and>
    (\<forall>k \<in> set clones. memoFind c s' (idOf c (heap s') k) = None)"
proof -
  obtain es' s1 where cl: "cloneAll (argList e) s = (es', s1)" "map (heap s1) es' = map (heap s) (argList e)"
    using cloneAll_props [OF assms(2)] by blast
  obtain q s2 where q: "deleteFn c (argList e) s1 = (q, s2)" by (rule prod.exhaust)
  from assms(1) cl(1) q have "s' = unmemoAll c es' s2"
    by (cases q) (simp_all add: delete_def)
  with cl show ?thesis by (auto simp: unmemoAll_find)
qed

section \<open>A concrete mapper\<close>

text \<open>A table of names with one property, used to exercise the cache.\<close>

definition demoCrud :: "(string, string) crud" where
  "demoCrud = \<lparr> entityName = ''Vpc'', crDest = DestCloud, newEntity = [],
     idOf = (\<lambda>h a. case map_of (h a) ''vpcId'' of None \<Rightarrow> ''undefined'' | Some v \<Rightarrow> v),
     createFn = (\<lambda>es s. if world s = ''down'' then (Inl (ErrObj (Err ''boom'')), s)
                        else (Inr (Some (Several es)), s)),
     readFn = (\<lambda>i s. if world s = ''down'' then (Inl (ErrObj (Err ''boom'')), s) else (Inr None, s)),
     updateFn = (\<lambda>es s. (Inr None, s)),
     deleteFn = (\<lambda>es s. (Inr None, s\<lparr> heap := (\<lambda>a. if a \<in> set es then [] else heap s a) \<rparr>)),
     replaceFn = None \<rparr>"

definition demoCtx :: "string \<Rightarrow> (string, string) ctx" where
  "demoCtx w = \<lparr> heap = (\<lambda>a. if a = 0 then [(''vpcId'', ''v1''), (''state'', ''old'')]
                             else if a = 1 then [(''vpcId'', ''v1''), (''state'', ''new'')] else []),
     nextAddr = 2, memoDb = [], memoCloud = [(''Vpc'', [(''v1'', 0)])], world = w \<rparr>"

lemmas demo_cache_simps = demoCrud_def demoCtx_def memoFind_def memoTable_def memoOf_def

theorem memo_keeps_identity_witness:
  "\<exists>s'. memoOne demoCrud 1 (demoCtx ''up'') = (0, s') \<and>
     map_of (heap s' 0) ''state'' = Some ''new''"
proof -
  have "memoFind demoCrud (demoCtx ''up'') (idOf demoCrud (heap (demoCtx ''up'')) 1) = Some 0"
    and "wf_keys (heap (demoCtx ''up'') 1)"
    by (simp_all add: demo_cache_simps)
  from memo_keeps_identity [OF this] obtain s' where
    "memoOne demoCrud 1 (demoCtx ''up'') = (0, s')"
    "map_of (heap s' 0) = map_of (heap (demoCtx ''up'') 0) ++ map_of (heap (demoCtx ''up'') 1)" by blast
  then show ?thesis by (simp add: demoCtx_def)
qed

theorem read_hit_witness:
  "read demoCrud (Some ''v1'') (demoCtx ''down'') = (Inr (Some (Single 0)), demoCtx ''down'')"
  by (rule read_hit) (simp_all add: demo_cache_simps)

theorem read_forgets_placeholder_witness:
  "\<exists>err s'. read demoCrud (Some ''v2'') (demoCtx ''down'') = (Inl err, s') \<and>
     memoFind demoCrud s' ''v2'' = None"
proof -
  obtain err s' where r: "read demoCrud (Some ''v2'') (demoCtx ''down'') = (Inl err, s')"
    by (simp add: read_def reserve_def fetchById_def demo_cache_simps memoPut_def setMemoTable_def setMemoOf_def)
  from read_forgets_placeholder [OF r] r show ?thesis by simp
qed

theorem create_failure_unmemos_witness:
  "\<exists>err s'. create demoCrud (Single 1) (demoCtx ''down'') = (Inl err, s') \<and>
     memoFind demoCrud s' (idOf demoCrud (heap s') 1) = None"
proof -
  obtain err s' where r: "create demoCrud (Single 1) (demoCtx ''down'') = (Inl err, s')"
    by (simp add: create_def memoOne_def demo_cache_simps Let_def)
  from create_failure_unmemos [OF r] r show ?thesis by simp
qed

theorem delete_forgets_witness:
  "\<exists>s'. delete demoCrud (Single 0) (demoCtx ''up'') = (Inr None, s') \<and>
     memoFind demoCrud s' (idOf demoCrud (heap s') 2) = None"
proof -
  obtain s' where r: "delete demoCrud (Single 0) (demoCtx ''up'') = (Inr None, s')"
    by (simp add: delete_def Let_def demoCrud_def)
  have "\<forall>a \<in> set (argList (Single 0)). a < nextAddr (demoCtx ''up'')" by (simp add: demoCtx_def)
  from delete_forgets [OF r this] r show ?thesis
    by (auto simp: Let_def demoCtx_def)
qed

end
