(* ===== verification/Aws_Macros.thy ===== *)
theory Aws_Macros
  imports Prelude Js_Value
begin

text \<open>
  The helpers that build AWS calls: \<open>src/src/services/aws_macros.ts\<close>.

  A paginator of the SDK is a parameter: given the arguments, an action that yields the next page or
  ends.  The client objects, which the constructor of \<open>AWS\<close> only passes on, are not modelled.
\<close>

section \<open>Calls\<close>

definition crudBuilderFormat ::
  "('c \<Rightarrow> 'i \<Rightarrow> ('w, 'e, 'o) action) \<Rightarrow> ('a \<Rightarrow> 'i) \<Rightarrow> ('o \<Rightarrow> 'a \<Rightarrow> 'r) \<Rightarrow> 'c \<Rightarrow> 'a \<Rightarrow> ('w, 'e, 'r) action" where
  "crudBuilderFormat method argMapper retFormatter client args =
     andThen (method client (argMapper args)) (\<lambda>res. ret (retFormatter res args))"

definition crudBuilder :: "('c \<Rightarrow> 'i \<Rightarrow> ('w, 'e, 'o) action) \<Rightarrow> ('a \<Rightarrow> 'i) \<Rightarrow> 'c \<Rightarrow> 'a \<Rightarrow> ('w, 'e, 'o) action" where
  "crudBuilder method argMapper client args = method client (argMapper args)"

text \<open>The array may be a promise, of nothing.\<close>

definition mapLin :: "('w, 'e, 'a list option) action \<Rightarrow> ('a \<Rightarrow> ('w, 'e, 'b) action) \<Rightarrow> ('w, 'e, 'b list) action" where
  "mapLin arrProm mapper =
     andThen arrProm (\<lambda>inp. case inp of None \<Rightarrow> ret [] | Some xs \<Rightarrow> mapM mapper xs)"

section \<open>Pages\<close>

text \<open>\<open>...(v ?? [])\<close>: arrays and strings can be spread.\<close>

fun spread :: "jsval \<Rightarrow> jsval list option" where
  "spread JUndef = Some []"
| "spread JNull = Some []"
| "spread (JArr xs) = Some xs"
| "spread (JStr s) = Some (map (\<lambda>c. JStr [c]) s)"
| "spread _ = None"

text \<open>What a page contributes; reading a property of \<open>undefined\<close> or \<open>null\<close> is a \<open>TypeError\<close>, too.\<close>

definition readProp :: "jsval \<Rightarrow> string \<Rightarrow> jsval option" where
  "readProp v k = (if v = JUndef \<or> v = JNull then None else Some (getProp v k))"

definition propItems :: "string \<Rightarrow> jsval \<Rightarrow> jsval list option" where
  "propItems propName page = (case readProp page propName of None \<Rightarrow> None | Some v \<Rightarrow> spread v)"

fun collectItems :: "('a \<Rightarrow> 'b list option) \<Rightarrow> 'a list \<Rightarrow> 'b list option" where
  "collectItems f [] = Some []"
| "collectItems f (x # xs) =
     (case f x of None \<Rightarrow> None | Some ys \<Rightarrow> map_option ((@) ys) (collectItems f xs))"

definition pageItems :: "string \<Rightarrow> string option \<Rightarrow> jsval \<Rightarrow> jsval list option" where
  "pageItems propName pageName page =
     (if (case pageName of None \<Rightarrow> False | Some n \<Rightarrow> n \<noteq> [])
      then (case propItems (the pageName) page of None \<Rightarrow> None | Some rs \<Rightarrow> collectItems (propItems propName) rs)
      else propItems propName page)"

text \<open>
  \<open>for await (const page of paginator)\<close> over at most \<open>fuel\<close> pages: \<open>None\<close> when the paginator has not
  ended by then.
\<close>

fun drain :: "('w, 'e, jsval option) action \<Rightarrow> (jsval \<Rightarrow> jsval list option) \<Rightarrow> 'e \<Rightarrow> nat \<Rightarrow> jsval list \<Rightarrow>
    ('w, 'e, jsval list) paction" where
  "drain nextPage items typeErr 0 vals = (\<lambda>w. None)"
| "drain nextPage items typeErr (Suc fuel) vals = (\<lambda>w.
     case nextPage w of
       (Inl e, w') \<Rightarrow> Some (Inl e, w')
     | (Inr None, w') \<Rightarrow> Some (Inr vals, w')
     | (Inr (Some page), w') \<Rightarrow>
         (case items page of None \<Rightarrow> Some (Inl typeErr, w')
          | Some xs \<Rightarrow> drain nextPage items typeErr fuel (vals @ xs) w'))"

definition defaultPageSize :: nat where
  "defaultPageSize = 25"

definition paginateBuilder ::
  "('c \<Rightarrow> nat \<Rightarrow> jsval \<Rightarrow> ('w, 'e, jsval option) action) \<Rightarrow> string \<Rightarrow> string option \<Rightarrow> nat option \<Rightarrow> ('a \<Rightarrow> jsval) option
     \<Rightarrow> 'e \<Rightarrow> nat \<Rightarrow> 'c \<Rightarrow> 'a \<Rightarrow> ('w, 'e, jsval list) paction" where
  "paginateBuilder paginateFn propName pageName pageSize argMapper typeErr fuel client args =
     drain (paginateFn client (case pageSize of None \<Rightarrow> defaultPageSize | Some n \<Rightarrow> n)
        (case argMapper of None \<Rightarrow> JObj [] | Some f \<Rightarrow> f args))
       (pageItems propName pageName) typeErr fuel []"

section \<open>Tags\<close>

type_synonym tags = "string obj"

definition eqTags :: "tags option \<Rightarrow> tags option \<Rightarrow> bool" where
  "eqTags a b =
     (let ta = (case a of None \<Rightarrow> [] | Some t \<Rightarrow> t); tb = (case b of None \<Rightarrow> [] | Some t \<Rightarrow> t) in
      length (obj_keys ta) = length (obj_keys tb) \<and> list_all (\<lambda>k. map_of ta k = map_of tb k) (obj_keys ta))"

section \<open>Claims\<close>

definition tagMap :: "tags option \<Rightarrow> string \<rightharpoonup> string" where
  "tagMap t = map_of (case t of None \<Rightarrow> [] | Some kvs \<Rightarrow> kvs)"

lemma same_domain:
  assumes d: "distinct (map fst xs)" "distinct (map fst ys)" and len: "length xs = length ys"
    and eq: "\<And>k. k \<in> fst ` set xs \<Longrightarrow> map_of xs k = map_of ys k"
  shows "map_of xs = map_of ys"
proof -
  have sub: "fst ` set xs \<subseteq> fst ` set ys"
  proof
    fix k assume k: "k \<in> fst ` set xs"
    then have "map_of xs k \<noteq> None" by (metis map_of_eq_None_iff)
    with eq [OF k] have "map_of ys k \<noteq> None" by simp
    then show "k \<in> fst ` set ys" by (metis map_of_eq_None_iff)
  qed
  have "card (fst ` set xs) = length xs" "card (fst ` set ys) = length ys"
    using d distinct_card [of "map fst xs"] distinct_card [of "map fst ys"] by simp_all
  with sub len have "fst ` set xs = fst ` set ys" by (intro card_subset_eq) auto
  then show ?thesis
    using eq by (intro ext) (metis map_of_eq_None_iff)
qed

lemma eqTags_as_maps:
  assumes "\<forall>t. a = Some t \<longrightarrow> wf_keys t" and "\<forall>t. b = Some t \<longrightarrow> wf_keys t"
  shows "eqTags a b \<longleftrightarrow> tagMap a = tagMap b"
proof -
  obtain ta tb where t: "ta = (case a of None \<Rightarrow> [] | Some t \<Rightarrow> t)" "tb = (case b of None \<Rightarrow> [] | Some t \<Rightarrow> t)" by blast
  with assms have d: "distinct (map fst ta)" "distinct (map fst tb)" by (auto split: option.splits)
  have E: "eqTags a b = (length ta = length tb \<and> (\<forall>k\<in>fst ` set ta. map_of ta k = map_of tb k))"
    by (simp add: eqTags_def t [symmetric] obj_keys_def list_all_iff)
  have M: "tagMap a = map_of ta" "tagMap b = map_of tb" by (simp_all add: tagMap_def t)
  show ?thesis
  proof
    assume "eqTags a b" then show "tagMap a = tagMap b" using same_domain [OF d] E M by metis
  next
    assume eq: "tagMap a = tagMap b"
    then have "fst ` set ta = fst ` set tb" using M by (metis dom_map_of_conv_image_fst)
    then have "length ta = length tb" using d by (metis distinct_card length_map list.set_map)
    with eq E M show "eqTags a b" by simp
  qed
qed

text \<open>
  Tags are compared as maps: \<open>eqTags\<close> holds exactly when both sides have the same keys with the same
  values, an absent object counting as an empty one, in whatever order the keys come.
\<close>

theorem eqTags_iff:
  assumes "\<forall>t. a = Some t \<longrightarrow> wf_keys t" and "\<forall>t. b = Some t \<longrightarrow> wf_keys t"
  shows "eqTags a b \<longleftrightarrow> tagMap a = tagMap b"
  using assms by (rule eqTags_as_maps)

theorem eqTags_iff_witness:
  "eqTags (Some [(''b'', ''2''), (''a'', ''1'')]) (Some [(''a'', ''1''), (''b'', ''2'')]) \<and> \<not> eqTags (Some [(''a'', ''1'')]) None"
proof -
  have "eqTags (Some [(''b'', ''2''), (''a'', ''1'')]) (Some [(''a'', ''1''), (''b'', ''2'')])"
    by (subst eqTags_iff) (auto simp: tagMap_def)
  moreover have "\<not> eqTags (Some [(''a'', ''1'')]) None" by (simp add: eqTags_def obj_keys_def)
  ultimately show ?thesis by simp
qed

fun yields :: "('w, 'e, jsval option) action \<Rightarrow> jsval list \<Rightarrow> 'w \<Rightarrow> 'w \<Rightarrow> bool" where
  "yields nextPage [] w w' = (nextPage w = (Inr None, w'))"
| "yields nextPage (p # ps) w w' = (case nextPage w of (Inr (Some q), w1) \<Rightarrow> q = p \<and> yields nextPage ps w1 w' | _ \<Rightarrow> False)"

lemma drain_all:
  "yields nextPage pages w w' \<Longrightarrow> length pages < fuel \<Longrightarrow> collectItems items pages = Some xs \<Longrightarrow>
   drain nextPage items typeErr fuel vals w = Some (Inr (vals @ xs), w')"
proof (induction pages arbitrary: w fuel vals xs)
  case Nil
  then show ?case by (cases fuel) auto
next
  case (Cons p pages)
  from Cons.prems(1) obtain w1 where p: "nextPage w = (Inr (Some p), w1)" "yields nextPage pages w1 w'"
    by (auto split: prod.splits sum.splits option.splits)
  from Cons.prems(3) obtain ys zs where i: "items p = Some ys" "collectItems items pages = Some zs" "xs = ys @ zs"
    by (auto split: option.splits)
  from Cons.prems(2) obtain n where "fuel = Suc n" "length pages < n" by (cases fuel) auto
  with p i Cons.IH [OF p(2) _ i(2), of n "vals @ ys"] show ?case by simp
qed

text \<open>
  A paginated read collects every page: when the paginator yields some pages and ends, the result is
  the items of all of them in order (a page without the property contributes none), and it stops with
  a \<open>TypeError\<close> only for a page whose property cannot be spread.
\<close>

theorem paginate_collects:
  assumes "yields (paginateFn client (case pageSize of None \<Rightarrow> 25 | Some n \<Rightarrow> n) (case argMapper of None \<Rightarrow> JObj [] | Some f \<Rightarrow> f args)) pages w w'"
    and "length pages < fuel" and "collectItems (pageItems propName pageName) pages = Some xs"
  shows "paginateBuilder paginateFn propName pageName pageSize argMapper typeErr fuel client args w = Some (Inr xs, w')"
  using drain_all [OF assms(1-3), of typeErr "[]"] by (cases pageSize) (simp_all add: paginateBuilder_def defaultPageSize_def)

text \<open>A paginator over a list of pages.\<close>

definition listPages :: "unit \<Rightarrow> nat \<Rightarrow> jsval \<Rightarrow> (jsval list, string, jsval option) action" where
  "listPages c n inp = (\<lambda>ps. case ps of [] \<Rightarrow> (Inr None, []) | p # qs \<Rightarrow> (Inr (Some p), qs))"

theorem paginate_collects_witness:
  "paginateBuilder listPages ''Instances'' (Some ''Reservations'') None None ''TypeError'' 3 () ()
     [JObj [(''Reservations'', JArr [JObj [(''Instances'', JArr [JNum 1, JNum 2])], JObj []])], JObj []] = Some (Inr [JNum 1, JNum 2], [])"
  by (rule paginate_collects [where pages = "[JObj [(''Reservations'', JArr [JObj [(''Instances'', JArr [JNum 1, JNum 2])], JObj []])], JObj []]"])
    (simp_all add: listPages_def pageItems_def propItems_def readProp_def getProp_def)

text \<open>
  \<open>mapLin\<close> treats the items one after the other: it returns the results in order, and at the first
  item that throws it stops with that error, after the effects of the items before it.
\<close>

theorem mapLin_stops:
  assumes "mapM mapper xs w = (Inr ys, w1)" and "mapper x w1 = (Inl e, w2)" and "arrProm w0 = (Inr (Some (xs @ x # zs)), w)"
  shows "mapLin arrProm mapper w0 = (Inl e, w2)"
proof -
  have "mapM mapper (xs @ x # zs) w = (Inl e, w2)" using assms(1,2)
  proof (induction xs arbitrary: w ys)
    case (Cons a xs)
    from Cons.prems(1) obtain b w3 bs where "mapper a w = (Inr b, w3)" "mapM mapper xs w3 = (Inr bs, w1)"
      by (auto simp: andThen_Inr_iff)
    with Cons.IH [of w3 bs] Cons.prems(2) show ?case by simp
  qed simp
  with assms(3) show ?thesis by (simp add: mapLin_def)
qed

theorem mapLin_stops_witness:
  "mapLin (ret (Some [1, 2, 0, 3])) (\<lambda>n s. if n = 0 then (Inl ''zero'', s) else (Inr (n + 1), s @ [n])) ([] :: nat list)
     = (Inl ''zero'', [1, 2])"
  by (rule mapLin_stops [where xs = "[1, 2]" and x = 0 and zs = "[3]" and ys = "[2, 3]" and w = "[]" and ?w1.0 = "[1, 2]"])
    (simp_all add: andThen_def)

end
