(* ===== verification/Typeorm.thy ===== *)
theory Typeorm
  imports Js_Value
begin

text \<open>
  \<open>src/src/services/typeorm.ts\<close>: the parts of \<open>TypeormWrapper\<close> with logic of their own.  The
  repository of the ORM is a parameter: \<open>save\<close> is \<open>repository.save\<close> on an array, which answers the
  saved objects with their generated columns filled in (the library fills them in place).

  \<^item> \<open>orm_save\<close> cuts arrays of more than 100 values into batches, saved one after the other.
  \<^item> \<open>updateNulls\<close> turns the \<open>null\<close> properties of what was saved into \<open>undefined\<close>.
  \<^item> \<open>getVersionString\<close> reads the version off the first module name of the database.
\<close>

section \<open>Saving in batches\<close>

definition batchSize :: nat where
  "batchSize = 100"

definition slice :: "'a list \<Rightarrow> nat \<Rightarrow> nat \<Rightarrow> 'a list" where
  "slice xs i j = take (j - i) (drop i xs)"

function saveFrom :: "('v list \<Rightarrow> ('s, 'e, 'v list) action) \<Rightarrow> 'v list \<Rightarrow> nat \<Rightarrow> ('s, 'e, 'v list) action" where
  "saveFrom save value i =
     (if i < length value
      then andThen (save (slice value i (i + batchSize)))
             (\<lambda>saved. andThen (saveFrom save value (i + batchSize)) (\<lambda>rest. ret (saved @ rest)))
      else ret [])"
  by pat_completeness auto
termination
  by (relation "measure (\<lambda>(save, value, i). length value - i)") (auto simp: batchSize_def)

declare saveFrom.simps [simp del]

definition nullToUndef :: "jsval obj \<Rightarrow> jsval obj" where
  "nullToUndef ob = map (\<lambda>(k, v). (k, if v = JNull then JUndef else v)) ob"

definition updateNulls :: "('v \<Rightarrow> 'v) \<Rightarrow> 'v list \<Rightarrow> 'v list" where
  "updateNulls clear vs = map clear vs"

definition orm_save ::
  "('v \<Rightarrow> 'v) \<Rightarrow> ('v list \<Rightarrow> ('s, 'e, 'v list) action) \<Rightarrow> 'v list \<Rightarrow> ('s, 'e, 'v list) action" where
  "orm_save clear save value =
     andThen (if length value > batchSize then saveFrom save value 0 else save value)
             (\<lambda>saved. ret (updateNulls clear saved))"

fun batches :: "nat \<Rightarrow> 'a list \<Rightarrow> 'a list list" where
  "batches 0 vs = []"
| "batches (Suc n) vs = (if vs = [] then [] else take batchSize vs # batches n (drop batchSize vs))"

lemma saveFrom_batches:
  "length value - i \<le> n \<Longrightarrow>
     saveFrom save value i = andThen (mapM save (batches n (drop i value))) (\<lambda>rs. ret (concat rs))"
proof (induction n arbitrary: i)
  case 0
  then show ?case by (subst saveFrom.simps) (simp del: ret_apply)
next
  case (Suc n)
  show ?case
  proof (cases "i < length value")
    case True
    have "saveFrom save value (i + batchSize)
        = andThen (mapM save (batches n (drop (i + batchSize) value))) (\<lambda>rs. ret (concat rs))"
      using Suc.prems by (intro Suc.IH) (simp add: batchSize_def)
    with True show ?thesis
      by (subst saveFrom.simps)
        (simp add: slice_def andThen_assoc add.commute del: ret_apply)
  next
    case False
    then show ?thesis by (subst saveFrom.simps) (simp del: ret_apply)
  qed
qed

lemma batches_concat: "length vs \<le> n \<Longrightarrow> concat (batches n vs) = vs"
  by (induction n arbitrary: vs) (auto simp: batchSize_def)

lemma batches_bounds: "b \<in> set (batches n vs) \<Longrightarrow> b \<noteq> [] \<and> length b \<le> batchSize"
  by (induction n arbitrary: vs) (auto simp: batchSize_def split: if_splits)

text \<open>
  An array of more than 100 values is saved in batches: the repository gets, one after the other,
  non-empty batches of at most 100 values that put together are the array, so each value is saved
  exactly once and in order, and a failing batch keeps the later ones from being saved.
\<close>

theorem orm_save_batches:
  assumes "length value > 100"
  shows "\<exists>bs. concat bs = value \<and> (\<forall>b\<in>set bs. b \<noteq> [] \<and> length b \<le> 100) \<and>
    orm_save clear save value =
      andThen (mapM save bs) (\<lambda>rs. ret (updateNulls clear (concat rs)))"
proof (intro exI conjI)
  let ?bs = "batches (length value) value"
  show "concat ?bs = value"
    by (rule batches_concat) simp
  show "\<forall>b\<in>set ?bs. b \<noteq> [] \<and> length b \<le> 100"
    using batches_bounds by (fastforce simp: batchSize_def)
  show "orm_save clear save value = andThen (mapM save ?bs) (\<lambda>rs. ret (updateNulls clear (concat rs)))"
    using assms saveFrom_batches [of "value" 0 "length value" save]
    by (simp add: orm_save_def andThen_assoc batchSize_def del: ret_apply)
qed

lemma orm_save_small: "length value \<le> 100 \<Longrightarrow>
    orm_save clear save value = andThen (save value) (\<lambda>saved. ret (updateNulls clear saved))"
  by (simp add: orm_save_def batchSize_def)

definition recordBatch :: "nat list \<Rightarrow> (nat list list, unit, nat list) action" where
  "recordBatch b = (\<lambda>s. (Inr b, s @ [b]))"

theorem orm_save_batches_witness:
  "\<exists>bs. concat bs = [0..<101] \<and> (\<forall>b\<in>set bs. b \<noteq> [] \<and> length b \<le> 100) \<and>
    orm_save id recordBatch [0..<101] = andThen (mapM recordBatch bs) (\<lambda>rs. ret (updateNulls id (concat rs)))"
  by (rule orm_save_batches) simp

section \<open>The version of a database\<close>

text \<open>
  \<open>names\<close> is the answer of \<open>SELECT DISTINCT name FROM iasql_module LIMIT 1\<close>, \<open>None\<close> when the query
  fails (no such table).  The check of the version throws inside the \<open>try\<close> whose \<open>catch\<close> ignores
  everything, after \<open>versionString\<close> was assigned.  A name without \<open>@\<close> assigns \<open>undefined\<close> (\<open>None\<close>).
\<close>

definition getVersionString :: "string \<Rightarrow> string list option \<Rightarrow> string option" where
  "getVersionString configVersion names =
     (case names of
        Some (n # _) \<Rightarrow> (case splitOn (CHR ''@'') n of _ # v # _ \<Rightarrow> Some v | _ \<Rightarrow> None)
      | _ \<Rightarrow> Some configVersion)"

lemma getVersionString_module:
  "CHR ''@'' \<notin> set n \<Longrightarrow> CHR ''@'' \<notin> set v \<Longrightarrow>
     getVersionString cv (Some ((n @ ''@'' @ v) # ns)) = Some v"
  by (simp add: getVersionString_def splitOn_append_sep splitOn_no_sep)

section \<open>Connections\<close>

text \<open>
  The connections the engine holds: \<open>createConn\<close> opens one under a fresh name, \<open>dropConn\<close> closes it.
  Connecting and closing may fail (\<open>connect\<close>, \<open>close\<close> are the driver's).
\<close>

record 'w net =
  outside :: 'w
  pool :: "nat list"
  nextConn :: nat

definition inWorld :: "('w, 'e, 'a) action \<Rightarrow> (('w, 'x) net_scheme, 'e, 'a) action" where
  "inWorld m = (\<lambda>s. case m (outside s) of (x, w') \<Rightarrow> (x, s\<lparr> outside := w' \<rparr>))"

definition createConn :: "('w, 'e, unit) action \<Rightarrow> (('w, 'x) net_scheme, 'e, nat) action" where
  "createConn connect =
     andThen (inWorld connect)
       (\<lambda>_ s. (Inr (nextConn s), s\<lparr> pool := nextConn s # pool s, nextConn := Suc (nextConn s) \<rparr>))"

definition dropConn :: "(nat \<Rightarrow> ('w, 'e, unit) action) \<Rightarrow> nat \<Rightarrow> (('w, 'x) net_scheme, 'e, unit) action" where
  "dropConn close c =
     andThen (inWorld (close c)) (\<lambda>_. modifyS (\<lambda>s. s\<lparr> pool := remove1 c (pool s) \<rparr>))"

lemma inWorld_apply [action_simps]: "inWorld m s = (case m (outside s) of (x, w') \<Rightarrow> (x, s\<lparr> outside := w' \<rparr>))"
  by (simp add: inWorld_def)

lemma inWorld_pool: "pool (snd (inWorld m s)) = pool s" "nextConn (snd (inWorld m s)) = nextConn s"
  by (simp_all add: inWorld_def split: prod.splits)

end
