(* ===== verification/Audit_Log.thy ===== *)
theory Audit_Log
  imports Typeorm
begin

text \<open>
  The audit log and the transaction and commit brackets kept in it: the entity \<open>IasqlAuditLog\<close> of
  \<open>src/src/modules/iasql_platform/entity/index.ts\<close> and the functions of
  \<open>src/src/modules/iasql_functions/iasql.ts\<close> that query and write it.

  The table itself is reached through the ORM, which is a parameter: a \<open>repo\<close> bundles
  \<open>repository.find\<close>, \<open>repository.save\<close>, \<open>new Date()\<close>, \<open>uuidv4()\<close>, the one-second sleep and
  \<open>config.db.user\<close>, as actions on a world of any type.  The locale \<open>audit_store\<close> states the
  documented behaviour the code relies on, over an observation \<open>rows\<close> of the table; \<open>clocked_store\<close>
  adds that a reading of the clock lies after everything logged before.  Both are interpreted for a
  table kept as a list.
\<close>

section \<open>The entity and its queries\<close>

datatype change_type =
    INSERT | UPDATE | DELETE
  | START_COMMIT | PREVIEW_START_COMMIT | END_COMMIT | PREVIEW_END_COMMIT
  | OPEN_TRANSACTION | CLOSE_TRANSACTION
  | ERROR | START_REVERT | END_REVERT | SET_COMMIT_MESSAGE

record change_doc =
  original :: "jsval obj option"
  changed :: "jsval obj option"

record audit_log =
  logId :: "nat option"   \<comment> \<open>generated by the database\<close>
  logTs :: int
  logUser :: string
  tableName :: string
  changeType :: change_type
  change :: change_doc
  message :: "string option"
  transactionId :: "string option"

text \<open>The operators of the \<open>where\<close> clauses in use, one type per column.\<close>

datatype type_cond = TypeIs change_type | TypeIn "change_type list" | TypeNotIn "change_type list"

datatype ts_cond = TsAny | TsMoreThan int | TsLessThan int | TsBetween int int

datatype user_cond = UserAny | UserIs string | UserNot string

record log_query =
  qType :: type_cond
  qTs :: ts_cond
  qUser :: user_cond
  qTxNull :: bool
  qThenId :: bool   \<comment> \<open>\<open>order: { ts: 'DESC', id: 'DESC' }\<close> instead of \<open>{ ts: 'DESC' }\<close>\<close>
  qTake :: "nat option"

fun typeHolds :: "type_cond \<Rightarrow> change_type \<Rightarrow> bool" where
  "typeHolds (TypeIs t) x = (x = t)"
| "typeHolds (TypeIn ts) x = (x \<in> set ts)"
| "typeHolds (TypeNotIn ts) x = (x \<notin> set ts)"

fun tsHolds :: "ts_cond \<Rightarrow> int \<Rightarrow> bool" where
  "tsHolds TsAny x = True"
| "tsHolds (TsMoreThan t) x = (t < x)"
| "tsHolds (TsLessThan t) x = (x < t)"
| "tsHolds (TsBetween a b) x = (a \<le> x \<and> x \<le> b)"

fun userHolds :: "user_cond \<Rightarrow> string \<Rightarrow> bool" where
  "userHolds UserAny x = True"
| "userHolds (UserIs u) x = (x = u)"
| "userHolds (UserNot u) x = (x \<noteq> u)"

definition matches :: "log_query \<Rightarrow> audit_log \<Rightarrow> bool" where
  "matches q l \<longleftrightarrow> typeHolds (qType q) (changeType l) \<and> tsHolds (qTs q) (logTs l) \<and>
     userHolds (qUser q) (logUser l) \<and> (qTxNull q \<longrightarrow> transactionId l = None)"

definition whereType :: "type_cond \<Rightarrow> log_query" where
  "whereType tc = \<lparr> qType = tc, qTs = TsAny, qUser = UserAny, qTxNull = False, qThenId = False,
     qTake = None \<rparr>"

definition later :: "bool \<Rightarrow> audit_log \<Rightarrow> audit_log \<Rightarrow> bool" where
  "later thenId a b \<longleftrightarrow> logTs b < logTs a \<or>
     (logTs b = logTs a \<and>
        (thenId \<longrightarrow> (case (logId a, logId b) of (Some i, Some j) \<Rightarrow> j \<le> i | _ \<Rightarrow> True)))"

definition answers :: "log_query \<Rightarrow> audit_log list \<Rightarrow> audit_log list \<Rightarrow> bool" where
  "answers q rs ls \<longleftrightarrow> (\<exists>found. mset found = mset (filter (matches q) rs) \<and>
     sorted_wrt (later (qThenId q)) found \<and>
     ls = (case qTake q of None \<Rightarrow> found | Some n \<Rightarrow> take n found))"

text \<open>What \<open>save\<close> does to the table: a row whose id exists is replaced, others are added.\<close>

definition upsertLog :: "audit_log \<Rightarrow> audit_log list \<Rightarrow> audit_log list" where
  "upsertLog l rs =
     (if logId l \<in> logId ` set rs then map (\<lambda>r. if logId r = logId l then l else r) rs
      else rs @ [l])"

definition identified :: "audit_log list \<Rightarrow> audit_log \<Rightarrow> audit_log \<Rightarrow> bool" where
  "identified rs l l' \<longleftrightarrow> (\<exists>i. l' = l\<lparr> logId := Some i \<rparr> \<and>
     (if logId l = None then Some i \<notin> logId ` set rs else logId l = Some i))"

definition stored ::
  "audit_log list \<Rightarrow> audit_log list \<Rightarrow> audit_log list \<Rightarrow> audit_log list \<Rightarrow> bool" where
  "stored ls rs ls' rs' \<longleftrightarrow> list_all2 (identified rs) ls ls' \<and>
     (distinct (map logId (filter (\<lambda>l. logId l \<noteq> None) ls)) \<longrightarrow> distinct (map logId ls')) \<and>
     rs' = fold upsertLog ls' rs"

section \<open>The parameters\<close>

type_synonym conn = nat

record ('w, 'e) repo =
  findLogs :: "conn \<Rightarrow> log_query \<Rightarrow> ('w, 'e, audit_log list) action"
  saveLogs :: "conn \<Rightarrow> audit_log list \<Rightarrow> ('w, 'e, audit_log list) action"
  newDate :: "'w \<Rightarrow> int \<times> 'w"
  uuidv4 :: "'w \<Rightarrow> string \<times> 'w"
  sleepSec :: "'w \<Rightarrow> 'w"
  dbUser :: string
  mkError :: "string \<Rightarrow> 'e"

definition drawing :: "('w \<Rightarrow> 'a \<times> 'w) \<Rightarrow> ('w, 'e, 'a) action" where
  "drawing f = (\<lambda>w. case f w of (x, w') \<Rightarrow> (Inr x, w'))"

definition findOneLog :: "('w, 'e) repo \<Rightarrow> conn \<Rightarrow> log_query \<Rightarrow> ('w, 'e, audit_log option) action" where
  "findOneLog r c q =
     andThen (findLogs r c (q\<lparr> qTake := Some 1 \<rparr>))
       (\<lambda>ls. ret (case ls of [] \<Rightarrow> None | l # _ \<Rightarrow> Some l))"

section \<open>Writing the log\<close>

definition truthyStr :: "string option \<Rightarrow> string option" where   \<comment> \<open>\<open>if (s) ... = s\<close>\<close>
  "truthyStr s = (if s = Some [] then None else s)"

definition newLog ::
  "('w, 'e) repo \<Rightarrow> change_type \<Rightarrow> string option \<Rightarrow> string option \<Rightarrow> int \<Rightarrow> audit_log" where
  "newLog r ct tx msg t = \<lparr> logId = None, logTs = t, logUser = dbUser r, tableName = ''iasql_audit_log'',
     changeType = ct, change = \<lparr> original = None, changed = None \<rparr>,
     message = msg, transactionId = truthyStr tx \<rparr>"

definition saveIf :: "('w, 'e) repo \<Rightarrow> conn option \<Rightarrow> audit_log list \<Rightarrow> ('w, 'e, audit_log list) action" where
  "saveIf r orm ls = (case orm of None \<Rightarrow> ret ls | Some c \<Rightarrow> orm_save id (saveLogs r c) ls)"

definition insertLog ::
  "('w, 'e) repo \<Rightarrow> conn option \<Rightarrow> change_type \<Rightarrow> string option \<Rightarrow> string option \<Rightarrow> ('w, 'e, audit_log) action" where
  "insertLog r orm ct tx msg =
     andThen (drawing (newDate r)) (\<lambda>t.
       (let commitLog = newLog r ct tx (truthyStr msg) t in
        andThen (saveIf r orm [commitLog])
          (\<lambda>saved. ret (case saved of [] \<Rightarrow> commitLog | l # _ \<Rightarrow> l))))"

definition insertErrorLog ::
  "('w, 'e) repo \<Rightarrow> conn option \<Rightarrow> string \<Rightarrow> string option \<Rightarrow> ('w, 'e, unit) action" where
  "insertErrorLog r orm err tx =
     andThen (drawing (newDate r)) (\<lambda>t.
       andThen (saveIf r orm [newLog r ERROR tx (Some err) t]) (\<lambda>_. ret ()))"

definition associateTransaction ::
  "('w, 'e) repo \<Rightarrow> conn option \<Rightarrow> audit_log list \<Rightarrow> string option \<Rightarrow> ('w, 'e, unit) action" where
  "associateTransaction r orm changes tx =
     andThen (saveIf r orm
         (map (\<lambda>l. case truthyStr tx of None \<Rightarrow> l | Some t \<Rightarrow> l\<lparr> transactionId := Some t \<rparr>) changes))
       (\<lambda>_. ret ())"

definition updateIasqlRecordsSince ::
  "('w, 'e) repo \<Rightarrow> change_type \<Rightarrow> conn option \<Rightarrow> string option \<Rightarrow> ('w, 'e, unit) action" where
  "updateIasqlRecordsSince r ct orm tx =
     (case orm of None \<Rightarrow> ret ()
      | Some c \<Rightarrow>
        andThen (findOneLog r c (whereType (TypeIs ct))) (\<lambda>last.
          (case last of None \<Rightarrow> ret ()
           | Some l \<Rightarrow>
             andThen (findLogs r c
                 ((whereType (TypeIn [INSERT, UPDATE, DELETE]))
                    \<lparr> qTs := TsMoreThan (logTs l), qUser := UserIs (dbUser r), qTxNull := True \<rparr>))
               (\<lambda>changes. associateTransaction r orm changes tx))))"

section \<open>Reading the log\<close>

abbreviation commitBrackets :: "change_type list" where
  "commitBrackets \<equiv> [START_COMMIT, PREVIEW_START_COMMIT, END_COMMIT, PREVIEW_END_COMMIT]"

definition isCommitRunning :: "('w, 'e) repo \<Rightarrow> conn \<Rightarrow> ('w, 'e, bool) action" where
  "isCommitRunning r c =
     andThen (findLogs r c
         ((whereType (TypeIn commitBrackets)) \<lparr> qUser := UserNot (dbUser r), qTake := Some 1 \<rparr>))
       (\<lambda>logs. ret (case logs of [] \<Rightarrow> False
          | l # _ \<Rightarrow> changeType l \<in> set [START_COMMIT, PREVIEW_START_COMMIT]))"

definition isOpenTransaction :: "('w, 'e) repo \<Rightarrow> conn \<Rightarrow> ('w, 'e, bool) action" where
  "isOpenTransaction r c =
     andThen (findLogs r c
         ((whereType (TypeIn [OPEN_TRANSACTION, CLOSE_TRANSACTION])) \<lparr> qTake := Some 1 \<rparr>))
       (\<lambda>logs. ret (case logs of [] \<Rightarrow> False | l # _ \<Rightarrow> changeType l = OPEN_TRANSACTION))"

definition getCurrentTransactionId :: "('w, 'e) repo \<Rightarrow> conn \<Rightarrow> ('w, 'e, string option) action" where
  "getCurrentTransactionId r c =
     andThen (findOneLog r c (whereType (TypeIs OPEN_TRANSACTION)))
       (\<lambda>t. ret (case t of None \<Rightarrow> Some ''<no-id-found>'' | Some l \<Rightarrow> transactionId l))"

definition getPreviousStartCommit :: "('w, 'e) repo \<Rightarrow> conn \<Rightarrow> int \<Rightarrow> ('w, 'e, audit_log option) action" where
  "getPreviousStartCommit r c currentTs =
     andThen (findLogs r c
         ((whereType (TypeIs START_COMMIT)) \<lparr> qTs := TsLessThan currentTs, qTake := Some 2 \<rparr>))
       (\<lambda>ls. ret (case ls of [] \<Rightarrow> None | l # _ \<Rightarrow> Some l))"

definition getChangesToCommit ::
  "('w, 'e) repo \<Rightarrow> conn \<Rightarrow> audit_log \<Rightarrow> audit_log option \<Rightarrow> ('w, 'e, audit_log list) action" where
  "getChangesToCommit r c newStartCommit previousStartCommit =
     findLogs r c
       ((whereType (TypeNotIn commitBrackets))
          \<lparr> qTs := (case previousStartCommit of
               Some p \<Rightarrow> TsBetween (logTs p) (logTs newStartCommit)
             | None \<Rightarrow> TsLessThan (logTs newStartCommit)),
            qUser := UserNot (dbUser r) \<rparr>)"

definition getChangeLogsSinceLastBegin :: "('w, 'e) repo \<Rightarrow> conn \<Rightarrow> ('w, 'e, audit_log list) action" where
  "getChangeLogsSinceLastBegin r c =
     andThen (findOneLog r c (whereType (TypeIs OPEN_TRANSACTION))) (\<lambda>t.
       (case t of None \<Rightarrow> throw (mkError r ''No open transaction'')
        | Some l \<Rightarrow> findLogs r c
            ((whereType (TypeIn [INSERT, UPDATE, DELETE]))
               \<lparr> qTs := TsMoreThan (logTs l), qThenId := True \<rparr>)))"

section \<open>Opening and closing a transaction\<close>

text \<open>\<open>Promise.all([isCommitRunning(orm), isOpenTransaction(orm)])\<close>, both only read.\<close>

definition busy :: "('w, 'e) repo \<Rightarrow> conn \<Rightarrow> ('w, 'e, bool) action" where
  "busy r c = andThen (isCommitRunning r c) (\<lambda>running.
     andThen (isOpenTransaction r c) (\<lambda>opened. ret (running \<or> opened)))"

fun openLoop :: "('w, 'e) repo \<Rightarrow> conn \<Rightarrow> nat \<Rightarrow> ('w, 'e, bool) action" where
  "openLoop r c 0 = ret False"
| "openLoop r c (Suc loops) =
     andThen (busy r c) (\<lambda>b.
       if \<not> b
       then andThen (drawing (uuidv4 r)) (\<lambda>tx.
              andThen (insertLog r (Some c) OPEN_TRANSACTION (Some tx) None) (\<lambda>_. ret True))
       else andThen (modifyS (sleepSec r)) (\<lambda>_. openLoop r c loops))"

definition maybeOpenTransaction :: "('w, 'e) repo \<Rightarrow> conn \<Rightarrow> ('w, 'e, unit) action" where
  "maybeOpenTransaction r c =
     andThen (openLoop r c 120) (\<lambda>addedTransaction.
       if \<not> addedTransaction
       then throw (mkError r ''Another transaction is open or running. Please try again later.'')
       else ret ())"

definition closeTransaction :: "('w, 'e) repo \<Rightarrow> conn \<Rightarrow> ('w, 'e, unit) action" where
  "closeTransaction r c =
     andThen (getCurrentTransactionId r c) (\<lambda>tx.
       andThen (updateIasqlRecordsSince r OPEN_TRANSACTION (Some c) tx) (\<lambda>_.
         andThen (insertLog r (Some c) CLOSE_TRANSACTION tx None) (\<lambda>_. ret ())))"

section \<open>The contract of the table\<close>

lemma newest_of_answers:
  assumes "answers q rs ls" and "qTake q = Some 1"
  shows "(ls = [] \<and> (\<forall>l\<in>set rs. \<not> matches q l)) \<or>
    (\<exists>l. ls = [l] \<and> l \<in> set rs \<and> matches q l \<and>
       (\<forall>x\<in>set rs. matches q x \<longrightarrow> logTs x \<le> logTs l))"
proof -
  from assms obtain found where f: "mset found = mset (filter (matches q) rs)"
      "sorted_wrt (later (qThenId q)) found" "ls = take 1 found"
    by (auto simp: answers_def)
  then have set: "set found = {l \<in> set rs. matches q l}"
    by (metis mset_eq_setD set_filter)
  show ?thesis
  proof (cases found)
    case Nil
    with f set show ?thesis by auto
  next
    case (Cons l more)
    have "\<forall>x\<in>set more. logTs x \<le> logTs l"
      using f(2) Cons by (auto simp: later_def)
    with f(3) Cons set show ?thesis by auto
  qed
qed

lemma mset_of_answers: "answers q rs ls \<Longrightarrow> qTake q = None \<Longrightarrow> mset ls = mset (filter (matches q) rs)"
  by (auto simp: answers_def)

lemma set_of_answers:
  assumes "answers q rs ls" and "qTake q = None"
  shows "set ls = {l \<in> set rs. matches q l}"
  using arg_cong [OF mset_of_answers [OF assms], of set_mset] by simp

lemma matches_whereType [simp]:
  "matches (whereType tc\<lparr> qTake := n \<rparr>) l \<longleftrightarrow> typeHolds tc (changeType l)"
  "matches (whereType tc) l \<longleftrightarrow> typeHolds tc (changeType l)"
  by (simp_all add: matches_def whereType_def)

locale audit_store =
  fixes r :: "('w, 'e) repo" and rows :: "'w \<Rightarrow> audit_log list"
  assumes find_answers: "findLogs r c q w = (Inr ls, w') \<Longrightarrow> answers q (rows w) ls"
    and find_keeps: "rows (snd (findLogs r c q w)) = rows w"
    and save_stores: "saveLogs r c ls w = (Inr ls', w') \<Longrightarrow> stored ls (rows w) ls' (rows w')"
    and save_fails: "saveLogs r c ls w = (Inl e, w') \<Longrightarrow> rows w' = rows w"
    and date_keeps: "rows (snd (newDate r w)) = rows w"
    and uuid_keeps: "rows (snd (uuidv4 r w)) = rows w"
begin

lemma find_rows: "findLogs r c q w = (x, w') \<Longrightarrow> rows w' = rows w"
  using find_keeps [of c q w] by simp

lemma findOne_newest:
  assumes "findOneLog r c q w = (Inr x, w')"
  shows "rows w' = rows w \<and>
    (case x of None \<Rightarrow> \<forall>l\<in>set (rows w). \<not> matches (q\<lparr> qTake := Some 1 \<rparr>) l
     | Some l \<Rightarrow> l \<in> set (rows w) \<and> matches (q\<lparr> qTake := Some 1 \<rparr>) l \<and>
         (\<forall>y\<in>set (rows w). matches (q\<lparr> qTake := Some 1 \<rparr>) y \<longrightarrow> logTs y \<le> logTs l))"
proof -
  from assms obtain ls where ls: "findLogs r c (q\<lparr> qTake := Some 1 \<rparr>) w = (Inr ls, w')"
      "x = (case ls of [] \<Rightarrow> None | l # _ \<Rightarrow> Some l)"
    by (auto simp: findOneLog_def andThen_Inr_iff)
  from newest_of_answers [OF find_answers [OF ls(1)]] show ?thesis
    using ls(2) find_rows [OF ls(1)] by auto
qed

lemma saved_one:
  assumes "saveIf r (Some c) [l] w = (Inr saved, w')" and "logId l = None"
  obtains i where "saved = [l\<lparr> logId := Some i \<rparr>]" "rows w' = rows w @ saved"
    "Some i \<notin> logId ` set (rows w)"
proof -
  from assms(1) obtain ls where "saveLogs r c [l] w = (Inr ls, w')" "saved = ls"
    by (auto simp: saveIf_def orm_save_small andThen_Inr_iff updateNulls_def)
  with save_stores have "stored [l] (rows w) saved (rows w')" by blast
  then show thesis
    using assms(2) by (auto simp: stored_def identified_def list_all2_Cons1 upsertLog_def intro: that)
qed

lemma insertLog_rows:
  assumes "insertLog r (Some c) ct tx msg w = (Inr l, w')"
  obtains i t where "l = (newLog r ct tx (truthyStr msg) t)\<lparr> logId := Some i \<rparr>"
    "rows w' = rows w @ [l]" "Some i \<notin> logId ` set (rows w)" "t = fst (newDate r w)"
proof -
  obtain t w1 where t: "newDate r w = (t, w1)" by (rule prod.exhaust)
  then have w1: "rows w1 = rows w" using date_keeps [of w] by simp
  let ?l = "newLog r ct tx (truthyStr msg) t"
  from assms t obtain saved where s: "saveIf r (Some c) [?l] w1 = (Inr saved, w')"
      "l = (case saved of [] \<Rightarrow> ?l | l # _ \<Rightarrow> l)"
    by (auto simp: insertLog_def drawing_def andThen_Inr_iff Let_def)
  have "logId ?l = None" by (simp add: newLog_def)
  from saved_one [OF s(1) this] obtain i where
    "saved = [?l\<lparr> logId := Some i \<rparr>]" "rows w' = rows w1 @ saved" "Some i \<notin> logId ` set (rows w1)" .
  with s(2) w1 t show thesis by (intro that [of i t]) auto
qed

end

locale clocked_store = audit_store +
  assumes date_after: "l \<in> set (rows w) \<Longrightarrow> logTs l < fst (newDate r w)"
begin

lemma insertLog_last:
  assumes "insertLog r (Some c) ct tx msg w = (Inr l, w')"
  shows "l \<in> set (rows w')" "changeType l = ct" "logUser l = dbUser r" "transactionId l = truthyStr tx"
    "rows w' = rows w @ [l]" "\<forall>x\<in>set (rows w). logTs x < logTs l"
proof -
  obtain i t where l: "l = (newLog r ct tx (truthyStr msg) t)\<lparr> logId := Some i \<rparr>"
      "rows w' = rows w @ [l]" "t = fst (newDate r w)"
    by (rule insertLog_rows [OF assms])
  then show "l \<in> set (rows w')" "changeType l = ct" "logUser l = dbUser r"
      "transactionId l = truthyStr tx" "rows w' = rows w @ [l]"
    by (simp_all add: newLog_def)
  show "\<forall>x\<in>set (rows w). logTs x < logTs l"
    using date_after l by (simp add: newLog_def)
qed

end

section \<open>A table kept as a list\<close>

text \<open>The contracts hold of a table that is a list of rows, the newest found by sorting.\<close>

definition idNum :: "audit_log \<Rightarrow> nat" where
  "idNum l = (case logId l of None \<Rightarrow> 0 | Some i \<Rightarrow> i)"

definition sortRows :: "audit_log list \<Rightarrow> audit_log list" where
  "sortRows rs = sort_key (\<lambda>l. [- logTs l, - int (idNum l)]) rs"

definition tableFind :: "log_query \<Rightarrow> audit_log list \<Rightarrow> audit_log list" where
  "tableFind q rs =
     (let found = sortRows (filter (matches q) rs)
      in case qTake q of None \<Rightarrow> found | Some n \<Rightarrow> take n found)"

fun freshFrom :: "nat \<Rightarrow> audit_log list \<Rightarrow> audit_log list" where
  "freshFrom n [] = []"
| "freshFrom n (l # ls) =
     (case logId l of Some i \<Rightarrow> l # freshFrom n ls
      | None \<Rightarrow> l\<lparr> logId := Some n \<rparr> # freshFrom (Suc n) ls)"

definition nextId :: "audit_log list \<Rightarrow> nat" where
  "nextId rs = Suc (fold max (map idNum rs) 0)"

definition nextTs :: "audit_log list \<Rightarrow> int" where
  "nextTs rs = 1 + fold max (map logTs rs) 0"

definition tableSave :: "audit_log list \<Rightarrow> audit_log list \<Rightarrow> audit_log list \<times> audit_log list" where
  "tableSave ls rs =
     (let ls' = freshFrom (max (nextId rs) (nextId ls)) ls in (ls', fold upsertLog ls' rs))"

definition tableRepo :: "string \<Rightarrow> (audit_log list, string) repo" where
  "tableRepo u = \<lparr>
     findLogs = (\<lambda>c q rs. (Inr (tableFind q rs), rs)),
     saveLogs = (\<lambda>c ls rs. case tableSave ls rs of (ls', rs') \<Rightarrow> (Inr ls', rs')),
     newDate = (\<lambda>rs. (nextTs rs, rs)),
     uuidv4 = (\<lambda>rs. (CHR ''t'' # digits (length rs), rs)),
     sleepSec = (\<lambda>rs. rs),
     dbUser = u,
     mkError = (\<lambda>m. m) \<rparr>"

lemma fold_max_start: "(m::'a::linorder) \<le> fold max xs m"
proof (induction xs arbitrary: m)
  case (Cons y ys)
  have "m \<le> max y m" by simp
  also have "max y m \<le> fold max ys (max y m)" by (rule Cons.IH)
  finally show ?case by simp
qed simp

lemma fold_max_ge: "x \<in> set xs \<Longrightarrow> (x::'a::linorder) \<le> fold max xs m"
proof (induction xs arbitrary: m)
  case (Cons y ys)
  show ?case
  proof (cases "x = y")
    case True
    have "y \<le> max y m" by simp
    also have "max y m \<le> fold max ys (max y m)" by (rule fold_max_start)
    finally show ?thesis using True by simp
  next
    case False
    with Cons show ?thesis by simp
  qed
qed simp

lemma idNum_less_nextId: "l \<in> set rs \<Longrightarrow> idNum l < nextId rs"
  using fold_max_ge [of "idNum l" "map idNum rs" 0] by (simp add: nextId_def)

lemma nextId_fresh: "nextId rs \<le> i \<Longrightarrow> Some i \<notin> logId ` set rs"
proof
  assume "nextId rs \<le> i" and "Some i \<in> logId ` set rs"
  then obtain l where "l \<in> set rs" "logId l = Some i" by force
  with idNum_less_nextId [of l rs] \<open>nextId rs \<le> i\<close> show False
    by (simp add: idNum_def)
qed

lemma freshFrom_ids:
  "x \<in> set (freshFrom n ls) \<Longrightarrow>
     (\<exists>l\<in>set ls. logId l \<noteq> None \<and> logId x = logId l) \<or> (\<exists>i\<ge>n. logId x = Some i)"
proof (induction n ls rule: freshFrom.induct)
  case (2 n l ls)
  show ?case
  proof (cases "logId l")
    case None
    with 2(3) consider "x = l\<lparr> logId := Some n \<rparr>" | "x \<in> set (freshFrom (Suc n) ls)" by auto
    then show ?thesis
    proof cases
      case 1
      then show ?thesis by auto
    next
      case 2
      with "2.IH"(1) [OF None] show ?thesis by (auto dest: Suc_leD)
    qed
  next
    case (Some i)
    with 2(3) consider "x = l" | "x \<in> set (freshFrom n ls)" by auto
    then show ?thesis
    proof cases
      case 1
      with Some show ?thesis by auto
    next
      case 2
      with "2.IH"(2) [OF Some] show ?thesis by auto
    qed
  qed
qed simp

lemma freshFrom_identified:
  "nextId rs \<le> n \<Longrightarrow> list_all2 (identified rs) ls (freshFrom n ls)"
proof (induction n ls rule: freshFrom.induct)
  case (2 n l ls)
  have "identified rs l (l\<lparr> logId := Some n \<rparr>)" if "logId l = None"
    using that nextId_fresh [OF 2(3)] by (auto simp: identified_def)
  moreover have "identified rs l l" if "logId l = Some i" for i
    using that by (auto simp: identified_def intro!: exI [of _ i])
  ultimately show ?case
    using 2 by (cases "logId l") auto
qed simp

lemma freshFrom_distinct:
  "\<forall>l\<in>set ls. idNum l < n \<Longrightarrow> distinct (map logId (filter (\<lambda>l. logId l \<noteq> None) ls)) \<Longrightarrow>
     distinct (map logId (freshFrom n ls))"
proof (induction n ls rule: freshFrom.induct)
  case (2 n l ls)
  show ?case
  proof (cases "logId l")
    case None
    have "Some n \<noteq> logId x" if "x \<in> set (freshFrom (Suc n) ls)" for x
      using freshFrom_ids [OF that] 2(3) by (force simp: idNum_def)
    then show ?thesis
      using None 2 by (force simp: less_Suc_eq)
  next
    case (Some i)
    have "logId l \<noteq> logId x" if "x \<in> set (freshFrom n ls)" for x
      using freshFrom_ids [OF that] 2(3,4) Some by (force simp: idNum_def)
    then show ?thesis
      using Some 2 by force
  qed
qed simp

lemma list_leD: "[a, b] \<le> [c, d] \<Longrightarrow> a < c \<or> (a = c \<and> (b::int) \<le> d)"
  by (auto simp: Cons_le_Cons)

lemma tableFind_answers: "answers q rs (tableFind q rs)"
proof -
  let ?key = "\<lambda>l. [- logTs l, - int (idNum l)]"
  have "sorted_wrt (\<lambda>a b. ?key a \<le> ?key b) (sortRows xs)" for xs
    using sorted_sort_key [of ?key xs] by (simp add: sortRows_def sorted_map)
  moreover have "later b x y" if "?key x \<le> ?key y" for b x y
    using list_leD [OF that] by (auto simp: later_def idNum_def split: option.splits)
  ultimately have "sorted_wrt (later (qThenId q)) (sortRows (filter (matches q) rs))"
    by (meson sorted_wrt_mono_rel)
  then show ?thesis
    unfolding answers_def tableFind_def Let_def
    by (intro exI [of _ "sortRows (filter (matches q) rs)"]) (simp add: sortRows_def)
qed

interpretation table: clocked_store "tableRepo u" "\<lambda>rs. rs"
proof unfold_locales
  fix c q w ls w'
  assume "findLogs (tableRepo u) c q w = (Inr ls, w')"
  then show "answers q w ls"
    using tableFind_answers by (auto simp: tableRepo_def)
next
  fix c ls w ls' w'
  assume "saveLogs (tableRepo u) c ls w = (Inr ls', w')"
  then have s: "ls' = freshFrom (max (nextId w) (nextId ls)) ls" "w' = fold upsertLog ls' w"
    by (auto simp: tableRepo_def tableSave_def Let_def)
  have "\<forall>l\<in>set ls. idNum l < max (nextId w) (nextId ls)"
    using idNum_less_nextId by (simp add: less_max_iff_disj)
  with s show "stored ls w ls' w'"
    by (simp add: stored_def freshFrom_identified freshFrom_distinct)
next
  fix l :: audit_log and w :: "audit_log list"
  assume "l \<in> set w"
  then show "logTs l < fst (newDate (tableRepo u) w)"
    using fold_max_ge [of "logTs l" "map logTs w" 0]
    by (simp add: tableRepo_def nextTs_def)
qed (auto simp: tableRepo_def tableSave_def Let_def)

section \<open>Brackets\<close>

text \<open>
  \<open>openIn\<close>: some transaction was opened after every closing.  \<open>closedIn\<close>: every opening was
  followed by a closing.  (Both fail only when the newest brackets have one timestamp.)
\<close>

definition openIn :: "audit_log list \<Rightarrow> bool" where
  "openIn rs \<longleftrightarrow> (\<exists>l\<in>set rs. changeType l = OPEN_TRANSACTION \<and>
     (\<forall>x\<in>set rs. changeType x = CLOSE_TRANSACTION \<longrightarrow> logTs x < logTs l))"

definition closedIn :: "audit_log list \<Rightarrow> bool" where
  "closedIn rs \<longleftrightarrow> (\<forall>l\<in>set rs. changeType l = OPEN_TRANSACTION \<longrightarrow>
     (\<exists>x\<in>set rs. changeType x = CLOSE_TRANSACTION \<and> logTs l < logTs x))"

fun waited :: "('w, 'e) repo \<Rightarrow> conn \<Rightarrow> nat \<Rightarrow> 'w \<Rightarrow> 'w" where   \<comment> \<open>after \<open>n\<close> polls and sleeps\<close>
  "waited r c 0 w = w"
| "waited r c (Suc n) w = waited r c n (sleepSec r (snd (busy r c w)))"

definition wfRows :: "audit_log list \<Rightarrow> bool" where   \<comment> \<open>the primary key\<close>
  "wfRows rs \<longleftrightarrow> distinct (map logId rs) \<and> (\<forall>l\<in>set rs. logId l \<noteq> None)"

lemma upsert_known:
  assumes "wfRows rs" and "\<And>x. logId (f x) = logId x" and "set cs \<subseteq> set rs"
  shows "fold upsertLog (map f cs) rs = map (\<lambda>x. if x \<in> set cs then f x else x) rs"
  using assms(3)
proof (induction cs rule: rev_induct)
  case Nil
  then show ?case by simp
next
  case (snoc c cs)
  let ?g = "\<lambda>x. if x \<in> set cs then f x else x"
  have id: "logId (?g x) = logId x" for x
    using assms(2) by simp
  have c: "c \<in> set rs" using snoc.prems by simp
  have ids: "logId ` set (map ?g rs) = logId ` set rs"
    unfolding set_map image_image id ..
  have same: "logId x = logId c \<longleftrightarrow> x = c" if "x \<in> set rs" for x
    using assms(1) c that by (auto simp: wfRows_def distinct_map inj_on_eq_iff)
  have "fold upsertLog (map f (cs @ [c])) rs = upsertLog (f c) (map ?g rs)"
    using snoc by simp
  also have "\<dots> = map (\<lambda>x. if logId (?g x) = logId c then f c else ?g x) rs"
    using c assms(2) ids unfolding upsertLog_def by simp
  also have "\<dots> = map (\<lambda>x. if x \<in> set (cs @ [c]) then f x else x) rs"
    unfolding id using same by (intro map_cong) auto
  finally show ?case .
qed

context audit_store
begin

lemma isCommitRunning_reads:
  assumes "isCommitRunning r c w = (Inr b, w')"
  shows "rows w' = rows w" "b \<Longrightarrow>
    \<exists>l\<in>set (rows w). changeType l \<in> {START_COMMIT, PREVIEW_START_COMMIT} \<and> logUser l \<noteq> dbUser r"
proof -
  let ?q = "whereType (TypeIn commitBrackets)\<lparr> qUser := UserNot (dbUser r), qTake := Some 1 \<rparr>"
  from assms obtain ls where ls: "findLogs r c ?q w = (Inr ls, w')"
      "b = (case ls of [] \<Rightarrow> False | l # _ \<Rightarrow> changeType l \<in> set [START_COMMIT, PREVIEW_START_COMMIT])"
    by (auto simp: isCommitRunning_def andThen_Inr_iff)
  from find_rows [OF ls(1)] show "rows w' = rows w" .
  assume b
  with newest_of_answers [OF find_answers [OF ls(1)]] ls(2)
  obtain l where "l \<in> set (rows w)" "matches ?q l" "changeType l \<in> {START_COMMIT, PREVIEW_START_COMMIT}"
    by auto
  then show "\<exists>l\<in>set (rows w). changeType l \<in> {START_COMMIT, PREVIEW_START_COMMIT} \<and> logUser l \<noteq> dbUser r"
    by (auto simp: matches_def whereType_def)
qed

lemma isOpenTransaction_reads:
  assumes "isOpenTransaction r c w = (Inr b, w')"
  shows "rows w' = rows w" "openIn (rows w) \<Longrightarrow> b" "closedIn (rows w) \<Longrightarrow> \<not> b"
proof -
  let ?q = "whereType (TypeIn [OPEN_TRANSACTION, CLOSE_TRANSACTION])\<lparr> qTake := Some 1 \<rparr>"
  from assms obtain ls where ls: "findLogs r c ?q w = (Inr ls, w')"
      "b = (case ls of [] \<Rightarrow> False | l # _ \<Rightarrow> changeType l = OPEN_TRANSACTION)"
    by (auto simp: isOpenTransaction_def andThen_Inr_iff)
  from find_rows [OF ls(1)] show "rows w' = rows w" .
  note newest = newest_of_answers [OF find_answers [OF ls(1)], simplified]
  show b if "openIn (rows w)"
    using newest that ls(2) unfolding openIn_def by fastforce
  show "\<not> b" if "closedIn (rows w)"
    using newest that ls(2) unfolding closedIn_def by fastforce
qed

lemma busy_reads:
  assumes "busy r c w = (Inr b, w')"
  shows "rows w' = rows w" "openIn (rows w) \<Longrightarrow> b"
proof -
  from assms obtain b1 b2 w1 where b: "isCommitRunning r c w = (Inr b1, w1)"
      "isOpenTransaction r c w1 = (Inr b2, w')" "b = (b1 \<or> b2)"
    by (auto simp: busy_def andThen_Inr_iff)
  from isCommitRunning_reads(1) [OF b(1)] isOpenTransaction_reads [OF b(2)] b(3)
  show "rows w' = rows w" "openIn (rows w) \<Longrightarrow> b" by auto
qed

lemma getCurrentTransactionId_reads:
  assumes "getCurrentTransactionId r c w = (Inr tx, w')"
  shows "rows w' = rows w"
    "l \<in> set (rows w) \<Longrightarrow> changeType l = OPEN_TRANSACTION \<Longrightarrow>
       \<forall>x\<in>set (rows w). changeType x = OPEN_TRANSACTION \<longrightarrow> x \<noteq> l \<longrightarrow> logTs x < logTs l \<Longrightarrow> tx = transactionId l"
proof -
  from assms obtain x where x: "findOneLog r c (whereType (TypeIs OPEN_TRANSACTION)) w = (Inr x, w')"
      "tx = (case x of None \<Rightarrow> Some ''<no-id-found>'' | Some l \<Rightarrow> transactionId l)"
    by (auto simp: getCurrentTransactionId_def andThen_Inr_iff)
  note one = findOne_newest [OF x(1)]
  then show "rows w' = rows w" by simp
  show "tx = transactionId l" if "l \<in> set (rows w)" "changeType l = OPEN_TRANSACTION"
    "\<forall>x\<in>set (rows w). changeType x = OPEN_TRANSACTION \<longrightarrow> x \<noteq> l \<longrightarrow> logTs x < logTs l"
    using one that x(2) by (force split: option.splits)
qed

lemma save_known:
  assumes "saveLogs r c ls w = (Inr ls', w')" and "\<forall>l\<in>set ls. logId l \<noteq> None"
  shows "ls' = ls \<and> rows w' = fold upsertLog ls (rows w)"
proof -
  from save_stores [OF assms(1)] have s: "list_all2 (identified (rows w)) ls ls'"
      "rows w' = fold upsertLog ls' (rows w)" by (auto simp: stored_def)
  from s(1) assms(2) have "ls' = ls"
    by (induction rule: list_all2_induct) (auto simp: identified_def)
  with s(2) show ?thesis by simp
qed

lemma mapM_save_known:
  assumes "mapM (saveLogs r c) bs w = (Inr rss, w')" and "\<forall>b\<in>set bs. \<forall>l\<in>set b. logId l \<noteq> None"
  shows "concat rss = concat bs \<and> rows w' = fold upsertLog (concat bs) (rows w)"
  using assms
proof (induction bs arbitrary: w rss)
  case (Cons b bs)
  from Cons.prems(1) obtain b' w1 rss' where b: "saveLogs r c b w = (Inr b', w1)"
      "mapM (saveLogs r c) bs w1 = (Inr rss', w')" "rss = b' # rss'"
    by (auto simp: andThen_Inr_iff)
  have "b' = b \<and> rows w1 = fold upsertLog b (rows w)"
    using Cons.prems(2) by (intro save_known [OF b(1)]) simp
  moreover have "concat rss' = concat bs \<and> rows w' = fold upsertLog (concat bs) (rows w1)"
    using Cons.prems(2) by (intro Cons.IH [OF b(2)]) simp
  ultimately show ?case using b(3) by simp
qed simp

lemma saveIf_known:
  assumes "saveIf r (Some c) ls w = (Inr saved, w')" and "\<forall>l\<in>set ls. logId l \<noteq> None"
  shows "rows w' = fold upsertLog ls (rows w)"
proof (cases "length ls > 100")
  case True
  let ?bs = "batches (length ls) ls"
  have concat: "concat ?bs = ls" by (rule batches_concat) simp
  from assms(1) True obtain rss where "mapM (saveLogs r c) ?bs w = (Inr rss, w')"
    using saveFrom_batches [of ls 0 "length ls" "saveLogs r c"]
    by (auto simp: saveIf_def orm_save_def batchSize_def andThen_Inr_iff)
  moreover have "\<forall>b\<in>set ?bs. \<forall>l\<in>set b. logId l \<noteq> None"
    using assms(2) concat by (metis set_concat UN_I)
  ultimately show ?thesis
    using mapM_save_known concat by force
next
  case False
  with assms(1) obtain ls' where "saveLogs r c ls w = (Inr ls', w')"
    by (auto simp: saveIf_def orm_save_small andThen_Inr_iff)
  from save_known [OF this assms(2)] show ?thesis by simp
qed

end

section \<open>The guard against concurrent commits\<close>

text \<open>
  C15. The check for a running commit does not see the commits of the engine: right after any engine
  has logged the start of a commit or preview, with all earlier brackets logged by engines too, the
  query of \<open>isCommitRunning\<close> still answers that no commit is running, since it looks at brackets of
  users other than \<open>config.db.user\<close> while \<open>insertLog\<close> writes them as \<open>config.db.user\<close>.
\<close>

theorem isCommitRunning_blind:
  assumes "audit_store r rows"
    and "\<forall>l\<in>set (rows w). changeType l \<in> set commitBrackets \<longrightarrow> logUser l = dbUser r"
    and "insertLog r (Some c) ct tx msg w = (Inr l, w1)"
    and "isCommitRunning r c w1 = (Inr b, w2)"
  shows "b = False"
proof (rule ccontr)
  assume "b \<noteq> False"
  then obtain x where x: "x \<in> set (rows w1)" "changeType x \<in> {START_COMMIT, PREVIEW_START_COMMIT}"
      "logUser x \<noteq> dbUser r"
    using audit_store.isCommitRunning_reads(2) [OF assms(1,4)] by auto
  obtain i t where "l = (newLog r ct tx (truthyStr msg) t)\<lparr> logId := Some i \<rparr>" "rows w1 = rows w @ [l]"
    by (rule audit_store.insertLog_rows [OF assms(1,3)])
  with x assms(2) show False by (auto simp: newLog_def)
qed

text \<open>A table with one user's change, the world of the examples.\<close>

definition userRow :: "nat \<Rightarrow> int \<Rightarrow> audit_log" where
  "userRow i t = \<lparr> logId = Some i, logTs = t, logUser = ''alice'', tableName = ''bucket'',
     changeType = INSERT, change = \<lparr> original = None, changed = Some [(''name'', JStr ''b'')] \<rparr>,
     message = None, transactionId = None \<rparr>"

definition bracketRow :: "nat \<Rightarrow> int \<Rightarrow> change_type \<Rightarrow> audit_log" where
  "bracketRow i t ct = (newLog (tableRepo ''iasql'') ct (Some ''t1'') None t)\<lparr> logId := Some i \<rparr>"

lemma startCommit_example:
  "insertLog (tableRepo ''iasql'') (Some 0) START_COMMIT None None [userRow 1 1]
     = (Inr (newLog (tableRepo ''iasql'') START_COMMIT None None 2\<lparr> logId := Some 2 \<rparr>),
        [userRow 1 1, newLog (tableRepo ''iasql'') START_COMMIT None None 2\<lparr> logId := Some 2 \<rparr>])"
  by (simp add: insertLog_def drawing_def andThen_apply tableRepo_def nextTs_def userRow_def saveIf_def
      orm_save_small tableSave_def nextId_def idNum_def newLog_def truthyStr_def upsertLog_def
      updateNulls_def Let_def)

theorem isCommitRunning_blind_witness:
  "fst (isCommitRunning (tableRepo ''iasql'') 0
     [userRow 1 1, newLog (tableRepo ''iasql'') START_COMMIT None None 2\<lparr> logId := Some 2 \<rparr>]) = Inr False"
proof -
  let ?w = "[userRow 1 1, newLog (tableRepo ''iasql'') START_COMMIT None None 2\<lparr> logId := Some 2 \<rparr>]"
  obtain b w2 where b: "isCommitRunning (tableRepo ''iasql'') 0 ?w = (Inr b, w2)"
    by (simp add: isCommitRunning_def andThen_apply tableRepo_def)
  have "b = False"
    by (rule isCommitRunning_blind [OF table.audit_store_axioms _ startCommit_example b])
      (simp add: userRow_def)
  with b show ?thesis by simp
qed

section \<open>Opening and closing\<close>

lemma openLoop_free:
  assumes "clocked_store r rows" and "openLoop r c k w = (Inr True, w')"
  shows "\<exists>n<k. \<exists>l. (\<forall>m<n. fst (busy r c (waited r c m w)) = Inr True) \<and>
    fst (busy r c (waited r c n w)) = Inr False \<and> rows w' = rows (waited r c n w) @ [l] \<and>
    changeType l = OPEN_TRANSACTION \<and> (\<forall>x\<in>set (rows (waited r c n w)). logTs x < logTs l) \<and>
    \<not> openIn (rows (waited r c n w))"
  using assms(2)
proof (induction k arbitrary: w)
  case (Suc k)
  have store: "audit_store r rows"
    using assms(1) by (rule clocked_store.axioms(1))
  from Suc.prems obtain b w1 where b: "busy r c w = (Inr b, w1)"
    by (auto simp: andThen_Inr_iff)
  note read = audit_store.busy_reads [OF store b]
  show ?case
  proof (cases b)
    case True
    with Suc.prems b have "openLoop r c k (sleepSec r w1) = (Inr True, w')"
      by (simp add: andThen_apply)
    from Suc.IH [OF this] obtain n l where n: "n < k"
      "(\<forall>m<n. fst (busy r c (waited r c m (sleepSec r w1))) = Inr True) \<and>
       fst (busy r c (waited r c n (sleepSec r w1))) = Inr False \<and>
       rows w' = rows (waited r c n (sleepSec r w1)) @ [l] \<and> changeType l = OPEN_TRANSACTION \<and>
       (\<forall>x\<in>set (rows (waited r c n (sleepSec r w1))). logTs x < logTs l) \<and>
       \<not> openIn (rows (waited r c n (sleepSec r w1)))" by blast
    have step: "waited r c (Suc m) w = waited r c m (sleepSec r w1)" for m
      by (simp add: b)
    have "fst (busy r c (waited r c m w)) = Inr True" if "m < Suc n" for m
      using that n(2) b True by (cases m) (auto simp: step simp del: waited.simps(2))
    then show ?thesis
      using n by (intro exI [of _ "Suc n"] conjI exI [of _ l]) (simp_all only: step, auto)
  next
    case False
    with Suc.prems b obtain tx w2 l where l: "uuidv4 r w1 = (tx, w2)"
        "insertLog r (Some c) OPEN_TRANSACTION (Some tx) None w2 = (Inr l, w')"
      by (auto simp: drawing_def andThen_apply split: prod.splits sum.splits)
    have "rows w2 = rows w1"
      using l(1) audit_store.uuid_keeps [OF store, of w1] by simp
    with clocked_store.insertLog_last [OF assms(1) l(2)] False read b show ?thesis
      by (intro exI [of _ 0]) auto
  qed
qed simp

lemma openLoop_busy:
  "\<forall>m<k. fst (busy r c (waited r c m w)) = Inr True \<Longrightarrow> openLoop r c k w = (Inr False, waited r c k w)"
proof (induction k arbitrary: w)
  case (Suc k)
  obtain x w1 where w1: "busy r c w = (x, w1)" by (rule prod.exhaust)
  have x: "x = Inr True" using Suc.prems w1 by force
  have "\<forall>m<k. fst (busy r c (waited r c m (sleepSec r w1))) = Inr True"
    using Suc.prems w1 by fastforce
  from Suc.IH [OF this] show ?case using w1 x by (simp add: andThen_apply)
qed simp

text \<open>
  C26. A transaction is opened only when none is open: when \<open>maybeOpenTransaction\<close> returns, one of its
  first 120 polls found no open transaction and no running commit, all polls before it were
  turned away, and the one row added at that moment is an \<open>OPEN_TRANSACTION\<close> newer than every other
  row, so that the log now has an open transaction.
\<close>

theorem maybeOpenTransaction_opens:
  assumes "clocked_store r rows" and "maybeOpenTransaction r c w = (Inr (), w')"
  shows "openIn (rows w') \<and> (\<exists>n<120. \<exists>l. (\<forall>m<n. fst (busy r c (waited r c m w)) = Inr True) \<and>
    rows w' = rows (waited r c n w) @ [l] \<and> changeType l = OPEN_TRANSACTION \<and>
    (\<forall>x\<in>set (rows (waited r c n w)). logTs x < logTs l) \<and> \<not> openIn (rows (waited r c n w)))"
proof -
  from assms(2) have "openLoop r c 120 w = (Inr True, w')"
    by (auto simp: maybeOpenTransaction_def andThen_Inr_iff split: if_splits)
  from openLoop_free [OF assms(1) this] obtain n l where n: "n < 120"
    "\<forall>m<n. fst (busy r c (waited r c m w)) = Inr True"
    "rows w' = rows (waited r c n w) @ [l]" "changeType l = OPEN_TRANSACTION"
    "\<forall>x\<in>set (rows (waited r c n w)). logTs x < logTs l" "\<not> openIn (rows (waited r c n w))" by blast
  then have "openIn (rows w')" unfolding openIn_def by (intro bexI [of _ l]) auto
  with n show ?thesis by blast
qed

text \<open>
  Giving up: when the database is busy at each of 120 polls a second apart,
  \<open>maybeOpenTransaction\<close> throws its error after the 120th sleep, having written nothing itself.
\<close>

theorem maybeOpenTransaction_gives_up:
  assumes "\<forall>m<120. fst (busy r c (waited r c m w)) = Inr True"
  shows "maybeOpenTransaction r c w =
    (Inl (mkError r ''Another transaction is open or running. Please try again later.''), waited r c 120 w)"
  using openLoop_busy [OF assms] by (simp add: maybeOpenTransaction_def andThen_apply)

definition demoOpen :: "audit_log list" where
  "demoOpen = [userRow 1 1, bracketRow 2 2 OPEN_TRANSACTION]"

lemma table_find [simp]: "findLogs (tableRepo u) c q rs = (Inr (tableFind q rs), rs)"
  by (simp add: tableRepo_def)

lemma table_busy: "\<exists>b. busy (tableRepo u) c rs = (Inr b, rs)"
  by (simp add: busy_def isCommitRunning_def isOpenTransaction_def andThen_apply)

lemma table_waited: "waited (tableRepo u) c n rs = rs"
proof (induction n)
  case (Suc n)
  obtain b where "busy (tableRepo u) c rs = (Inr b, rs)" using table_busy by blast
  moreover have "sleepSec (tableRepo u) rs = rs" by (simp add: tableRepo_def)
  ultimately show ?case using Suc by simp
qed simp

lemma demoOpen_busy: "busy (tableRepo ''iasql'') 0 demoOpen = (Inr True, demoOpen)"
proof -
  obtain b where b: "busy (tableRepo ''iasql'') 0 demoOpen = (Inr b, demoOpen)"
    using table_busy by blast
  moreover have "openIn demoOpen"
    by (simp add: openIn_def demoOpen_def userRow_def bracketRow_def newLog_def)
  ultimately show ?thesis
    using table.busy_reads(2) [OF b] by simp
qed

theorem maybeOpenTransaction_gives_up_witness:
  "maybeOpenTransaction (tableRepo ''iasql'') 0 demoOpen =
     (Inl ''Another transaction is open or running. Please try again later.'', demoOpen)"
proof -
  have "mkError (tableRepo ''iasql'') = (\<lambda>m. m)" by (simp add: tableRepo_def)
  then show ?thesis
    using maybeOpenTransaction_gives_up [of "tableRepo ''iasql''" 0 demoOpen]
    by (simp only: table_waited demoOpen_busy fst_conv simp_thms)
qed

lemma empty_busy: "busy (tableRepo u) c [] = (Inr False, [])"
  by (simp add: busy_def isCommitRunning_def isOpenTransaction_def andThen_apply
      tableFind_def sortRows_def whereType_def)

lemma openLoop_idle:
  "busy r c w = (Inr False, w1) \<Longrightarrow> uuidv4 r w1 = (tx, w2) \<Longrightarrow>
     insertLog r (Some c) OPEN_TRANSACTION (Some tx) None w2 = (Inr l, w3) \<Longrightarrow>
     openLoop r c (Suc k) w = (Inr True, w3)"
  by (simp add: andThen_apply drawing_def)

lemma empty_open:
  "insertLog (tableRepo ''iasql'') (Some 0) OPEN_TRANSACTION (Some ''t0'') None []
     = (Inr (newLog (tableRepo ''iasql'') OPEN_TRANSACTION (Some ''t0'') None 1\<lparr> logId := Some 1 \<rparr>),
        [newLog (tableRepo ''iasql'') OPEN_TRANSACTION (Some ''t0'') None 1\<lparr> logId := Some 1 \<rparr>])"
  by (simp add: insertLog_def drawing_def andThen_apply tableRepo_def nextTs_def saveIf_def
      orm_save_small tableSave_def nextId_def idNum_def newLog_def truthyStr_def upsertLog_def
      updateNulls_def Let_def)

lemma empty_opens:
  "maybeOpenTransaction (tableRepo ''iasql'') 0 [] =
     (Inr (), [newLog (tableRepo ''iasql'') OPEN_TRANSACTION (Some ''t0'') None 1\<lparr> logId := Some 1 \<rparr>])"
proof -
  have "digits 0 = ''0''" by (subst digits.simps) code_simp
  then have "uuidv4 (tableRepo ''iasql'') [] = (''t0'', [])"
    by (simp add: tableRepo_def)
  moreover have "(120::nat) = Suc 119" by simp
  ultimately show ?thesis
    using openLoop_idle [OF empty_busy _ empty_open, of 119]
    by (simp add: maybeOpenTransaction_def andThen_apply del: openLoop.simps)
qed

theorem maybeOpenTransaction_opens_witness:
  "openIn [newLog (tableRepo ''iasql'') OPEN_TRANSACTION (Some ''t0'') None 1\<lparr> logId := Some 1 \<rparr>]"
  using maybeOpenTransaction_opens [OF table.clocked_store_axioms empty_opens] by blast

text \<open>What \<open>updateIasqlRecordsSince\<close> and \<open>closeTransaction\<close> stamp.\<close>

definition stamp :: "string option \<Rightarrow> audit_log \<Rightarrow> audit_log" where
  "stamp tx l = (case truthyStr tx of None \<Rightarrow> l | Some t \<Rightarrow> l\<lparr> transactionId := Some t \<rparr>)"

definition pendingSince :: "('w, 'e) repo \<Rightarrow> int \<Rightarrow> audit_log \<Rightarrow> bool" where
  "pendingSince r t x \<longleftrightarrow> changeType x \<in> {INSERT, UPDATE, DELETE} \<and> transactionId x = None \<and>
     t < logTs x \<and> logUser x = dbUser r"

lemma stamp_simps [simp]:
  "logId (stamp tx l) = logId l" "logTs (stamp tx l) = logTs l" "logUser (stamp tx l) = logUser l"
  "changeType (stamp tx l) = changeType l" "tableName (stamp tx l) = tableName l"
  "change (stamp tx l) = change l"
  by (simp_all add: stamp_def split: option.splits)

lemma associateTransaction_stamp:
  "associateTransaction r orm changes tx = andThen (saveIf r orm (map (stamp tx) changes)) (\<lambda>_. ret ())"
  by (simp add: associateTransaction_def stamp_def [abs_def])

context audit_store
begin

lemma associateTransaction_rows:
  assumes "wfRows (rows w)" and "set changes \<subseteq> set (rows w)"
    and "associateTransaction r (Some c) changes tx w = (Inr (), w')"
  shows "rows w' = map (\<lambda>x. if x \<in> set changes then stamp tx x else x) (rows w)"
proof -
  from assms(3) obtain saved where "saveIf r (Some c) (map (stamp tx) changes) w = (Inr saved, w')"
    by (auto simp: associateTransaction_stamp andThen_Inr_iff)
  moreover have "\<forall>l\<in>set (map (stamp tx) changes). logId l \<noteq> None"
    using assms(1,2) by (auto simp: wfRows_def)
  ultimately have "rows w' = fold upsertLog (map (stamp tx) changes) (rows w)"
    by (rule saveIf_known)
  with upsert_known [OF assms(1) _ assms(2), of "stamp tx"] show ?thesis by simp
qed

lemma updateIasqlRecordsSince_rows:
  assumes "wfRows (rows w)" and "updateIasqlRecordsSince r ct (Some c) tx w = (Inr (), w')"
  shows "((\<forall>l\<in>set (rows w). changeType l \<noteq> ct) \<and> rows w' = rows w) \<or>
    (\<exists>l\<in>set (rows w). changeType l = ct \<and> (\<forall>y\<in>set (rows w). changeType y = ct \<longrightarrow> logTs y \<le> logTs l) \<and>
       rows w' = map (\<lambda>x. if pendingSince r (logTs l) x then stamp tx x else x) (rows w))"
proof -
  from assms(2) obtain x w1 where x: "findOneLog r c (whereType (TypeIs ct)) w = (Inr x, w1)"
    by (auto simp: updateIasqlRecordsSince_def andThen_Inr_iff)
  note one = findOne_newest [OF x]
  show ?thesis
  proof (cases x)
    case None
    with assms(2) x one show ?thesis
      by (simp add: updateIasqlRecordsSince_def andThen_apply)
  next
    case (Some l)
    let ?q = "(whereType (TypeIn [INSERT, UPDATE, DELETE]))
      \<lparr> qTs := TsMoreThan (logTs l), qUser := UserIs (dbUser r), qTxNull := True \<rparr>"
    from assms(2) x Some obtain changes w2 where ch: "findLogs r c ?q w1 = (Inr changes, w2)"
        "associateTransaction r (Some c) changes tx w2 = (Inr (), w')"
      by (auto simp: updateIasqlRecordsSince_def andThen_apply split: prod.splits sum.splits)
    have rows: "rows w1 = rows w" "rows w2 = rows w"
      using one find_rows [OF ch(1)] by simp_all
    have "set changes = {y \<in> set (rows w). matches ?q y}"
      using set_of_answers [OF find_answers [OF ch(1)]] rows by (simp add: whereType_def)
    also have "\<dots> = {y \<in> set (rows w). pendingSince r (logTs l) y}"
      by (auto simp: matches_def whereType_def pendingSince_def)
    finally have set: "set changes = {y \<in> set (rows w). pendingSince r (logTs l) y}" .
    have "rows w' = map (\<lambda>y. if y \<in> set changes then stamp tx y else y) (rows w2)"
      using assms(1) set rows by (intro associateTransaction_rows [OF _ _ ch(2)]) auto
    also have "\<dots> = map (\<lambda>y. if pendingSince r (logTs l) y then stamp tx y else y) (rows w)"
      using set rows by (intro map_cong) auto
    finally show ?thesis using one Some by auto
  qed
qed

end

text \<open>
  C35. Closing a transaction: afterwards no transaction is open, and the only changes to the log are
  the closing bracket and the id of the transaction on exactly those changes made by the engine since the
  transaction was opened that had none.
\<close>

theorem closeTransaction_closes:
  assumes "clocked_store r rows" and "wfRows (rows w)"
    and "op \<in> set (rows w)" "changeType op = OPEN_TRANSACTION"
    and "\<forall>x\<in>set (rows w). changeType x = OPEN_TRANSACTION \<longrightarrow> x \<noteq> op \<longrightarrow> logTs x < logTs op"
    and "closeTransaction r c w = (Inr (), w')"
  shows "closedIn (rows w') \<and> (\<exists>l. changeType l = CLOSE_TRANSACTION \<and>
    transactionId l = truthyStr (transactionId op) \<and>
    rows w' = map (\<lambda>x. if pendingSince r (logTs op) x then stamp (transactionId op) x else x) (rows w) @ [l])"
proof -
  have store: "audit_store r rows"
    using assms(1) by (rule clocked_store.axioms(1))
  from assms(6) obtain tx w1 w2 l where s: "getCurrentTransactionId r c w = (Inr tx, w1)"
      "updateIasqlRecordsSince r OPEN_TRANSACTION (Some c) tx w1 = (Inr (), w2)"
      "insertLog r (Some c) CLOSE_TRANSACTION tx None w2 = (Inr l, w')"
    by (auto simp: closeTransaction_def andThen_Inr_iff)
  have w1: "rows w1 = rows w" and tx: "tx = transactionId op"
    using audit_store.getCurrentTransactionId_reads [OF store s(1)] assms(3-5) by blast+
  from audit_store.updateIasqlRecordsSince_rows [OF store _ s(2)] w1 assms(2-4)
  obtain l0 where "l0 \<in> set (rows w)" "changeType l0 = OPEN_TRANSACTION"
      "\<forall>y\<in>set (rows w). changeType y = OPEN_TRANSACTION \<longrightarrow> logTs y \<le> logTs l0"
      "rows w2 = map (\<lambda>x. if pendingSince r (logTs l0) x then stamp tx x else x) (rows w)" by auto
  moreover from this(1,2,3) assms(3-5) have "l0 = op" by force
  ultimately have w2: "rows w2 = map (\<lambda>x. if pendingSince r (logTs op) x then stamp tx x else x) (rows w)"
    by simp
  note last = clocked_store.insertLog_last [OF assms(1) s(3)]
  have "closedIn (rows w')"
    unfolding closedIn_def using last by (auto intro!: bexI [of _ l])
  with last w2 tx show ?thesis by auto
qed

lemma returns_orm_save:
  assumes "\<And>ls. returns (save ls)"
  shows "returns (orm_save clear save ls)"
proof -
  have "returns (saveFrom save ls 0)"
    using saveFrom_batches [of ls 0 "length ls" save] assms by auto
  then show ?thesis using assms by (auto simp: orm_save_def)
qed

lemma table_saves: "returns (saveIf (tableRepo u) orm ls)"
proof -
  have "returns (saveLogs (tableRepo u) c ls)" for c ls
    by (auto simp: returns_def tableRepo_def split: prod.splits)
  then show ?thesis
    by (auto simp: saveIf_def intro: returns_orm_save split: option.splits)
qed

lemma table_finds: "returns (findLogs (tableRepo u) c q)"
  by (simp add: returns_def)

lemma table_inserts: "returns (insertLog (tableRepo u) orm ct tx msg)"
  by (auto simp: insertLog_def Let_def drawing_def intro!: returns_andThen table_saves)
    (simp add: returns_def split: prod.splits)

lemma table_closes: "returns (closeTransaction (tableRepo u) c)"
  by (auto simp: closeTransaction_def getCurrentTransactionId_def findOneLog_def
      updateIasqlRecordsSince_def associateTransaction_def
      intro!: returns_andThen table_inserts table_saves table_finds split: option.splits)

definition demoClose :: "audit_log list" where
  "demoClose = [bracketRow 1 1 OPEN_TRANSACTION, (userRow 2 2)\<lparr> logUser := ''iasql'' \<rparr>]"

theorem closeTransaction_closes_witness:
  "\<exists>w'. closeTransaction (tableRepo ''iasql'') 0 demoClose = (Inr (), w') \<and> closedIn w'"
proof -
  obtain w' where w': "closeTransaction (tableRepo ''iasql'') 0 demoClose = (Inr (), w')"
    by (rule returnsE [OF table_closes [of "''iasql''" 0], of demoClose]) auto
  have "closedIn w'"
    by (rule closeTransaction_closes [OF table.clocked_store_axioms _ _ _ _ w',
          where op = "bracketRow 1 1 OPEN_TRANSACTION", THEN conjunct1])
      (simp_all add: demoClose_def wfRows_def bracketRow_def newLog_def userRow_def)
  with w' show ?thesis by blast
qed

section \<open>The changes of a commit\<close>

text \<open>
  The changes a commit picks up: those of the users' rows, brackets aside, that lie between the
  previous \<open>START_COMMIT\<close> and its own.
\<close>

definition inWindow :: "('w, 'e) repo \<Rightarrow> audit_log list \<Rightarrow> int \<Rightarrow> audit_log \<Rightarrow> bool" where
  "inWindow r rs t l \<longleftrightarrow> changeType l \<notin> set commitBrackets \<and> logUser l \<noteq> dbUser r \<and>
     (if \<exists>s\<in>set rs. changeType s = START_COMMIT \<and> logTs s < t
      then (\<forall>s\<in>set rs. changeType s = START_COMMIT \<longrightarrow> logTs s < t \<longrightarrow> logTs s \<le> logTs l) \<and> logTs l \<le> t
      else logTs l < t)"

lemma previous_start:
  assumes "audit_store r rows" and "getPreviousStartCommit r c t w = (Inr p, w1)"
  shows "rows w1 = rows w"
    "p = None \<longleftrightarrow> (\<forall>s\<in>set (rows w). changeType s = START_COMMIT \<longrightarrow> \<not> logTs s < t)"
    "p = Some s \<Longrightarrow> s \<in> set (rows w) \<and> changeType s = START_COMMIT \<and> logTs s < t \<and>
       (\<forall>x\<in>set (rows w). changeType x = START_COMMIT \<longrightarrow> logTs x < t \<longrightarrow> logTs x \<le> logTs s)"
proof -
  let ?q = "(whereType (TypeIs START_COMMIT)) \<lparr> qTs := TsLessThan t, qTake := Some 2 \<rparr>"
  from assms(2) obtain ls where ls: "findLogs r c ?q w = (Inr ls, w1)"
      "p = (case ls of [] \<Rightarrow> None | l # _ \<Rightarrow> Some l)"
    by (auto simp: getPreviousStartCommit_def andThen_Inr_iff)
  show "rows w1 = rows w"
    by (rule audit_store.find_rows [OF assms(1) ls(1)])
  from audit_store.find_answers [OF assms(1) ls(1)] obtain found where f:
      "mset found = mset (filter (matches ?q) (rows w))" "sorted_wrt (later False) found" "ls = take 2 found"
    by (auto simp: answers_def whereType_def)
  have set: "set found = {s \<in> set (rows w). changeType s = START_COMMIT \<and> logTs s < t}"
    using arg_cong [OF f(1), of set_mset] by (auto simp: matches_def whereType_def)
  show "p = None \<longleftrightarrow> (\<forall>s\<in>set (rows w). changeType s = START_COMMIT \<longrightarrow> \<not> logTs s < t)"
    using ls(2) f(3) set by (cases found) (auto split: list.splits)
  show "s \<in> set (rows w) \<and> changeType s = START_COMMIT \<and> logTs s < t \<and>
       (\<forall>x\<in>set (rows w). changeType x = START_COMMIT \<longrightarrow> logTs x < t \<longrightarrow> logTs x \<le> logTs s)"
    if "p = Some s"
  proof (cases found)
    case Nil
    with that ls(2) f(3) show ?thesis by simp
  next
    case (Cons a more)
    with that ls(2) f(3) have "s = a" by simp
    moreover have "\<forall>x\<in>set more. logTs x \<le> logTs a"
      using f(2) Cons by (auto simp: later_def)
    ultimately have "s \<in> set found" "\<forall>x\<in>set found. logTs x \<le> logTs s"
      using Cons by simp_all
    then show ?thesis using set by blast
  qed
qed

lemma window_of_commit:
  assumes "audit_store r rows"
    and "getPreviousStartCommit r c (logTs n) w = (Inr p, w1)"
    and "getChangesToCommit r c n p w1 = (Inr ls, w2)"
  shows "set ls = {l \<in> set (rows w). inWindow r (rows w) (logTs n) l} \<and> rows w2 = rows w"
proof -
  note prev = previous_start [OF assms(1,2)]
  let ?ts = "case p of Some p \<Rightarrow> TsBetween (logTs p) (logTs n) | None \<Rightarrow> TsLessThan (logTs n)"
  let ?q = "(whereType (TypeNotIn commitBrackets)) \<lparr> qTs := ?ts, qUser := UserNot (dbUser r) \<rparr>"
  from assms(3) have find: "findLogs r c ?q w1 = (Inr ls, w2)"
    by (simp add: getChangesToCommit_def)
  have "set ls = {l \<in> set (rows w). matches ?q l}"
    using set_of_answers [OF audit_store.find_answers [OF assms(1) find]] prev(1)
    by (simp add: whereType_def)
  moreover have "matches ?q l \<longleftrightarrow> inWindow r (rows w) (logTs n) l" if "l \<in> set (rows w)" for l
  proof (cases p)
    case None
    with prev(2) show ?thesis by (auto simp: matches_def whereType_def inWindow_def)
  next
    case (Some s)
    with prev(3) [OF Some] show ?thesis
      by (auto simp: matches_def whereType_def inWindow_def)
  qed
  moreover have "rows w2 = rows w"
    using audit_store.find_rows [OF assms(1) find] prev(1) by simp
  ultimately show ?thesis by auto
qed

text \<open>
  A commit works on exactly the users' changes since the previous commit: the rows that
  \<open>getChangesToCommit\<close> answers, given what \<open>getPreviousStartCommit\<close> answered, are those of users
  other than the engine, brackets aside, from the latest earlier \<open>START_COMMIT\<close> up to the new one.
\<close>

theorem getChangesToCommit_window:
  assumes "audit_store r rows"
    and "getPreviousStartCommit r c (logTs n) w = (Inr p, w1)"
    and "getChangesToCommit r c n p w1 = (Inr ls, w2)"
  shows "set ls = {l \<in> set (rows w). inWindow r (rows w) (logTs n) l} \<and> rows w2 = rows w"
  using assms by (rule window_of_commit)

text \<open>
  No change of a user escapes the commits: a change that was logged before some
  \<open>START_COMMIT\<close> is among the changes of the first commit that started after it.
\<close>

theorem every_change_committed:
  assumes "audit_store r rows"
    and "l \<in> set (rows w)" "changeType l \<notin> set commitBrackets" "logUser l \<noteq> dbUser r"
    and "s0 \<in> set (rows w)" "changeType s0 = START_COMMIT" "logTs l < logTs s0"
  shows "\<exists>s\<in>set (rows w). changeType s = START_COMMIT \<and> logTs l < logTs s \<and>
    (\<forall>c p w1 ls w2. getPreviousStartCommit r c (logTs s) w = (Inr p, w1) \<longrightarrow>
       getChangesToCommit r c s p w1 = (Inr ls, w2) \<longrightarrow> l \<in> set ls)"
proof -
  let ?S = "{s \<in> set (rows w). changeType s = START_COMMIT \<and> logTs l < logTs s}"
  have "finite ?S" "?S \<noteq> {}" using assms(5-7) by auto
  then obtain s where s: "s \<in> ?S" "\<forall>x\<in>?S. logTs s \<le> logTs x"
    by (metis (no_types, lifting) arg_min_if_finite(1) arg_min_least)
  have "inWindow r (rows w) (logTs s) l"
    using s assms(3,4) unfolding inWindow_def by force
  then have "\<forall>c p w1 ls w2. getPreviousStartCommit r c (logTs s) w = (Inr p, w1) \<longrightarrow>
       getChangesToCommit r c s p w1 = (Inr ls, w2) \<longrightarrow> l \<in> set ls"
    using window_of_commit [OF assms(1)] assms(2) by blast
  with s show ?thesis by blast
qed

definition demoCommit :: "audit_log list" where
  "demoCommit = [userRow 1 1, bracketRow 2 2 START_COMMIT]"

lemma demoCommit_runs:
  "\<exists>p ls. getPreviousStartCommit (tableRepo ''iasql'') 0 2 demoCommit = (Inr p, demoCommit) \<and>
     getChangesToCommit (tableRepo ''iasql'') 0 (bracketRow 2 2 START_COMMIT) p demoCommit = (Inr ls, demoCommit)"
  by (simp add: getPreviousStartCommit_def getChangesToCommit_def andThen_apply)

lemma demoCommit_window:
  "inWindow (tableRepo ''iasql'') demoCommit 2 (userRow 1 1)"
  by (simp add: inWindow_def demoCommit_def userRow_def bracketRow_def newLog_def tableRepo_def)

theorem getChangesToCommit_window_witness:
  "\<exists>p ls. getPreviousStartCommit (tableRepo ''iasql'') 0 2 demoCommit = (Inr p, demoCommit) \<and>
     getChangesToCommit (tableRepo ''iasql'') 0 (bracketRow 2 2 START_COMMIT) p demoCommit = (Inr ls, demoCommit) \<and>
     userRow 1 1 \<in> set ls"
proof -
  obtain p ls where run: "getPreviousStartCommit (tableRepo ''iasql'') 0 2 demoCommit = (Inr p, demoCommit)"
     "getChangesToCommit (tableRepo ''iasql'') 0 (bracketRow 2 2 START_COMMIT) p demoCommit = (Inr ls, demoCommit)"
    using demoCommit_runs by blast
  have "logTs (bracketRow 2 2 START_COMMIT) = 2" by (simp add: bracketRow_def newLog_def)
  with getChangesToCommit_window [OF table.audit_store_axioms _ run(2)] run(1)
  have "set ls = {l \<in> set demoCommit. inWindow (tableRepo ''iasql'') demoCommit 2 l}" by simp
  with demoCommit_window run show ?thesis by (auto simp: demoCommit_def)
qed

theorem every_change_committed_witness:
  "\<exists>s\<in>set demoCommit. changeType s = START_COMMIT \<and> 1 < logTs s"
  using every_change_committed [OF table.audit_store_axioms, of "userRow 1 1" demoCommit "''iasql''"
      "bracketRow 2 2 START_COMMIT"]
  by (auto simp: demoCommit_def userRow_def bracketRow_def newLog_def tableRepo_def)

end
