(* ===== verification/Aws_Context.thy ===== *)
theory Aws_Context
  imports Mapper_Id Aws_Macros Audit_Log
begin

text \<open>
  What the mappers of the AWS modules share: errors of the SDK, operations of the outside world, optional
  columns as values, loops that leave elements out (\<open>continue\<close> and \<open>out.push\<close>), searches in strings, and
  the tables of the context's memo.
\<close>

section \<open>Errors and values\<close>

record aws_err =
  errCode :: string       \<comment> \<open>\<open>e.Code\<close>, empty when there is none\<close>
  errText :: string

definition plainErr :: "string \<Rightarrow> aws_err" where
  "plainErr m = \<lparr> errCode = [], errText = m \<rparr>"

abbreviation jsTypeErr :: aws_err where
  "jsTypeErr \<equiv> plainErr ''TypeError''"

type_synonym ('w, 'a) awsop = "('w, aws_err, 'a) action"

definition optStr :: "string option \<Rightarrow> jsval" where
  "optStr s = (case s of None \<Rightarrow> JUndef | Some x \<Rightarrow> JStr x)"

definition optNum :: "int option \<Rightarrow> jsval" where
  "optNum n = (case n of None \<Rightarrow> JUndef | Some x \<Rightarrow> JNum x)"

text \<open>The value of a template literal for an optional string.\<close>

definition shownStr :: "string option \<Rightarrow> string" where
  "shownStr s = (case s of None \<Rightarrow> ''undefined'' | Some x \<Rightarrow> x)"

section \<open>Loops\<close>

fun somes :: "'a option list \<Rightarrow> 'a list" where
  "somes [] = []"
| "somes (None # xs) = somes xs"
| "somes (Some x # xs) = x # somes xs"

text \<open>\<open>for (const x of xs) { ...; out.push(y) }\<close>, where \<open>None\<close> is \<open>continue\<close>.\<close>

definition collectM :: "('a \<Rightarrow> ('s, 'e, 'b option) action) \<Rightarrow> 'a list \<Rightarrow> ('s, 'e, 'b list) action" where
  "collectM f xs = andThen (mapM f xs) (\<lambda>ys. ret (somes ys))"

lemma length_somes: "length (somes xs) \<le> length xs"
  by (induction xs rule: somes.induct) auto

lemma somes_map_Some [simp]: "somes (map (\<lambda>x. Some (f x)) xs) = map f xs"
  by (induction xs) auto

lemma somes_append [simp]: "somes (xs @ ys) = somes xs @ somes ys"
  by (induction xs rule: somes.induct) auto

lemma set_somes: "set (somes xs) = {x. Some x \<in> set xs}"
  by (induction xs rule: somes.induct) auto

lemma collectM_Nil [simp]: "collectM f [] = ret []"
  by (rule ext) (simp add: collectM_def)

lemma collectM_Cons:
  "collectM f (x # xs) = andThen (f x) (\<lambda>y. andThen (collectM f xs) (\<lambda>ys. ret (case y of None \<Rightarrow> ys | Some z \<Rightarrow> z # ys)))"
  by (rule ext) (auto simp: collectM_def andThen_def split: prod.split sum.split option.split)

lemma keeps_collectM [intro]: "(\<And>x. x \<in> set xs \<Longrightarrow> keeps P (f x)) \<Longrightarrow> keeps P (collectM f xs)"
  unfolding collectM_def by (intro keeps_andThen keeps_mapM) auto

lemma mapM_length: "mapM f xs s = (Inr ys, s') \<Longrightarrow> length ys = length xs"
  by (induction xs arbitrary: ys s) (auto simp: andThen_Inr_iff)

text \<open>The same with actions that may not return.\<close>

fun pMapM :: "('a \<Rightarrow> ('s, 'e, 'b) paction) \<Rightarrow> 'a list \<Rightarrow> ('s, 'e, 'b list) paction" where
  "pMapM f [] = always (ret [])"
| "pMapM f (x # xs) = pThen (f x) (\<lambda>y. pThen (pMapM f xs) (\<lambda>ys. always (ret (y # ys))))"

definition pCollect :: "('a \<Rightarrow> ('s, 'e, 'b option) paction) \<Rightarrow> 'a list \<Rightarrow> ('s, 'e, 'b list) paction" where
  "pCollect f xs = pThen (pMapM f xs) (\<lambda>ys. always (ret (somes ys)))"

definition pCatch :: "('s, 'e, 'a) paction \<Rightarrow> ('e \<Rightarrow> ('s, 'e, 'a) paction) \<Rightarrow> ('s, 'e, 'a) paction" where
  "pCatch m h = (\<lambda>s. case m s of None \<Rightarrow> None | Some (Inl e, s') \<Rightarrow> h e s' | Some (Inr a, s') \<Rightarrow> Some (Inr a, s'))"

text \<open>\<open>err.message = prefix + err.message; throw err\<close>\<close>

definition relabel :: "string \<Rightarrow> aws_err \<Rightarrow> aws_err" where
  "relabel prefix e = e\<lparr> errText := prefix @ errText e \<rparr>"

section \<open>Strings\<close>

definition indexOf :: "string \<Rightarrow> string \<Rightarrow> nat option" where     \<comment> \<open>\<open>None\<close>: -1\<close>
  "indexOf s d = find (\<lambda>i. take (length d) (drop i s) = d) [0..<Suc (length s)]"

definition includesStr :: "string \<Rightarrow> string \<Rightarrow> bool" where
  "includesStr s d = (indexOf s d \<noteq> None)"

definition endsIn :: "string \<Rightarrow> string \<Rightarrow> bool" where
  "endsIn d s = (length d \<le> length s \<and> drop (length s - length d) s = d)"

lemma endsIn_append [simp]: "endsIn d (s @ d)"
  by (simp add: endsIn_def)

section \<open>Memo tables\<close>

text \<open>\<open>ctx.memo[dest][entity]\<close> for one entity; a missing table is \<open>None\<close>.\<close>

definition tableRows :: "'a obj option \<Rightarrow> 'a obj" where
  "tableRows m = (case m of None \<Rightarrow> [] | Some t \<Rightarrow> t)"

text \<open>\<open>Crud.memo\<close> of one entity: the properties are copied into the object that is there.\<close>

definition memoWith :: "('a \<Rightarrow> 'a \<Rightarrow> 'a) \<Rightarrow> string \<Rightarrow> 'a \<Rightarrow> 'a obj option \<Rightarrow> 'a \<times> 'a obj option" where
  "memoWith merge k e m =
     (let e' = (case map_of (tableRows m) k of None \<Rightarrow> e | Some old \<Rightarrow> merge e old)
      in (e', Some (obj_set k e' (tableRows m))))"

definition unmemoKey :: "string \<Rightarrow> 'a obj option \<Rightarrow> 'a obj option" where
  "unmemoKey k m = Some (obj_delete k (tableRows m))"

lemma memoWith_find:
  "memoWith merge k e m = (e', m') \<Longrightarrow>
     map_of (tableRows m') k' = (if k' = k then Some e' else map_of (tableRows m) k')"
  by (auto simp: memoWith_def tableRows_def Let_def)

end
