(* ===== verification/Security_Group.thy ===== *)
theory Security_Group
  imports Aws_Context "HOL-Library.Sublist"
begin

text \<open>
  Security groups between the database and AWS: \<open>SecurityGroupMapper\<close> of
  \<open>src/src/modules/aws_security_group/index.ts\<close> and the entity \<open>SecurityGroup\<close>.

  Parameters (\<open>sg_env\<close>) are the calls of the EC2 client, the ORM, and the reads of the VPC mapper and
  of the rule mapper.  The state has the world of these and the four caches of the context that the
  handlers write by hand; what \<open>Crud\<close> itself writes to the caches is in \<open>Crud_Cache\<close>.
\<close>

section \<open>Entities\<close>

record vpc =
  vpcPk :: "int option"
  vpcId :: "string option"
  isDefault :: bool
  vpcRegion :: string

record sgroup =
  sgPk :: "int option"
  sgDescription :: "string option"
  groupName :: "string option"
  ownerId :: "string option"
  groupId :: "string option"
  sgVpc :: "vpc option"
  sgRegion :: string

record sgrule =
  rulePk :: "int option"
  securityGroupRuleId :: "string option"
  securityGroup :: "sgroup option"
  isEgress :: bool
  ipProtocol :: "string option"
  fromPort :: "int option"
  toPort :: "int option"
  cidrIpv4 :: "string option"
  cidrIpv6 :: "string option"
  prefixListId :: "string option"
  ruleDescription :: "string option"
  sourceSecurityGroup :: "sgroup option"
  ruleRegion :: string

text \<open>\<open>this.entityId\<close> for the columns marked \<open>@cloudId\<close>\<close>

definition sgEntityId :: "sgroup \<Rightarrow> string" where
  "sgEntityId e = entityId (Some [''groupId'', ''region'']) ''id''
     [(''id'', optNum (sgPk e)), (''groupId'', optStr (groupId e)), (''region'', JStr (sgRegion e))]"

definition vpcIdOf :: "sgroup \<Rightarrow> string option" where   \<comment> \<open>\<open>e.vpc?.vpcId\<close>\<close>
  "vpcIdOf e = (case sgVpc e of None \<Rightarrow> None | Some v \<Rightarrow> vpcId v)"

section \<open>AWS\<close>

record aws_group =
  agDescription :: "string option"
  agName :: "string option"
  agOwner :: "string option"
  agId :: "string option"
  agVpc :: "string option"

record aws_rule =
  arId :: "string option"
  arGroup :: "string option"
  arEgress :: "bool option"
  arReferenced :: "string option option"   \<comment> \<open>\<open>ReferencedGroupInfo\<close> and its \<open>GroupId\<close>\<close>
  arFrom :: "int option"
  arTo :: "int option"
  arCidr4 :: "string option"
  arCidr6 :: "string option"
  arProtocol :: "string option"
  arPrefix :: "string option"
  arDescription :: "string option"

record aws_eni =
  eniId :: string
  eniStatus :: string
  eniAttachment :: "string option"          \<comment> \<open>\<open>Attachment?.Status\<close>\<close>

record revoke_input =
  rvGroup :: "string"
  rvRules :: "string option list"

record 'w sg_env =
  enabledRegions :: "('w, string list) awsop"
  createGroup :: "string \<Rightarrow> string option \<Rightarrow> string option \<Rightarrow> string option \<Rightarrow> ('w, string option) awsop"
    \<comment> \<open>region, description, name and VPC; the \<open>GroupId\<close> of the result\<close>
  describeGroup :: "string \<Rightarrow> string \<Rightarrow> ('w, aws_group option) awsop"
  describeGroups :: "string \<Rightarrow> ('w, aws_group list) awsop"
  deleteGroup :: "string \<Rightarrow> string option \<Rightarrow> ('w, unit) awsop"
  describeEnis :: "string \<Rightarrow> string option \<Rightarrow> ('w, aws_eni list option) awsop"
  deleteEni :: "string \<Rightarrow> string \<Rightarrow> ('w, unit) awsop"
  enisText :: "aws_eni list \<Rightarrow> string"                     \<comment> \<open>\<open>JSON.stringify\<close>\<close>
  describeRulesOf :: "string \<Rightarrow> string \<Rightarrow> ('w, aws_rule list option) awsop"
  revokeIngress :: "string \<Rightarrow> revoke_input \<Rightarrow> ('w, bool option) awsop"   \<comment> \<open>\<open>Return\<close>\<close>
  revokeEgress :: "string \<Rightarrow> revoke_input \<Rightarrow> ('w, bool option) awsop"
  vpcDb :: "string \<Rightarrow> string \<Rightarrow> ('w, vpc option) awsop"     \<comment> \<open>\<open>awsVpcModule.vpc.db.read\<close> of \<open>vpcId\<close> and region\<close>
  vpcCloud :: "string \<Rightarrow> string \<Rightarrow> ('w, vpc option) awsop"
  vpcsCloud :: "('w, vpc list) awsop"
  findGroups :: "(string \<times> string) option \<Rightarrow> ('w, sgroup list) awsop"   \<comment> \<open>\<open>orm.find\<close>\<close>
  saveGroups :: "sgroup list \<Rightarrow> ('w, unit) awsop"
  removeGroups :: "sgroup list \<Rightarrow> ('w, unit) awsop"
  rulesDb :: "('w, sgrule list) awsop"
  deleteRulesDb :: "sgrule list \<Rightarrow> ('w, unit) awsop"
  clock :: "'w \<Rightarrow> string"                                    \<comment> \<open>\<open>Date.now().toString()\<close>\<close>

record 'w sg_state =
  aws :: 'w
  dbGroups :: "sgroup obj option"        \<comment> \<open>\<open>ctx.memo.db.SecurityGroup\<close>\<close>
  cloudGroups :: "sgroup obj option"
  dbRules :: "sgrule obj option"
  cloudRules :: "sgrule obj option"

type_synonym ('w, 'a) sgop = "('w sg_state, aws_err, 'a) action"

definition onAws :: "('w, 'a) awsop \<Rightarrow> ('w, 'a) sgop" where
  "onAws m = (\<lambda>s. case m (aws s) of (x, w) \<Rightarrow> (x, s\<lparr> aws := w \<rparr>))"

section \<open>Comparing and mapping\<close>

definition sgEquals :: "sgroup \<Rightarrow> sgroup \<Rightarrow> bool" where
  "sgEquals a b = (sgDescription a = sgDescription b \<and> groupName a = groupName b \<and> ownerId a = ownerId b
     \<and> groupId a = groupId b \<and> vpcIdOf a = vpcIdOf b)"

definition sgMapper :: "'w sg_env \<Rightarrow> aws_group \<Rightarrow> string \<Rightarrow> ('w, sgroup) awsop" where
  "sgMapper v sg region =
     (let out = \<lparr> sgPk = None, sgDescription = agDescription sg, groupName = agName sg, ownerId = agOwner sg,
            groupId = agId sg, sgVpc = None, sgRegion = region \<rparr> in
      case truthyStr (agVpc sg) of
        None \<Rightarrow> ret out
      | Some i \<Rightarrow>
          andThen (vpcDb v i region) (\<lambda>found.
            andThen (case found of Some x \<Rightarrow> ret (Some x) | None \<Rightarrow> vpcCloud v i region) (\<lambda>x.
              case x of None \<Rightarrow> throw (plainErr (''Waiting for VPC '' @ i))
              | Some x' \<Rightarrow> ret (out\<lparr> sgVpc := Some x' \<rparr>))))"

section \<open>The database side\<close>

text \<open>A VPC without primary key is replaced by the one in the database, where there is one.\<close>

definition linkVpc :: "'w sg_env \<Rightarrow> sgroup \<Rightarrow> ('w, sgroup) awsop" where
  "linkVpc v e =
     (case sgVpc e of
        Some x \<Rightarrow> (case (truthyStr (vpcId x), vpcPk x) of
            (Some i, None) \<Rightarrow> andThen (vpcDb v i (sgRegion e)) (\<lambda>found.
               ret (case found of None \<Rightarrow> e | Some y \<Rightarrow> e\<lparr> sgVpc := Some y \<rparr>))
          | _ \<Rightarrow> ret e)
      | None \<Rightarrow> ret e)"

definition sgDbSave :: "'w sg_env \<Rightarrow> sgroup list \<Rightarrow> ('w, unit) awsop" where
  "sgDbSave v es = andThen (mapM (linkVpc v) es) (saveGroups v)"

definition sgDbCreate :: "'w sg_env \<Rightarrow> sgroup list \<Rightarrow> ('w, unit) awsop" where
  "sgDbCreate = sgDbSave"

definition sgDbUpdate :: "'w sg_env \<Rightarrow> sgroup list \<Rightarrow> ('w, unit) awsop" where
  "sgDbUpdate = sgDbSave"

text \<open>An id names a group only with both of its parts.\<close>

definition sgIdFields :: "string \<Rightarrow> string option \<times> string option" where
  "sgIdFields i = (let ws = splitOn (CHR ''|'') i in (Some (ws ! 0), if 1 < length ws then Some (ws ! 1) else None))"

definition sgDbRead :: "'w sg_env \<Rightarrow> string option \<Rightarrow> ('w, sgroup list) awsop" where
  "sgDbRead v i =
     (case map_option sgIdFields (truthyStr i) of
        Some (g, r) \<Rightarrow> (case (truthyStr g, truthyStr r) of (Some g', Some r') \<Rightarrow> findGroups v (Some (g', r')) | _ \<Rightarrow> findGroups v None)
      | None \<Rightarrow> findGroups v None)"

definition sgDbDelete :: "'w sg_env \<Rightarrow> sgroup list \<Rightarrow> ('w, unit) awsop" where
  "sgDbDelete v es = removeGroups v es"

section \<open>Reading from AWS\<close>

text \<open>The regions are read one after the other here; the code starts them together.\<close>

definition sgCloudReadAll :: "'w sg_env \<Rightarrow> ('w, sgroup list) awsop" where
  "sgCloudReadAll v =
     andThen (enabledRegions v) (\<lambda>regions.
       andThen (mapM (\<lambda>region. andThen (describeGroups v region) (mapM (\<lambda>g. sgMapper v g region))) regions) (\<lambda>gs.
         ret (concat gs)))"

definition sgCloudRead :: "'w sg_env \<Rightarrow> string \<Rightarrow> ('w, sgroup option) awsop" where
  "sgCloudRead v i =
     andThen (enabledRegions v) (\<lambda>regions.
       case sgIdFields i of
         (Some g, Some region) \<Rightarrow>
           if region \<in> set regions
           then andThen (describeGroup v region g) (\<lambda>raw.
                  case raw of None \<Rightarrow> ret None | Some x \<Rightarrow> andThen (sgMapper v x region) (\<lambda>m. ret (Some m)))
           else ret None
       | _ \<Rightarrow> ret None)"

section \<open>Creating in AWS\<close>

definition deleteDefaultSecurityGroupRule :: "'w sg_env \<Rightarrow> string \<Rightarrow> string \<Rightarrow> ('w, unit) awsop" where
  "deleteDefaultSecurityGroupRule v region g =
     andThen (describeRulesOf v region g) (\<lambda>rules.
       let rs = (case rules of None \<Rightarrow> [] | Some xs \<Rightarrow> xs);
           ids = map (\<lambda>r. Some (case arId r of None \<Rightarrow> [] | Some i \<Rightarrow> i));
           ingress = filter (\<lambda>r. arEgress r \<noteq> Some True) rs; egress = filter (\<lambda>r. arEgress r = Some True) rs in
       andThen (if ingress = [] then ret []
                else mapLin (ret (Some [\<lparr> rvGroup = g, rvRules = ids ingress \<rparr>])) (revokeIngress v region)) (\<lambda>_.
         andThen (if egress = [] then ret []
                  else mapLin (ret (Some [\<lparr> rvGroup = g, rvRules = ids egress \<rparr>])) (revokeEgress v region)) (\<lambda>_. ret ())))"

text \<open>\<open>ctx.memo.db.SecurityGroup[this.entityId(e)] = e\<close>\<close>

definition memoGroup :: "sgroup \<Rightarrow> ('w, unit) sgop" where
  "memoGroup e = (\<lambda>s. case dbGroups s of None \<Rightarrow> (Inl jsTypeErr, s)
     | Some m \<Rightarrow> (Inr (), s\<lparr> dbGroups := Some (obj_set (sgEntityId e) e m) \<rparr>))"

definition memoIfId :: "sgroup \<Rightarrow> ('w, unit) sgop" where
  "memoIfId e = (if truthyStr (groupId e) = None then ret () else memoGroup e)"

definition isDefaultOf :: "sgroup \<Rightarrow> sgroup \<Rightarrow> bool" where
  "isDefaultOf e a = (groupName a = Some ''default'' \<and> sgRegion a = sgRegion e \<and> vpcIdOf a = vpcIdOf e)"

text \<open>One turn of the loop: \<open>push\<close>, \<open>continue\<close> or \<open>return\<close>.\<close>

datatype turn = Push sgroup | Skip | Return sgroup

definition adoptDefault :: "'w sg_env \<Rightarrow> sgroup \<Rightarrow> ('w, turn) sgop" where
  "adoptDefault v e = andThen (getS cloudGroups) (\<lambda>memo.
     case find (isDefaultOf e) (obj_values (case memo of None \<Rightarrow> [] | Some m \<Rightarrow> m)) of
       None \<Rightarrow> throw jsTypeErr
     | Some a \<Rightarrow>
         (let e' = e\<lparr> sgDescription := sgDescription a, groupId := groupId a, groupName := groupName a,
                       ownerId := ownerId a, sgVpc := sgVpc a \<rparr> in
          andThen (onAws (saveGroups v [e'])) (\<lambda>_. andThen (memoIfId e') (\<lambda>_. ret (Push e')))))"

definition withDefaultVpc :: "'w sg_env \<Rightarrow> sgroup \<Rightarrow> ('w, sgroup) sgop" where
  "withDefaultVpc v e =
     (if sgVpc e \<noteq> None then ret e
      else andThen (onAws (vpcsCloud v)) (\<lambda>vpcs.
        if vpcs = [] then throw (plainErr ''Vpcs need to be loaded first'')
        else (let e' = e\<lparr> sgVpc := find (\<lambda>x. isDefault x \<and> vpcRegion x = sgRegion e) vpcs \<rparr> in
              andThen (onAws (saveGroups v [e'])) (\<lambda>_. andThen (memoIfId e') (\<lambda>_. ret e')))))"

definition createOne :: "'w sg_env \<Rightarrow> bool \<Rightarrow> sgroup \<Rightarrow> ('w, turn) sgop" where
  "createOne v doNotSave e =
     (if groupName e = Some ''default'' then adoptDefault v e
      else if (case sgVpc e of None \<Rightarrow> False | Some x \<Rightarrow> truthyStr (vpcId x) = None)
      then throw (plainErr ''Vpc need to be created first'')
      else andThen (withDefaultVpc v e) (\<lambda>e.
        andThen (onAws (createGroup v (sgRegion e) (sgDescription e) (groupName e) (vpcIdOf e))) (\<lambda>result.
          case result of
            None \<Rightarrow> throw (plainErr ''what should we do here?'')
          | Some g \<Rightarrow>
              andThen (attempt (onAws (deleteDefaultSecurityGroupRule v (sgRegion e) g))) (\<lambda>_.
                andThen (onAws (describeGroup v (sgRegion e) g)) (\<lambda>newGroup.
                  case newGroup of
                    None \<Rightarrow> ret Skip
                  | Some raw \<Rightarrow>
                      andThen (onAws (sgMapper v raw (sgRegion e))) (\<lambda>newEntity.
                        if doNotSave then ret (Return newEntity)
                        else (let n = newEntity\<lparr> sgPk := sgPk e \<rparr> in
                              andThen (onAws (sgDbUpdate v [n])) (\<lambda>_. ret (Push n)))))))))"

fun createLoop :: "'w sg_env \<Rightarrow> bool \<Rightarrow> sgroup list \<Rightarrow> sgroup list \<Rightarrow> ('w, sgroup list) sgop" where
  "createLoop v doNotSave [] out = ret out"
| "createLoop v doNotSave (e # es) out =
     andThen (createOne v doNotSave e) (\<lambda>t. case t of
         Push n \<Rightarrow> createLoop v doNotSave es (out @ [n])
       | Skip \<Rightarrow> createLoop v doNotSave es out
       | Return n \<Rightarrow> ret [n])"

definition sgCloudCreate :: "'w sg_env \<Rightarrow> sgroup list \<Rightarrow> bool \<Rightarrow> ('w, sgroup list) sgop" where
  "sgCloudCreate v es doNotSave = createLoop v doNotSave es []"

section \<open>Updating in AWS\<close>

text \<open>What \<open>cloud.create\<close> of one group gives: the first of the results, where there is one.\<close>

definition createSingle :: "'w sg_env \<Rightarrow> sgroup \<Rightarrow> ('w, sgroup option) sgop" where
  "createSingle v e = andThen (sgCloudCreate v [e] False) (\<lambda>gs. ret (case gs of [] \<Rightarrow> None | g # _ \<Rightarrow> Some g))"

definition restoreDefault :: "'w sg_env \<Rightarrow> sgroup \<Rightarrow> ('w, unit) sgop" where
  "restoreDefault v e = andThen (getS cloudGroups) (\<lambda>memo.
     case map_of (case memo of None \<Rightarrow> [] | Some m \<Rightarrow> m) (sgEntityId e) of
       None \<Rightarrow> throw jsTypeErr
     | Some cloudRecord \<Rightarrow>
         if vpcIdOf cloudRecord \<noteq> vpcIdOf e
         then andThen (onAws (sgCloudReadAll v)) (\<lambda>gs.
                case find (\<lambda>sg. vpcIdOf sg = vpcIdOf cloudRecord \<and> groupName sg = Some ''default'') gs of
                  None \<Rightarrow> throw jsTypeErr
                | Some d \<Rightarrow>
                    (let d' = d\<lparr> sgPk := sgPk e \<rparr> in
                     andThen (onAws (sgDbUpdate v [d'])) (\<lambda>_.
                       andThen (\<lambda>s. case dbGroups s of None \<Rightarrow> (Inl jsTypeErr, s)
                           | Some m \<Rightarrow> (Inr (), s\<lparr> dbGroups := Some (obj_delete (sgEntityId e) m) \<rparr>)) (\<lambda>_.
                         memoGroup d'))))
         else (let c = cloudRecord\<lparr> sgPk := sgPk e \<rparr> in
               andThen (onAws (sgDbUpdate v [c])) (\<lambda>_. memoGroup c)))"

text \<open>A group whose creation fails is created under the current time as its name.\<close>

definition recreate :: "'w sg_env \<Rightarrow> sgroup \<Rightarrow> ('w, sgroup list) sgop" where
  "recreate v e =
     tryCatch (andThen (createSingle v e) (\<lambda>sg. ret (case sg of None \<Rightarrow> [] | Some g \<Rightarrow> [g])))
       (\<lambda>_ s. sgCloudCreate v [e\<lparr> groupName := Some (clock v (aws s)) \<rparr>] True s)"

definition sgCloudUpdate :: "'w sg_env \<Rightarrow> sgroup list \<Rightarrow> ('w, sgroup list) sgop" where
  "sgCloudUpdate v es =
     andThen (mapM (\<lambda>e. if groupName e = Some ''default''
                then andThen (restoreDefault v e) (\<lambda>_. ret []) else recreate v e) es) (\<lambda>gss. ret (concat gss))"

section \<open>Deleting in AWS\<close>

definition eniFree :: "aws_eni \<Rightarrow> bool" where
  "eniFree i = (eniStatus i = ''available'' \<or> eniAttachment i = Some ''detached'')"

text \<open>The message is a plain string in the source: its placeholders are not filled in.\<close>

definition eniError :: aws_err where
  "eniError = plainErr (''Error deleting network interface '' @ CHR 0x24 # ''{eni.NetworkInterfaceId} for group ''
     @ CHR 0x24 # ''{instanceParams.GroupId}'')"

fun freeEnis :: "'w sg_env \<Rightarrow> string \<Rightarrow> aws_err \<Rightarrow> aws_eni list \<Rightarrow> ('w, unit) awsop" where
  "freeEnis v region held [] = ret ()"
| "freeEnis v region held (i # is) =
     (if eniFree i
      then andThen (tryCatch (deleteEni v region (eniId i)) (\<lambda>_. throw eniError)) (\<lambda>_. freeEnis v region held is)
      else throw held)"

definition deleteSecurityGroup :: "'w sg_env \<Rightarrow> string \<Rightarrow> string option \<Rightarrow> ('w, unit) awsop" where
  "deleteSecurityGroup v region g =
     tryCatch (deleteGroup v region g) (\<lambda>e.
       if errCode e = ''DependencyViolation''
       then andThen (describeEnis v region g) (\<lambda>enis. case enis of
           None \<Rightarrow> throw e
         | Some is \<Rightarrow> freeEnis v region (e\<lparr> errText := errText e @ '' | Network interfaces associated with security group ''
               @ (case g of None \<Rightarrow> ''undefined'' | Some x \<Rightarrow> x) @ '': '' @ enisText v is \<rparr>) is)
       else throw e)"

definition sameDefault :: "sgroup \<Rightarrow> sgroup \<Rightarrow> bool" where
  "sameDefault e a = (groupName a = Some ''default'' \<and> sgRegion a = sgRegion e \<and> vpcIdOf a = vpcIdOf e
     \<and> map_option vpcRegion (sgVpc a) = Some (sgRegion e))"

definition stillCached :: "sgroup \<Rightarrow> string \<times> sgroup \<Rightarrow> bool" where
  "stillCached e p = (groupId e \<noteq> groupId (snd p) \<and> sgRegion e \<noteq> sgRegion (snd p))"

definition forget :: "sgroup \<Rightarrow> ('w, unit) sgop" where
  "forget e = (\<lambda>s. case cloudGroups s of
       None \<Rightarrow> (Inl jsTypeErr, s)
     | Some c \<Rightarrow> (let s1 = s\<lparr> cloudGroups := Some (filter (stillCached e) c) \<rparr> in
         case dbGroups s1 of None \<Rightarrow> (Inl jsTypeErr, s1)
         | Some d \<Rightarrow> (Inr (), s1\<lparr> dbGroups := Some (filter (stillCached e) d) \<rparr>)))"

text \<open>The relation \<open>securityGroup\<close> of a rule is loaded with it.\<close>

definition ruleOf :: "sgroup \<Rightarrow> sgrule \<Rightarrow> bool" where
  "ruleOf e r = ((case securityGroup r of None \<Rightarrow> None | Some g \<Rightarrow> groupId g) = groupId e \<and> ruleRegion r = sgRegion e)"

text \<open>\<open>True\<close>: the handler returns there and then.\<close>

definition deleteOne :: "'w sg_env \<Rightarrow> sgroup \<Rightarrow> ('w, bool) sgop" where
  "deleteOne v e =
     andThen (onAws (vpcDb v (case vpcIdOf e of None \<Rightarrow> [] | Some i \<Rightarrow> i) (sgRegion e))) (\<lambda>vpcRecord.
       if groupName e = Some ''default'' \<and> vpcRecord \<noteq> None
       then andThen (onAws (findGroups v None)) (\<lambda>gs.
              if find (sameDefault e) gs \<noteq> None then ret True
              else andThen (onAws (sgDbUpdate v [e])) (\<lambda>_. andThen (memoGroup e) (\<lambda>_. ret False)))
       else andThen (onAws (deleteSecurityGroup v (sgRegion e) (groupId e))) (\<lambda>_.
              andThen (onAws (rulesDb v)) (\<lambda>rules.
                andThen (onAws (deleteRulesDb v (filter (ruleOf e) rules))) (\<lambda>_.
                  andThen (forget e) (\<lambda>_. ret False)))))"

fun sgCloudDelete :: "'w sg_env \<Rightarrow> sgroup list \<Rightarrow> ('w, unit) sgop" where
  "sgCloudDelete v [] = ret ()"
| "sgCloudDelete v (e # es) = andThen (deleteOne v e) (\<lambda>stop. if stop then ret () else sgCloudDelete v es)"

section \<open>The default group\<close>

lemma adoptDefault_noCalls: "adoptDefault (v\<lparr> createGroup := f, deleteGroup := g \<rparr>) e = adoptDefault v e"
  by (simp add: adoptDefault_def Let_def cong: option.case_cong)

lemma createLoop_default:
  "\<forall>e\<in>set es. groupName e = Some ''default'' \<Longrightarrow>
   createLoop (v\<lparr> createGroup := f, deleteGroup := g \<rparr>) b es out = createLoop v b es out"
proof (induction es arbitrary: out)
  case (Cons e es)
  then have "createLoop (v\<lparr> createGroup := f, deleteGroup := g \<rparr>) b es = createLoop v b es" by (intro ext) simp
  with Cons.prems show ?case by (simp add: createOne_def adoptDefault_noCalls cong: turn.case_cong)
qed simp

lemma linkVpc_noCalls: "linkVpc (v\<lparr> createGroup := f, deleteGroup := g \<rparr>) = linkVpc v"
  by (rule ext) (simp add: linkVpc_def cong: option.case_cong prod.case_cong)

lemma sgDbUpdate_noCalls: "sgDbUpdate (v\<lparr> createGroup := f, deleteGroup := g \<rparr>) es = sgDbUpdate v es"
  by (simp add: sgDbUpdate_def sgDbSave_def linkVpc_noCalls)

lemma restoreDefault_noCalls: "restoreDefault (v\<lparr> createGroup := f, deleteGroup := g \<rparr>) e = restoreDefault v e"
  by (simp add: restoreDefault_def sgCloudReadAll_def sgMapper_def sgDbUpdate_def sgDbSave_def linkVpc_def Let_def
      cong: option.case_cong prod.case_cong if_cong)


section \<open>Rows\<close>

lemma andThen_ret: "andThen m (\<lambda>x. ret (f x)) s = (Inr y, s') \<Longrightarrow> \<exists>x. m s = (Inr x, s') \<and> y = f x"
  by (auto simp: andThen_Inr_iff)

lemma adoptDefault_row: "adoptDefault v e s = (Inr t, s') \<Longrightarrow> \<exists>n. t = Push n \<and> sgPk n = sgPk e \<and> sgRegion n = sgRegion e"
  by (auto simp: adoptDefault_def andThen_Inr_iff Let_def split: option.splits)

lemma withDefaultVpc_row: "withDefaultVpc v e s = (Inr e', s') \<Longrightarrow> sgPk e' = sgPk e \<and> sgRegion e' = sgRegion e"
  by (auto simp: withDefaultVpc_def andThen_Inr_iff Let_def split: if_splits)

lemma sgMapper_row: "sgMapper v g r w = (Inr m, w') \<Longrightarrow> sgPk m = None \<and> sgRegion m = r \<and> groupId m = agId g"
  by (auto simp: sgMapper_def andThen_Inr_iff Let_def split: option.splits)

lemma onAws_Inr: "onAws m s = (Inr x, s') \<Longrightarrow> \<exists>w. m (aws s) = (Inr x, w) \<and> s' = s\<lparr> aws := w \<rparr>"
  by (auto simp: onAws_def split: prod.splits)

lemma mapped_row:
  assumes "onAws (sgMapper v raw r) s = (Inr m, s')"
  shows "sgRegion m = r"
proof -
  obtain w where "sgMapper v raw r (aws s) = (Inr m, w)" using onAws_Inr [OF assms] by blast
  from sgMapper_row [OF this] show ?thesis by simp
qed

lemma createOne_row:
  assumes "createOne v False e s = (Inr t, s')"
  shows "t = Skip \<or> (\<exists>n. t = Push n \<and> sgPk n = sgPk e \<and> sgRegion n = sgRegion e)"
proof (cases "groupName e = Some ''default''")
  case True
  with assms have "adoptDefault v e s = (Inr t, s')" by (simp add: createOne_def)
  from adoptDefault_row [OF this] show ?thesis by blast
next
  case False
  with assms obtain e' s1 where e': "withDefaultVpc v e s = (Inr e', s1)"
    and t: "t = Skip \<or> (\<exists>n. t = Push n \<and> sgPk n = sgPk e' \<and> sgRegion n = sgRegion e')"
    by (auto simp: createOne_def andThen_Inr_iff Let_def dest!: mapped_row split: if_splits option.splits)
  from t withDefaultVpc_row [OF e'] show ?thesis by auto
qed

lemma createLoop_rows:
  "createLoop v False es out s = (Inr gs, s') \<Longrightarrow> \<exists>new. gs = out @ new \<and> subseq (map (\<lambda>g. (sgPk g, sgRegion g)) new) (map (\<lambda>g. (sgPk g, sgRegion g)) es)"
proof (induction es arbitrary: out s)
  case (Cons e es)
  then obtain t s1 where t: "createOne v False e s = (Inr t, s1)"
    and rest: "(case t of Push n \<Rightarrow> createLoop v False es (out @ [n]) | Skip \<Rightarrow> createLoop v False es out | Return n \<Rightarrow> ret [n]) s1 = (Inr gs, s')"
    by (auto simp: andThen_Inr_iff)
  from createOne_row [OF t] show ?case
  proof
    assume "t = Skip"
    with rest Cons.IH [of out s1] show ?thesis by (auto intro: list_emb_Cons)
  next
    assume "\<exists>n. t = Push n \<and> sgPk n = sgPk e \<and> sgRegion n = sgRegion e"
    then obtain n where n: "t = Push n" "sgPk n = sgPk e" "sgRegion n = sgRegion e" by blast
    with rest obtain new where "gs = (out @ [n]) @ new"
        "subseq (map (\<lambda>g. (sgPk g, sgRegion g)) new) (map (\<lambda>g. (sgPk g, sgRegion g)) es)"
      using Cons.IH [of "out @ [n]" s1] by auto
    with n show ?thesis by (intro exI [of _ "n # new"]) simp
  qed
qed simp

text \<open>
  Creating groups in AWS neither invents nor duplicates rows: the groups that come back carry primary
  keys and regions of the groups asked for, in their order, each at most once.
\<close>

theorem create_keeps_rows:
  assumes "sgCloudCreate v es False s = (Inr gs, s')"
  shows "subseq (map (\<lambda>g. (sgPk g, sgRegion g)) gs) (map (\<lambda>g. (sgPk g, sgRegion g)) es)"
  using createLoop_rows [OF assms [unfolded sgCloudCreate_def]] by auto

section \<open>Deleting\<close>

lemma freeEnis_each:
  assumes "\<And>i w. \<exists>w'. deleteEni v region i w = (Inr (), w')" and "list_all eniFree is"
  shows "freeEnis v region e is = eachM (\<lambda>i. deleteEni v region (eniId i)) is"
  using assms(2)
proof (induction "is")
  case (Cons i "is")
  have "tryCatch (deleteEni v region (eniId i)) h = deleteEni v region (eniId i)" for h
  proof
    fix w
    obtain w1 where "deleteEni v region (eniId i) w = (Inr (), w1)" using assms(1) by blast
    then show "tryCatch (deleteEni v region (eniId i)) h w = deleteEni v region (eniId i) w" by (simp add: tryCatch_def)
  qed
  with Cons show ?case by simp
qed simp

text \<open>
  A group that AWS refuses to delete because of network interfaces is not deleted even when all of
  these can be removed: the handler removes them and returns normally, and what it leaves is exactly
  what the removals leave, without a second attempt on the group.
\<close>

theorem deleteSecurityGroup_never_retries:
  assumes refused: "deleteGroup v region g w = (Inl e, w1)" "errCode e = ''DependencyViolation''"
    and enis: "describeEnis v region g w1 = (Inr (Some is), w2)" "list_all eniFree is"
    and removed: "\<And>i w. \<exists>w'. deleteEni v region i w = (Inr (), w')"
  shows "deleteSecurityGroup v region g w = eachM (\<lambda>i. deleteEni v region (eniId i)) is w2
    \<and> fst (deleteSecurityGroup v region g w) = Inr ()"
proof -
  have run: "deleteSecurityGroup v region g w = eachM (\<lambda>i. deleteEni v region (eniId i)) is w2"
    using refused enis freeEnis_each [OF removed enis(2)]
    by (simp add: deleteSecurityGroup_def tryCatch_def andThen_def)
  moreover have "returns (eachM (\<lambda>i. deleteEni v region (eniId i)) is)"
    by (rule returns_eachM) (use removed in \<open>simp add: returns_def\<close>)
  then have "fst (eachM (\<lambda>i. deleteEni v region (eniId i)) is w2) = Inr ()"
    by (rule returnsE [where s = w2]) (simp add: returns_def)
  ultimately show ?thesis by simp
qed

text \<open>
  Deleting a group empties the cache of its whole region: once the handler has deleted a group that is
  not a default one, no group of its region is cached on either side, whether or not it was deleted.
\<close>

theorem delete_forgets_region:
  assumes run: "sgCloudDelete v [e] s = (Inr (), s')" and other: "groupName e \<noteq> Some ''default''"
  shows "\<forall>m k g. (cloudGroups s' = Some m \<or> dbGroups s' = Some m) \<and> (k, g) \<in> set m \<longrightarrow> sgRegion g \<noteq> sgRegion e"
proof -
  from run other obtain s1 where "forget e s1 = (Inr (), s')"
    by (auto simp: deleteOne_def andThen_Inr_iff split: if_splits)
  then show ?thesis
    by (auto simp: forget_def stillCached_def Let_def split: option.splits)
qed

section \<open>An account with one VPC\<close>

definition demoVpc :: vpc where
  "demoVpc = \<lparr> vpcPk = Some 1, vpcId = Some ''vpc-1'', isDefault = True, vpcRegion = ''r'' \<rparr>"

definition demoEni :: aws_eni where
  "demoEni = \<lparr> eniId = ''eni-1'', eniStatus = ''available'', eniAttachment = None \<rparr>"

definition demoSg :: "string list sg_env" where
  "demoSg = \<lparr> enabledRegions = ret [''r''],
     createGroup = (\<lambda>r d n i w. (Inr (Some ''sg-1''), w @ [''create''])),
     describeGroup = (\<lambda>r g. ret (Some \<lparr> agDescription = Some ''d'', agName = Some ''web'', agOwner = Some ''o'', agId = Some g, agVpc = Some ''vpc-1'' \<rparr>)),
     describeGroups = (\<lambda>r. ret []),
     deleteGroup = (\<lambda>r g w. if ''eni'' \<in> set w then (Inl \<lparr> errCode = ''DependencyViolation'', errText = ''in use'' \<rparr>, w) else (Inr (), w @ [''delete''])),
     describeEnis = (\<lambda>r g. ret (Some [demoEni])), deleteEni = (\<lambda>r i w. (Inr (), filter (\<lambda>x. x \<noteq> ''eni'') w)),
     enisText = (\<lambda>is. []), describeRulesOf = (\<lambda>r g. ret None), revokeIngress = (\<lambda>r i. ret (Some True)), revokeEgress = (\<lambda>r i. ret (Some True)),
     vpcDb = (\<lambda>i r. ret (Some demoVpc)), vpcCloud = (\<lambda>i r. ret None), vpcsCloud = ret [demoVpc],
     findGroups = (\<lambda>q. ret []), saveGroups = (\<lambda>gs. ret ()), removeGroups = (\<lambda>gs. ret ()),
     rulesDb = ret [], deleteRulesDb = (\<lambda>rs. ret ()), clock = (\<lambda>w. ''0'') \<rparr>"

definition demoGroup :: "nat \<Rightarrow> string \<Rightarrow> string \<Rightarrow> sgroup" where
  "demoGroup n name gid = \<lparr> sgPk = Some (int n), sgDescription = Some ''d'', groupName = Some name, ownerId = Some ''o'',
     groupId = Some gid, sgVpc = Some demoVpc, sgRegion = ''r'' \<rparr>"

definition demoSgState :: "string list sg_state" where
  "demoSgState = \<lparr> aws = [], dbGroups = Some [], cloudGroups = Some [(''sg-0|r'', demoGroup 0 ''default'' ''sg-0''), (''sg-8|r'', demoGroup 8 ''db'' ''sg-8'')],
     dbRules = None, cloudRules = None \<rparr>"


lemma demo_created:
  "sgCloudCreate demoSg [demoGroup 1 ''web'' []] False demoSgState =
     (Inr [demoGroup 1 ''web'' ''sg-1''], demoSgState\<lparr> aws := [''create''] \<rparr>)"
  by (simp add: sgCloudCreate_def createOne_def demoSg_def demoGroup_def demoVpc_def andThen_def withDefaultVpc_def onAws_def
      attempt_def deleteDefaultSecurityGroupRule_def sgMapper_def sgDbUpdate_def sgDbSave_def linkVpc_def truthyStr_def vpcIdOf_def
      demoSgState_def Let_def)

theorem create_keeps_rows_witness:
  "subseq (map (\<lambda>g. (sgPk g, sgRegion g)) [demoGroup 1 ''web'' ''sg-1'']) (map (\<lambda>g. (sgPk g, sgRegion g)) [demoGroup 1 ''web'' []])"
  by (rule create_keeps_rows [OF demo_created])

theorem deleteSecurityGroup_never_retries_witness:
  "deleteSecurityGroup demoSg ''r'' (Some ''sg-8'') [''eni''] = (Inr (), [])"
proof -
  have "deleteSecurityGroup demoSg ''r'' (Some ''sg-8'') [''eni''] = eachM (\<lambda>i. deleteEni demoSg ''r'' (eniId i)) [demoEni] [''eni'']
    \<and> fst (deleteSecurityGroup demoSg ''r'' (Some ''sg-8'') [''eni'']) = Inr ()"
    by (rule deleteSecurityGroup_never_retries [where e = "\<lparr> errCode = ''DependencyViolation'', errText = ''in use'' \<rparr>" and ?w1.0 = "[''eni'']"])
      (simp_all add: demoSg_def demoEni_def eniFree_def)
  then show ?thesis by (simp add: demoSg_def andThen_def)
qed

lemma demo_deleted:
  "sgCloudDelete demoSg [demoGroup 0 ''web'' ''sg-7''] demoSgState = (Inr (), demoSgState\<lparr> aws := [''delete''], cloudGroups := Some [] \<rparr>)"
  by (simp add: deleteOne_def demoSg_def demoGroup_def demoVpc_def andThen_def onAws_def deleteSecurityGroup_def tryCatch_def
      forget_def stillCached_def demoSgState_def Let_def)

theorem delete_forgets_region_witness:
  "\<exists>s'. sgCloudDelete demoSg [demoGroup 0 ''web'' ''sg-7''] demoSgState = (Inr (), s')
     \<and> (''sg-8|r'', demoGroup 8 ''db'' ''sg-8'') \<in> set (the (cloudGroups demoSgState))
     \<and> (''sg-8|r'', demoGroup 8 ''db'' ''sg-8'') \<notin> set (the (cloudGroups s'))"
proof -
  have "groupName (demoGroup 0 ''web'' ''sg-7'') \<noteq> Some ''default''" by (simp add: demoGroup_def)
  from delete_forgets_region [OF demo_deleted this] have "sgRegion (demoGroup 8 ''db'' ''sg-8'') \<noteq> sgRegion (demoGroup 0 ''web'' ''sg-7'')
     \<or> (''sg-8|r'', demoGroup 8 ''db'' ''sg-8'') \<notin> set []" by auto
  then show ?thesis using demo_deleted by (simp add: demoSgState_def demoGroup_def)
qed

end
