(* ===== verification/Sg_Rule.thy ===== *)
theory Sg_Rule
  imports Security_Group
begin

text \<open>
  Security group rules between the database and AWS: \<open>SecurityGroupRuleMapper\<close> of
  \<open>src/src/modules/aws_security_group/index.ts\<close>.  State and conventions are those of
  \<open>Security_Group\<close>; a string that is empty and a port that is 0 are falsy, as in the source.
\<close>

section \<open>Calls\<close>

record permission =
  ipRanges :: "(string \<times> string option) list option"       \<comment> \<open>\<open>CidrIp\<close> and \<open>Description\<close>\<close>
  ipv6Ranges :: "(string \<times> string option) list option"
  pmFrom :: "int option"
  pmTo :: "int option"
  pmProtocol :: "string option"
  pmPrefix :: "string option"

record authorize_input =
  auGroup :: string
  auPermission :: "permission option"
  auSourceName :: "string option"
  auSourceOwner :: "string option"

record authorize_output =
  aoReturn :: "bool option"
  aoRules :: "aws_rule list option"

record 'w rule_env = "'w sg_env" +
  authorizeEgress :: "string \<Rightarrow> authorize_input \<Rightarrow> ('w, authorize_output) awsop"
  authorizeIngress :: "string \<Rightarrow> authorize_input \<Rightarrow> ('w, authorize_output) awsop"
  describeRule :: "string \<Rightarrow> string \<Rightarrow> ('w, aws_rule option) awsop"
  describeRules :: "string \<Rightarrow> ('w, aws_rule list) awsop"
  findRules :: "(string \<times> string) option \<Rightarrow> ('w, sgrule list) awsop"
  saveRules :: "sgrule list \<Rightarrow> ('w, unit) awsop"
  removeRules :: "sgrule list \<Rightarrow> ('w, unit) awsop"

definition sgrEntityId :: "sgrule \<Rightarrow> string" where
  "sgrEntityId e = entityId (Some [''securityGroupRuleId'', ''region'']) ''id''
     [(''id'', optNum (rulePk e)), (''securityGroupRuleId'', optStr (securityGroupRuleId e)), (''region'', JStr (ruleRegion e))]"

section \<open>Comparing and mapping\<close>

definition sourceId :: "sgrule \<Rightarrow> string option" where   \<comment> \<open>\<open>e.sourceSecurityGroup?.groupId\<close>\<close>
  "sourceId e = (case sourceSecurityGroup e of None \<Rightarrow> None | Some g \<Rightarrow> groupId g)"

definition sgrEquals :: "sgrule \<Rightarrow> sgrule \<Rightarrow> bool" where
  "sgrEquals a b =
     (if (sourceSecurityGroup a = None) \<noteq> (sourceSecurityGroup b = None) then False
      else if sourceSecurityGroup a \<noteq> None
      then isEgress a = isEgress b \<and> prefixListId a = prefixListId b \<and> ipProtocol a = ipProtocol b \<and> sourceId a = sourceId b
      else isEgress a = isEgress b \<and> ipProtocol a = ipProtocol b \<and> fromPort a = fromPort b \<and> toPort a = toPort b
        \<and> cidrIpv4 a = cidrIpv4 b \<and> cidrIpv6 a = cidrIpv6 b \<and> prefixListId a = prefixListId b
        \<and> ruleDescription a = ruleDescription b)"

definition groupKey :: "string \<Rightarrow> string \<Rightarrow> string" where
  "groupKey g region = g @ ''|'' @ region"

definition groupInDb :: "('w, 'z) sg_env_scheme \<Rightarrow> string \<Rightarrow> string \<Rightarrow> ('w, sgroup option) awsop" where
  "groupInDb v g region = andThen (sgDbRead (sg_env.truncate v) (Some (groupKey g region)))
     (\<lambda>gs. ret (case gs of [] \<Rightarrow> None | x # _ \<Rightarrow> Some x))"

definition groupAnywhere :: "('w, 'z) sg_env_scheme \<Rightarrow> string \<Rightarrow> string \<Rightarrow> ('w, sgroup option) awsop" where
  "groupAnywhere v g region = andThen (groupInDb v g region) (\<lambda>found.
     case found of Some x \<Rightarrow> ret (Some x) | None \<Rightarrow> sgCloudRead (sg_env.truncate v) (groupKey g region))"

definition sgrMapper :: "('w, 'z) sg_env_scheme \<Rightarrow> aws_rule \<Rightarrow> string \<Rightarrow> ('w, sgrule) awsop" where
  "sgrMapper v sgr region =
     andThen (groupAnywhere v (case arGroup sgr of None \<Rightarrow> [] | Some g \<Rightarrow> g) region) (\<lambda>grp.
       let base = \<lparr> rulePk = None, securityGroupRuleId = arId sgr, securityGroup = grp, isEgress = (arEgress sgr = Some True),
              ipProtocol = Some (case arProtocol sgr of None \<Rightarrow> [] | Some p \<Rightarrow> p), fromPort = None, toPort = None,
              cidrIpv4 = None, cidrIpv6 = None, prefixListId = arPrefix sgr, ruleDescription = arDescription sgr,
              sourceSecurityGroup = None, ruleRegion = region \<rparr> in
       case (case arReferenced sgr of None \<Rightarrow> None | Some i \<Rightarrow> truthyStr i) of
         Some i \<Rightarrow> andThen (groupAnywhere v i region) (\<lambda>src. ret (base\<lparr> sourceSecurityGroup := src \<rparr>))
       | None \<Rightarrow> ret (base\<lparr> fromPort := arFrom sgr, toPort := arTo sgr, cidrIpv4 := arCidr4 sgr, cidrIpv6 := arCidr6 sgr \<rparr>))"

section \<open>The database side\<close>

definition sgrDbRead :: "'w rule_env \<Rightarrow> string option \<Rightarrow> ('w, sgrule list) awsop" where
  "sgrDbRead v i =
     (case map_option sgIdFields (truthyStr i) of
        Some (g, r) \<Rightarrow> (case (truthyStr g, truthyStr r) of (Some g', Some r') \<Rightarrow> findRules v (Some (g', r')) | _ \<Rightarrow> findRules v None)
      | None \<Rightarrow> findRules v None)"

section \<open>Creating in AWS\<close>

definition truthyNum :: "int option \<Rightarrow> int option" where   \<comment> \<open>\<open>if (n) ... = n\<close>\<close>
  "truthyNum n = (if n = Some 0 then None else n)"

definition permissionOf :: "sgrule \<Rightarrow> permission" where
  "permissionOf en = \<lparr>
     ipRanges = map_option (\<lambda>c. [(c, truthyStr (ruleDescription en))]) (truthyStr (cidrIpv4 en)),
     ipv6Ranges = map_option (\<lambda>c. [(c, truthyStr (ruleDescription en))]) (truthyStr (cidrIpv6 en)),
     pmFrom = truthyNum (fromPort en), pmTo = truthyNum (toPort en),
     pmProtocol = truthyStr (ipProtocol en), pmPrefix = truthyStr (prefixListId en) \<rparr>"

definition vpcPkOf :: "sgroup \<Rightarrow> int option" where
  "vpcPkOf g = (case sgVpc g of None \<Rightarrow> None | Some x \<Rightarrow> vpcPk x)"

text \<open>The request; \<open>None\<close>: \<open>continue\<close>.\<close>

definition requestOf :: "string \<Rightarrow> sgrule \<Rightarrow> authorize_input option" where
  "requestOf g en =
     (case sourceSecurityGroup en of
        Some src \<Rightarrow>
          (let byName = (case sgVpc src of None \<Rightarrow> False | Some x \<Rightarrow> isDefault x) in
           Some \<lparr> auGroup = g, auPermission = None,
             auSourceName = (if byName then truthyStr (groupName src) else None),
             auSourceOwner = (if byName then None else truthyStr (groupId src)) \<rparr>)
      | None \<Rightarrow>
          if truthyStr (cidrIpv4 en) \<noteq> None \<or> truthyStr (cidrIpv6 en) \<noteq> None
          then Some \<lparr> auGroup = g, auPermission = Some (permissionOf en), auSourceName = None, auSourceOwner = None \<rparr>
          else None)"

definition checkRule :: "sgrule \<Rightarrow> aws_err + string" where
  "checkRule en =
     (case (securityGroup en, truthyStr (case securityGroup en of None \<Rightarrow> None | Some g \<Rightarrow> groupId g)) of
        (Some grp, Some g) \<Rightarrow>
          if truthyStr (ipProtocol en) = None \<and> sourceSecurityGroup en = None
          then Inl (plainErr ''Cannot create a security group rule without either ip protocol or source security group'')
          else if (case sourceSecurityGroup en of None \<Rightarrow> False | Some src \<Rightarrow> vpcPkOf src \<noteq> vpcPkOf grp)
          then Inl (plainErr ''Cannot create a security group rule with a source security group from another vpc'')
          else Inr g
      | _ \<Rightarrow> Inl (plainErr ''Cannot create a security group rule for a security group that does not yet exist''))"

definition authorize :: "'w rule_env \<Rightarrow> sgrule \<Rightarrow> authorize_input \<Rightarrow> ('w, authorize_output) awsop" where
  "authorize v en input =
     andThen (mapLin (ret (Some [input]))
        ((if isEgress en then authorizeEgress v else authorizeIngress v) (ruleRegion en))) (\<lambda>rs. ret (hd rs))"

definition expandRule :: "'w rule_env \<Rightarrow> sgrule \<Rightarrow> aws_rule \<Rightarrow> ('w, sgrule) awsop" where
  "expandRule v en rule =
     andThen (sgrMapper v rule (ruleRegion en)) (\<lambda>e.
       let e' = e\<lparr> securityGroup := securityGroup en, ruleDescription := ruleDescription en, isEgress := isEgress en,
                    sourceSecurityGroup := sourceSecurityGroup en, ruleRegion := ruleRegion en \<rparr> in
       andThen (saveRules v [e']) (\<lambda>_. ret e'))"

definition recordRule :: "'w rule_env \<Rightarrow> sgrule \<Rightarrow> authorize_output \<Rightarrow> ('w, sgrule list) awsop" where
  "recordRule v en res =
     (if aoReturn res \<noteq> Some True \<or> aoRules res = Some [] then throw (plainErr ''Unable to create security group rule'')
      else if truthyStr (ipProtocol en) = None \<and> sourceSecurityGroup en \<noteq> None
      then (case aoRules res of
          None \<Rightarrow> throw jsTypeErr
        | Some rules \<Rightarrow> andThen (mapM (expandRule v en) rules) (\<lambda>es. andThen (removeRules v [en]) (\<lambda>_. ret es)))
      else (let en' = en\<lparr> securityGroupRuleId := (case aoRules res of Some (r # _) \<Rightarrow> arId r | _ \<Rightarrow> None) \<rparr> in
            andThen (saveRules v [en']) (\<lambda>_. ret [en'])))"

text \<open>\<open>None\<close>: the loop ends without \<open>return\<close>.\<close>

fun sgrCloudCreate :: "'w rule_env \<Rightarrow> sgrule list \<Rightarrow> ('w, sgrule list option) awsop" where
  "sgrCloudCreate v [] = ret None"
| "sgrCloudCreate v (en # es) =
     (case checkRule en of
        Inl e \<Rightarrow> throw e
      | Inr g \<Rightarrow>
          (case requestOf g en of
             None \<Rightarrow> sgrCloudCreate v es
           | Some input \<Rightarrow>
               andThen (authorize v en input) (\<lambda>res.
                 andThen (recordRule v en res) (\<lambda>out. ret (Some out)))))"

section \<open>Reading from AWS\<close>

definition sgrCloudReadAll :: "'w rule_env \<Rightarrow> ('w, sgrule list) awsop" where
  "sgrCloudReadAll v =
     andThen (enabledRegions v) (\<lambda>regions.
       andThen (mapM (\<lambda>region. andThen (describeRules v region) (mapM (\<lambda>r. sgrMapper v r region))) regions) (\<lambda>rs.
         ret (concat rs)))"

definition sgrCloudRead :: "'w rule_env \<Rightarrow> string \<Rightarrow> ('w, sgrule option) awsop" where
  "sgrCloudRead v i =
     andThen (enabledRegions v) (\<lambda>_.
       (case sgIdFields i of
          (Some g, Some region) \<Rightarrow> andThen (describeRule v region g) (\<lambda>raw.
             case raw of None \<Rightarrow> ret None | Some x \<Rightarrow> andThen (sgrMapper v x region) (\<lambda>m. ret (Some m)))
        | _ \<Rightarrow> throw jsTypeErr))"

section \<open>Deleting and updating in AWS\<close>

text \<open>The rule ids to revoke, by the id of their group.\<close>

type_synonym batches = "(string option list) obj"

definition addToBatch :: "string \<Rightarrow> string option \<Rightarrow> batches \<Rightarrow> batches" where
  "addToBatch k i bs = obj_set k ((case map_of bs k of None \<Rightarrow> [] | Some is \<Rightarrow> is) @ [i]) bs"

definition batchKey :: "sgrule \<Rightarrow> aws_err + string" where
  "batchKey en =
     (case securityGroup en of
        None \<Rightarrow> Inl (plainErr ''Cannot create a security group rule for a security group that does not yet exist'')
      | Some g \<Rightarrow>
          if truthyStr (groupId g) = None \<and> sgRegion g = []
          then Inl (plainErr ''Cannot create a security group rule for a security group that does not yet exist'')
          else Inr (groupKey (case groupId g of None \<Rightarrow> [] | Some i \<Rightarrow> i) (sgRegion g)))"

fun batchRules :: "sgrule list \<Rightarrow> batches \<Rightarrow> batches \<Rightarrow> aws_err + batches \<times> batches" where
  "batchRules [] egress ingress = Inr (egress, ingress)"
| "batchRules (en # es) egress ingress =
     (case batchKey en of
        Inl e \<Rightarrow> Inl e
      | Inr k \<Rightarrow> if isEgress en
          then batchRules es (addToBatch k (securityGroupRuleId en) egress) ingress
          else batchRules es egress (addToBatch k (securityGroupRuleId en) ingress))"

definition revokeBatch :: "(string \<Rightarrow> revoke_input \<Rightarrow> ('w, bool option) awsop) \<Rightarrow> string \<times> string option list \<Rightarrow> ('w, unit) awsop" where
  "revokeBatch revoke p =
     (case splitOn (CHR ''|'') (fst p) of
        g # rest \<Rightarrow>
          (let region = (case rest of [] \<Rightarrow> [] | r # _ \<Rightarrow> r) in
           tryCatch
             (andThen (mapLin (ret (Some [\<lparr> rvGroup = g, rvRules = snd p \<rparr>])) (revoke region)) (\<lambda>rs.
                if hd rs \<noteq> Some True then throw (plainErr ''Failed to remove the security group rules [object Object]'') else ret ()))
             (\<lambda>e. if errCode e = ''InvalidGroup.NotFound'' then ret () else throw e))
      | [] \<Rightarrow> ret ())"

definition forgetRules :: "sgrule list \<Rightarrow> sgrule obj option \<Rightarrow> sgrule obj" where
  "forgetRules es memo = (case memo of None \<Rightarrow> []
     | Some m \<Rightarrow> filter (\<lambda>(_, r). sgrEntityId r \<notin> set (map sgrEntityId es)) m)"

definition sgrCloudDelete :: "'w rule_env \<Rightarrow> sgrule list \<Rightarrow> ('w, unit) sgop" where
  "sgrCloudDelete v es =
     (case batchRules es [] [] of
        Inl e \<Rightarrow> throw e
      | Inr (egress, ingress) \<Rightarrow>
          andThen (onAws (eachM (revokeBatch (revokeEgress v)) egress)) (\<lambda>_.
            andThen (onAws (eachM (revokeBatch (revokeIngress v)) ingress)) (\<lambda>_.
              modifyS (\<lambda>s. s\<lparr> cloudRules := Some (forgetRules es (cloudRules s)), dbRules := Some (forgetRules es (dbRules s)) \<rparr>))))"

definition sgrCloudUpdate :: "'w rule_env \<Rightarrow> sgrule list \<Rightarrow> ('w, unit) sgop" where
  "sgrCloudUpdate v es =
     andThen (onAws (sgrCloudCreate v es)) (\<lambda>_. sgrCloudDelete v es)"

section \<open>Creating and updating\<close>

text \<open>
  C30. Of several rules, only the first that can be created is: the handler returns from inside its loop.
  An update therefore recreates one rule and then revokes the old ones of all.
\<close>

theorem sgr_create_stops_at_first:
  assumes "checkRule en = Inr g" and "requestOf g en = Some i"
  shows "sgrCloudCreate v (en # es) = sgrCloudCreate v [en]
    \<and> sgrCloudUpdate v (en # es) = andThen (onAws (sgrCloudCreate v [en])) (\<lambda>_. sgrCloudDelete v (en # es))"
  using assms by (simp add: sgrCloudUpdate_def)

text \<open>
  Rules are compared by an equivalence relation, although it looks at different fields for rules with
  and without a source group.
\<close>

theorem sgrEquals_equivalence: "equivp sgrEquals"
proof (rule equivpI)
  show "reflp sgrEquals" by (auto simp: reflp_def sgrEquals_def)
  show "symp sgrEquals" by (auto simp: symp_def sgrEquals_def split: if_splits)
  show "transp sgrEquals" by (auto simp: transp_def sgrEquals_def split: if_splits)
qed

text \<open>What AWS reports of a rule it created from a request with one range.\<close>

definition reported :: "string \<Rightarrow> bool \<Rightarrow> authorize_input \<Rightarrow> aws_rule" where
  "reported i egress input =
     (let p = the (auPermission input); r4 = ipRanges p; r6 = ipv6Ranges p in
      \<lparr> arId = Some i, arGroup = Some (auGroup input), arEgress = Some egress, arReferenced = None,
        arFrom = pmFrom p, arTo = pmTo p, arCidr4 = map_option (fst \<circ> hd) r4, arCidr6 = map_option (fst \<circ> hd) r6,
        arProtocol = pmProtocol p, arPrefix = pmPrefix p,
        arDescription = (case r4 of Some (r # _) \<Rightarrow> snd r | _ \<Rightarrow> (case r6 of Some (r # _) \<Rightarrow> snd r | _ \<Rightarrow> None)) \<rparr>)"

text \<open>No optional string is empty and no port is 0.\<close>

definition cleanRule :: "sgrule \<Rightarrow> bool" where
  "cleanRule en = ({cidrIpv4 en, cidrIpv6 en, prefixListId en, ruleDescription en, ipProtocol en} \<inter> {Some []} = {}
     \<and> fromPort en \<noteq> Some 0 \<and> toPort en \<noteq> Some 0)"

lemma truthyStr_clean: "x \<noteq> Some [] \<Longrightarrow> truthyStr x = x"
  by (cases x) (auto simp: truthyStr_def)


text \<open>
  A port 0 never reaches AWS: the request for a rule from port 0 is the one for a rule without a first
  port, although the two rules differ.
\<close>

theorem port_zero_is_lost:
  assumes "sourceSecurityGroup en = None"
  shows "requestOf g (en\<lparr> fromPort := Some 0 \<rparr>) = requestOf g (en\<lparr> fromPort := None \<rparr>)
    \<and> \<not> sgrEquals (en\<lparr> fromPort := Some 0 \<rparr>) (en\<lparr> fromPort := None \<rparr>)"
  using assms by (simp add: requestOf_def permissionOf_def truthyNum_def sgrEquals_def)

section \<open>Deleting\<close>

lemma batchRules_map:
  assumes "batchRules es eg ing = Inr (eg', ing')"
  shows "map_of eg' k = (let ids = map securityGroupRuleId (filter (\<lambda>e. isEgress e \<and> batchKey e = Inr k) es) in
           if ids = [] then map_of eg k else Some ((case map_of eg k of None \<Rightarrow> [] | Some is \<Rightarrow> is) @ ids))
    \<and> map_of ing' k = (let ids = map securityGroupRuleId (filter (\<lambda>e. \<not> isEgress e \<and> batchKey e = Inr k) es) in
           if ids = [] then map_of ing k else Some ((case map_of ing k of None \<Rightarrow> [] | Some is \<Rightarrow> is) @ ids))"
  using assms
proof (induction es eg ing rule: batchRules.induct)
  case (2 en es eg ing)
  from 2(3) obtain k' where k': "batchKey en = Inr k'" by (auto split: sum.splits)
  show ?case
  proof (cases "isEgress en")
    case True
    with 2 k' show ?thesis by (auto simp: addToBatch_def Let_def)
  next
    case False
    with 2 k' show ?thesis by (auto simp: addToBatch_def Let_def)
  qed
qed simp

text \<open>
  The rules are revoked in batches that partition them: for each group and region there is one request
  per direction, with the ids of exactly the rules of that group, region and direction, in their
  order, and there is none where there is no such rule.
\<close>

theorem sgr_batches_partition:
  assumes "batchRules es [] [] = Inr (egress, ingress)"
  shows "map_of egress k = (case filter (\<lambda>e. isEgress e \<and> batchKey e = Inr k) es of
       [] \<Rightarrow> None | rs \<Rightarrow> Some (map securityGroupRuleId rs))
    \<and> map_of ingress k = (case filter (\<lambda>e. \<not> isEgress e \<and> batchKey e = Inr k) es of
       [] \<Rightarrow> None | rs \<Rightarrow> Some (map securityGroupRuleId rs))"
  using batchRules_map [OF assms, of k] by (simp add: Let_def split: list.split)

text \<open>
  Once rules were deleted, none of them is cached on either side, and every other cached rule still is.
\<close>

theorem sgr_delete_forgets:
  assumes "sgrCloudDelete v es s = (Inr (), s')"
  shows "\<exists>c d. cloudRules s' = Some c \<and> dbRules s' = Some d \<and>
    (\<forall>k r. (k, r) \<in> set c \<longleftrightarrow> (\<exists>m. cloudRules s = Some m \<and> (k, r) \<in> set m) \<and> sgrEntityId r \<notin> sgrEntityId ` set es) \<and>
    (\<forall>k r. (k, r) \<in> set d \<longleftrightarrow> (\<exists>m. dbRules s = Some m \<and> (k, r) \<in> set m) \<and> sgrEntityId r \<notin> sgrEntityId ` set es)"
proof -
  have aws_only: "cloudRules s1 = cloudRules s0 \<and> dbRules s1 = dbRules s0" if "onAws m s0 = (Inr x, s1)" for m s0 s1 and x :: unit
    using onAws_Inr [OF that] by auto
  from assms obtain eg ing s1 s2 where steps: "onAws (eachM (revokeBatch (revokeEgress v)) eg) s = (Inr (), s1)"
      "onAws (eachM (revokeBatch (revokeIngress v)) ing) s1 = (Inr (), s2)"
      "s' = s2\<lparr> cloudRules := Some (forgetRules es (cloudRules s2)), dbRules := Some (forgetRules es (dbRules s2)) \<rparr>"
    by (auto simp: sgrCloudDelete_def andThen_Inr_iff split: sum.splits)
  have "cloudRules s2 = cloudRules s" "dbRules s2 = dbRules s"
    using aws_only [OF steps(1)] aws_only [OF steps(2)] by simp_all
  with steps(3) show ?thesis by (auto simp: forgetRules_def split: option.splits)
qed

section \<open>An account with one group\<close>

definition demoRules :: "string list rule_env" where
  "demoRules = sg_env.extend demoSg (rule_env.fields
     (\<lambda>r i. ret \<lparr> aoReturn = Some True, aoRules = Some [reported ''sgr-1'' True i] \<rparr>)
     (\<lambda>r i. ret \<lparr> aoReturn = Some True, aoRules = Some [reported ''sgr-1'' False i] \<rparr>)
     (\<lambda>r i. ret None) (\<lambda>r. ret []) (\<lambda>q. ret []) (\<lambda>rs. ret ()) (\<lambda>rs. ret ()))"

definition demoRule :: "string \<Rightarrow> sgrule" where
  "demoRule i = \<lparr> rulePk = Some 1, securityGroupRuleId = Some i, securityGroup = Some (demoGroup 1 ''web'' ''sg-1''), isEgress = False,
     ipProtocol = Some ''tcp'', fromPort = Some 443, toPort = Some 443, cidrIpv4 = Some ''0.0.0.0/0'', cidrIpv6 = None,
     prefixListId = None, ruleDescription = Some ''web'', sourceSecurityGroup = None, ruleRegion = ''r'' \<rparr>"

definition demoInput :: authorize_input where
  "demoInput = \<lparr> auGroup = ''sg-1'', auPermission = Some (permissionOf (demoRule ''a'')), auSourceName = None, auSourceOwner = None \<rparr>"

lemma demo_request: "checkRule (demoRule ''a'') = Inr ''sg-1''" "requestOf ''sg-1'' (demoRule ''a'') = Some demoInput"
  by (simp_all add: checkRule_def requestOf_def demoInput_def demoRule_def demoGroup_def truthyStr_def)

theorem sgr_create_stops_at_first_witness:
  "sgrCloudCreate demoRules [demoRule ''a'', demoRule ''b''] = sgrCloudCreate demoRules [demoRule ''a'']"
  by (rule conjunct1 [OF sgr_create_stops_at_first [OF demo_request]])

lemma demo_mapped:
  "sgrMapper demoRules (reported ''sgr-1'' (isEgress (demoRule ''a'')) demoInput) ''r'' []
     = (Inr ((demoRule ''sgr-1'')\<lparr> rulePk := None, securityGroup := Some ((demoGroup 1 ''web'' ''sg-1'')\<lparr> sgPk := None \<rparr>) \<rparr>), [])"
  by (simp add: sgrMapper_def groupAnywhere_def groupInDb_def sgDbRead_def sgCloudRead_def groupKey_def sgIdFields_def
      demoRules_def demoSg_def sg_env.defs rule_env.defs reported_def demoInput_def permissionOf_def demoRule_def demoGroup_def
      demoVpc_def truthyStr_def truthyNum_def sgMapper_def andThen_def Let_def)


theorem port_zero_is_lost_witness:
  "requestOf ''sg-1'' ((demoRule ''a'')\<lparr> fromPort := Some 0 \<rparr>) = requestOf ''sg-1'' ((demoRule ''a'')\<lparr> fromPort := None \<rparr>)"
proof -
  have "sourceSecurityGroup (demoRule ''a'') = None" by (simp add: demoRule_def)
  then show ?thesis by (rule conjunct1 [OF port_zero_is_lost])
qed

lemma demo_batches: "batchRules [demoRule ''a'', demoRule ''b''] [] [] = Inr ([], [(''sg-1|r'', [Some ''a'', Some ''b''])])"
  by code_simp

theorem sgr_batches_partition_witness:
  "map_of [(''sg-1|r'', [Some ''a'', Some ''b''])] ''sg-1|r'' = Some (map securityGroupRuleId [demoRule ''a'', demoRule ''b''])"
proof -
  have "batchKey (demoRule i) = Inr ''sg-1|r''" "\<not> isEgress (demoRule i)" for i
    by (simp_all add: batchKey_def demoRule_def demoGroup_def truthyStr_def groupKey_def)
  with sgr_batches_partition [OF demo_batches, of "''sg-1|r''"] show ?thesis by simp
qed

lemma demo_sgr_deleted:
  "sgrCloudDelete demoRules [demoRule ''a''] (demoSgState\<lparr> cloudRules := Some [(''a|r'', demoRule ''a''), (''b|r'', demoRule ''b'')] \<rparr>)
     = (Inr (), demoSgState\<lparr> cloudRules := Some [(''b|r'', demoRule ''b'')], dbRules := Some [] \<rparr>)"
  by code_simp

theorem sgr_delete_forgets_witness:
  "sgrEntityId (demoRule ''b'') \<noteq> sgrEntityId (demoRule ''a'')"
  using sgr_delete_forgets [OF demo_sgr_deleted] by simp blast

end
