(* ===== verification/Commit_Plan.thy ===== *)
theory Commit_Plan
  imports Crud_Cache Diff_Service Typeorm
begin

text \<open>
  The plan of a commit in \<open>src/src/modules/iasql_functions/iasql.ts\<close>: what is created, updated,
  replaced and deleted per entity (\<open>Crupde\<close>), its accumulation by \<open>updateCommitPlan\<close>, its
  rendering by \<open>iasqlPlanV3\<close>, and the two helpers on records, \<open>recordCount\<close> and \<open>colToRow\<close>.
  The library function \<open>snakeCase\<close> is a parameter.
\<close>

section \<open>The plan\<close>

record crupde_rec =
  crId :: string
  crDescription :: string

type_synonym crupde = "(crupde_rec list) obj"

record crupde_operations =
  toCreate :: crupde
  toUpdate :: crupde
  toReplace :: crupde
  toDelete :: crupde

text \<open>\<open>e?.id?.toString() ?? ''\<close>\<close>

definition idText :: "jsval obj \<Rightarrow> string" where
  "idText e = (case map_of e ''id'' of
      None \<Rightarrow> [] | Some JUndef \<Rightarrow> [] | Some JNull \<Rightarrow> [] | Some v \<Rightarrow> toStr v)"

definition tableOf :: "'a list obj \<Rightarrow> string \<Rightarrow> 'a list" where   \<comment> \<open>\<open>o[k] ?? []\<close>\<close>
  "tableOf ob k = (case map_of ob k of None \<Rightarrow> [] | Some xs \<Rightarrow> xs)"

text \<open>The push loop: a record equal to one already there is not pushed again.\<close>

fun pushNew :: "'a list \<Rightarrow> 'a list \<Rightarrow> 'a list" where
  "pushNew rows [] = rows"
| "pushNew rows (r # rs) = pushNew (if r \<in> set rows then rows else rows @ [r]) rs"

definition updateCommitPlan ::
  "(addr \<Rightarrow> string) \<Rightarrow> jsval heap \<Rightarrow> string \<Rightarrow> addr list \<Rightarrow> crupde \<Rightarrow> crupde" where
  "updateCommitPlan entityId h name es plan =
     (let rs = map (\<lambda>e. \<lparr> crId = idText (h e), crDescription = entityId e \<rparr>) es
      in obj_set name (pushNew (tableOf plan name) rs) plan)"

datatype plan_action = Create | Update | Replace | Delete

record plan_row =
  action :: plan_action
  planTable :: string
  planId :: string
  planDescription :: string

definition rowsFor :: "(string \<Rightarrow> string) \<Rightarrow> plan_action \<Rightarrow> crupde \<Rightarrow> plan_row list" where
  "rowsFor snakeCase act plan =
     concat (map (\<lambda>(tbl, recs). map (\<lambda>rec. \<lparr> action = act, planTable = snakeCase tbl,
        planId = crId rec, planDescription = crDescription rec \<rparr>) recs) plan)"

definition iasqlPlanV3 :: "(string \<Rightarrow> string) \<Rightarrow> crupde_operations \<Rightarrow> plan_row list" where
  "iasqlPlanV3 snakeCase ops =
     rowsFor snakeCase Create (toCreate ops) @ rowsFor snakeCase Update (toUpdate ops)
     @ rowsFor snakeCase Replace (toReplace ops) @ rowsFor snakeCase Delete (toDelete ops)"

section \<open>Records\<close>

definition recordCount :: "'e diff list \<Rightarrow> nat \<times> nat \<times> nat" where
  "recordCount diffs =
     (foldl (\<lambda>cumu d. cumu + length (entitiesInDbOnly d)) 0 diffs,
      foldl (\<lambda>cumu d. cumu + length (entitiesInAwsOnly d)) 0 diffs,
      foldl (\<lambda>cumu d. cumu + length (entitiesChanged d)) 0 diffs)"

text \<open>
  \<open>colToRow\<close> on an object of arrays; the number of rows is the length of the first array, and an
  index beyond the end of another array reads \<open>undefined\<close> (\<open>None\<close>).  Without keys the source throws.
\<close>

definition colRow :: "('a list) obj \<Rightarrow> nat \<Rightarrow> 'a option obj" where
  "colRow cols i = map (\<lambda>(key, ys). (key, if i < length ys then Some (ys ! i) else None)) cols"

definition colToRow :: "('a list) obj \<Rightarrow> ('a option obj list) option" where
  "colToRow cols =
     (case cols of [] \<Rightarrow> None
      | (k, xs) # _ \<Rightarrow>
Some (map (colRow cols) [0..<length xs]))"

section \<open>Facts\<close>

lemma set_pushNew [simp]: "set (pushNew rows rs) = set rows \<union> set rs"
  by (induction rows rs rule: pushNew.induct) auto

lemma distinct_pushNew: "distinct rows \<Longrightarrow> distinct (pushNew rows rs)"
  by (induction rows rs rule: pushNew.induct) auto

lemma pushNew_known: "set rs \<subseteq> set rows \<Longrightarrow> pushNew rows rs = rows"
  by (induction rs arbitrary: rows) auto

lemma pushNew_prefix: "\<exists>more. pushNew rows rs = rows @ more"
proof (induction rs arbitrary: rows)
  case (Cons r rs)
  obtain more where "pushNew (if r \<in> set rows then rows else rows @ [r]) rs
      = (if r \<in> set rows then rows else rows @ [r]) @ more"
    using Cons.IH by blast
  then show ?case by (cases "r \<in> set rows") auto
qed simp

lemma tableOf_set: "wf_keys plan \<Longrightarrow> tableOf (obj_set k rows plan) k' = (if k' = k then rows else tableOf plan k')"
  by (simp add: tableOf_def jsobj.find_put)

lemma obj_set_known: "map_of ob k = Some v \<Longrightarrow> obj_set k v ob = ob"
proof -
  assume k: "map_of ob k = Some v"
  then have "k \<in> fst ` set ob" by (metis domI dom_map_of_conv_image_fst)
  moreover have "jsmap_set k v ob = ob"
    using k by (induction k v ob rule: jsmap_set.induct) (auto split: if_splits)
  ultimately show ?thesis by (simp add: obj_set_def)
qed

definition planOk :: "crupde \<Rightarrow> bool" where
  "planOk plan \<longleftrightarrow> wf_keys plan \<and> (\<forall>tbl. distinct (tableOf plan tbl))"

lemma planOk_empty [simp]: "planOk []"
  by (simp add: planOk_def tableOf_def)

lemma updateCommitPlan_ok: "planOk plan \<Longrightarrow> planOk (updateCommitPlan idf h name es plan)"
  by (simp add: planOk_def updateCommitPlan_def Let_def jsobj.invar_put tableOf_set distinct_pushNew)

lemma set_rowsFor:
  assumes "wf_keys plan"
  shows "set (rowsFor sc act plan) = {\<lparr> action = act, planTable = sc tbl, planId = crId rec,
    planDescription = crDescription rec \<rparr> | tbl rec. rec \<in> set (tableOf plan tbl)}"
proof -
  have mem: "(\<exists>recs. (tbl, recs) \<in> set plan \<and> rec \<in> set recs) \<longleftrightarrow> rec \<in> set (tableOf plan tbl)" for tbl rec
    using assms by (auto simp: tableOf_def dest: map_of_SomeD split: option.splits)
  let ?row = "\<lambda>tbl rec. \<lparr> action = act, planTable = sc tbl, planId = crId rec,
    planDescription = crDescription rec \<rparr>"
  have "set (rowsFor sc act plan) = {?row tbl rec | tbl rec. \<exists>recs. (tbl, recs) \<in> set plan \<and> rec \<in> set recs}"
    unfolding rowsFor_def set_concat set_map by (force simp: case_prod_unfold image_iff)
  then show ?thesis unfolding mem .
qed

text \<open>
  Planning the same entities twice changes nothing: after \<open>updateCommitPlan\<close> the entity's list is the
  old one followed by the records that were not in it, each once, the other entities' lists are as
  before, and planning the same entities again leaves the plan as it is.
\<close>

theorem updateCommitPlan_merges:
  assumes "planOk plan" and "plan' = updateCommitPlan idf h name es plan"
  shows "(\<exists>more. tableOf plan' name = tableOf plan name @ more) \<and>
    set (tableOf plan' name) = set (tableOf plan name) \<union>
      (\<lambda>e. \<lparr> crId = idText (h e), crDescription = idf e \<rparr>) ` set es \<and>
    distinct (tableOf plan' name) \<and>
    (\<forall>tbl. tbl \<noteq> name \<longrightarrow> tableOf plan' tbl = tableOf plan tbl) \<and>
    updateCommitPlan idf h name es plan' = plan'"
proof -
  let ?rs = "map (\<lambda>e. \<lparr> crId = idText (h e), crDescription = idf e \<rparr>) es"
  have wf: "wf_keys plan" and ok: "planOk plan'"
    using assms updateCommitPlan_ok by (auto simp: planOk_def)
  have tbl: "tableOf plan' t = (if t = name then pushNew (tableOf plan name) ?rs else tableOf plan t)" for t
    using wf by (simp add: assms(2) updateCommitPlan_def Let_def tableOf_set)
  have again: "pushNew (tableOf plan' name) ?rs = tableOf plan' name"
    by (rule pushNew_known) (simp add: tbl)
  have "updateCommitPlan idf h name es plan' = obj_set name (tableOf plan' name) plan'"
    unfolding updateCommitPlan_def [of _ _ _ _ plan'] Let_def again ..
  also have "\<dots> = plan'"
    by (rule obj_set_known) (simp add: assms(2) updateCommitPlan_def Let_def tableOf_def)
  finally show ?thesis
    using tbl pushNew_prefix [of "tableOf plan name" ?rs] distinct_pushNew [of "tableOf plan name" ?rs] assms(1)
    by (simp add: planOk_def image_image)
qed

theorem updateCommitPlan_merges_witness:
  "distinct (tableOf (updateCommitPlan (\<lambda>a. ''b'') (\<lambda>a. [(''id'', JNum 3)]) ''Bucket'' [1, 2] []) ''Bucket'')"
  using updateCommitPlan_merges [of "[]" _ "\<lambda>a. ''b''" "\<lambda>a. [(''id'', JNum 3)]" "''Bucket''" "[1, 2]"] by simp

definition opsOk :: "crupde_operations \<Rightarrow> bool" where
  "opsOk ops \<longleftrightarrow> planOk (toCreate ops) \<and> planOk (toUpdate ops) \<and> planOk (toReplace ops) \<and> planOk (toDelete ops)"

definition opsOf :: "plan_action \<Rightarrow> crupde_operations \<Rightarrow> crupde" where
  "opsOf act ops = (case act of Create \<Rightarrow> toCreate ops | Update \<Rightarrow> toUpdate ops
     | Replace \<Rightarrow> toReplace ops | Delete \<Rightarrow> toDelete ops)"

lemma iasqlPlanV3_row:
  assumes "opsOk ops"
  shows "row \<in> set (iasqlPlanV3 sc ops) \<longleftrightarrow>
    (\<exists>tbl rec. rec \<in> set (tableOf (opsOf (action row) ops) tbl) \<and>
       row = \<lparr> action = action row, planTable = sc tbl, planId = crId rec, planDescription = crDescription rec \<rparr>)"
proof -
  have wf: "wf_keys (toCreate ops)" "wf_keys (toUpdate ops)" "wf_keys (toReplace ops)" "wf_keys (toDelete ops)"
    using assms by (simp_all add: opsOk_def planOk_def)
  show ?thesis
    unfolding iasqlPlanV3_def set_append Un_iff set_rowsFor [OF wf(1)] set_rowsFor [OF wf(2)]
      set_rowsFor [OF wf(3)] set_rowsFor [OF wf(4)] mem_Collect_eq
    by (cases "action row") (auto simp: opsOf_def)
qed

lemma colToRow_transposes:
  assumes "cols \<noteq> []" and "wf_keys cols" and "\<forall>(k, xs)\<in>set cols. length xs = n"
  shows "\<exists>rows. colToRow cols = Some rows \<and> length rows = n \<and>
    (\<forall>i<n. \<forall>(k, xs)\<in>set cols. map_of (rows ! i) k = Some (Some (xs ! i)))"
proof -
  obtain k0 xs0 rest where cols: "cols = (k0, xs0) # rest"
    using assms(1) by (cases cols) auto
  then have n: "length xs0 = n" using assms(3) by auto
  have "map_of (colRow cols i) k = Some (Some (xs ! i))" if "i < n" "(k, xs) \<in> set cols" for i k xs
  proof (rule map_of_is_SomeI)
    show "wf_keys (colRow cols i)"
      using assms(2) by (simp add: colRow_def comp_def case_prod_unfold)
    show "(k, Some (xs ! i)) \<in> set (colRow cols i)"
      using that assms(3) by (force simp: colRow_def image_iff)
  qed
  moreover have "colToRow cols = Some (map (colRow cols) [0..<n])"
    using cols n by (simp add: colToRow_def)
  ultimately show ?thesis by auto
qed

end
