(* ===== verification/Changes.thy ===== *)
theory Changes
  imports Audit_Log Mod_Sort Crud_Cache
begin

text \<open>
  From logged changes to entities, in \<open>src/src/modules/iasql_functions/iasql.ts\<close>: which modules
  the changed tables belong to (\<open>indexModsByTable\<close>, \<open>getModulesWithChanges\<close>), the entities behind the
  changes (\<open>getChangesByEntity\<close>), the reconstruction of an entity from a logged row (\<open>recreateEntity\<close>,
  \<open>recreateRelation\<close>), and the changes made after a commit started.

  The ORM's metadata and lookups, and its string functions, are the parameter \<open>orm_env\<close>.  Metadata of an
  entity is looked up by the entity's name; relations name the entity on their other side.
\<close>

section \<open>Metadata\<close>

record column_meta =
  databaseName :: string
  propertyName :: string
  columnType :: "string option"      \<comment> \<open>when it is a string\<close>
  colIsArray :: bool
  colIsPrimary :: bool
  colIsGenerated :: bool
  referencedColumn :: "(string \<times> string) option"   \<comment> \<open>its \<open>databaseName\<close> and \<open>propertyName\<close>\<close>
  colRelation :: "(string \<times> string) option"
    \<comment> \<open>\<open>relationMetadata\<close>: the names of its \<open>entityMetadata\<close> and \<open>inverseEntityMetadata\<close>\<close>

datatype rel_kind = OneToMany | ManyToOne | OneToOne | ManyToMany

record relation_meta =
  relProperty :: string
  relKind :: rel_kind
  relEager :: bool
  relInverse :: string               \<comment> \<open>\<open>inverseEntityMetadata\<close>\<close>
  joinTableName :: string            \<comment> \<open>empty when there is no join table\<close>
  joinColumns :: "column_meta list"
  inverseJoinColumns :: "column_meta list"

record entity_meta =
  metaName :: string
  targetName :: string
  metaTable :: string
  primaryColumns :: "column_meta list"
  ownColumns :: "column_meta list"
  metaRelations :: "relation_meta list"
  ownRelations :: "relation_meta list"

record 'm emodule = module +
  modMappers :: "(string \<times> 'm) list"   \<comment> \<open>the mappers among its values, with their entity's name\<close>

record ('w, 'e, 'm) orm_env =
  logs :: "('w, 'e) repo"
  camelCase :: "string \<Rightarrow> string"
  snakeCase :: "string \<Rightarrow> string"
  metaOf :: "string \<Rightarrow> entity_meta"      \<comment> \<open>\<open>orm.getEntityMetadata\<close>\<close>
  findOneEnt :: "conn \<Rightarrow> string \<Rightarrow> jsval obj \<Rightarrow> ('w, 'e, jsval obj option) action"
  findEnt :: "conn \<Rightarrow> string \<Rightarrow> jsval obj \<Rightarrow> ('w, 'e, jsval obj list) action"
  moduleNames :: "conn \<Rightarrow> ('w, 'e, string list) action"   \<comment> \<open>the names in \<open>iasql_module\<close>\<close>
  versionString :: "('w, 'e, string) action"
  upgrading :: "('w, 'e, bool) action"    \<comment> \<open>\<open>MetadataRepo.getDbById(dbId)?.upgrading\<close>\<close>
  configVersion :: string
  allModules :: "'m emodule list"

abbreviation typeError :: "('w, 'e, 'm, 'z) orm_env_scheme \<Rightarrow> 'e" where
  "typeError v \<equiv> mkError (logs v) ''TypeError''"

section \<open>Modules\<close>

definition throwIfUpgrading :: "('w, 'e, 'm, 'z) orm_env_scheme \<Rightarrow> bool \<Rightarrow> ('w, 'e, unit) action" where
  "throwIfUpgrading v force =
     andThen (upgrading v) (\<lambda>u.
       if \<not> force \<and> u
       then throw (mkError (logs v) ''The database is upgrading. Please try again later.'')
       else ret ())"

definition getImportedModules ::
  "('w, 'e, 'm, 'z) orm_env_scheme \<Rightarrow> string \<Rightarrow> bool \<Rightarrow> ('w, 'e, 'm emodule list) action" where
  "getImportedModules v version force =
     (if version \<noteq> configVersion v
      then throw (mkError (logs v) (''Unsupported version '' @ version @ ''. Please upgrade or replace this database.''))
      else andThen (upgrading v) (\<lambda>u.
        if \<not> force \<and> u
        then throw (mkError (logs v) ''Cannot apply a change while upgrading'')
        else ret (allModules v)))"

definition installedOf :: "'a module_scheme list \<Rightarrow> string list \<Rightarrow> 'a module_scheme list" where
  "installedOf mods names = filter (\<lambda>m. modKey m \<in> set names) mods"

definition getInstalledModules :: "('w, 'e, 'm, 'z) orm_env_scheme \<Rightarrow> conn \<Rightarrow> ('w, 'e, 'm emodule list) action" where
  "getInstalledModules v c = andThen (moduleNames v c) (\<lambda>names. ret (installedOf (allModules v) names))"

definition indexModsByTable :: "'a module_scheme list \<Rightarrow> ('a module_scheme) obj" where
  "indexModsByTable mods =
     fold (\<lambda>m idx. fold (\<lambda>t idx. obj_set t m idx) (provTables m) idx) mods []"

text \<open>
  A dependency that is not installed and not found among the imported modules puts \<open>undefined\<close>
  (\<open>None\<close>) into the result.
\<close>

definition getModulesWithChanges ::
  "'a module_scheme list \<Rightarrow> 'a module_scheme list \<Rightarrow> string list \<Rightarrow> string list \<Rightarrow> string
     \<Rightarrow> 'a module_scheme option list" where
  "getModulesWithChanges imported installed installedNames tablesWithChanges version =
     (let direct = filter (\<lambda>m. \<exists>t\<in>set (provTables m). t \<in> set tablesWithChanges) installed;
          deps = uniq (filter (\<lambda>d. d \<notin> set [''iasql_platform@'' @ version, ''iasql_functions@'' @ version])
             (concat (map (\<lambda>m. filter (\<lambda>d. d \<notin> set installedNames) (dependencies m)) direct)));
          indirect = map (\<lambda>n. find (\<lambda>m. modKey m = n) imported) deps
      in map Some direct @ indirect)"

section \<open>Recreating an entity from a logged row\<close>

definition entityKey :: "('w, 'e, 'm, 'z) orm_env_scheme \<Rightarrow> entity_meta \<Rightarrow> string \<Rightarrow> string" where
  "entityKey v md k =
     (case find (\<lambda>oc. databaseName oc = k) (ownColumns md) of
        Some col \<Rightarrow> (if referencedColumn col = None then propertyName col else camelCase v k)
      | None \<Rightarrow> camelCase v k)"

definition propOf :: "jsval obj \<Rightarrow> string \<Rightarrow> jsval" where
  "propOf e k = (case map_of e k of None \<Rightarrow> JUndef | Some x \<Rightarrow> x)"

definition relationWhere :: "('w, 'e, 'm, 'z) orm_env_scheme \<Rightarrow> relation_meta \<Rightarrow> jsval obj \<Rightarrow> jsval obj" where
  "relationWhere v r e =
     obj_of (map (\<lambda>jc. (case referencedColumn jc of
         Some (_, p) \<Rightarrow> (p, propOf e (camelCase v (databaseName jc)))
       | None \<Rightarrow> (''undefined'', propOf e (propertyName jc)))) (joinColumns r))"

definition recreateOne ::
  "('w, 'e, 'm, 'z) orm_env_scheme \<Rightarrow> conn \<Rightarrow> relation_meta \<Rightarrow> jsval obj \<Rightarrow> ('w, 'e, jsval obj) action" where
  "recreateOne v c r e =
     (let target = targetName (metaOf v (relInverse r)); wh = relationWhere v r e in
      if relKind r \<noteq> OneToMany
      then andThen (findOneEnt v c target wh) (\<lambda>relE.
        ret (obj_set (relProperty r) (case relE of None \<Rightarrow> JNull | Some ob \<Rightarrow> JObj ob) e))
      else andThen (findEnt v c target wh) (\<lambda>relEs.
        ret (obj_set (relProperty r) (JArr (map JObj relEs)) e)))"

fun recreateRelations ::
  "('w, 'e, 'm, 'z) orm_env_scheme \<Rightarrow> conn \<Rightarrow> relation_meta list \<Rightarrow> jsval obj \<Rightarrow> ('w, 'e, jsval obj) action" where
  "recreateRelations v c [] e = ret e"
| "recreateRelations v c (r # rs) e = andThen (recreateOne v c r e) (recreateRelations v c rs)"

definition recreateRelation ::
  "rel_kind \<Rightarrow> ('w, 'e, 'm, 'z) orm_env_scheme \<Rightarrow> conn \<Rightarrow> entity_meta \<Rightarrow> jsval obj \<Rightarrow> ('w, 'e, jsval obj) action" where
  "recreateRelation k v c md e =
     recreateRelations v c (filter (\<lambda>r. relEager r \<and> relKind r = k) (ownRelations md)) e"

definition recreateEntity ::
  "('w, 'e, 'm, 'z) orm_env_scheme \<Rightarrow> conn \<Rightarrow> entity_meta \<Rightarrow> jsval obj option \<Rightarrow> ('w, 'e, jsval obj option) action" where
  "recreateEntity v c md originalChange =
     (case originalChange of
        None \<Rightarrow> throw (typeError v)
      | Some row \<Rightarrow>
          andThen (recreateRelation OneToMany v c md (obj_of (map (\<lambda>(k, x). (entityKey v md k, x)) row)))
            (\<lambda>e1. andThen (recreateRelation ManyToOne v c md e1)
              (\<lambda>e2. andThen (recreateRelation OneToOne v c md e2)
                (\<lambda>e3. ret (if e3 = [] then None else Some e3)))))"

section \<open>The entities behind logged changes\<close>

definition primaryWhere :: "('w, 'e, 'm, 'z) orm_env_scheme \<Rightarrow> entity_meta \<Rightarrow> jsval obj \<Rightarrow> jsval obj" where
  "primaryWhere v md row =
     obj_of (map (\<lambda>(k, x). (camelCase v k, x))
       (filter (\<lambda>(k, _). k \<in> set (map databaseName (primaryColumns md))) row))"

definition joinTableCols :: "entity_meta \<Rightarrow> (string \<times> string) list obj" where
  "joinTableCols md =
     obj_of (map (\<lambda>r. (joinTableName r, map (\<lambda>jc. (databaseName jc,
         (case referencedColumn jc of None \<Rightarrow> [] | Some (d, _) \<Rightarrow> d))) (joinColumns r)))
       (filter (\<lambda>r. joinTableName r \<noteq> []) (ownRelations md)))"

definition joinWhere ::
  "('w, 'e, 'm, 'z) orm_env_scheme \<Rightarrow> (string \<times> string) list \<Rightarrow> jsval obj \<Rightarrow> jsval obj" where
  "joinWhere v cols row =
     obj_of (concat (map (\<lambda>(k, x). (case map_of cols k of None \<Rightarrow> [] | Some ref \<Rightarrow> [(camelCase v ref, x)])) row))"

definition optList :: "'a option \<Rightarrow> 'a list" where
  "optList x = (case x of None \<Rightarrow> [] | Some a \<Rightarrow> [a])"

definition changedEntities ::
  "('w, 'e, 'm, 'z) orm_env_scheme \<Rightarrow> conn \<Rightarrow> audit_log \<Rightarrow> string \<Rightarrow> ('w, 'e, jsval obj list) action" where
  "changedEntities v c l entity =
     (let md = metaOf v entity in
      if metaTable md = tableName l
      then (if changeType l \<in> set [INSERT, UPDATE]
            then (case changed (change l) of
                    None \<Rightarrow> throw (typeError v)
                  | Some row \<Rightarrow>
                      andThen (findOneEnt v c entity (primaryWhere v md row)) (\<lambda>changedE.
                        (case original (change l) of
                           None \<Rightarrow> ret (optList changedE)
                         | Some before \<Rightarrow>
                             andThen (recreateEntity v c md (Some before)) (\<lambda>originalE.
                               ret (optList changedE @ optList originalE)))))
            else if changeType l = DELETE
            then andThen (recreateEntity v c md (original (change l))) (\<lambda>originalE. ret (optList originalE))
            else ret [])
      else (case map_of (joinTableCols md) (tableName l) of
              None \<Rightarrow> ret []
            | Some cols \<Rightarrow>
                (case (if changeType l = DELETE then original (change l) else changed (change l)) of
                   None \<Rightarrow> throw (typeError v)
                 | Some row \<Rightarrow>
                     andThen (findOneEnt v c entity (joinWhere v cols row)) (\<lambda>changedE.
                       ret (optList changedE)))))"

definition addChanges :: "string \<Rightarrow> 'a list \<Rightarrow> 'a list obj \<Rightarrow> 'a list obj" where
  "addChanges entity es acc =
     (if es = [] then acc
      else obj_set entity ((case map_of acc entity of None \<Rightarrow> [] | Some old \<Rightarrow> old) @ es) acc)"

fun changesOfEntities ::
  "('w, 'e, 'm, 'z) orm_env_scheme \<Rightarrow> conn \<Rightarrow> audit_log \<Rightarrow> string list \<Rightarrow> jsval obj list obj
     \<Rightarrow> ('w, 'e, jsval obj list obj) action" where
  "changesOfEntities v c l [] acc = ret acc"
| "changesOfEntities v c l (entity # es) acc =
     andThen (changedEntities v c l entity)
       (\<lambda>found. changesOfEntities v c l es (addChanges entity found acc))"

text \<open>A change to a table of no indexed module throws: \<open>Object.values(undefined)\<close>.\<close>

fun changesByEntity ::
  "('w, 'e, 'm, 'z) orm_env_scheme \<Rightarrow> conn \<Rightarrow> ('m emodule) obj \<Rightarrow> audit_log list \<Rightarrow> jsval obj list obj
     \<Rightarrow> ('w, 'e, jsval obj list obj) action" where
  "changesByEntity v c idx [] acc = ret acc"
| "changesByEntity v c idx (l # ls) acc =
     (case map_of idx (tableName l) of
        None \<Rightarrow> throw (typeError v)
      | Some md \<Rightarrow>
          andThen (changesOfEntities v c l (obj_keys (obj_of (modMappers md))) acc)
            (changesByEntity v c idx ls))"

definition getChangesByEntity ::
  "('w, 'e, 'm, 'z) orm_env_scheme \<Rightarrow> conn \<Rightarrow> audit_log list \<Rightarrow> ('m emodule) obj \<Rightarrow> ('w, 'e, jsval obj list obj) action" where
  "getChangesByEntity v c changes idx = changesByEntity v c idx changes []"

text \<open>\<open>indexModsByTable\<close> reads \<open>mod.provides\<close> of every element, so \<open>undefined\<close> throws.\<close>

definition indexAll :: "('w, 'e, 'm, 'z) orm_env_scheme \<Rightarrow> 'm emodule option list \<Rightarrow> ('w, 'e, ('m emodule) obj) action" where
  "indexAll v ms = (if list_ex Option.is_none ms then throw (typeError v) else ret (indexModsByTable (map the ms)))"

definition getChangesAfterCommitStartedByEntity ::
  "('w, 'e, 'm, 'z) orm_env_scheme \<Rightarrow> conn \<Rightarrow> int \<Rightarrow> bool \<Rightarrow> ('w, 'e, jsval obj list obj) action" where
  "getChangesAfterCommitStartedByEntity v c startTs force =
     andThen (findLogs (logs v) c
         ((whereType (TypeNotIn commitBrackets))
            \<lparr> qTs := TsMoreThan startTs, qUser := UserNot (dbUser (logs v)) \<rparr>)) (\<lambda>after.
       andThen (versionString v) (\<lambda>version.
         andThen (getImportedModules v version force) (\<lambda>imported.
           andThen (moduleNames v c) (\<lambda>names.
             andThen (indexAll v (getModulesWithChanges imported (installedOf imported names) names
                 (uniq (map tableName after)) version)) (\<lambda>idx.
               getChangesByEntity v c after idx)))))"

section \<open>Which modules a commit looks at\<close>

lemma index_tables:
  "map_of (fold (\<lambda>t idx. obj_set t m idx) ts idx) t =
     (if t \<in> set ts then Some m else map_of idx t)"
  by (induction ts arbitrary: idx) auto

lemma find_snoc: "find P (xs @ [x]) = (case find P xs of None \<Rightarrow> if P x then Some x else None | y \<Rightarrow> y)"
  by (induction xs) (auto split: option.splits)

lemma index_modules:
  "map_of (fold (\<lambda>m idx. fold (\<lambda>t idx. obj_set t m idx) (provTables m) idx) mods idx) t =
     (case find (\<lambda>m. t \<in> set (provTables m)) (rev mods) of Some m \<Rightarrow> Some m | None \<Rightarrow> map_of idx t)"
proof (induction mods arbitrary: idx)
  case (Cons m mods)
  show ?case
    by (simp add: Cons.IH index_tables find_snoc split: option.splits)
qed simp

lemma indexModsByTable_find:
  "map_of (indexModsByTable mods) t = find (\<lambda>m. t \<in> set (provTables m)) (rev mods)"
  by (simp add: indexModsByTable_def index_modules split: option.splits)

definition affected :: "string list \<Rightarrow> 'a module_scheme \<Rightarrow> bool" where
  "affected tables m \<longleftrightarrow> (\<exists>t\<in>set (provTables m). t \<in> set tables)"

text \<open>
  When the installed modules have all their dependencies installed, \<open>getModulesWithChanges\<close> is
  exactly the installed modules that provide a changed table, without holes, and every changed table of an
  installed module is then found in the index that the commit builds, under a module that provides it.
\<close>

theorem getModulesWithChanges_covers:
  assumes "\<forall>m\<in>set installed. set (dependencies m) \<subseteq> set names"
  shows "getModulesWithChanges imported installed names tables version
      = map Some (filter (affected tables) installed) \<and>
    (\<forall>t\<in>set tables. \<forall>m\<in>set installed. t \<in> set (provTables m) \<longrightarrow>
       (\<exists>m'. map_of (indexModsByTable (filter (affected tables) installed)) t = Some m' \<and>
          m' \<in> set installed \<and> t \<in> set (provTables m')))"
proof (intro conjI ballI impI)
  let ?direct = "filter (\<lambda>m. \<exists>t\<in>set (provTables m). t \<in> set tables) installed"
  have "filter (\<lambda>d. d \<notin> set names) (dependencies m) = []" if "m \<in> set ?direct" for m
    using that assms by (auto simp: filter_empty_conv)
  then have "map (\<lambda>m. filter (\<lambda>d. d \<notin> set names) (dependencies m)) ?direct = map (\<lambda>_. []) ?direct"
    by (intro map_cong) auto
  then have none: "concat (map (\<lambda>m. filter (\<lambda>d. d \<notin> set names) (dependencies m)) ?direct) = []"
    by simp
  show "getModulesWithChanges imported installed names tables version
      = map Some (filter (affected tables) installed)"
    unfolding getModulesWithChanges_def Let_def none by (simp add: affected_def [abs_def])
next
  fix t m
  assume t: "t \<in> set tables" "m \<in> set installed" "t \<in> set (provTables m)"
  let ?ms = "filter (affected tables) installed"
  have "m \<in> set ?ms" using t by (auto simp: affected_def)
  then have "find (\<lambda>m. t \<in> set (provTables m)) (rev ?ms) \<noteq> None"
    using t(3) by (auto simp: find_None_iff)
  then obtain m' where m': "find (\<lambda>m. t \<in> set (provTables m)) (rev ?ms) = Some m'" by blast
  then have "m' \<in> set ?ms \<and> t \<in> set (provTables m')"
    by (auto simp: find_Some_iff) (metis length_rev nth_mem set_rev mem_Collect_eq set_filter)+
  with m' show "\<exists>m'. map_of (indexModsByTable ?ms) t = Some m' \<and> m' \<in> set installed \<and> t \<in> set (provTables m')"
    by (auto simp: indexModsByTable_find)
qed

definition bucketMod :: module where
  "bucketMod = \<lparr> modName = ''aws_s3'', modVersion = ''1'', dependencies = [], provTables = [''bucket''] \<rparr>"

theorem getModulesWithChanges_covers_witness:
  "getModulesWithChanges [bucketMod] [bucketMod] [''aws_s3@1''] [''bucket''] ''1'' = [Some bucketMod] \<and>
   (\<exists>m. map_of (indexModsByTable [bucketMod]) ''bucket'' = Some m)"
  using getModulesWithChanges_covers [of "[bucketMod]" "[''aws_s3@1'']" "[bucketMod]" "[''bucket'']" "''1''"]
  by (auto simp: bucketMod_def affected_def)

section \<open>Which entities\<close>

text \<open>An environment whose lookups answer from a fixed database.\<close>

definition reads_from ::
  "('w, 'e, 'm, 'z) orm_env_scheme \<Rightarrow> (string \<Rightarrow> jsval obj \<Rightarrow> jsval obj option) \<Rightarrow> (string \<Rightarrow> jsval obj \<Rightarrow> jsval obj list) \<Rightarrow> bool" where
  "reads_from v f g \<longleftrightarrow> (\<forall>c n wh. findOneEnt v c n wh = ret (f n wh)) \<and> (\<forall>c n wh. findEnt v c n wh = ret (g n wh))"

lemma recreateRelations_reads:
  assumes "reads_from v f g"
  shows "\<exists>e'. recreateRelations v c rs e = ret e' \<and> (\<forall>k. k \<notin> relProperty ` set rs \<longrightarrow> map_of e' k = map_of e k)"
proof (induction rs arbitrary: e)
  case (Cons r rs)
  have one: "findOneEnt v c n wh = ret (f n wh)" "findEnt v c n wh = ret (g n wh)" for n wh
    using assms by (simp_all add: reads_from_def del: ret_apply)
  have "\<exists>x. recreateOne v c r e = ret (obj_set (relProperty r) x e)"
    unfolding recreateOne_def Let_def one ret_andThen by (cases "relKind r \<noteq> OneToMany") (simp_all only: if_True if_False simp_thms, blast+)
  then obtain x where x: "recreateOne v c r e = ret (obj_set (relProperty r) x e)" by blast
  obtain e' where "recreateRelations v c rs (obj_set (relProperty r) x e) = ret e'"
      "\<forall>k. k \<notin> relProperty ` set rs \<longrightarrow> map_of e' k = map_of (obj_set (relProperty r) x e) k"
    using Cons.IH by blast
  with x show ?case by (auto simp: ret_andThen simp del: ret_apply)
qed (auto simp del: ret_apply)

text \<open>
  An entity recreated from a logged row has the row's values: every column that is no reference and
  whose property is no eager relation is found under its property name, when the column names of the
  row lead to distinct properties.
\<close>

theorem recreateEntity_columns:
  assumes "reads_from v f g"
    and "distinct (map (entityKey v md) (map fst row))"
    and "(k, x) \<in> set row" "find (\<lambda>oc. databaseName oc = k) (ownColumns md) = Some col"
    and "referencedColumn col = None" "propertyName col \<notin> relProperty ` set (ownRelations md)"
  shows "\<exists>e. recreateEntity v c md (Some row) = ret (Some e) \<and> map_of e (propertyName col) = Some x"
proof -
  let ?row = "map (\<lambda>(k, x). (entityKey v md k, x)) row"
  have key: "entityKey v md k = propertyName col"
    using assms(4,5) by (simp add: entityKey_def)
  have "wf_keys ?row"
    using assms(2) by (simp add: comp_def case_prod_unfold)
  then have e0: "map_of (obj_of ?row) (propertyName col) = Some x"
    using assms(3) key by (simp add: obj_of_find map_of_rev_wf) (force intro: map_of_is_SomeI)
  have rel: "\<exists>e'. recreateRelation knd v c md e = ret e' \<and> map_of e' (propertyName col) = Some x"
    if "map_of e (propertyName col) = Some x" for knd e
  proof -
    let ?rs = "filter (\<lambda>r. relEager r \<and> relKind r = knd) (ownRelations md)"
    obtain e' where e': "recreateRelations v c ?rs e = ret e'"
        "\<forall>k. k \<notin> relProperty ` set ?rs \<longrightarrow> map_of e' k = map_of e k"
      using recreateRelations_reads [OF assms(1)] by blast
    moreover have "propertyName col \<notin> relProperty ` set ?rs" using assms(6) by auto
    ultimately have "map_of e' (propertyName col) = Some x" using that by simp
    with e'(1) show ?thesis unfolding recreateRelation_def by blast
  qed
  obtain e1 where e1: "recreateRelation OneToMany v c md (obj_of ?row) = ret e1" "map_of e1 (propertyName col) = Some x"
    using rel e0 by blast
  obtain e2 where e2: "recreateRelation ManyToOne v c md e1 = ret e2" "map_of e2 (propertyName col) = Some x"
    using rel e1(2) by blast
  obtain e3 where e3: "recreateRelation OneToOne v c md e2 = ret e3" "map_of e3 (propertyName col) = Some x"
    using rel e2(2) by blast
  then have "e3 \<noteq> []" by auto
  then have "recreateEntity v c md (Some row) = ret (Some e3)"
    by (simp add: recreateEntity_def e1(1) e2(1) e3(1) del: ret_apply)
  with e3(2) show ?thesis by blast
qed

definition demoColumn :: "string \<Rightarrow> string \<Rightarrow> column_meta" where
  "demoColumn db prop = \<lparr> databaseName = db, propertyName = prop, columnType = Some ''varchar'',
     colIsArray = False, colIsPrimary = False, colIsGenerated = False, referencedColumn = None,
     colRelation = None \<rparr>"

definition demoMeta :: entity_meta where
  "demoMeta = \<lparr> metaName = ''Bucket'', targetName = ''Bucket'', metaTable = ''bucket'',
     primaryColumns = [demoColumn ''name'' ''name''], ownColumns = [demoColumn ''name'' ''name'', demoColumn ''policy_document'' ''policyDocument''],
     metaRelations = [], ownRelations = [] \<rparr>"

definition demoOrm :: "(audit_log list, string, unit) orm_env" where
  "demoOrm = \<lparr> logs = tableRepo ''iasql'', camelCase = id, snakeCase = id, metaOf = (\<lambda>_. demoMeta),
     findOneEnt = (\<lambda>c n wh. ret None), findEnt = (\<lambda>c n wh. ret []), moduleNames = (\<lambda>c. ret []),
     versionString = ret ''1'', upgrading = ret False, configVersion = ''1'', allModules = [] \<rparr>"

theorem recreateEntity_columns_witness:
  "\<exists>e. recreateEntity demoOrm 0 demoMeta (Some [(''policy_document'', JStr ''p'')]) = ret (Some e) \<and>
     map_of e ''policyDocument'' = Some (JStr ''p'')"
proof -
  let ?col = "demoColumn ''policy_document'' ''policyDocument''"
  have "\<exists>e. recreateEntity demoOrm 0 demoMeta (Some [(''policy_document'', JStr ''p'')]) = ret (Some e) \<and>
     map_of e (propertyName ?col) = Some (JStr ''p'')"
    by (rule recreateEntity_columns [of _ "\<lambda>n wh. None" "\<lambda>n wh. []" _ _ "''policy_document''"])
      (simp_all add: reads_from_def demoOrm_def demoMeta_def demoColumn_def del: ret_apply)
  then show ?thesis by (simp add: demoColumn_def)
qed

end
