(* ===== verification/Queries.thy ===== *)
theory Queries
  imports Changes Mapper_Id "HOL-Library.Multiset"
begin

text \<open>
  SQL from the audit log, in \<open>src/src/modules/iasql_functions/iasql.ts\<close>: \<open>recreateQueries\<close> and what
  it is made of.  Every logged value is augmented with what the ORM's metadata says of its column, a
  statement is chosen from the log's type and direction (\<open>queryStmt\<close>), and rendered as a template with
  arguments for \<open>pg-format\<close>, which is the parameter \<open>pgFormat\<close>.

  \<open>augmentValue\<close> and \<open>recreateSubQuery\<close> call each other along the relations of the tables, which may
  form a cycle, so they take fuel; \<open>OutOfFuel\<close> is not an error of the code, and
  \<open>augmentValue_settles\<close> says how much fuel is enough.
\<close>

section \<open>Parameters and data\<close>

text \<open>
  The keys of the decorator tables: the decorators register classes, and the code also looks up the
  ORM's metadata objects.
\<close>

datatype js_ref = ClassRef string | MetaRef string

record ('w, 'e, 'm) query_env = "('w, 'e, 'm) orm_env" +
  pgFormat :: "string \<Rightarrow> jsval list \<Rightarrow> string"
  cloudIds :: decorator_table
  resolvable :: "(js_ref, string list) jsmap"

datatype 'e stop = Thrown 'e | OutOfFuel

definition liftE :: "('w, 'e, 'a) action \<Rightarrow> ('w, 'e stop, 'a) action" where
  "liftE m = (\<lambda>w. case m w of (Inl e, w') \<Rightarrow> (Inl (Thrown e), w') | (Inr x, w') \<Rightarrow> (Inr x, w'))"

record augmented =
  isPrimary :: bool
  isAutogenerated :: bool
  avKey :: string
  avValue :: jsval
  isJson :: bool
  isSubQuery :: bool
  avType :: "string option"
  avIsArray :: bool
  resolveSupport :: bool

datatype table_meta = EntityMeta entity_meta | RelationMeta relation_meta

type_synonym recreated = "jsval obj option list obj"

section \<open>Strings\<close>

abbreviation nl :: char where "nl \<equiv> CHR 0x0A"

definition hexDigit :: "nat \<Rightarrow> char" where
  "hexDigit n = (if n < 10 then char_of (48 + n) else char_of (87 + n))"

text \<open>\<open>JSON.stringify\<close>; \<open>undefined\<close> is \<open>null\<close> in an array and left out of an object.\<close>

definition escapeChar :: "char \<Rightarrow> string" where
  "escapeChar c =
     (let n = of_char c :: nat in
      if n = 34 then [CHR 0x5C, CHR 0x22]
      else if n = 92 then [CHR 0x5C, CHR 0x5C]
      else if n = 8 then CHR 0x5C # ''b'' else if n = 9 then CHR 0x5C # ''t''
      else if n = 10 then CHR 0x5C # ''n'' else if n = 12 then CHR 0x5C # ''f''
      else if n = 13 then CHR 0x5C # ''r''
      else if n < 32 then CHR 0x5C # ''u00'' @ [hexDigit (n div 16), hexDigit (n mod 16)]
      else [c])"

definition quoteStr :: "string \<Rightarrow> string" where
  "quoteStr s = CHR 0x22 # concat (map escapeChar s) @ [CHR 0x22]"

fun jsonStr :: "jsval \<Rightarrow> string" where
  "jsonStr JUndef = ''null''"
| "jsonStr JNull = ''null''"
| "jsonStr (JBool b) = (if b then ''true'' else ''false'')"
| "jsonStr (JNum n) = intStr n"
| "jsonStr (JStr s) = quoteStr s"
| "jsonStr (JArr vs) = ''['' @ joinWith '','' (map jsonStr vs) @ '']''"
| "jsonStr (JObj ps) = ''{'' @ joinWith '',''
     (map (\<lambda>(k, v). quoteStr k @ '':'' @ jsonStr v) (filter (\<lambda>p. snd p \<noteq> JUndef) ps)) @ ''}''"

text \<open>\<open>replace(/::json(?:b)?|::simple-json/g, '::jsonb')\<close>\<close>

fun stripPrefix :: "string \<Rightarrow> string \<Rightarrow> string option" where
  "stripPrefix [] s = Some s"
| "stripPrefix (p # ps) (c # s) = (if p = c then stripPrefix ps s else None)"
| "stripPrefix (p # ps) [] = None"

lemma stripPrefix_length: "stripPrefix p s = Some r \<Longrightarrow> length r \<le> length s"
  by (induction p s rule: stripPrefix.induct) (auto split: if_splits)

definition jsonCast :: "string \<Rightarrow> string option" where
  "jsonCast s =
     (case stripPrefix ''::jsonb'' s of Some r \<Rightarrow> Some r
      | None \<Rightarrow> (case stripPrefix ''::json'' s of Some r \<Rightarrow> Some r
      | None \<Rightarrow> stripPrefix ''::simple-json'' s))"

function replaceJsonCasts :: "string \<Rightarrow> string" where
  "replaceJsonCasts [] = []"
| "replaceJsonCasts (c # s) =
     (case jsonCast (c # s) of Some r \<Rightarrow> ''::jsonb'' @ replaceJsonCasts r
      | None \<Rightarrow> c # replaceJsonCasts s)"
  by pat_completeness auto
termination
proof (relation "measure length")
  fix c :: char and s r :: string
  assume cast: "jsonCast (c # s) = Some r"
  have "length r \<le> length s" if "stripPrefix (p # ps) (c # s) = Some r" for p ps
    using that stripPrefix_length [of ps s r] by (auto split: if_splits)
  with cast have "length r \<le> length s"
    by (auto simp: jsonCast_def split: option.splits)
  then show "(r, c # s) \<in> measure length" by simp
qed auto

section \<open>Metadata of a table\<close>

definition mapperNames :: "('m emodule) obj \<Rightarrow> string \<Rightarrow> string list" where
  "mapperNames idx t = (case map_of idx t of None \<Rightarrow> [] | Some md \<Rightarrow> map fst (modMappers md))"

fun firstPass :: "('w, 'e, 'm, 'z) orm_env_scheme \<Rightarrow> string \<Rightarrow> string list \<Rightarrow> table_meta option" where
  "firstPass v t [] = None"
| "firstPass v t (m # ms) =
     (let md = metaOf v m in
      if metaTable md = t then Some (EntityMeta md)
      else if t \<in> set (map joinTableName (filter (\<lambda>r. joinTableName r \<noteq> []) (ownRelations md)))
      then map_option RelationMeta (find (\<lambda>r. joinTableName r = t) (ownRelations md))
      else firstPass v t ms)"

fun secondPass :: "('w, 'e, 'm, 'z) orm_env_scheme \<Rightarrow> string \<Rightarrow> string list \<Rightarrow> table_meta option" where
  "secondPass v t [] = None"
| "secondPass v t (m # ms) =
     (let md = metaOf v m; inverseTable = (\<lambda>r. metaTable (metaOf v (relInverse r))) in
      if t \<in> set (map inverseTable (filter (\<lambda>r. inverseTable r \<noteq> []) (ownRelations md)))
      then map_option (\<lambda>r. EntityMeta (metaOf v (relInverse r)))
             (find (\<lambda>r. inverseTable r = t) (ownRelations md))
      else secondPass v t ms)"

definition getTableMetadata ::
  "('w, 'e, 'm, 'z) orm_env_scheme \<Rightarrow> ('m emodule) obj \<Rightarrow> string \<Rightarrow> table_meta option" where
  "getTableMetadata v idx t =
     (let ms = mapperNames idx t in
      case firstPass v t ms of Some md \<Rightarrow> Some md | None \<Rightarrow> secondPass v t ms)"

section \<open>Formatting\<close>

fun isArr :: "jsval \<Rightarrow> bool" where
  "isArr (JArr _) = True"
| "isArr _ = False"

definition formatValue :: "('w, 'e, 'm, 'z) query_env_scheme \<Rightarrow> augmented \<Rightarrow> string" where
  "formatValue v a =
     (if isSubQuery a then toStr (avValue a)
      else if avIsArray a
      then (case truthyStr (avType a) of
              Some t \<Rightarrow> pgFormat v ''array[%L]::%I[]'' [avValue a, JStr t]
            | None \<Rightarrow> pgFormat v ''array[%L]'' [avValue a])
      else if isJson a \<and> isArr (avValue a) then pgFormat v ''%L'' [JStr (jsonStr (avValue a))]
      else pgFormat v ''%L'' [avValue a])"

text \<open>The placeholder of a condition, and the arguments of a condition and of an assignment.\<close>

definition condition :: "('w, 'e, 'm, 'z) query_env_scheme \<Rightarrow> augmented \<Rightarrow> string" where
  "condition v e = (if formatValue v e = ''NULL'' then ''%I IS %s''
     else if isJson e then ''%I::jsonb = %s'' else ''%I = %s'')"

definition setArgs :: "('w, 'e, 'm, 'z) query_env_scheme \<Rightarrow> augmented \<Rightarrow> jsval list" where
  "setArgs v e = [JStr (avKey e),
     JStr (if isJson e \<and> isArr (avValue e) then formatValue v e @ ''::jsonb'' else formatValue v e)]"

definition whereArgs :: "('w, 'e, 'm, 'z) query_env_scheme \<Rightarrow> augmented \<Rightarrow> jsval list" where
  "whereArgs v e =
     (if isJson e \<and> \<not> isArr (avValue e) then [JStr (avKey e), JStr (replaceJsonCasts (formatValue v e))]
      else if isJson e \<and> isArr (avValue e) then [JStr (avKey e), JStr (formatValue v e @ ''::jsonb'')]
      else [JStr (avKey e), JStr (formatValue v e)])"

text \<open>A statement: its table, and the values it inserts, sets or compares with.\<close>

datatype stmt =
    Insert string "augmented list"
  | Delete string "augmented list"
  | Update string "augmented list" "augmented list"   \<comment> \<open>the \<open>SET\<close> and the \<open>WHERE\<close> values\<close>

definition usable :: "augmented list \<Rightarrow> augmented list" where
  "usable es = filter (\<lambda>e. (\<not> isPrimary e \<and> \<not> isAutogenerated e) \<or> \<not> isAutogenerated e) es"

definition compared :: "augmented list \<Rightarrow> augmented list" where
  "compared es = filter (\<lambda>e. \<not> resolveSupport e) es"

definition queryStmt ::
  "string \<Rightarrow> change_type \<Rightarrow> bool \<Rightarrow> augmented list \<Rightarrow> augmented list \<Rightarrow> stmt option" where
  "queryStmt t ct reversed firstEntries secondEntries =
     (let firstValues = usable firstEntries; secondValues = usable secondEntries;
          ct' = (if reversed \<and> (ct = INSERT \<or> ct = DELETE)
                 then (if ct = INSERT then DELETE else INSERT) else ct)
      in if ct' = INSERT then Some (Insert t firstValues)
         else if ct' = DELETE then Some (Delete t (compared firstValues))
         else if ct' = UPDATE
         then Some (Update t (if reversed then firstValues else secondValues)
                (compared (if reversed then secondValues else firstValues)))
         else None)"

abbreviation spaces :: "nat \<Rightarrow> string" where
  "spaces n \<equiv> replicate n (CHR '' '')"

definition template :: "('w, 'e, 'm, 'z) query_env_scheme \<Rightarrow> stmt \<Rightarrow> string \<times> jsval list" where
  "template v s =
     (case s of
        Insert t es \<Rightarrow>
          (nl # spaces 10 @ ''INSERT INTO %I ('' @ joinWith '', '' (map (\<lambda>_. ''%I'') es) @ '')'' @ nl # spaces 10
             @ ''VALUES ('' @ joinWith '', '' (map (\<lambda>_. ''%s'') es) @ '');'' @ nl # spaces 8,
           JStr t # map (\<lambda>e. JStr (avKey e)) es
             @ map (\<lambda>e. JStr (if isJson e \<and> isArr (avValue e) then formatValue v e @ ''::jsonb'' else formatValue v e)) es)
      | Delete t es \<Rightarrow>
          (nl # spaces 10 @ ''DELETE FROM %I'' @ nl # spaces 10 @ ''WHERE ''
             @ joinWith '' AND '' (map (condition v) es) @ '';'' @ nl # spaces 8,
           JStr t # concat (map (whereArgs v) es))
      | Update t sets wheres \<Rightarrow>
          (nl # spaces 8 @ ''UPDATE %I'' @ nl # spaces 8 @ ''SET '' @ joinWith '', '' (map (\<lambda>_. ''%I = %s'') sets)
             @ nl # spaces 8 @ ''WHERE '' @ joinWith '' AND '' (map (condition v) wheres) @ '';'' @ nl # spaces 6,
           JStr t # concat (map (setArgs v) sets) @ concat (map (whereArgs v) wheres)))"

definition getFormattedQuery ::
  "('w, 'e, 'm, 'z) query_env_scheme \<Rightarrow> string \<Rightarrow> change_type \<Rightarrow> bool \<Rightarrow> augmented list \<Rightarrow> augmented list \<Rightarrow> string" where
  "getFormattedQuery v t ct reversed firstEntries secondEntries =
     (case queryStmt t ct reversed firstEntries secondEntries of
        None \<Rightarrow> []
      | Some s \<Rightarrow> (case template v s of (tmpl, args) \<Rightarrow> pgFormat v tmpl args))"

section \<open>Augmenting a value\<close>

type_synonym ('w, 'e) sub_query = "string \<Rightarrow> string \<Rightarrow> jsval \<Rightarrow> entity_meta \<Rightarrow> ('w, 'e stop, string) action"

definition lastColumn :: "string \<Rightarrow> column_meta list \<Rightarrow> column_meta option" where   \<comment> \<open>\<open>filter(...).pop()\<close>\<close>
  "lastColumn key cols = find (\<lambda>c. databaseName c = key) (rev cols)"

definition bareValue :: "string \<Rightarrow> jsval \<Rightarrow> augmented" where
  "bareValue key x = \<lparr> isPrimary = False, isAutogenerated = False, avKey = key, avValue = x, isJson = False,
     isSubQuery = False, avType = None, avIsArray = False, resolveSupport = False \<rparr>"

text \<open>The metadata of the column, after the sub-query.\<close>

definition describe :: "column_meta option \<Rightarrow> augmented \<Rightarrow> augmented" where
  "describe col a =
     (case col of None \<Rightarrow> a
      | Some c \<Rightarrow>
          (let json = (case columnType c of Some t \<Rightarrow> t \<in> set [''simple-json'', ''json'', ''jsonb''] | None \<Rightarrow> False) in
           a\<lparr> isJson := json, avIsArray := \<not> json \<and> colIsArray c, avType := columnType c,
              isPrimary := colIsPrimary c, isAutogenerated := colIsGenerated c \<rparr>))"

text \<open>\<open>getAwsResolveSupport(metadata)\<close>: the key is the metadata object, not the class it describes.\<close>

definition resolves :: "('w, 'e, 'm, 'z) query_env_scheme \<Rightarrow> entity_meta \<Rightarrow> string \<Rightarrow> bool" where
  "resolves v md key =
     list_ex (\<lambda>column. snakeCase v column = key) (getAwsResolveSupport (resolvable v) (MetaRef (metaName md)))"

definition subQueryOf ::
  "('w, 'e, 'm, 'z) query_env_scheme \<Rightarrow> ('w, 'e) sub_query \<Rightarrow> bool \<Rightarrow> (string \<times> string \<Rightarrow> string) \<Rightarrow> jsval
     \<Rightarrow> column_meta option \<Rightarrow> augmented \<Rightarrow> ('w, 'e stop, augmented) action" where
  "subQueryOf v sub shouldRecreate side x col a =
     (case col of None \<Rightarrow> ret a
      | Some c \<Rightarrow>
          (case colRelation c of None \<Rightarrow> ret a
           | Some rel \<Rightarrow>
               if \<not> shouldRecreate then ret a
               else (let (dbKey, prop) = (case referencedColumn c of Some ref \<Rightarrow> ref | None \<Rightarrow> (''unknown_key'', ''unknownKey'')) in
                 andThen (sub dbKey prop x (metaOf v (side rel)))
                   (\<lambda>q. ret (a\<lparr> isSubQuery := True, avValue := JStr q \<rparr>)))))"

definition augmentWith ::
  "('w, 'e, 'm, 'z) query_env_scheme \<Rightarrow> ('w, 'e) sub_query \<Rightarrow> ('m emodule) obj \<Rightarrow> bool \<Rightarrow> string \<Rightarrow> string \<Rightarrow> jsval
     \<Rightarrow> ('w, 'e stop, augmented) action" where
  "augmentWith v sub idx shouldRecreate t key x =
     (case (if truthy x then getTableMetadata v idx t else None) of
        None \<Rightarrow> ret (bareValue key x)
      | Some (EntityMeta md) \<Rightarrow>
          (let col = lastColumn key (ownColumns md) in
           andThen (subQueryOf v sub shouldRecreate snd x col
               ((bareValue key x)\<lparr> resolveSupport := resolves v md key \<rparr>))
             (\<lambda>a. ret (describe col a)))
      | Some (RelationMeta r) \<Rightarrow>
          andThen (subQueryOf v sub shouldRecreate fst x (lastColumn key (joinColumns r)) (bareValue key x)) (\<lambda>a.
            (let col = lastColumn key (inverseJoinColumns r) in
             andThen (subQueryOf v sub shouldRecreate snd x col a) (\<lambda>a'. ret (describe col a')))))"

section \<open>Sub-queries\<close>

fun strictEq :: "jsval \<Rightarrow> jsval \<Rightarrow> bool" where   \<comment> \<open>\<open>===\<close>: two objects of different origin are never equal\<close>
  "strictEq (JArr _) y = False"
| "strictEq (JObj _) y = False"
| "strictEq x y = (x = y)"

text \<open>\<open>find(re => re[k] === x)\<close> over a list that may hold \<open>undefined\<close>, on which it throws.\<close>

fun findRecreated ::
  "'e \<Rightarrow> string \<Rightarrow> jsval \<Rightarrow> jsval obj option list \<Rightarrow> ('w, 'e stop, jsval obj option) action" where
  "findRecreated err k x [] = ret None"
| "findRecreated err k x (None # res) = throw (Thrown err)"
| "findRecreated err k x (Some re # res) =
     (if strictEq (propOf re k) x then ret (Some re) else findRecreated err k x res)"

text \<open>The entity with the referenced value, from the database or among the recreated ones.\<close>

definition relatedEntity ::
  "('w, 'e, 'm, 'z) query_env_scheme \<Rightarrow> conn \<Rightarrow> recreated \<Rightarrow> string \<Rightarrow> jsval \<Rightarrow> entity_meta
     \<Rightarrow> ('w, 'e stop, jsval obj option) action" where
  "relatedEntity v c rec k x md =
     andThen (liftE (tryCatch (findOneEnt v c (targetName md) [(k, x)]) (\<lambda>_. ret None))) (\<lambda>e.
       (case e of Some re \<Rightarrow> ret (Some re)
        | None \<Rightarrow> (case map_of rec (metaName md) of None \<Rightarrow> ret None
                   | Some res \<Rightarrow> findRecreated (typeError v) k x res)))"

definition subQueryText ::
  "('w, 'e, 'm, 'z) query_env_scheme \<Rightarrow> string \<Rightarrow> entity_meta \<Rightarrow> augmented list \<Rightarrow> string \<times> jsval list" where
  "subQueryText v dbKey md vals =
     (''SELECT %I FROM %I WHERE '' @ joinWith '' AND '' (map (condition v) (compared vals)),
      JStr dbKey # JStr (metaTable md) # concat (map (\<lambda>a. [JStr (avKey a), JStr (formatValue v a)]) vals))"

definition subQueryWith ::
  "('w, 'e, 'm, 'z) query_env_scheme \<Rightarrow> (string \<Rightarrow> string \<Rightarrow> jsval \<Rightarrow> ('w, 'e stop, augmented) action)
     \<Rightarrow> conn \<Rightarrow> recreated \<Rightarrow> ('w, 'e) sub_query" where
  "subQueryWith v augment c rec dbKey k x md =
     (case getCloudId (cloudIds v) (targetName md) of
        Inl _ \<Rightarrow> ret []
      | Inr cloudColumns \<Rightarrow>
          andThen (relatedEntity v c rec k x md) (\<lambda>found.
            (case found of None \<Rightarrow> ret ''<relation_not_found>''
             | Some e \<Rightarrow>
                 andThen (mapM (\<lambda>cc. augment (metaTable md) (snakeCase v cc) (propOf e cc)) cloudColumns) (\<lambda>vals.
                   andThen (if list_all (\<lambda>a. formatValue v a = ''NULL'') vals
                            then mapM (\<lambda>oc. augment (metaTable md) (databaseName oc) (propOf e (propertyName oc)))
                                   (filter (\<lambda>oc. colRelation oc = None \<and> truthy (propOf e (propertyName oc)) \<and> \<not> colIsPrimary oc)
                                     (ownColumns md))
                            else ret vals) (\<lambda>vals'.
                     ret (''('' @ (case subQueryText v dbKey md vals' of (tmpl, args) \<Rightarrow> pgFormat v tmpl args) @ '')''))))))"

text \<open>The mutual recursion, with fuel.\<close>

fun augmentValue ::
  "nat \<Rightarrow> ('w, 'e, 'm, 'z) query_env_scheme \<Rightarrow> ('m emodule) obj \<Rightarrow> conn \<Rightarrow> bool \<Rightarrow> recreated
     \<Rightarrow> string \<Rightarrow> string \<Rightarrow> jsval \<Rightarrow> ('w, 'e stop, augmented) action" where
  "augmentValue 0 v idx c shouldRecreate rec t key x =
     augmentWith v (\<lambda>_ _ _ _. throw OutOfFuel) idx shouldRecreate t key x"
| "augmentValue (Suc n) v idx c shouldRecreate rec t key x =
     augmentWith v (subQueryWith v (augmentValue n v idx c shouldRecreate rec) c rec) idx shouldRecreate t key x"

section \<open>Recreated entities and queries\<close>

text \<open>The metadata of the entity that a logged row of table \<open>t\<close> belongs to, seen from the entity \<open>md\<close>.\<close>

definition rowMeta :: "('w, 'e, 'm, 'z) orm_env_scheme \<Rightarrow> string \<Rightarrow> entity_meta \<Rightarrow> entity_meta option" where
  "rowMeta v t md =
     (if t = metaTable md then Some md
      else map_option (\<lambda>r. metaOf v (relInverse r))
             (find (\<lambda>r. metaTable (metaOf v (relInverse r)) = t) (metaRelations md)))"

fun recreateFor ::
  "('w, 'e, 'm, 'z) orm_env_scheme \<Rightarrow> conn \<Rightarrow> audit_log \<Rightarrow> string list \<Rightarrow> recreated \<Rightarrow> ('w, 'e, recreated) action" where
  "recreateFor v c l [] acc = ret acc"
| "recreateFor v c l (entity # es) acc =
     (case rowMeta v (tableName l) (metaOf v entity) of
        None \<Rightarrow> recreateFor v c l es acc
      | Some md \<Rightarrow>
          andThen (recreateEntity v c md
              (case changed (change l) of Some row \<Rightarrow> Some row | None \<Rightarrow> original (change l))) (\<lambda>e.
            recreateFor v c l es
              (obj_set (metaName md) ((case map_of acc (metaName md) of None \<Rightarrow> [] | Some old \<Rightarrow> old) @ [e]) acc)))"

fun recreateAll ::
  "('w, 'e, 'm, 'z) orm_env_scheme \<Rightarrow> conn \<Rightarrow> ('m emodule) obj \<Rightarrow> audit_log list \<Rightarrow> recreated \<Rightarrow> ('w, 'e, recreated) action" where
  "recreateAll v c idx [] acc = ret acc"
| "recreateAll v c idx (l # ls) acc =
     (case map_of idx (tableName l) of
        None \<Rightarrow> throw (typeError v)
      | Some md \<Rightarrow>
          andThen (recreateFor v c l (obj_keys (obj_of (modMappers md))) acc) (recreateAll v c idx ls))"

definition recreateEntitiesFromChangelogs ::
  "('w, 'e, 'm, 'z) orm_env_scheme \<Rightarrow> conn \<Rightarrow> ('m emodule) obj \<Rightarrow> audit_log list \<Rightarrow> ('w, 'e, recreated) action" where
  "recreateEntitiesFromChangelogs v c idx ls = recreateAll v c idx ls []"

text \<open>\<open>Object.entries(row ?? {}).filter(([_, v]) => v !== null)\<close>\<close>

definition notNull :: "jsval obj option \<Rightarrow> jsval obj" where
  "notNull row = filter (\<lambda>(_, x). x \<noteq> JNull) (case row of None \<Rightarrow> [] | Some r \<Rightarrow> r)"

definition recreateQuery ::
  "('w, 'e, 'm, 'z) query_env_scheme \<Rightarrow> (string \<Rightarrow> string \<Rightarrow> jsval \<Rightarrow> ('w, 'e stop, augmented) action)
     \<Rightarrow> bool \<Rightarrow> audit_log \<Rightarrow> ('w, 'e stop, string) action" where
  "recreateQuery v augment reversed l =
     (let entries = (\<lambda>row. mapM (\<lambda>(k, x). augment (tableName l) k x) (notNull row)) in
      if changeType l = INSERT
      then andThen (entries (changed (change l))) (\<lambda>es. ret (getFormattedQuery v (tableName l) INSERT reversed es []))
      else if changeType l = DELETE
      then andThen (entries (original (change l))) (\<lambda>es. ret (getFormattedQuery v (tableName l) DELETE reversed es []))
      else if changeType l = UPDATE
      then andThen (entries (original (change l))) (\<lambda>before. andThen (entries (changed (change l))) (\<lambda>after.
             ret (getFormattedQuery v (tableName l) UPDATE reversed before after)))
      else ret [])"

definition recreateQueries ::
  "nat \<Rightarrow> ('w, 'e, 'm, 'z) query_env_scheme \<Rightarrow> audit_log list \<Rightarrow> ('m emodule) obj \<Rightarrow> conn \<Rightarrow> bool \<Rightarrow> bool
     \<Rightarrow> ('w, 'e stop, string list) action" where
  "recreateQueries n v ls idx c reversed shouldRecreate =
     andThen (liftE (recreateEntitiesFromChangelogs v c idx ls)) (\<lambda>rec.
       andThen (mapM (recreateQuery v (augmentValue n v idx c shouldRecreate rec) reversed) ls) (\<lambda>qs.
         ret (filter (\<lambda>q. q \<noteq> []) qs)))"

section \<open>Enough fuel\<close>

text \<open>An action that never stops for lack of fuel.\<close>

definition settles :: "('w, 'e stop, 'a) action \<Rightarrow> bool" where
  "settles m \<longleftrightarrow> (\<forall>w. fst (m w) \<noteq> Inl OutOfFuel)"

lemma settles_ret [intro, simp]: "settles (ret x)"
  by (simp add: settles_def)

lemma settles_thrown [intro, simp]: "settles (throw (Thrown e))"
  by (simp add: settles_def)

lemma settles_liftE [intro, simp]: "settles (liftE m)"
  by (auto simp: settles_def liftE_def split: prod.splits sum.splits)

lemma settles_andThen [intro]:
  assumes "settles m" and "\<And>x. settles (f x)"
  shows "settles (andThen m f)"
  unfolding settles_def
proof
  fix w
  obtain r w' where m: "m w = (r, w')" by (rule prod.exhaust)
  then show "fst (andThen m f w) \<noteq> Inl OutOfFuel"
    using assms(1)[unfolded settles_def, rule_format, of w]
      assms(2)[unfolded settles_def, rule_format, of "projr r" w']
    by (cases r) (simp_all add: andThen_apply)
qed

lemma settles_mapM [intro]: "(\<And>x. x \<in> set xs \<Longrightarrow> settles (f x)) \<Longrightarrow> settles (mapM f xs)"
  by (induction xs) auto

lemma settles_findRecreated [intro, simp]: "settles (findRecreated err k x res)"
  by (induction err k x res rule: findRecreated.induct) (auto simp del: ret_apply throw_apply)

lemma settles_relatedEntity [intro, simp]: "settles (relatedEntity v c rec k x md)"
  unfolding relatedEntity_def by (intro settles_andThen) (auto split: option.splits simp del: ret_apply throw_apply)

lemma settles_subQueryWith:
  assumes "\<And>key y. settles (augment (metaTable md) key y)"
  shows "settles (subQueryWith v augment c rec dbKey k x md)"
  unfolding subQueryWith_def
  using assms by (auto intro!: settles_andThen settles_mapM split: sum.splits option.splits prod.splits)

lemma settles_subQueryOf:
  assumes "\<And>c rel dbKey k. col = Some c \<Longrightarrow> colRelation c = Some rel \<Longrightarrow> shouldRecreate \<Longrightarrow>
    settles (sub dbKey k x (metaOf v (side rel)))"
  shows "settles (subQueryOf v sub shouldRecreate side x col a)"
  unfolding subQueryOf_def
  using assms by (auto intro!: settles_andThen split: option.splits prod.splits)

text \<open>
  The relations do not form a cycle: \<open>rank\<close> of the table a column refers to is smaller than that of
  its own table.
\<close>

definition ranked :: "('w, 'e, 'm, 'z) query_env_scheme \<Rightarrow> ('m emodule) obj \<Rightarrow> (string \<Rightarrow> nat) \<Rightarrow> bool" where
  "ranked v idx rank \<longleftrightarrow> (\<forall>t.
     (case getTableMetadata v idx t of
        None \<Rightarrow> True
      | Some (EntityMeta md) \<Rightarrow> \<forall>c\<in>set (ownColumns md). \<forall>rel. colRelation c = Some rel \<longrightarrow>
          rank (metaTable (metaOf v (snd rel))) < rank t
      | Some (RelationMeta r) \<Rightarrow>
          (\<forall>c\<in>set (joinColumns r). \<forall>rel. colRelation c = Some rel \<longrightarrow> rank (metaTable (metaOf v (fst rel))) < rank t) \<and>
          (\<forall>c\<in>set (inverseJoinColumns r). \<forall>rel. colRelation c = Some rel \<longrightarrow> rank (metaTable (metaOf v (snd rel))) < rank t)))"

lemma lastColumn_in: "lastColumn key cols = Some c \<Longrightarrow> c \<in> set cols"
  by (auto simp: lastColumn_def find_Some_iff) (metis length_rev nth_mem set_rev)

lemma settles_augmentWith:
  assumes "ranked v idx rank"
    and "\<And>dbKey k md. rank (metaTable md) < rank t \<Longrightarrow> settles (sub dbKey k x md)"
  shows "settles (augmentWith v sub idx shouldRecreate t key x)"
proof (cases "if truthy x then getTableMetadata v idx t else None")
  case None
  then show ?thesis by (simp add: augmentWith_def)
next
  case (Some tm)
  then have tm: "getTableMetadata v idx t = Some tm" by (auto split: if_splits)
  note rk = assms(1)[unfolded ranked_def, rule_format, of t, unfolded tm, simplified]
  show ?thesis
  proof (cases tm)
    case (EntityMeta md)
    with rk have "settles (subQueryOf v sub shouldRecreate snd x (lastColumn key (ownColumns md)) a)" for a
      using assms(2) lastColumn_in by (intro settles_subQueryOf) fastforce
    with Some EntityMeta show ?thesis
      by (auto simp: augmentWith_def Let_def intro!: settles_andThen)
  next
    case (RelationMeta r)
    with rk have "settles (subQueryOf v sub shouldRecreate fst x (lastColumn key (joinColumns r)) a)"
        "settles (subQueryOf v sub shouldRecreate snd x (lastColumn key (inverseJoinColumns r)) a)" for a
      using assms(2) lastColumn_in by (intro settles_subQueryOf; fastforce)+
    with Some RelationMeta show ?thesis
      by (auto simp: augmentWith_def Let_def intro!: settles_andThen)
  qed
qed

lemma settles_augmentValue:
  assumes "ranked v idx rank" and "rank t \<le> n"
  shows "settles (augmentValue n v idx c shouldRecreate rec t key x)"
  using assms(2)
proof (induction n arbitrary: t key x)
  case 0
  then show ?case by (auto intro: settles_augmentWith [OF assms(1)])
next
  case (Suc n)
  show ?case unfolding augmentValue.simps
  proof (rule settles_augmentWith [OF assms(1)])
    fix dbKey k and md :: entity_meta
    assume "rank (metaTable md) < rank t"
    with Suc.prems have "rank (metaTable md) \<le> n" by simp
    then show "settles (subQueryWith v (augmentValue n v idx c shouldRecreate rec) c rec dbKey k x md)"
      by (intro settles_subQueryWith Suc.IH)
  qed
qed

lemma settles_recreateQuery:
  "(\<And>k x. settles (augment (tableName l) k x)) \<Longrightarrow> settles (recreateQuery v augment reversed l)"
  by (auto simp: recreateQuery_def Let_def intro!: settles_andThen settles_mapM)

text \<open>
  The generation of queries ends: when the relations of the tables form no cycle, fuel for the
  longest chain of relations is enough, whatever the database answers.
\<close>

theorem recreateQueries_settles:
  assumes "ranked v idx rank" and "\<forall>l\<in>set ls. rank (tableName l) \<le> n"
  shows "fst (recreateQueries n v ls idx c reversed shouldRecreate w) \<noteq> Inl OutOfFuel"
proof -
  have "settles (recreateQueries n v ls idx c reversed shouldRecreate)"
    unfolding recreateQueries_def
    using assms by (intro settles_andThen settles_mapM settles_recreateQuery settles_augmentValue [where rank = rank]) auto
  then show ?thesis by (simp add: settles_def)
qed

section \<open>Templates and their arguments\<close>

definition placeholders :: "string \<Rightarrow> nat" where
  "placeholders s = length (filter (\<lambda>c. c = CHR ''%'') s)"

lemma placeholders_simps [simp]:
  "placeholders [] = 0"
  "placeholders (c # s) = (if c = CHR ''%'' then Suc (placeholders s) else placeholders s)"
  "placeholders (s @ s') = placeholders s + placeholders s'"
  "placeholders (replicate n (CHR '' '')) = 0"
  by (simp_all add: placeholders_def)

lemma placeholders_join:
  "placeholders sep = 0 \<Longrightarrow> placeholders (joinWith sep ss) = sum_list (map placeholders ss)"
  by (induction sep ss rule: joinWith.induct) auto

lemma placeholders_condition [simp]: "placeholders (condition v e) = 2"
  by (simp add: condition_def)

lemma length_args [simp]: "length (whereArgs v e) = 2" "length (setArgs v e) = 2"
  by (simp_all add: whereArgs_def setArgs_def)

lemma length_concat_two: "(\<And>x. length (f x) = 2) \<Longrightarrow> length (concat (map f xs)) = 2 * length xs"
  by (induction xs) simp_all

lemma sum_list_const: "(\<And>x. f x = (n::nat)) \<Longrightarrow> sum_list (map f xs) = n * length xs"
  by (induction xs) simp_all

lemmas arity_simps = placeholders_join comp_def sum_list_const length_concat_two

lemma template_arity: "placeholders (fst (template v s)) = length (snd (template v s))"
  by (cases s) (simp_all add: template_def arity_simps)

text \<open>Tables that only the decorator filled.\<close>

definition decorated :: "(js_ref, string list) jsmap \<Rightarrow> bool" where
  "decorated table \<longleftrightarrow> (\<exists>ds. table = fold (\<lambda>(cls, n). awsResolveSupport (ClassRef cls) n) ds [])"

lemma decorated_lookup:
  assumes "decorated table"
  shows "getAwsResolveSupport table (MetaRef m) = []"
proof -
  have "\<not> jsmap_has (fold (\<lambda>(cls, n). awsResolveSupport (ClassRef cls) n) ds table') (MetaRef m)"
    if "\<not> jsmap_has table' (MetaRef m)" for ds table'
    using that
  proof (induction ds arbitrary: table')
    case (Cons d ds)
    obtain cls n where d: "d = (cls, n)" by (rule prod.exhaust)
    have "\<not> jsmap_has (awsResolveSupport (ClassRef cls) n table') (MetaRef m)"
      using Cons.prems by (auto simp: awsResolveSupport_def jsmap_has_def map_of_jsmap_set Let_def)
    with Cons.IH d show ?case by simp
  qed simp
  from this [of "[]"] assms show ?thesis
    by (auto simp: decorated_def getAwsResolveSupport_def jsmap_has_def)
qed

lemma describe_simps [simp]:
  "resolveSupport (describe col a) = resolveSupport a" "avKey (describe col a) = avKey a"
  "avValue (describe col a) = avValue a" "isSubQuery (describe col a) = isSubQuery a"
  by (simp_all add: describe_def Let_def split: option.splits)

lemma subQueryOf_frame:
  "subQueryOf v sub shouldRecreate side x col a w = (Inr a', w') \<Longrightarrow>
     resolveSupport a' = resolveSupport a \<and> avKey a' = avKey a"
  by (auto simp: subQueryOf_def andThen_Inr_iff split: option.splits if_splits prod.splits)

lemma augmentWith_frame:
  assumes "augmentWith v sub idx shouldRecreate t key x w = (Inr a, w')" and "decorated (resolvable v)"
  shows "\<not> resolveSupport a \<and> avKey a = key"
  using assms
  by (auto simp: augmentWith_def Let_def andThen_Inr_iff resolves_def decorated_lookup bareValue_def
      dest!: subQueryOf_frame split: option.splits table_meta.splits)

lemma augmentValue_frame:
  assumes "augmentValue n v idx c shouldRecreate rec t key x w = (Inr a, w')" and "decorated (resolvable v)"
  shows "\<not> resolveSupport a \<and> avKey a = key"
  using assms by (cases n) (auto dest!: augmentWith_frame)

lemma mapM_results:
  "mapM f xs w = (Inr ys, w') \<Longrightarrow> y \<in> set ys \<Longrightarrow> \<exists>x u u'. x \<in> set xs \<and> f x u = (Inr y, u')"
proof (induction xs arbitrary: ys w)
  case (Cons x xs)
  then obtain y1 w1 ys' where step: "f x w = (Inr y1, w1)" "mapM f xs w1 = (Inr ys', w')" "ys = y1 # ys'"
    by (auto simp: andThen_Inr_iff)
  with Cons.prems(2) consider "y = y1" | "y \<in> set ys'" by auto
  then show ?case
  proof cases
    case 1
    with step(1) show ?thesis by auto
  next
    case 2
    with Cons.IH [OF step(2)] show ?thesis by auto
  qed
qed simp

text \<open>
  C37. Every template is given as many arguments as it has placeholders.  A sub-query filters the
  conditions of the values marked as resolvable, not their arguments; it is well-formed because no value is
  ever marked: the mark is looked up under the metadata object, while the decorator registers the class.
\<close>

theorem query_arity:
  assumes "decorated (resolvable v)"
    and "mapM (\<lambda>(k, x). augmentValue n v idx c shouldRecreate rec t k x) row w = (Inr vals, w')"
  shows "placeholders (fst (template v s)) = length (snd (template v s)) \<and>
    compared vals = vals \<and>
    placeholders (fst (subQueryText v dbKey md vals)) = length (snd (subQueryText v dbKey md vals))"
proof -
  have "\<not> resolveSupport a" if "a \<in> set vals" for a
  proof -
    from mapM_results [OF assms(2) that] obtain kx u u' where
      "(case kx of (k, x) \<Rightarrow> augmentValue n v idx c shouldRecreate rec t k x) u = (Inr a, u')" by blast
    with augmentValue_frame [OF _ assms(1)] show ?thesis by (cases kx) auto
  qed
  then have "compared vals = vals" by (simp add: compared_def filter_id_conv)
  then show ?thesis
    by (simp add: template_arity subQueryText_def arity_simps)
qed

section \<open>Undoing a transaction\<close>

text \<open>Without sub-queries a value is augmented without looking at the database.\<close>

definition plainValue ::
  "('w, 'e, 'm, 'z) query_env_scheme \<Rightarrow> ('m emodule) obj \<Rightarrow> string \<Rightarrow> string \<Rightarrow> jsval \<Rightarrow> augmented" where
  "plainValue v idx t key x =
     (case (if truthy x then getTableMetadata v idx t else None) of
        None \<Rightarrow> bareValue key x
      | Some (EntityMeta md) \<Rightarrow>
          describe (lastColumn key (ownColumns md)) ((bareValue key x)\<lparr> resolveSupport := resolves v md key \<rparr>)
      | Some (RelationMeta r) \<Rightarrow> describe (lastColumn key (inverseJoinColumns r)) (bareValue key x))"

lemma subQueryOf_off [simp]: "subQueryOf v sub False side x col a = ret a"
  by (simp add: subQueryOf_def split: option.splits del: ret_apply)

lemma augmentValue_plain: "augmentValue n v idx c False rec t key x = ret (plainValue v idx t key x)"
  by (cases n) (simp_all add: augmentWith_def plainValue_def Let_def split: option.splits table_meta.splits del: ret_apply)

lemma mapM_ret: "mapM (\<lambda>x. ret (f x)) xs = ret (map f xs)"
  by (induction xs) (simp_all del: ret_apply)

text \<open>The statement that undoes a logged change.\<close>

definition plainValues ::
  "('w, 'e, 'm, 'z) query_env_scheme \<Rightarrow> ('m emodule) obj \<Rightarrow> string \<Rightarrow> jsval obj option \<Rightarrow> augmented list" where
  "plainValues v idx t row = map (\<lambda>(k, x). plainValue v idx t k x) (notNull row)"

definition undoStmt ::
  "('w, 'e, 'm, 'z) query_env_scheme \<Rightarrow> ('m emodule) obj \<Rightarrow> audit_log \<Rightarrow> stmt option" where
  "undoStmt v idx l =
     (let before = plainValues v idx (tableName l) (original (change l));
          after = plainValues v idx (tableName l) (changed (change l)) in
      if changeType l = INSERT then queryStmt (tableName l) INSERT True after []
      else if changeType l = DELETE then queryStmt (tableName l) DELETE True before []
      else if changeType l = UPDATE then queryStmt (tableName l) UPDATE True before after
      else None)"

definition render :: "('w, 'e, 'm, 'z) query_env_scheme \<Rightarrow> stmt \<Rightarrow> string" where
  "render v s = (case template v s of (tmpl, args) \<Rightarrow> pgFormat v tmpl args)"

lemma recreateQuery_undo:
  "recreateQuery v (augmentValue n v idx c False rec) True l =
     ret (case undoStmt v idx l of None \<Rightarrow> [] | Some s \<Rightarrow> render v s)"
proof -
  have "mapM (\<lambda>(k, x). augmentValue n v idx c False rec t k x) (notNull row) = ret (plainValues v idx t row)" for t row
    by (simp add: augmentValue_plain case_prod_unfold mapM_ret plainValues_def del: ret_apply)
  then show ?thesis
    unfolding recreateQuery_def undoStmt_def getFormattedQuery_def render_def Let_def
    by (simp del: ret_apply)
qed

text \<open>
  What the statements do to a table.  A table is the multiset of its rows, and of a row only the
  columns count that are neither \<open>NULL\<close> nor generated by the database (\<open>visible\<close>).
\<close>

type_synonym table_row = "string \<rightharpoonup> jsval"

definition visible :: "('w, 'e, 'm, 'z) query_env_scheme \<Rightarrow> ('m emodule) obj \<Rightarrow> string \<Rightarrow> jsval obj \<Rightarrow> table_row" where
  "visible v idx t row =
     map_of (filter (\<lambda>(k, x). x \<noteq> JNull \<and> \<not> isAutogenerated (plainValue v idx t k x)) row)"

definition valuesOf :: "augmented list \<Rightarrow> table_row" where
  "valuesOf es = map_of (map (\<lambda>e. (avKey e, avValue e)) es)"

definition fits :: "augmented list \<Rightarrow> table_row \<Rightarrow> bool" where
  "fits es r \<longleftrightarrow> list_all (\<lambda>e. r (avKey e) = Some (avValue e)) es"

fun execStmt :: "stmt \<Rightarrow> table_row multiset \<Rightarrow> table_row multiset" where
  "execStmt (Insert t es) T = add_mset (valuesOf es) T"
| "execStmt (Delete t es) T = filter_mset (\<lambda>r. \<not> fits es r) T"
| "execStmt (Update t ss ws) T = image_mset (\<lambda>r. if fits ws r then r ++ valuesOf ss else r) T"

lemma plainValue_frame [simp]:
  "avKey (plainValue v idx t k x) = k" "avValue (plainValue v idx t k x) = x"
  by (simp_all add: plainValue_def bareValue_def split: option.splits table_meta.splits)

lemma plainValue_unresolved:
  "decorated (resolvable v) \<Longrightarrow> \<not> resolveSupport (plainValue v idx t k x)"
  by (simp add: plainValue_def bareValue_def resolves_def decorated_lookup split: option.splits table_meta.splits)

lemma usable_plain:
  "map (\<lambda>e. (avKey e, avValue e)) (usable (plainValues v idx t (Some row))) =
     filter (\<lambda>(k, x). x \<noteq> JNull \<and> \<not> isAutogenerated (plainValue v idx t k x)) row"
  by (induction row) (auto simp: plainValues_def usable_def notNull_def)

lemma compared_plain:
  "decorated (resolvable v) \<Longrightarrow> compared (usable (plainValues v idx t row)) = usable (plainValues v idx t row)"
  unfolding compared_def by (rule filter_True) (auto simp: usable_def plainValues_def plainValue_unresolved)

lemma valuesOf_plain: "valuesOf (usable (plainValues v idx t (Some row))) = visible v idx t row"
  by (simp add: valuesOf_def usable_plain visible_def)

lemma fits_plain:
  assumes "wf_keys row"
  shows "fits (usable (plainValues v idx t (Some row))) r \<longleftrightarrow> visible v idx t row \<subseteq>\<^sub>m r"
proof -
  let ?kvs = "filter (\<lambda>(k, x). x \<noteq> JNull \<and> \<not> isAutogenerated (plainValue v idx t k x)) row"
  have "distinct (map fst ?kvs)" using assms by (simp add: distinct_map_filter)
  then have "visible v idx t row \<subseteq>\<^sub>m r \<longleftrightarrow> (\<forall>(k, x)\<in>set ?kvs. r k = Some x)"
    by (auto simp: visible_def map_le_def dom_map_of_conv_image_fst)
  moreover have "fits es r \<longleftrightarrow> (\<forall>(k, x)\<in>set (map (\<lambda>e. (avKey e, avValue e)) es). r k = Some x)" for es
    by (auto simp: fits_def list_all_iff)
  from this [of "usable (plainValues v idx t (Some row))"]
  have "fits (usable (plainValues v idx t (Some row))) r \<longleftrightarrow> (\<forall>(k, x)\<in>set ?kvs. r k = Some x)"
    unfolding usable_plain .
  ultimately show ?thesis by simp
qed

text \<open>
  The history of a table: the logged changes, newest first, lead from \<open>T0\<close> to \<open>T\<close>.  A new row must
  be recognisable by its visible columns (\<open>alone\<close>), and an update must not fill a column that was empty.
\<close>

definition alone :: "table_row \<Rightarrow> table_row multiset \<Rightarrow> bool" where
  "alone x T \<longleftrightarrow> (\<forall>r. r \<in># T \<longrightarrow> \<not> x \<subseteq>\<^sub>m r)"

inductive history ::
  "('w, 'e, 'm, 'z) query_env_scheme \<Rightarrow> ('m emodule) obj \<Rightarrow> audit_log list \<Rightarrow> table_row multiset \<Rightarrow> table_row multiset \<Rightarrow> bool"
  for v idx where
    unchanged: "history v idx [] T T"
  | inserted: "history v idx ls T0 T \<Longrightarrow> changeType l = INSERT \<Longrightarrow> changed (change l) = Some row \<Longrightarrow> wf_keys row \<Longrightarrow>
      alone (visible v idx (tableName l) row) T \<Longrightarrow>
      history v idx (l # ls) T0 (add_mset (visible v idx (tableName l) row) T)"
  | deleted: "history v idx ls T0 (add_mset (visible v idx (tableName l) row) T) \<Longrightarrow> changeType l = DELETE \<Longrightarrow>
      original (change l) = Some row \<Longrightarrow> wf_keys row \<Longrightarrow> history v idx (l # ls) T0 T"
  | updated: "history v idx ls T0 (add_mset (visible v idx (tableName l) old) T) \<Longrightarrow> changeType l = UPDATE \<Longrightarrow>
      original (change l) = Some old \<Longrightarrow> changed (change l) = Some new \<Longrightarrow> wf_keys old \<Longrightarrow> wf_keys new \<Longrightarrow>
      dom (visible v idx (tableName l) new) \<subseteq> dom (visible v idx (tableName l) old) \<Longrightarrow>
      alone (visible v idx (tableName l) new) T \<Longrightarrow>
      history v idx (l # ls) T0 (add_mset (visible v idx (tableName l) new) T)"

lemma alone_filter: "alone x T \<Longrightarrow> filter_mset (\<lambda>r. \<not> x \<subseteq>\<^sub>m r) (add_mset x T) = T"
  by (simp add: alone_def filter_mset_eq_conv multiset_filter_subset filter_mset_eq_mempty_iff)

lemma map_add_covers: "dom f \<subseteq> dom g \<Longrightarrow> f ++ g = g"
  by (rule ext) (auto simp: map_add_def split: option.splits)

lemma alone_update:
  assumes "alone x T"
  shows "image_mset (\<lambda>r. if x \<subseteq>\<^sub>m r then r ++ y else r) T = T"
proof -
  have "image_mset (\<lambda>r. if x \<subseteq>\<^sub>m r then r ++ y else r) T = image_mset (\<lambda>r. r) T"
    using assms by (intro image_mset_cong) (auto simp: alone_def)
  then show ?thesis by simp
qed

lemma undoStmt_cases:
  assumes "decorated (resolvable v)"
  shows "changeType l = INSERT \<Longrightarrow> changed (change l) = Some row \<Longrightarrow>
      undoStmt v idx l = Some (Delete (tableName l) (usable (plainValues v idx (tableName l) (Some row))))"
    and "changeType l = DELETE \<Longrightarrow> original (change l) = Some row \<Longrightarrow>
      undoStmt v idx l = Some (Insert (tableName l) (usable (plainValues v idx (tableName l) (Some row))))"
    and "changeType l = UPDATE \<Longrightarrow> original (change l) = Some old \<Longrightarrow> changed (change l) = Some new \<Longrightarrow>
      undoStmt v idx l = Some (Update (tableName l) (usable (plainValues v idx (tableName l) (Some old)))
        (usable (plainValues v idx (tableName l) (Some new))))"
  by (simp_all add: undoStmt_def queryStmt_def compared_plain [OF assms])


text \<open>
  Reverting an update does not bring an empty column back: a column that was \<open>NULL\<close> before the
  update and has a value after it keeps the value, since null entries are left out of the \<open>SET\<close> list.
\<close>

theorem undo_update_keeps_filled:
  assumes "changeType l = UPDATE" "original (change l) = Some old" "changed (change l) = Some new"
    and "wf_keys new" and "decorated (resolvable v)"
    and "visible v idx (tableName l) old k = None" and "visible v idx (tableName l) new k = Some x"
  shows "\<exists>s r. undoStmt v idx l = Some s \<and>
    execStmt s {# visible v idx (tableName l) new #} = {# r #} \<and> r k = Some x"
  using assms
  by (simp add: undoStmt_cases fits_plain valuesOf_plain map_add_def)

section \<open>Examples\<close>

definition demoQuery :: "(audit_log list, string, unit) query_env" where
  "demoQuery = \<lparr> logs = tableRepo ''iasql'', camelCase = id, snakeCase = id, metaOf = (\<lambda>_. demoMeta),
     findOneEnt = (\<lambda>c n wh. ret None), findEnt = (\<lambda>c n wh. ret []), moduleNames = (\<lambda>c. ret []),
     versionString = ret ''1'', upgrading = ret False, configVersion = ''1'', allModules = [],
     pgFormat = (\<lambda>tmpl args. tmpl @ concat (map toStr args)), cloudIds = [(''Bucket'', [''name''])],
     resolvable = awsResolveSupport (ClassRef ''Bucket'') ''name'' [] \<rparr>"

definition demoIdx :: "(unit emodule) obj" where
  "demoIdx = [(''bucket'', \<lparr> modName = ''aws_s3'', modVersion = ''1'', dependencies = [], provTables = [''bucket''],
     modMappers = [(''Bucket'', ())] \<rparr>)]"

definition bucketLog :: "change_type \<Rightarrow> jsval obj option \<Rightarrow> jsval obj option \<Rightarrow> audit_log" where
  "bucketLog ct old new = (userRow 1 1)\<lparr> tableName := ''bucket'', changeType := ct,
     change := \<lparr> original = old, changed = new \<rparr> \<rparr>"

lemma demo_decorated: "decorated (resolvable demoQuery)"
  unfolding decorated_def by (rule exI [of _ "[(''Bucket'', ''name'')]"]) (simp add: demoQuery_def)

lemma demo_metadata: "getTableMetadata demoQuery demoIdx t = (if t = ''bucket'' then Some (EntityMeta demoMeta) else None)"
  by (simp add: getTableMetadata_def mapperNames_def demoIdx_def demoQuery_def demoMeta_def)

lemma demo_visible: "visible demoQuery demoIdx ''bucket'' row = map_of (filter (\<lambda>(k, x). x \<noteq> JNull) row)"
proof -
  have "\<not> isAutogenerated (plainValue demoQuery demoIdx ''bucket'' k x)" for k x
    by (auto simp: plainValue_def demo_metadata describe_def bareValue_def lastColumn_def demoMeta_def demoColumn_def
        Let_def find_Some_iff nth_Cons' split: option.splits if_splits)
  then show ?thesis by (simp add: visible_def)
qed

theorem recreateQueries_settles_witness:
  "fst (recreateQueries 0 demoQuery [bucketLog INSERT None (Some [(''name'', JStr ''b'')])] demoIdx 0 False True [])
     \<noteq> Inl OutOfFuel"
proof (rule recreateQueries_settles [where rank = "\<lambda>_. 0"])
  show "ranked demoQuery demoIdx (\<lambda>_. 0)"
    by (simp add: ranked_def demo_metadata demoMeta_def demoColumn_def)
qed simp

theorem query_arity_witness:
  "\<exists>vals w'. mapM (\<lambda>(k, x). augmentValue 0 demoQuery demoIdx 0 False [] ''bucket'' k x) [(''name'', JStr ''b'')] [] = (Inr vals, w') \<and>
     placeholders (fst (subQueryText demoQuery ''id'' demoMeta vals)) = 4"
proof -
  let ?run = "mapM (\<lambda>(k, x). augmentValue 0 demoQuery demoIdx 0 False [] ''bucket'' k x) [(''name'', JStr ''b'')] []"
  have run: "?run = (Inr [plainValue demoQuery demoIdx ''bucket'' ''name'' (JStr ''b'')], [])"
    by (simp only: mapM.simps case_prod_conv augmentValue_plain ret_andThen) simp
  from query_arity [OF demo_decorated run, of "Delete ''bucket'' []" "''id''" demoMeta] run
  show ?thesis by (auto simp: subQueryText_def whereArgs_def)
qed


theorem undo_update_keeps_filled_witness:
  "\<exists>s r. undoStmt demoQuery demoIdx (bucketLog UPDATE (Some [(''name'', JStr ''a''), (''policy'', JNull)])
      (Some [(''name'', JStr ''a''), (''policy'', JStr ''p'')])) = Some s \<and>
    execStmt s {# visible demoQuery demoIdx ''bucket'' [(''name'', JStr ''a''), (''policy'', JStr ''p'')] #} = {# r #} \<and>
    r ''policy'' = Some (JStr ''p'')"
  using undo_update_keeps_filled [of "bucketLog UPDATE (Some [(''name'', JStr ''a''), (''policy'', JNull)])
      (Some [(''name'', JStr ''a''), (''policy'', JStr ''p'')])" "[(''name'', JStr ''a''), (''policy'', JNull)]"
      "[(''name'', JStr ''a''), (''policy'', JStr ''p'')]" demoQuery demoIdx "''policy''" "JStr ''p''"] demo_decorated
  by (simp add: bucketLog_def demo_visible)

end
