(* ===== verification/Reconcile.thy ===== *)
theory Reconcile
  imports Commit_Plan Queries Lazy_Dep
begin

text \<open>
  \<open>apply\<close> and \<open>sync\<close> of \<open>src/src/modules/iasql_functions/iasql.ts\<close>: the loops that read the
  database and the cloud, compare them, and create, update and delete on one side until a fresh read
  finds no difference.

  The state is the context of \<open>Crud_Cache\<close> (heap and memo), with the engine's own state as its world:
  the connections, the connection the context holds, the two start-of-commit logs, the plan collected so
  far (\<open>CrupdeOperations\<close>, which both functions fill in place) and the outside world.  A round of
  the inner loop is the total function \<open>applyRound\<close> (\<open>syncRound\<close>); the loops over the rounds may run
  forever, so \<open>rounds\<close> is a partial function whose value \<open>None\<close> is not returning.
  Counting records for telemetry, which nothing waits for, is left out.
\<close>

section \<open>State and parameters\<close>

record 'w engine = "'w net" +
  ctxOrm :: conn
  startCommit :: "audit_log option"
  previewStartCommit :: "audit_log option"
  crupdes :: crupde_operations

type_synonym ('w, 'a) eop = "(jsval, 'w engine, 'a) op"

record 'w emapper =
  emName :: string                                  \<comment> \<open>\<open>mapper.entity.name\<close>\<close>
  emSource :: source
  emDb :: "(jsval, 'w engine) crud"
  emCloud :: "(jsval, 'w engine) crud"
  emEquals :: "jsval obj \<Rightarrow> jsval obj \<Rightarrow> bool"
  emId :: "jsval obj \<Rightarrow> string"

record 'w engine_env = "('w, js_err thrown, 'w emapper) query_env" +
  connect :: "('w, js_err thrown, unit) action"
  closeConn :: "conn \<Rightarrow> ('w, js_err thrown, unit) action"
  runSql :: "conn \<Rightarrow> string \<Rightarrow> ('w, js_err thrown, unit) action"   \<comment> \<open>\<open>orm.query\<close>\<close>
  sentry :: "(string \<Rightarrow> string) option"   \<comment> \<open>\<open>captureEvent\<close>, when configured\<close>

definition onEngine :: "('w engine, js_err thrown, 'a) action \<Rightarrow> ('w, 'a) eop" where
  "onEngine m = (\<lambda>s. case m (world s) of (x, g) \<Rightarrow> (x, s\<lparr> world := g \<rparr>))"

definition outsideOp :: "('w, js_err thrown, 'a) action \<Rightarrow> ('w, 'a) eop" where
  "outsideOp m = onEngine (inWorld m)"

definition setOrm :: "conn \<Rightarrow> ('w, unit) eop" where
  "setOrm c = onEngine (modifyS (\<lambda>g. g\<lparr> ctxOrm := c \<rparr>))"

section \<open>The lazy loader on the engine's state\<close>

text \<open>The \<open>DepError\<close> of the loader as an error value; its metadata keeps the number of generators.\<close>

fun depErr :: "('g, js_err) dep_error \<Rightarrow> js_err thrown" where
  "depErr (DepError gs es) =
     ErrObj (Dep ''Forward progress halted. Some promises never resolved'' (Some (length gs)) (map errMessage es))"
| "depErr LoaderTypeError = ErrObj (Err ''TypeError'')"

definition runAll :: "('w, unit) eop list \<Rightarrow> ('w, unit) eop" where
  "runAll gs = (\<lambda>s. case lazyLoader (\<lambda>g. g) gs s of
     (Inl e, s') \<Rightarrow> (Inl (depErr e), s') | (Inr _, s') \<Rightarrow> (Inr (), s'))"

definition ignore :: "('w, 'a) eop \<Rightarrow> ('w, unit) eop" where
  "ignore m = andThen m (\<lambda>_. ret ())"

section \<open>Records and their diffs\<close>

record 'w recd =
  rcMapper :: "'w emapper"
  rcDiff :: "addr diff"

definition memoValues :: "(addr obj) obj \<Rightarrow> string \<Rightarrow> addr list" where
  "memoValues memo t = (case map_of memo t of None \<Rightarrow> [] | Some ob \<Rightarrow> obj_values ob)"

definition diffOf :: "'w emapper \<Rightarrow> (jsval, 'w engine) ctx \<Rightarrow> addr diff" where
  "diffOf m s = findDiff (memoValues (memoDb s) (emName m)) (memoValues (memoCloud s) (emName m))
     (\<lambda>a. emId m (heap s a)) (\<lambda>a b. emEquals m (heap s a) (heap s b))"

text \<open>
  The user's changes to apply (\<open>Only\<close>), or the changes made after the commit started, which must not
  be overridden (\<open>Except\<close>).
\<close>

datatype selection = Only "jsval obj list obj" | Except "jsval obj list obj"

definition mentions :: "'w emapper \<Rightarrow> jsval obj list obj \<Rightarrow> jsval obj \<Rightarrow> bool" where
  "mentions m changes e = (\<exists>re\<in>set (tableOf changes (emName m)). emId m e = emId m re)"

fun selected :: "selection \<Rightarrow> 'w emapper \<Rightarrow> jsval obj \<Rightarrow> bool" where
  "selected (Only changes) m e = mentions m changes e"
| "selected (Except after) m e = (\<not> mentions m after e)"

definition filterDiff :: "selection \<Rightarrow> 'w emapper \<Rightarrow> jsval heap \<Rightarrow> addr diff \<Rightarrow> addr diff" where
  "filterDiff sel m h d = \<lparr>
     entitiesInDbOnly = filter (\<lambda>e. selected sel m (h e)) (entitiesInDbOnly d),
     entitiesInAwsOnly = filter (\<lambda>e. selected sel m (h e)) (entitiesInAwsOnly d),
     entitiesChanged = filter (\<lambda>(db, cloud). selected sel m (h db)) (entitiesChanged d) \<rparr>"

definition makeRecords :: "selection \<Rightarrow> 'w emapper list \<Rightarrow> (jsval, 'w engine) ctx \<Rightarrow> 'w recd list" where
  "makeRecords sel ms s =
     map (\<lambda>m. \<lparr> rcMapper = m, rcDiff = filterDiff sel m (heap s) (diffOf m s) \<rparr>) ms"

section \<open>The plan of a round\<close>

definition planUpdate :: "jsval heap \<Rightarrow> 'w emapper \<Rightarrow> addr list \<Rightarrow> crupde \<Rightarrow> crupde" where
  "planUpdate h m es plan =
     (if es = [] then plan else updateCommitPlan (\<lambda>e. emId m (h e)) h (emName m) es plan)"

definition applyPlan :: "jsval heap \<Rightarrow> 'w recd \<Rightarrow> crupde_operations \<Rightarrow> crupde_operations" where
  "applyPlan h r ops =
     (let m = rcMapper r; d = rcDiff r;
          isReplace = (\<lambda>(db, cloud). replaces (emCloud m) h cloud db) in
      \<lparr> toCreate = planUpdate h m (entitiesInDbOnly d) (toCreate ops),
        toUpdate = planUpdate h m (map fst (filter (\<lambda>c. \<not> isReplace c) (entitiesChanged d))) (toUpdate ops),
        toReplace = planUpdate h m (map fst (filter isReplace (entitiesChanged d))) (toReplace ops),
        toDelete = planUpdate h m (entitiesInAwsOnly d) (toDelete ops) \<rparr>)"

definition syncPlan :: "jsval heap \<Rightarrow> 'w recd \<Rightarrow> crupde_operations \<Rightarrow> crupde_operations" where
  "syncPlan h r ops =
     (let m = rcMapper r; d = rcDiff r in
      \<lparr> toCreate = planUpdate h m (entitiesInAwsOnly d) (toCreate ops),
        toUpdate = planUpdate h m (map snd (entitiesChanged d)) (toUpdate ops),
        toReplace = toReplace ops,
        toDelete = planUpdate h m (entitiesInDbOnly d) (toDelete ops) \<rparr>)"

definition collectPlan ::
  "(jsval heap \<Rightarrow> 'w recd \<Rightarrow> crupde_operations \<Rightarrow> crupde_operations) \<Rightarrow> 'w recd list \<Rightarrow> ('w, unit) eop" where
  "collectPlan f rs = (\<lambda>s. (Inr (), s\<lparr> world := (world s)\<lparr> crupdes := fold (f (heap s)) rs (crupdes (world s)) \<rparr> \<rparr>))"

section \<open>The generators of a round\<close>

text \<open>\<open>Object.keys(e2).forEach(k => (e[k] = e2[k]))\<close> for every entity returned\<close>

definition copyBack :: "arg option \<Rightarrow> addr \<Rightarrow> ('w, unit) eop" where
  "copyBack out e =
     (case out of None \<Rightarrow> ret ()
      | Some a \<Rightarrow> modifyS (\<lambda>s. s\<lparr> heap := fold (\<lambda>e2 h. copyProps e2 e h) (argList a) (heap s) \<rparr>))"

definition applyForward :: "'w recd \<Rightarrow> ('w, unit) eop list" where
  "applyForward r =
     (let m = rcMapper r in
      map (\<lambda>e. andThen (create (emCloud m) (Single e)) (\<lambda>out. copyBack out e)) (entitiesInDbOnly (rcDiff r))
      @ map (\<lambda>(db, cloud). andThen (update (emCloud m) (Single db)) (\<lambda>out. copyBack out db))
          (entitiesChanged (rcDiff r)))"

definition applyBackward :: "'w recd \<Rightarrow> ('w, unit) eop list" where
  "applyBackward r =
     map (\<lambda>e. ignore (delete (emCloud (rcMapper r)) (Single e))) (entitiesInAwsOnly (rcDiff r))"

definition keepDbId :: "addr \<Rightarrow> addr \<Rightarrow> ('w, unit) eop" where   \<comment> \<open>\<open>if (ec.db.id) ec.cloud.id = ec.db.id\<close>\<close>
  "keepDbId db cloud = modifyS (\<lambda>s.
     if truthy (propOf (heap s db) ''id'')
     then s\<lparr> heap := (heap s)(cloud := obj_set ''id'' (propOf (heap s db) ''id'') (heap s cloud)) \<rparr>
     else s)"

definition syncForward :: "'w recd \<Rightarrow> ('w, unit) eop list" where
  "syncForward r =
     (let m = rcMapper r in
      map (\<lambda>e. andThen (create (emDb m) (Single e)) (\<lambda>out. copyBack out e)) (entitiesInAwsOnly (rcDiff r))
      @ map (\<lambda>(db, cloud). andThen (keepDbId db cloud) (\<lambda>_.
               andThen (update (emDb m) (Single cloud)) (\<lambda>out. copyBack out cloud)))
          (entitiesChanged (rcDiff r)))"

definition syncBackward :: "'w recd \<Rightarrow> ('w, unit) eop list" where
  "syncBackward r =
     map (\<lambda>e. ignore (delete (emDb (rcMapper r)) (Single e))) (entitiesInDbOnly (rcDiff r))"

definition generatorsOf ::
  "('w recd \<Rightarrow> ('w, unit) eop list) \<Rightarrow> ('w recd \<Rightarrow> ('w, unit) eop list) \<Rightarrow> 'w recd list \<Rightarrow> ('w, unit) eop list" where
  "generatorsOf forward backward rs = concat (map forward rs) @ concat (map backward (rev rs))"

section \<open>A round\<close>

text \<open>
  The local variables.  \<open>failureCount\<close> is \<open>None\<close> when it was assigned \<open>undefined\<close>; \<open>lastCounts\<close> is
  \<open>None\<close> for the initial three \<open>-1\<close>.
\<close>

record locals =
  failureCount :: "int option"
  lastCounts :: "(nat \<times> nat \<times> nat) option"
  spinCount :: nat

definition initLocals :: locals where
  "initLocals = \<lparr> failureCount = Some (- 1), lastCounts = None, spinCount = 0 \<rparr>"

definition countSpin :: "nat \<times> nat \<times> nat \<Rightarrow> locals \<Rightarrow> locals" where
  "countSpin n L = (if lastCounts L = Some n then L\<lparr> spinCount := Suc (spinCount L) \<rparr>
     else L\<lparr> lastCounts := Some n, spinCount := 0 \<rparr>)"

text \<open>\<open>e.metadata?.generatorsToRun?.length\<close>\<close>

fun failedLength :: "js_err thrown \<Rightarrow> int option" where
  "failedLength (ErrObj (Dep _ n _)) = map_option int n"
| "failedLength _ = None"

text \<open>
  Where the loops go on: at the top of the outer loop, or at the top of the inner one (with
  \<open>changesAfterCommitByEntity\<close>, which \<open>apply\<close> reads in the outer loop, and \<open>ranFullUpdate\<close>).
\<close>

datatype phase = Outer | Inner "jsval obj list obj" bool

datatype progress = Finished "plan_row list" | Continue phase locals

record 'w config =
  cfEnv :: "'w engine_env"
  cfMappers :: "'w emapper list"
  cfModules :: "'w emapper emodule list"
  cfForce :: bool
  cfDryRun :: bool
  cfChanges :: "audit_log list option"

definition currentOrm :: "('w, conn) eop" where
  "currentOrm = (\<lambda>s. (Inr (ctxOrm (world s)), s))"

definition readChangesAfter :: "'w config \<Rightarrow> ('w, jsval obj list obj) eop" where
  "readChangesAfter cf = (\<lambda>s.
     case (case startCommit (world s) of Some l \<Rightarrow> Some l | None \<Rightarrow> previewStartCommit (world s)) of
       None \<Rightarrow> (Inl (typeError (cfEnv cf)), s)
     | Some l \<Rightarrow> outsideOp (getChangesAfterCommitStartedByEntity (cfEnv cf)
          (ctxOrm (world s)) (logTs l) (cfForce cf)) s)"

definition flushDb :: "('w, unit) eop" where
  "flushDb = modifyS (\<lambda>s. s\<lparr> memoDb := [] \<rparr>)"

definition flushCloud :: "('w, unit) eop" where
  "flushCloud = modifyS (\<lambda>s. s\<lparr> memoCloud := [] \<rparr>)"

definition readDb :: "'w config \<Rightarrow> ('w, unit) eop" where
  "readDb cf = runAll (map (\<lambda>m. ignore (read (emDb m) None)) (cfMappers cf))"

definition readCloud :: "'w config \<Rightarrow> ('w, unit) eop" where
  "readCloud cf = runAll (map (\<lambda>m. ignore (read (emCloud m) None)) (cfMappers cf))"

definition planRows :: "'w config \<Rightarrow> ('w, plan_row list) eop" where
  "planRows cf = (\<lambda>s. (Inr (iasqlPlanV3 (snakeCase (cfEnv cf)) (crupdes (world s))), s))"

text \<open>Running the generators: \<open>True\<close> when all succeeded.\<close>

definition runGenerators :: "('w, unit) eop list \<Rightarrow> locals \<Rightarrow> ('w, bool \<times> locals) eop" where
  "runGenerators gs L = andThen (attempt (runAll gs)) (\<lambda>r.
     (case r of
        Inr _ \<Rightarrow> ret (True, L)
      | Inl e \<Rightarrow> (if failureCount L = failedLength e then throw e
                 else ret (False, L\<lparr> failureCount := failedLength e \<rparr>))))"

text \<open>The end of a round, after its records and plan: counting, spinning, running the generators.\<close>

definition finishRound ::
  "'w config \<Rightarrow> string \<Rightarrow> ('w recd \<Rightarrow> ('w, unit) eop list) \<Rightarrow> ('w recd \<Rightarrow> ('w, unit) eop list)
     \<Rightarrow> 'w recd list \<Rightarrow> jsval obj list obj \<Rightarrow> bool \<Rightarrow> locals \<Rightarrow> ('w, progress) eop" where
  "finishRound cf side forward backward rs after ranFull L =
     (if cfDryRun cf then andThen (planRows cf) (\<lambda>rows. ret (Finished rows))
      else
        (let L1 = countSpin (recordCount (map rcDiff rs)) L; gs = generatorsOf forward backward rs in
         if spinCount L1 = 4
         then throw (ErrObj (Dep (''Forward progress halted. All remaining '' @ side @ '' changes failing to apply.'') None []))
         else if gs = []
         then (if ranFull then ret (Continue Outer L1)
               else andThen (planRows cf) (\<lambda>rows. ret (Finished rows)))
         else andThen (runGenerators gs L1) (\<lambda>(ranUpdate, L2).
                ret (Continue (if ranUpdate then Inner after True else Outer) L2))))"

section \<open>\<open>apply\<close>\<close>

definition selectionOf ::
  "'w config \<Rightarrow> jsval obj list obj \<Rightarrow> ('w, selection) eop" where
  "selectionOf cf after =
     (case cfChanges cf of
        Some (c # cs) \<Rightarrow>
          andThen currentOrm (\<lambda>orm.
            andThen (outsideOp (getChangesByEntity (cfEnv cf) orm (c # cs) (indexModsByTable (cfModules cf))))
              (\<lambda>changes. ret (Only changes)))
      | _ \<Rightarrow> ret (Except after))"

definition applyRound :: "'w config \<Rightarrow> jsval obj list obj \<Rightarrow> bool \<Rightarrow> locals \<Rightarrow> ('w, progress) eop" where
  "applyRound cf after ranFull L =
     andThen flushCloud (\<lambda>_. andThen (readCloud cf) (\<lambda>_.
       if cfMappers cf = [] then ret (Finished [])
       else andThen (selectionOf cf after) (\<lambda>sel s.
         (let rs = makeRecords sel (cfMappers cf) s in
          andThen (collectPlan applyPlan rs)
            (\<lambda>_. finishRound cf ''DB'' applyForward applyBackward rs after ranFull L) s))))"

definition applyStep :: "'w config \<Rightarrow> phase \<Rightarrow> locals \<Rightarrow> ('w, progress) eop" where
  "applyStep cf ph L =
     (case ph of
        Outer \<Rightarrow>
          andThen flushDb (\<lambda>_. andThen (readDb cf) (\<lambda>_. andThen (readChangesAfter cf) (\<lambda>after.
            ret (Continue (Inner after False) L))))
      | Inner after ranFull \<Rightarrow> applyRound cf after ranFull L)"

section \<open>\<open>sync\<close>\<close>

definition syncRound :: "'w config \<Rightarrow> bool \<Rightarrow> locals \<Rightarrow> ('w, progress) eop" where
  "syncRound cf ranFull L =
     andThen flushDb (\<lambda>_. andThen (readDb cf) (\<lambda>_. andThen (readChangesAfter cf) (\<lambda>after.
       if cfMappers cf = [] then ret (Finished [])
       else (\<lambda>s.
         (let rs = makeRecords (Except after) (cfMappers cf) s in
          andThen (collectPlan syncPlan rs)
            (\<lambda>_. finishRound cf ''Cloud'' syncForward syncBackward rs [] ranFull L) s)))))"

definition syncStep :: "'w config \<Rightarrow> phase \<Rightarrow> locals \<Rightarrow> ('w, progress) eop" where
  "syncStep cf ph L =
     (case ph of
        Outer \<Rightarrow> andThen flushCloud (\<lambda>_. andThen (readCloud cf) (\<lambda>_. ret (Continue (Inner [] False) L)))
      | Inner _ ranFull \<Rightarrow> syncRound cf ranFull L)"

section \<open>The loops\<close>

partial_function (option) rounds ::
  "(phase \<Rightarrow> locals \<Rightarrow> ('w, progress) eop) \<Rightarrow> phase \<Rightarrow> locals \<Rightarrow> (jsval, 'w engine) ctx
     \<Rightarrow> ((js_err thrown + plan_row list) \<times> (jsval, 'w engine) ctx) option" where
  "rounds step ph L s =
     (case step ph L s of
        (Inl e, s') \<Rightarrow> Some (Inl e, s')
      | (Inr (Finished rows), s') \<Rightarrow> Some (Inr rows, s')
      | (Inr (Continue ph' L'), s') \<Rightarrow> rounds step ph' L' s')"

declare rounds.simps [code]

text \<open>
  The context's connection is replaced by a fresh one, dropped and restored on a normal return
  only: an error leaves the fresh one in place.
\<close>

definition withConn ::
  "'w engine_env \<Rightarrow> (phase \<Rightarrow> locals \<Rightarrow> ('w, progress) eop) \<Rightarrow> (jsval, 'w engine) ctx
     \<Rightarrow> ((js_err thrown + plan_row list) \<times> (jsval, 'w engine) ctx) option" where
  "withConn v step s =
     (case andThen currentOrm (\<lambda>oldOrm. andThen (onEngine (createConn (connect v))) (\<lambda>c.
             andThen (setOrm c) (\<lambda>_. ret (oldOrm, c)))) s of
        (Inl e, s1) \<Rightarrow> Some (Inl e, s1)
      | (Inr (oldOrm, c), s1) \<Rightarrow>
          (case rounds step Outer initLocals s1 of
             None \<Rightarrow> None
           | Some (Inl e, s2) \<Rightarrow> Some (Inl e, s2)
           | Some (Inr rows, s2) \<Rightarrow>
               Some (andThen currentOrm (\<lambda>cur. andThen (onEngine (dropConn (closeConn v) cur)) (\<lambda>_.
                 andThen (setOrm oldOrm) (\<lambda>_. ret rows))) s2)))"

definition mappersOf :: "'w emapper emodule list \<Rightarrow> 'w emapper list" where
  "mappersOf mods = concat (map (\<lambda>m. map snd (modMappers m)) mods)"

definition applyChanges ::
  "'w engine_env \<Rightarrow> 'w emapper emodule list \<Rightarrow> bool \<Rightarrow> bool \<Rightarrow> audit_log list option \<Rightarrow> (jsval, 'w engine) ctx
     \<Rightarrow> ((js_err thrown + plan_row list) \<times> (jsval, 'w engine) ctx) option" where
  "applyChanges v mods force dryRun changes =
     withConn v (applyStep \<lparr> cfEnv = v, cfMappers = filter (\<lambda>m. emSource m = SrcDb) (mappersOf mods),
       cfModules = mods, cfForce = force, cfDryRun = dryRun, cfChanges = changes \<rparr>)"

definition sync ::
  "'w engine_env \<Rightarrow> 'w emapper emodule list \<Rightarrow> bool \<Rightarrow> bool \<Rightarrow> (jsval, 'w engine) ctx
     \<Rightarrow> ((js_err thrown + plan_row list) \<times> (jsval, 'w engine) ctx) option" where
  "sync v mods force dryRun =
     withConn v (syncStep \<lparr> cfEnv = v, cfMappers = mappersOf mods,
       cfModules = mods, cfForce = force, cfDryRun = dryRun, cfChanges = None \<rparr>)"

section \<open>Runs of the loops\<close>

text \<open>The rounds a call goes through, from the top of the outer loop.\<close>

inductive reached ::
  "(phase \<Rightarrow> locals \<Rightarrow> ('w, progress) eop) \<Rightarrow> (jsval, 'w engine) ctx \<Rightarrow> phase \<Rightarrow> locals \<Rightarrow> (jsval, 'w engine) ctx \<Rightarrow> bool"
  for step s where
    start: "reached step s Outer initLocals s"
  | go_on: "reached step s ph L s1 \<Longrightarrow> step ph L s1 = (Inr (Continue ph' L'), s2) \<Longrightarrow> reached step s ph' L' s2"

inductive_cases reached_InnerE: "reached step s (Inner after ranFull) L s1"

lemma rounds_Continue:
  "step ph L s = (Inr (Continue ph' L'), s') \<Longrightarrow> rounds step ph L s = rounds step ph' L' s'"
  by (simp add: rounds.simps [of step ph L s])

definition ends ::
  "(phase \<Rightarrow> locals \<Rightarrow> ('w, progress) eop) \<Rightarrow> (jsval, 'w engine) ctx
     \<Rightarrow> (js_err thrown + plan_row list) \<times> (jsval, 'w engine) ctx \<Rightarrow> bool" where
  "ends step s0 out \<longleftrightarrow> (\<exists>ph L s. reached step s0 ph L s \<and>
     step ph L s = (case fst out of Inl e \<Rightarrow> Inl e | Inr rows \<Rightarrow> Inr (Finished rows), snd out))"

lemma rounds_end_from:
  assumes "rounds step ph L s = Some out" and "reached step s0 ph L s"
  shows "ends step s0 out"
proof (rule rounds.raw_induct [where P = "\<lambda>step ph L s out. reached step s0 ph L s \<longrightarrow> ends step s0 out",
    OF _ assms(1), THEN mp, OF _ assms(2)], rule impI)
  fix f step ph L s out
  assume IH: "\<And>step ph L s out. f step ph L s = Some out \<Longrightarrow> reached step s0 ph L s \<longrightarrow> ends step s0 out"
    and eq: "(case step ph L s of
        (Inl e, s') \<Rightarrow> Some (Inl e, s')
      | (Inr (Finished rows), s') \<Rightarrow> Some (Inr rows, s')
      | (Inr (Continue ph' L'), s') \<Rightarrow> f step ph' L' s') = Some out"
    and r: "reached step s0 ph L s"
  obtain x s' where x: "step ph L s = (x, s')" by (rule prod.exhaust)
  show "ends step s0 out"
  proof (cases x)
    case (Inl e)
    with eq x r show ?thesis unfolding ends_def by (intro exI [of _ ph] exI [of _ L] exI [of _ s]) auto
  next
    case (Inr p)
    show ?thesis
    proof (cases p)
      case (Finished rows)
      with eq x r Inr show ?thesis unfolding ends_def by (intro exI [of _ ph] exI [of _ L] exI [of _ s]) auto
    next
      case (Continue ph' L')
      with eq x Inr have "f step ph' L' s' = Some out" by simp
      moreover have "reached step s0 ph' L' s'"
        using r x Inr Continue by (auto intro: go_on)
      ultimately show ?thesis using IH by blast
    qed
  qed
qed

lemma rounds_end: "rounds step Outer initLocals s = Some out \<Longrightarrow> ends step s out"
  by (erule rounds_end_from) (rule start)

text \<open>A return of \<open>apply\<close> or \<open>sync\<close> is the end of a run on a fresh connection.\<close>

lemma withConn_returns:
  assumes "withConn v step s = Some (Inr rows, s')"
  shows "\<exists>s1 s2. ends step s1 (Inr rows, s2) \<and> heap s' = heap s2 \<and> memoDb s' = memoDb s2 \<and>
    memoCloud s' = memoCloud s2 \<and> ctxOrm (world s') = ctxOrm (world s)"
proof -
  let ?enter = "andThen currentOrm (\<lambda>oldOrm. andThen (onEngine (createConn (connect v))) (\<lambda>c.
      andThen (setOrm c) (\<lambda>_. ret (oldOrm, c))))"
  obtain x s1 where enter: "?enter s = (x, s1)" by (rule prod.exhaust)
  show ?thesis
  proof (cases x)
    case (Inl e)
    with assms enter show ?thesis by (simp add: withConn_def)
  next
    case (Inr y)
    obtain old c where y: "y = (old, c)" by (rule prod.exhaust)
    have old: "old = ctxOrm (world s)"
      using enter Inr y by (auto simp: andThen_Inr_iff currentOrm_def)
    from assms enter Inr y obtain out where run: "rounds step Outer initLocals s1 = Some out"
      by (auto simp: withConn_def split: option.splits)
    obtain r s2 where out: "out = (r, s2)" by (rule prod.exhaust)
    show ?thesis
    proof (cases r)
      case (Inl e)
      with assms enter Inr y run out show ?thesis by (simp add: withConn_def)
    next
      case r: (Inr rows')
      with assms enter Inr y run out have leave: "andThen currentOrm (\<lambda>cur. andThen (onEngine (dropConn (closeConn v) cur))
          (\<lambda>_. andThen (setOrm old) (\<lambda>_. ret rows'))) s2 = (Inr rows, s')"
        by (simp add: withConn_def)
      then have "rows' = rows" "heap s' = heap s2" "memoDb s' = memoDb s2" "memoCloud s' = memoCloud s2"
          "ctxOrm (world s') = old"
        by (auto simp: andThen_Inr_iff currentOrm_def onEngine_def setOrm_def split: prod.splits)
      with rounds_end [OF run] out r old show ?thesis by blast
    qed
  qed
qed

section \<open>When the loops stop\<close>

definition emptyDiff :: "'e diff \<Rightarrow> bool" where
  "emptyDiff d \<longleftrightarrow> entitiesInDbOnly d = [] \<and> entitiesInAwsOnly d = [] \<and> entitiesChanged d = []"

lemma apply_generators_empty:
  "generatorsOf applyForward applyBackward rs = [] \<longleftrightarrow> (\<forall>r\<in>set rs. emptyDiff (rcDiff r))"
  by (auto simp: generatorsOf_def applyForward_def applyBackward_def emptyDiff_def Let_def)

lemma sync_generators_empty:
  "generatorsOf syncForward syncBackward rs = [] \<longleftrightarrow> (\<forall>r\<in>set rs. emptyDiff (rcDiff r))"
  by (auto simp: generatorsOf_def syncForward_def syncBackward_def emptyDiff_def Let_def)

lemma finishRound_Finished:
  assumes "finishRound cf side fw bw rs after ranFull L s = (Inr (Finished rows), s')" and "\<not> cfDryRun cf"
  shows "generatorsOf fw bw rs = []" "\<not> ranFull" "s' = s"
    "rows = iasqlPlanV3 (snakeCase (cfEnv cf)) (crupdes (world s))"
  using assms
  by (auto simp: finishRound_def Let_def planRows_def andThen_Inr_iff split: if_splits prod.splits)

lemma finishRound_Continue:
  assumes "finishRound cf side fw bw rs after ranFull L s = (Inr (Continue ph L'), s')"
  shows "ph = Outer \<or> ph = Inner after True"
  using assms
  by (auto simp: finishRound_def Let_def planRows_def andThen_Inr_iff split: if_splits prod.splits)

lemma applyRound_Continue:
  assumes "applyRound cf after ranFull L s = (Inr (Continue ph L'), s')"
  shows "ph = Outer \<or> ph = Inner after True"
  using assms
  by (auto simp: applyRound_def Let_def andThen_Inr_iff split: if_splits dest!: finishRound_Continue)

lemma syncRound_Continue:
  assumes "syncRound cf ranFull L s = (Inr (Continue ph L'), s')"
  shows "ph = Outer \<or> ph = Inner [] True"
  using assms
  by (auto simp: syncRound_def Let_def andThen_Inr_iff split: if_splits dest!: finishRound_Continue)

text \<open>An inner round with \<open>ranFullUpdate\<close> unset comes right after the reads of the outer loop.\<close>

lemma apply_fresh:
  assumes "reached (applyStep cf) s (Inner after False) L s1"
  shows "\<exists>s0. andThen flushDb (\<lambda>_. andThen (readDb cf) (\<lambda>_. readChangesAfter cf)) s0 = (Inr after, s1)"
proof -
  from assms obtain ph L0 s0 where last: "applyStep cf ph L0 s0 = (Inr (Continue (Inner after False) L), s1)"
    by (rule reached_InnerE) blast
  show ?thesis
  proof (cases ph)
    case Outer
    with last have "andThen flushDb (\<lambda>_. andThen (readDb cf) (\<lambda>_. readChangesAfter cf)) s0 = (Inr after, s1)"
      by (simp add: applyStep_def andThen_apply split: prod.splits sum.splits)
    then show ?thesis by blast
  next
    case (Inner a rf)
    with last have "applyRound cf a rf L0 s0 = (Inr (Continue (Inner after False) L), s1)"
      by (simp add: applyStep_def)
    from applyRound_Continue [OF this] show ?thesis by simp
  qed
qed

lemma sync_fresh:
  assumes "reached (syncStep cf) s (Inner after False) L s1"
  shows "\<exists>s0. andThen flushCloud (\<lambda>_. readCloud cf) s0 = (Inr (), s1)"
proof -
  from assms obtain ph L0 s0 where last: "syncStep cf ph L0 s0 = (Inr (Continue (Inner after False) L), s1)"
    by (rule reached_InnerE) blast
  show ?thesis
  proof (cases ph)
    case Outer
    with last have "andThen flushCloud (\<lambda>_. readCloud cf) s0 = (Inr (), s1)"
      by (simp add: syncStep_def andThen_apply split: prod.splits sum.splits)
    then show ?thesis by blast
  next
    case (Inner a rf)
    with last have "syncRound cf rf L0 s0 = (Inr (Continue (Inner after False) L), s1)"
      by (simp add: syncStep_def)
    from syncRound_Continue [OF this] show ?thesis by simp
  qed
qed

text \<open>
  What a side holds: the entity of an id, as \<open>findDiff\<close> sees it.  A mapper is settled when every entity
  the selection lets through has its counterpart: a database entity has an equal cloud entity, a cloud
  entity has a database entity.
\<close>

definition dbEntity :: "'w emapper \<Rightarrow> (jsval, 'w engine) ctx \<Rightarrow> string \<Rightarrow> addr option" where
  "dbEntity m s = lastWith (\<lambda>a. emId m (heap s a)) (memoValues (memoDb s) (emName m))"

definition cloudEntity :: "'w emapper \<Rightarrow> (jsval, 'w engine) ctx \<Rightarrow> string \<Rightarrow> addr option" where
  "cloudEntity m s = lastWith (\<lambda>a. emId m (heap s a)) (memoValues (memoCloud s) (emName m))"

definition settled :: "selection \<Rightarrow> 'w emapper \<Rightarrow> (jsval, 'w engine) ctx \<Rightarrow> bool" where
  "settled sel m s \<longleftrightarrow>
     (\<forall>k d. dbEntity m s k = Some d \<and> selected sel m (heap s d) \<longrightarrow>
        (\<exists>c. cloudEntity m s k = Some c \<and> emEquals m (heap s d) (heap s c))) \<and>
     (\<forall>k c. cloudEntity m s k = Some c \<and> selected sel m (heap s c) \<longrightarrow> dbEntity m s k \<noteq> None)"

lemma settledI:
  assumes "emptyDiff (filterDiff sel m (heap s) (diffOf m s))"
  shows "settled sel m s"
proof -
  note none = assms [unfolded emptyDiff_def filterDiff_def, simplified, unfolded filter_empty_conv]
  show ?thesis unfolding settled_def
  proof (intro conjI allI impI)
    fix k d assume d: "dbEntity m s k = Some d \<and> selected sel m (heap s d)"
    then have k: "emId m (heap s d) = k" by (auto simp: dbEntity_def dest: lastWith_id)
    with d none have "k \<in> (\<lambda>a. emId m (heap s a)) ` set (memoValues (memoCloud s) (emName m))"
      by (auto simp: diffOf_def dbEntity_def in_dbOnly)
    then have "cloudEntity m s k \<noteq> None"
      by (simp only: cloudEntity_def lastWith_None not_not)
    then obtain c where c: "cloudEntity m s k = Some c" by blast
    then have "emId m (heap s c) = k" by (auto simp: cloudEntity_def dest: lastWith_id)
    moreover have "(d, c) \<notin> set (entitiesChanged (diffOf m s))" using d none by auto
    ultimately have "emEquals m (heap s d) (heap s c)"
      using c d k by (simp add: diffOf_def dbEntity_def cloudEntity_def in_changed)
    with c show "\<exists>c. cloudEntity m s k = Some c \<and> emEquals m (heap s d) (heap s c)" by blast
  next
    fix k c assume c: "cloudEntity m s k = Some c \<and> selected sel m (heap s c)"
    then have "emId m (heap s c) = k" by (auto simp: cloudEntity_def dest: lastWith_id)
    with c none have "k \<in> (\<lambda>a. emId m (heap s a)) ` set (memoValues (memoDb s) (emName m))"
      by (auto simp: diffOf_def cloudEntity_def in_awsOnly)
    then show "dbEntity m s k \<noteq> None"
      by (simp only: dbEntity_def lastWith_None not_not)
  qed
qed

lemma settled_cong:
  "heap s = heap s' \<Longrightarrow> memoDb s = memoDb s' \<Longrightarrow> memoCloud s = memoCloud s' \<Longrightarrow> settled sel m s = settled sel m s'"
  by (simp add: settled_def dbEntity_def cloudEntity_def)

lemma makeRecords_settled:
  assumes "\<forall>r\<in>set (makeRecords sel ms s). emptyDiff (rcDiff r)" and "m \<in> set ms"
  shows "settled sel m s"
  using assms by (intro settledI) (auto simp: makeRecords_def)

lemma collectPlan_frame:
  "collectPlan f rs s = (x, s') \<Longrightarrow> heap s' = heap s \<and> memoDb s' = memoDb s \<and> memoCloud s' = memoCloud s"
  by (auto simp: collectPlan_def)

text \<open>The last round of \<open>apply\<close> and of \<open>sync\<close>.\<close>

lemma applyRound_Finished:
  assumes "applyRound cf after ranFull L s = (Inr (Finished rows), s')" "\<not> cfDryRun cf" "cfMappers cf \<noteq> []"
  shows "\<not> ranFull \<and> (\<exists>sel s1. andThen flushCloud (\<lambda>_. andThen (readCloud cf) (\<lambda>_. selectionOf cf after)) s = (Inr sel, s1) \<and>
    heap s' = heap s1 \<and> memoDb s' = memoDb s1 \<and> memoCloud s' = memoCloud s1 \<and>
    (\<forall>m\<in>set (cfMappers cf). settled sel m s1))"
proof -
  from assms(1,3) obtain sel s0 s1 where s1: "flushCloud s = (Inr (), s0)"
      "andThen (readCloud cf) (\<lambda>_. selectionOf cf after) s0 = (Inr sel, s1)"
    and tail: "andThen (collectPlan applyPlan (makeRecords sel (cfMappers cf) s1)) (\<lambda>_. finishRound cf ''DB''
      applyForward applyBackward (makeRecords sel (cfMappers cf) s1) after ranFull L) s1 = (Inr (Finished rows), s')"
    by (fastforce simp: applyRound_def andThen_Inr_iff Let_def)
  let ?rs = "makeRecords sel (cfMappers cf) s1"
  from tail obtain s2 where cp: "collectPlan applyPlan ?rs s1 = (Inr (), s2)"
    and fr: "finishRound cf ''DB'' applyForward applyBackward ?rs after ranFull L s2 = (Inr (Finished rows), s')"
    by (auto simp: andThen_Inr_iff)
  note fin = finishRound_Finished [OF fr assms(2)]
  have "\<forall>m\<in>set (cfMappers cf). settled sel m s1"
    using fin(1) makeRecords_settled [of sel "cfMappers cf" s1] by (simp add: apply_generators_empty)
  moreover have "andThen flushCloud (\<lambda>_. andThen (readCloud cf) (\<lambda>_. selectionOf cf after)) s = (Inr sel, s1)"
    using s1 by simp
  ultimately show ?thesis
    using fin(2,3) collectPlan_frame [OF cp] by auto
qed

lemma syncRound_Finished:
  assumes "syncRound cf ranFull L s = (Inr (Finished rows), s')" "\<not> cfDryRun cf" "cfMappers cf \<noteq> []"
  shows "\<not> ranFull \<and> (\<exists>after s1. andThen flushDb (\<lambda>_. andThen (readDb cf) (\<lambda>_. readChangesAfter cf)) s = (Inr after, s1) \<and>
    heap s' = heap s1 \<and> memoDb s' = memoDb s1 \<and> memoCloud s' = memoCloud s1 \<and>
    (\<forall>m\<in>set (cfMappers cf). settled (Except after) m s1))"
proof -
  from assms(1,3) obtain after s0 s1 where s1: "flushDb s = (Inr (), s0)"
      "andThen (readDb cf) (\<lambda>_. readChangesAfter cf) s0 = (Inr after, s1)"
    and tail: "andThen (collectPlan syncPlan (makeRecords (Except after) (cfMappers cf) s1)) (\<lambda>_. finishRound cf ''Cloud''
      syncForward syncBackward (makeRecords (Except after) (cfMappers cf) s1) [] ranFull L) s1 = (Inr (Finished rows), s')"
    by (fastforce simp: syncRound_def andThen_Inr_iff Let_def)
  let ?rs = "makeRecords (Except after) (cfMappers cf) s1"
  from tail obtain s2 where cp: "collectPlan syncPlan ?rs s1 = (Inr (), s2)"
    and fr: "finishRound cf ''Cloud'' syncForward syncBackward ?rs [] ranFull L s2 = (Inr (Finished rows), s')"
    by (auto simp: andThen_Inr_iff)
  note fin = finishRound_Finished [OF fr assms(2)]
  have "\<forall>m\<in>set (cfMappers cf). settled (Except after) m s1"
    using fin(1) makeRecords_settled [of "Except after" "cfMappers cf" s1] by (simp add: sync_generators_empty)
  moreover have "andThen flushDb (\<lambda>_. andThen (readDb cf) (\<lambda>_. readChangesAfter cf)) s = (Inr after, s1)"
    using s1 by simp
  ultimately show ?thesis
    using fin(2,3) collectPlan_frame [OF cp] by auto
qed


text \<open>
  C2. When \<open>apply\<close> (not a dry run, with mappers) returns, the two sides agree: after a fresh read of the
  database and of the changes made since the commit, and then a fresh read of the cloud, which the
  returned memo is, every entity that the selection lets through has its counterpart; and the context has
  its connection back.
\<close>

theorem applyChanges_converges:
  assumes "applyChanges v mods force False changes s = Some (Inr rows, s')"
    and "cf = \<lparr> cfEnv = v, cfMappers = filter (\<lambda>m. emSource m = SrcDb) (mappersOf mods),
       cfModules = mods, cfForce = force, cfDryRun = False, cfChanges = changes \<rparr>"
    and "cfMappers cf \<noteq> []"
  shows "ctxOrm (world s') = ctxOrm (world s) \<and>
    (\<exists>s0 after s1 sel s2.
      andThen flushDb (\<lambda>_. andThen (readDb cf) (\<lambda>_. readChangesAfter cf)) s0 = (Inr after, s1) \<and>
      andThen flushCloud (\<lambda>_. andThen (readCloud cf) (\<lambda>_. selectionOf cf after)) s1 = (Inr sel, s2) \<and>
      heap s' = heap s2 \<and> memoDb s' = memoDb s2 \<and> memoCloud s' = memoCloud s2 \<and>
      (\<forall>m\<in>set (cfMappers cf). settled sel m s'))"
proof -
  from assms(1,2) have "withConn v (applyStep cf) s = Some (Inr rows, s')" by (simp add: applyChanges_def)
  from withConn_returns [OF this] obtain s1 s2 where e: "ends (applyStep cf) s1 (Inr rows, s2)"
    and fr: "heap s' = heap s2" "memoDb s' = memoDb s2" "memoCloud s' = memoCloud s2"
      "ctxOrm (world s') = ctxOrm (world s)" by blast
  from e obtain ph L s3 where r: "reached (applyStep cf) s1 ph L s3"
    and step: "applyStep cf ph L s3 = (Inr (Finished rows), s2)" by (auto simp: ends_def)
  from step obtain after ranFull where ph: "ph = Inner after ranFull"
    and round: "applyRound cf after ranFull L s3 = (Inr (Finished rows), s2)"
    by (cases ph) (auto simp: applyStep_def andThen_Inr_iff)
  from assms(2) have "\<not> cfDryRun cf" by simp
  note fin = applyRound_Finished [OF round this assms(3)]
  with r ph have "reached (applyStep cf) s1 (Inner after False) L s3" by simp
  from apply_fresh [OF this] obtain s0 where fresh:
    "andThen flushDb (\<lambda>_. andThen (readDb cf) (\<lambda>_. readChangesAfter cf)) s0 = (Inr after, s3)" by blast
  from fin obtain sel s4 where last: "andThen flushCloud (\<lambda>_. andThen (readCloud cf) (\<lambda>_. selectionOf cf after)) s3 = (Inr sel, s4)"
      "heap s2 = heap s4" "memoDb s2 = memoDb s4" "memoCloud s2 = memoCloud s4"
      "\<forall>m\<in>set (cfMappers cf). settled sel m s4" by blast
  then have "\<forall>m\<in>set (cfMappers cf). settled sel m s'"
    using fr settled_cong [of s' s4] by auto
  moreover have "heap s' = heap s4" "memoDb s' = memoDb s4" "memoCloud s' = memoCloud s4" using fr last by simp_all
  ultimately show ?thesis using fresh last(1) fr(4) by blast
qed

lemma sync_settled:
  assumes "sync v mods force False s = Some (Inr rows, s')"
    and "cf = \<lparr> cfEnv = v, cfMappers = mappersOf mods,
       cfModules = mods, cfForce = force, cfDryRun = False, cfChanges = None \<rparr>"
    and "cfMappers cf \<noteq> []"
  shows "ctxOrm (world s') = ctxOrm (world s) \<and>
    (\<exists>s0 s1 after s2.
      andThen flushCloud (\<lambda>_. readCloud cf) s0 = (Inr (), s1) \<and>
      andThen flushDb (\<lambda>_. andThen (readDb cf) (\<lambda>_. readChangesAfter cf)) s1 = (Inr after, s2) \<and>
      heap s' = heap s2 \<and> memoDb s' = memoDb s2 \<and> memoCloud s' = memoCloud s2 \<and>
      (\<forall>m\<in>set (cfMappers cf). settled (Except after) m s'))"
proof -
  from assms(1,2) have "withConn v (syncStep cf) s = Some (Inr rows, s')" by (simp add: sync_def)
  from withConn_returns [OF this] obtain s1 s2 where e: "ends (syncStep cf) s1 (Inr rows, s2)"
    and fr: "heap s' = heap s2" "memoDb s' = memoDb s2" "memoCloud s' = memoCloud s2"
      "ctxOrm (world s') = ctxOrm (world s)" by blast
  from e obtain ph L s3 where r: "reached (syncStep cf) s1 ph L s3"
    and step: "syncStep cf ph L s3 = (Inr (Finished rows), s2)" by (auto simp: ends_def)
  from step obtain after ranFull where ph: "ph = Inner after ranFull"
    and round: "syncRound cf ranFull L s3 = (Inr (Finished rows), s2)"
    by (cases ph) (auto simp: syncStep_def andThen_Inr_iff)
  from assms(2) have "\<not> cfDryRun cf" by simp
  note fin = syncRound_Finished [OF round this assms(3)]
  with r ph have inner: "reached (syncStep cf) s1 (Inner after False) L s3" by simp
  from sync_fresh [OF this] obtain s0 where fresh:
    "andThen flushCloud (\<lambda>_. readCloud cf) s0 = (Inr (), s3)" by blast
  from fin obtain after' s4 where last: "andThen flushDb (\<lambda>_. andThen (readDb cf) (\<lambda>_. readChangesAfter cf)) s3 = (Inr after', s4)"
      "heap s2 = heap s4" "memoDb s2 = memoDb s4" "memoCloud s2 = memoCloud s4"
      "\<forall>m\<in>set (cfMappers cf). settled (Except after') m s4" by blast
  then have "\<forall>m\<in>set (cfMappers cf). settled (Except after') m s'"
    using fr settled_cong [of s' s4] by auto
  moreover have "heap s' = heap s4" "memoDb s' = memoDb s4" "memoCloud s' = memoCloud s4" using fr last by simp_all
  ultimately show ?thesis using fresh last(1) fr(4) by blast
qed

text \<open>
  C4. When \<open>sync\<close> (not a dry run, with mappers) returns, the same holds with the reads in its order:
  a fresh read of the cloud, then a fresh read of the database and of the changes made since the commit.
\<close>

theorem sync_converges:
  assumes "sync v mods force False s = Some (Inr rows, s')"
    and "cf = \<lparr> cfEnv = v, cfMappers = mappersOf mods,
       cfModules = mods, cfForce = force, cfDryRun = False, cfChanges = None \<rparr>"
    and "cfMappers cf \<noteq> []"
  shows "ctxOrm (world s') = ctxOrm (world s) \<and>
    (\<exists>s0 s1 after s2.
      andThen flushCloud (\<lambda>_. readCloud cf) s0 = (Inr (), s1) \<and>
      andThen flushDb (\<lambda>_. andThen (readDb cf) (\<lambda>_. readChangesAfter cf)) s1 = (Inr after, s2) \<and>
      heap s' = heap s2 \<and> memoDb s' = memoDb s2 \<and> memoCloud s' = memoCloud s2 \<and>
      (\<forall>m\<in>set (cfMappers cf). settled (Except after) m s'))"
  using assms by (rule sync_settled)

section \<open>A dry run, and giving up\<close>

text \<open>
  C12. A dry run of \<open>apply\<close> or \<open>sync\<close> executes no generator: it is one read of each side and the plan
  of one comparison (so nothing is created, updated or deleted on the target).
\<close>

theorem dryRun_only_plans:
  assumes "cfDryRun cf" and "cfMappers cf \<noteq> []"
  shows "rounds (applyStep cf) Outer initLocals s = Some
      (andThen flushDb (\<lambda>_. andThen (readDb cf) (\<lambda>_. andThen (readChangesAfter cf) (\<lambda>after.
         andThen flushCloud (\<lambda>_. andThen (readCloud cf) (\<lambda>_. andThen (selectionOf cf after) (\<lambda>sel s.
           andThen (collectPlan applyPlan (makeRecords sel (cfMappers cf) s)) (\<lambda>_. planRows cf) s)))))) s)"
proof -
  have fin: "finishRound cf side fw bw rs after rf L = andThen (planRows cf) (\<lambda>rows. ret (Finished rows))"
    for side fw bw rs after rf L
    using assms(1) by (simp add: finishRound_def)
  show ?thesis
    by (subst rounds.simps)
       (auto simp: applyStep_def applyRound_def fin assms(2) andThen_apply rounds.simps [of _ "Inner _ _"]
         split: prod.splits sum.splits progress.splits)
qed

text \<open>
  A round that changes nothing gives up: after four repetitions of the same three counts the
  fifth equal count throws, before any generator of that round runs, so the loop cannot repeat forever on
  counts that never change.
\<close>

theorem stall_throws:
  assumes "\<not> cfDryRun cf" and "lastCounts L = Some (recordCount (map rcDiff rs))" and "spinCount L = 3"
  shows "finishRound cf side forward backward rs after ranFull L s =
    (Inl (ErrObj (Dep (''Forward progress halted. All remaining '' @ side @ '' changes failing to apply.'') None [])), s)"
  using assms by (simp add: finishRound_def countSpin_def Let_def)

section \<open>An engine with one mapper\<close>

text \<open>
  The world is the list of the buckets of the cloud; the database always holds the bucket \<open>b\<close>, at
  address 0, and a bucket read from the cloud is a fresh object at address 1.
\<close>

definition bucketNamed :: "string \<Rightarrow> jsval obj" where
  "bucketNamed n = [(''name'', JStr n)]"

fun bucketName :: "jsval \<Rightarrow> string" where
  "bucketName (JStr n) = n"
| "bucketName _ = ''undefined''"

definition bucketId :: "jsval obj \<Rightarrow> string" where
  "bucketId e = bucketName (propOf e ''name'')"

definition demoDb :: "(jsval, string list engine) crud" where
  "demoDb = \<lparr> entityName = ''Bucket'', crDest = DestDb, newEntity = [], idOf = (\<lambda>h a. bucketId (h a)),
     createFn = (\<lambda>es. ret (Some (Several es))), readFn = (\<lambda>_. ret (Some (Several [0]))),
     updateFn = (\<lambda>es. ret (Some (Several es))), deleteFn = (\<lambda>es. ret None), replaceFn = None \<rparr>"

definition demoCloud :: "(jsval, string list engine) crud" where
  "demoCloud = demoDb\<lparr> crDest := DestCloud,
     createFn := (\<lambda>es s. (Inr None, s\<lparr> world := (world s)\<lparr> outside := map (\<lambda>a. bucketId (heap s a)) es @ outside (world s) \<rparr> \<rparr>)),
     readFn := (\<lambda>_ s. (Inr (Some (Several (if outside (world s) = [] then [] else [1]))), s)) \<rparr>"

definition demoMapperB :: "string list emapper" where
  "demoMapperB = \<lparr> emName = ''Bucket'', emSource = SrcDb, emDb = demoDb, emCloud = demoCloud,
     emEquals = (\<lambda>a b. bucketId a = bucketId b), emId = bucketId \<rparr>"

definition demoModule :: "string list emapper emodule" where
  "demoModule = \<lparr> modName = ''aws_s3'', modVersion = ''1'', dependencies = [], provTables = [''bucket''],
     modMappers = [(''Bucket'', demoMapperB)] \<rparr>"

definition quietRepo :: "(string list, js_err thrown) repo" where
  "quietRepo = \<lparr> findLogs = (\<lambda>c q. ret []), saveLogs = (\<lambda>c ls. ret ls), newDate = (\<lambda>w. (0, w)),
     uuidv4 = (\<lambda>w. ([], w)), sleepSec = id, dbUser = ''iasql'', mkError = (\<lambda>m. ErrObj (Err m)) \<rparr>"

definition demoEngine :: "string list engine_env" where
  "demoEngine = \<lparr> logs = quietRepo, camelCase = id, snakeCase = id, metaOf = (\<lambda>_. demoMeta),
     findOneEnt = (\<lambda>c n wh. ret None), findEnt = (\<lambda>c n wh. ret []), moduleNames = (\<lambda>c. ret [''aws_s3@1'']),
     versionString = ret ''1'', upgrading = ret False, configVersion = ''1'', allModules = [demoModule],
     pgFormat = (\<lambda>tmpl args. tmpl), cloudIds = [], resolvable = [],
     connect = ret (), closeConn = (\<lambda>c. ret ()), runSql = (\<lambda>c q. ret ()), sentry = None \<rparr>"

definition demoStart :: "string list \<Rightarrow> (jsval, string list engine) ctx" where
  "demoStart cloud = \<lparr> heap = (\<lambda>a. if a \<le> 1 then bucketNamed ''b'' else []), nextAddr = 2, memoDb = [], memoCloud = [],
     world = \<lparr> outside = cloud, pool = [], nextConn = 1, ctxOrm = 0, startCommit = Some (bracketRow 1 1 START_COMMIT),
       previewStartCommit = None, crupdes = \<lparr> toCreate = [], toUpdate = [], toReplace = [], toDelete = [] \<rparr> \<rparr> \<rparr>"

text \<open>The bucket is created in an empty cloud; a second bucket of the cloud never goes away.\<close>

lemma demo_apply_runs: "case applyChanges demoEngine [demoModule] False False None (demoStart []) of
  Some (Inr rows, s') \<Rightarrow> outside (world s') = [''b''] | _ \<Rightarrow> False"
  by code_simp

theorem applyChanges_converges_witness:
  "\<exists>rows s' sel. applyChanges demoEngine [demoModule] False False None (demoStart []) = Some (Inr rows, s') \<and>
     outside (world s') = [''b''] \<and> settled sel demoMapperB s'"
proof -
  obtain rows s' where run: "applyChanges demoEngine [demoModule] False False None (demoStart []) = Some (Inr rows, s')"
    and out: "outside (world s') = [''b'']"
    using demo_apply_runs by (auto split: option.splits prod.splits sum.splits)
  define cf where "cf = \<lparr> cfEnv = demoEngine, cfMappers = filter (\<lambda>m. emSource m = SrcDb) (mappersOf [demoModule]),
       cfModules = [demoModule], cfForce = False, cfDryRun = False, cfChanges = None \<rparr>"
  then have m: "cfMappers cf = [demoMapperB]" by (simp add: mappersOf_def demoModule_def demoMapperB_def)
  then have "cfMappers cf \<noteq> []" by simp
  from applyChanges_converges [OF run cf_def this, THEN conjunct2] obtain sel where "\<forall>m\<in>set (cfMappers cf). settled sel m s'"
    by blast
  with m run out show ?thesis by auto
qed

lemma demo_sync_runs: "case sync demoEngine [demoModule] False False (demoStart [''b'']) of
  Some (Inr rows, s') \<Rightarrow> True | _ \<Rightarrow> False"
  by code_simp

theorem sync_converges_witness:
  "\<exists>rows s' sel. sync demoEngine [demoModule] False False (demoStart [''b'']) = Some (Inr rows, s') \<and>
     settled sel demoMapperB s'"
proof -
  obtain rows s' where run: "sync demoEngine [demoModule] False False (demoStart [''b'']) = Some (Inr rows, s')"
    using demo_sync_runs by (auto split: option.splits prod.splits sum.splits)
  define cf where "cf = \<lparr> cfEnv = demoEngine, cfMappers = mappersOf [demoModule],
       cfModules = [demoModule], cfForce = False, cfDryRun = False, cfChanges = None \<rparr>"
  then have m: "cfMappers cf = [demoMapperB]" by (simp add: mappersOf_def demoModule_def)
  then have "cfMappers cf \<noteq> []" by simp
  from sync_converges [OF run cf_def this, THEN conjunct2] obtain after where "\<forall>m\<in>set (cfMappers cf). settled (Except after) m s'"
    by blast
  with m run show ?thesis by auto
qed

definition demoConfig :: "bool \<Rightarrow> string list config" where
  "demoConfig dry = \<lparr> cfEnv = demoEngine, cfMappers = [demoMapperB], cfModules = [demoModule], cfForce = False,
     cfDryRun = dry, cfChanges = None \<rparr>"

lemma demo_dry_runs: "case (andThen flushDb (\<lambda>_. andThen (readDb (demoConfig True)) (\<lambda>_. andThen (readChangesAfter (demoConfig True)) (\<lambda>after.
         andThen flushCloud (\<lambda>_. andThen (readCloud (demoConfig True)) (\<lambda>_. andThen (selectionOf (demoConfig True) after) (\<lambda>sel s.
           andThen (collectPlan applyPlan (makeRecords sel (cfMappers (demoConfig True)) s)) (\<lambda>_. planRows (demoConfig True)) s))))))
      (demoStart [])) of (Inr [row], s') \<Rightarrow> outside (world s') = [] | _ \<Rightarrow> False"
  by code_simp

theorem dryRun_only_plans_witness:
  "\<exists>row s'. rounds (applyStep (demoConfig True)) Outer initLocals (demoStart []) = Some (Inr [row], s') \<and>
     outside (world s') = []"
  using dryRun_only_plans [of "demoConfig True" "demoStart []"] demo_dry_runs
  by (auto simp: demoConfig_def split: prod.splits sum.splits list.splits)

theorem stall_throws_witness:
  "fst (finishRound (demoConfig False) ''DB'' applyForward applyBackward [] [] True
     \<lparr> failureCount = Some (- 1), lastCounts = Some (0, 0, 0), spinCount = 3 \<rparr> (demoStart [])) =
   Inl (ErrObj (Dep ''Forward progress halted. All remaining DB changes failing to apply.'' None []))"
  by (subst stall_throws) (simp_all add: demoConfig_def recordCount_def)

end
