(* ===== verification/Rpc_Call.thy ===== *)
theory Rpc_Call
  imports Audit_Log
begin

text \<open>
  The transaction protocol around an RPC: the checks of \<open>src/src/modules/interfaces.ts\<close>,
  \<open>rpcCall\<close> of \<open>src/src/router/db.ts\<close> and \<open>mergeErrorMessages\<close> of
  \<open>src/src/services/logger.ts\<close>, with the checks that the RPCs of
  \<open>src/src/modules/iasql_functions/rpcs/\<close> declare.

  The method that is called, and the two SQL statements of the default branches, are parameters.
\<close>

section \<open>Checks\<close>

datatype pre_check = Pre_NO_CHECK | WAIT_FOR_LOCK | FAIL_IF_NOT_LOCKED

datatype post_check = Post_NO_CHECK | UNLOCK_IF_SUCCEED | UNLOCK_ALWAYS

fun preStr :: "pre_check \<Rightarrow> string" where
  "preStr Pre_NO_CHECK = ''no-check''"
| "preStr WAIT_FOR_LOCK = ''wait-for-lock''"
| "preStr FAIL_IF_NOT_LOCKED = ''fail-if-not-locked''"

fun postStr :: "post_check \<Rightarrow> string" where
  "postStr Post_NO_CHECK = ''no-check''"
| "postStr UNLOCK_IF_SUCCEED = ''unlock-if-succeed''"
| "postStr UNLOCK_ALWAYS = ''unlock-always''"

text \<open>The labels of the two \<open>switch\<close> statements; other strings take the default branch.\<close>

definition preOf :: "string \<Rightarrow> pre_check option" where
  "preOf s = find (\<lambda>p. preStr p = s) [Pre_NO_CHECK, WAIT_FOR_LOCK, FAIL_IF_NOT_LOCKED]"

definition postOf :: "string \<Rightarrow> post_check option" where
  "postOf s = find (\<lambda>p. postStr p = s) [Post_NO_CHECK, UNLOCK_IF_SUCCEED, UNLOCK_ALWAYS]"

lemma preOf_preStr: "preOf (preStr p) = Some p"
  by (cases p) (simp_all add: preOf_def)

lemma postOf_postStr: "postOf (postStr p) = Some p"
  by (cases p) (simp_all add: postOf_def)

record ('w, 'e) rpc_env =
  logRepo :: "('w, 'e) repo"
  beginQuery :: "conn \<Rightarrow> ('w, 'e, unit) action"    \<comment> \<open>\<open>select * from iasql_begin();\<close>\<close>
  commitQuery :: "conn \<Rightarrow> ('w, 'e, unit) action"   \<comment> \<open>\<open>select * from iasql_commit();\<close>\<close>
  msgOf :: "'e \<Rightarrow> string option"
  withMsg :: "string \<Rightarrow> 'e \<Rightarrow> 'e"

definition mergeErrorMessages :: "('e \<Rightarrow> string option) \<Rightarrow> 'e list \<Rightarrow> string" where
  "mergeErrorMessages msg es =
     joinWith [CHR 0x0A] (map the (filter (\<lambda>m. truthyStr m \<noteq> None) (uniq (map msg es))))"

section \<open>\<open>rpcCall\<close>\<close>

definition preTransaction :: "('w, 'e) rpc_env \<Rightarrow> conn \<Rightarrow> pre_check option \<Rightarrow> ('w, 'e, unit) action" where
  "preTransaction v c p =
     (case p of
        Some Pre_NO_CHECK \<Rightarrow> ret ()
      | Some FAIL_IF_NOT_LOCKED \<Rightarrow>
          andThen (isOpenTransaction (logRepo v) c) (\<lambda>opened.
            if \<not> opened
            then throw (mkError (logRepo v) ''Cannot execute without calling iasql_begin() first'')
            else ret ())
      | Some WAIT_FOR_LOCK \<Rightarrow> maybeOpenTransaction (logRepo v) c
      | None \<Rightarrow> beginQuery v c)"

text \<open>The error of the default branch's commit is the value; a failing \<open>closeTransaction\<close> throws.\<close>

definition postTransaction ::
  "('w, 'e) rpc_env \<Rightarrow> conn \<Rightarrow> post_check option \<Rightarrow> bool \<Rightarrow> ('w, 'e, 'e option) action" where
  "postTransaction v c p failed =
     (case p of
        Some Post_NO_CHECK \<Rightarrow> ret None
      | Some UNLOCK_IF_SUCCEED \<Rightarrow>
          if failed then ret None
          else andThen (closeTransaction (logRepo v) c) (\<lambda>_. ret None)
      | Some UNLOCK_ALWAYS \<Rightarrow> andThen (closeTransaction (logRepo v) c) (\<lambda>_. ret None)
      | None \<Rightarrow>
          tryCatch (andThen (commitQuery v c) (\<lambda>_. ret None))
            (\<lambda>e. andThen (closeTransaction (logRepo v) c) (\<lambda>_. ret (Some e))))"

definition rpcCall ::
  "('w, 'e) rpc_env \<Rightarrow> conn \<Rightarrow> ('w, 'e, 'a) action \<Rightarrow> string \<Rightarrow> string \<Rightarrow> ('w, 'e, 'a) action" where
  "rpcCall v c method pre post =
     andThen (preTransaction v c (preOf pre)) (\<lambda>_.
       andThen (attempt method) (\<lambda>res.
         andThen (postTransaction v c (postOf post) (case res of Inl _ \<Rightarrow> True | Inr _ \<Rightarrow> False)) (\<lambda>commitErr.
           (case (res, commitErr) of
              (Inl rpcErr, Some ce) \<Rightarrow> throw (withMsg v (mergeErrorMessages (msgOf v) [rpcErr, ce]) rpcErr)
            | (Inl rpcErr, None) \<Rightarrow> throw rpcErr
            | (Inr _, Some ce) \<Rightarrow> throw ce
            | (Inr rpcRes, None) \<Rightarrow> ret rpcRes))))"

section \<open>The RPCs of \<open>iasql_functions\<close>\<close>

datatype rpc_name =
    IasqlApply | IasqlPreviewApply | IasqlSync | IasqlPreviewSync | IasqlModulesList | IasqlInstall
  | IasqlUninstall | IasqlCommit | IasqlPreview | IasqlRollback | IasqlBegin | IasqlGetErrors
  | IasqlGetSqlSince | IasqlGetSqlForTransaction | IasqlCreateReview | IasqlHelp

fun preTransactionCheck :: "rpc_name \<Rightarrow> pre_check" where
  "preTransactionCheck IasqlInstall = WAIT_FOR_LOCK"
| "preTransactionCheck IasqlUninstall = WAIT_FOR_LOCK"
| "preTransactionCheck IasqlBegin = WAIT_FOR_LOCK"
| "preTransactionCheck IasqlCommit = FAIL_IF_NOT_LOCKED"
| "preTransactionCheck IasqlPreview = FAIL_IF_NOT_LOCKED"
| "preTransactionCheck IasqlRollback = FAIL_IF_NOT_LOCKED"
| "preTransactionCheck _ = Pre_NO_CHECK"

fun postTransactionCheck :: "rpc_name \<Rightarrow> post_check" where
  "postTransactionCheck IasqlInstall = UNLOCK_ALWAYS"
| "postTransactionCheck IasqlUninstall = UNLOCK_ALWAYS"
| "postTransactionCheck IasqlCommit = UNLOCK_ALWAYS"
| "postTransactionCheck IasqlRollback = UNLOCK_ALWAYS"
| "postTransactionCheck _ = Post_NO_CHECK"

definition callRpc ::
  "('w, 'e) rpc_env \<Rightarrow> conn \<Rightarrow> rpc_name \<Rightarrow> ('w, 'e, 'a) action \<Rightarrow> ('w, 'e, 'a) action" where
  "callRpc v c n method =
     rpcCall v c method (preStr (preTransactionCheck n)) (postStr (postTransactionCheck n))"

section \<open>The protocol\<close>

context clocked_store
begin

lemma closeTransaction_closedIn:
  assumes "closeTransaction r c w = (Inr (), w')"
  shows "closedIn (rows w')"
proof -
  from assms obtain tx w2 l where "insertLog r (Some c) CLOSE_TRANSACTION tx None w2 = (Inr l, w')"
    by (auto simp: closeTransaction_def andThen_Inr_iff)
  note last = insertLog_last [OF this]
  then show ?thesis unfolding closedIn_def by (auto intro!: bexI [of _ l])
qed

end

lemma rpcCall_eq:
  "rpcCall v c method (preStr p) (postStr q) =
     andThen (preTransaction v c (Some p)) (\<lambda>_.
       andThen (attempt method) (\<lambda>res.
         andThen (postTransaction v c (Some q) (case res of Inl _ \<Rightarrow> True | Inr _ \<Rightarrow> False)) (\<lambda>commitErr.
           (case (res, commitErr) of
              (Inl rpcErr, Some ce) \<Rightarrow> throw (withMsg v (mergeErrorMessages (msgOf v) [rpcErr, ce]) rpcErr)
            | (Inl rpcErr, None) \<Rightarrow> throw rpcErr
            | (Inr _, Some ce) \<Rightarrow> throw ce
            | (Inr rpcRes, None) \<Rightarrow> ret rpcRes))))"
  by (simp add: rpcCall_def preOf_preStr postOf_postStr)

text \<open>
  A locked RPC runs on its own transaction and gives it back: when the call of an RPC that
  waits for the lock and always unlocks gets the lock, runs its method (to a result or an error) and
  closes the transaction, then the caller gets that result or error unchanged, the method ran while
  a transaction was open, and none is open at the end.
\<close>

theorem rpcCall_locked:
  assumes "clocked_store (logRepo v) rows"
    and "preTransactionCheck n = WAIT_FOR_LOCK" and "postTransactionCheck n = UNLOCK_ALWAYS"
    and "maybeOpenTransaction (logRepo v) c w = (Inr (), w1)"
    and "method w1 = (res, w2)"
    and "closeTransaction (logRepo v) c w2 = (Inr (), w3)"
  shows "callRpc v c n method w = (res, w3) \<and> openIn (rows w1) \<and> closedIn (rows w3)"
proof (intro conjI)
  show "callRpc v c n method w = (res, w3)"
    unfolding callRpc_def rpcCall_eq assms(2,3)
    using assms(4-6) by (cases res) (simp_all add: preTransaction_def postTransaction_def attempt_def andThen_apply)
  from assms(4) have "openLoop (logRepo v) c 120 w = (Inr True, w1)"
    by (auto simp: maybeOpenTransaction_def andThen_Inr_iff split: if_splits)
  from openLoop_free [OF assms(1) this] show "openIn (rows w1)"
    unfolding openIn_def by (auto intro!: bexI)
  show "closedIn (rows w3)"
    by (rule clocked_store.closeTransaction_closedIn [OF assms(1,6)])
qed

text \<open>
  Commits, previews and rollbacks need \<open>iasql_begin\<close>: called while every transaction is closed,
  an RPC that must find the lock held throws, its method does not run, and the log is as before.
\<close>

theorem rpcCall_not_locked:
  assumes "audit_store (logRepo v) rows"
    and "preTransactionCheck n = FAIL_IF_NOT_LOCKED"
    and "closedIn (rows w)"
  shows "\<exists>e w'. callRpc v c n method w = (Inl e, w') \<and> rows w' = rows w \<and>
    (e = mkError (logRepo v) ''Cannot execute without calling iasql_begin() first'' \<or>
     isOpenTransaction (logRepo v) c w = (Inl e, w'))"
proof -
  obtain x w' where x: "isOpenTransaction (logRepo v) c w = (x, w')"
    by (rule prod.exhaust)
  have rows: "rows w' = rows w"
    using x audit_store.find_keeps [OF assms(1)]
    by (simp add: isOpenTransaction_def andThen_apply split: prod.splits sum.splits) (metis snd_conv)+
  show ?thesis
  proof (cases x)
    case (Inl e)
    with x rows show ?thesis
      unfolding callRpc_def rpcCall_eq assms(2) by (simp add: preTransaction_def andThen_apply)
  next
    case (Inr b)
    with audit_store.isOpenTransaction_reads(3) [OF assms(1)] x assms(3) have "\<not> b" by blast
    with x rows Inr show ?thesis
      unfolding callRpc_def rpcCall_eq assms(2) by (simp add: preTransaction_def andThen_apply)
  qed
qed

text \<open>
  The default protocol never loses an error: when no check is named, the method's error is
  thrown whatever the commit does, merged with the message of a failing commit, and a commit that fails
  after a successful method makes the call throw the commit's error.
\<close>

theorem rpcCall_default_errors:
  assumes "preOf pre = None" and "postOf post = None"
    and "beginQuery v c w = (Inr (), w1)" and "method w1 = (res, w2)"
    and "commitQuery v c w2 = (cres, w3)"
    and "\<And>ce. cres = Inl ce \<Longrightarrow> closeTransaction (logRepo v) c w3 = (Inr (), w4)"
  shows "rpcCall v c method pre post w =
    (case (res, cres) of
       (Inl e, Inl ce) \<Rightarrow> (Inl (withMsg v (mergeErrorMessages (msgOf v) [e, ce]) e), w4)
     | (Inl e, Inr _) \<Rightarrow> (Inl e, w3)
     | (Inr _, Inl ce) \<Rightarrow> (Inl ce, w4)
     | (Inr a, Inr _) \<Rightarrow> (Inr a, w3))"
  using assms
  by (cases res; cases cres)
    (simp_all add: rpcCall_def preTransaction_def postTransaction_def attempt_def andThen_apply tryCatch_apply)

definition demoEnv :: "(audit_log list, string) rpc_env" where
  "demoEnv = \<lparr> logRepo = tableRepo ''iasql'', beginQuery = (\<lambda>c. ret ()), commitQuery = (\<lambda>c. throw ''no''),
     msgOf = Some, withMsg = (\<lambda>m e. m) \<rparr>"

theorem rpcCall_locked_witness:
  "\<exists>w3. callRpc demoEnv 0 IasqlInstall (throw ''boom'') [] = (Inl ''boom'', w3) \<and> closedIn w3"
proof -
  have env: "logRepo demoEnv = tableRepo ''iasql''" by (simp add: demoEnv_def)
  let ?w1 = "[newLog (tableRepo ''iasql'') OPEN_TRANSACTION (Some ''t0'') None 1\<lparr> logId := Some 1 \<rparr>]"
  obtain w3 where w3: "closeTransaction (tableRepo ''iasql'') 0 ?w1 = (Inr (), w3)"
    by (rule returnsE [OF table_closes [of "''iasql''" 0], of ?w1]) auto
  have "callRpc demoEnv 0 IasqlInstall (throw ''boom'') [] = (Inl ''boom'', w3) \<and>
      openIn ?w1 \<and> closedIn w3"
  proof (rule rpcCall_locked)
    show "clocked_store (logRepo demoEnv) (\<lambda>rs. rs)"
      unfolding env by (rule table.clocked_store_axioms)
    show "maybeOpenTransaction (logRepo demoEnv) 0 [] = (Inr (), ?w1)"
      unfolding env by (rule empty_opens)
    show "closeTransaction (logRepo demoEnv) 0 ?w1 = (Inr (), w3)"
      unfolding env by (rule w3)
  qed simp_all
  then show ?thesis by blast
qed

theorem rpcCall_not_locked_witness:
  "\<exists>e. fst (callRpc demoEnv 0 IasqlCommit (ret ()) []) = Inl e"
proof -
  have "\<exists>e w'. callRpc demoEnv 0 IasqlCommit (ret ()) [] = (Inl e, w') \<and> w' = [] \<and>
    (e = mkError (logRepo demoEnv) ''Cannot execute without calling iasql_begin() first'' \<or>
     isOpenTransaction (logRepo demoEnv) 0 [] = (Inl e, w'))"
    by (rule rpcCall_not_locked) (simp_all add: demoEnv_def table.audit_store_axioms closedIn_def)
  then show ?thesis by force
qed

theorem rpcCall_default_errors_witness:
  "\<exists>w4. rpcCall demoEnv 0 (throw ''boom'' :: (audit_log list, string, unit) action) ''undefined'' ''undefined'' [] =
     (Inl (mergeErrorMessages Some [''boom'', ''no'']), w4)"
proof -
  obtain w4 where "closeTransaction (tableRepo ''iasql'') 0 [] = (Inr (), w4)"
    by (rule returnsE [OF table_closes [of "''iasql''" 0], of "[]"]) auto
  then have "rpcCall demoEnv 0 (throw ''boom'' :: (audit_log list, string, unit) action) ''undefined'' ''undefined'' [] =
    (case (Inl ''boom'' :: string + unit, Inl ''no'' :: string + unit) of
       (Inl e, Inl ce) \<Rightarrow> (Inl (withMsg demoEnv (mergeErrorMessages (msgOf demoEnv) [e, ce]) e), w4)
     | (Inl e, Inr _) \<Rightarrow> (Inl e, [])
     | (Inr _, Inl ce) \<Rightarrow> (Inl ce, w4)
     | (Inr a, Inr _) \<Rightarrow> (Inr a, []))"
    by (intro rpcCall_default_errors) (simp_all add: demoEnv_def preOf_def postOf_def)
  then show ?thesis by (auto simp: demoEnv_def)
qed

end
