(* ===== verification/Commit.thy ===== *)
theory Commit
  imports Reconcile Rpc_Call
begin

text \<open>
  \<open>commit\<close>, \<open>rollback\<close> and \<open>revert\<close> of \<open>src/src/modules/iasql_functions/iasql.ts\<close>: the bracket of log
  entries around a run of the reconciliation loops, what is applied, in which order, what happens when a
  phase fails, and which error comes out.

  The functions are actions that may not return (\<open>paction\<close>), because the loops they call may not.
  \<open>commit\<close> and \<open>rollback\<close> share their outer statements (\<open>bracketed\<close>).  Whatever is thrown
  counts as truthy: \<open>throw undefined\<close> in a mapper, which the code would take for success, is left out.
\<close>

type_synonym ('w, 'a) peop = "((jsval, 'w engine) ctx, js_err thrown, 'a) paction"

section \<open>Errors\<close>

text \<open>The text that \<open>logErrSentry\<close> returns.\<close>

fun sentryMessage :: "js_err thrown \<Rightarrow> string" where
  "sentryMessage (ErrObj (Err m)) = m"
| "sentryMessage (ErrObj (Dep m None _)) = m"
| "sentryMessage (ErrObj (Dep m (Some _) failures)) = mergeErrorMessages Some failures"
| "sentryMessage NonObject = []"

definition logErrSentry :: "(string \<Rightarrow> string) option \<Rightarrow> js_err thrown \<Rightarrow> string" where
  "logErrSentry snt e =
     (let m = sentryMessage e in
      case snt of None \<Rightarrow> m
      | Some capture \<Rightarrow> m @ nl # ''Please provide the following error ID if reporting it to the IaSQL team: '' @ capture m)"

fun thrownMessage :: "js_err thrown \<Rightarrow> string option" where   \<comment> \<open>\<open>e?.message\<close>\<close>
  "thrownMessage (ErrObj e) = Some (errMessage e)"
| "thrownMessage NonObject = None"

fun renamed :: "string \<Rightarrow> js_err thrown \<Rightarrow> js_err thrown" where   \<comment> \<open>\<open>err.message = m; throw err\<close>\<close>
  "renamed m (ErrObj e) = ErrObj (setMessage m e)"
| "renamed m NonObject = ErrObj (Err ''TypeError'')"

section \<open>\<open>revert\<close>\<close>

definition logHere :: "'w engine_env \<Rightarrow> change_type \<Rightarrow> string option \<Rightarrow> ('w, unit) eop" where
  "logHere v ct tx = andThen currentOrm (\<lambda>c.
     andThen (outsideOp (insertLog (logs v) (Some c) ct tx None)) (\<lambda>_. ret ()))"

text \<open>
  \<open>recreateQueries\<close> with \<open>inverse\<close> and without sub-queries never needs fuel
  (\<open>augmentValue_plain\<close>).
\<close>

fun unstop :: "'e \<Rightarrow> 'e stop \<Rightarrow> 'e" where
  "unstop e (Thrown e') = e'"
| "unstop e OutOfFuel = e"

definition inverseQueries ::
  "'w engine_env \<Rightarrow> audit_log list \<Rightarrow> ('w emapper emodule) obj \<Rightarrow> conn \<Rightarrow> ('w, js_err thrown, string list) action" where
  "inverseQueries v ls idx c = (\<lambda>w.
     case recreateQueries 0 v ls idx c True False w of
       (Inl e, w') \<Rightarrow> (Inl (unstop (typeError v) e), w') | (Inr qs, w') \<Rightarrow> (Inr qs, w'))"

definition applyInverseQueries ::
  "'w engine_env \<Rightarrow> string list \<Rightarrow> 'w emapper emodule list \<Rightarrow> ('w, plan_row list) peop" where
  "applyInverseQueries v qs mods =
     pThen (always (eachM (\<lambda>q. andThen currentOrm (\<lambda>c. attempt (outsideOp (runSql v c q)))) qs)) (\<lambda>_.
       applyChanges v mods True False None)"

definition revert :: "'w engine_env \<Rightarrow> 'w emapper emodule list \<Rightarrow> string option \<Rightarrow> ('w, unit) peop" where
  "revert v mods tx =
     pThen (always (logHere v START_REVERT tx)) (\<lambda>_.
       pFinally
         (pThen (always currentOrm) (\<lambda>c.
           pThen (always (outsideOp (getChangeLogsSinceLastBegin (logs v) c))) (\<lambda>ls.
             pThen (always (outsideOp (inverseQueries v ls (indexModsByTable mods) c))) (\<lambda>qs.
               pThen (applyInverseQueries v qs mods) (\<lambda>_. always (ret ()))))))
         (andThen currentOrm (\<lambda>c.
           andThen (outsideOp (updateIasqlRecordsSince (logs v) START_REVERT (Some c) tx)) (\<lambda>_.
             logHere v END_REVERT tx))))"

section \<open>The phases of a commit\<close>

definition noCrupdes :: crupde_operations where
  "noCrupdes = \<lparr> toCreate = [], toUpdate = [], toReplace = [], toDelete = [] \<rparr>"

definition resetCrupdes :: "('w, unit) eop" where
  "resetCrupdes = onEngine (modifyS (\<lambda>g. g\<lparr> crupdes := noCrupdes \<rparr>))"

text \<open>After the apply phases: revert when they failed, then synchronise, then merge the errors.\<close>

definition afterApply ::
  "'w engine_env \<Rightarrow> bool \<Rightarrow> bool \<Rightarrow> 'w emapper emodule list \<Rightarrow> string option \<Rightarrow> js_err thrown option
     \<Rightarrow> ('w, plan_row list) peop" where
  "afterApply v dryRun force installedSorted tx applyErr =
     pThen (case applyErr of
              None \<Rightarrow> always (ret None)
            | Some _ \<Rightarrow> pThen (pAttempt (revert v installedSorted tx))
                (\<lambda>r. always (ret (case r of Inl e \<Rightarrow> Some e | Inr _ \<Rightarrow> None)))) (\<lambda>revertErr.
       pThen (pAttempt (sync v installedSorted force dryRun)) (\<lambda>res.
         let syncErr = (case res of Inl e \<Rightarrow> Some e | Inr _ \<Rightarrow> None);
             errs = optList syncErr @ optList revertErr @ optList applyErr
         in case (errs, res) of
              (err # _, _) \<Rightarrow> always (throw (renamed (mergeErrorMessages thrownMessage errs) err))
            | ([], Inr syncRes) \<Rightarrow> always (ret syncRes)
            | ([], Inl e) \<Rightarrow> always (throw e)))"

text \<open>
  First the modules with changes (none is a success without a result), then, when that failed, all
  installed modules.  A dry run that succeeds on the modules with changes returns its plan at once.
\<close>

definition commitPhases ::
  "'w engine_env \<Rightarrow> bool \<Rightarrow> bool \<Rightarrow> bool \<Rightarrow> 'w emapper emodule list \<Rightarrow> 'w emapper emodule list \<Rightarrow> audit_log list
     \<Rightarrow> string option \<Rightarrow> ('w, plan_row list) peop" where
  "commitPhases v dryRun force anyChanged changedSorted installedSorted changes tx =
     pThen (if anyChanged
            then pThen (pAttempt (applyChanges v changedSorted force dryRun (Some changes)))
                   (\<lambda>r. always (ret (map_sum id Some r)))
            else always (ret (Inr None))) (\<lambda>r.
       (case r of
          Inr (Some rows) \<Rightarrow>
            (if dryRun then always (ret rows) else afterApply v dryRun force installedSorted tx None)
        | Inr None \<Rightarrow> afterApply v dryRun force installedSorted tx None
        | Inl _ \<Rightarrow>
            pThen (pAttempt (applyChanges v installedSorted force dryRun None)) (\<lambda>r2.
              afterApply v dryRun force installedSorted tx
                (case r2 of Inl e \<Rightarrow> Some e | Inr _ \<Rightarrow> None))))"

section \<open>The bracket around a run\<close>

fun startType :: "bool \<Rightarrow> change_type" where
  "startType True = PREVIEW_START_COMMIT"
| "startType False = START_COMMIT"

fun endType :: "bool \<Rightarrow> change_type" where
  "endType True = PREVIEW_END_COMMIT"
| "endType False = END_COMMIT"

definition acquire :: "'w engine_env \<Rightarrow> conn option \<Rightarrow> ('w, conn) eop" where
  "acquire v ormOpt =
     andThen (case ormOpt of Some c \<Rightarrow> ret c | None \<Rightarrow> onEngine (createConn (connect v)))
       (\<lambda>orm. andThen (setOrm orm) (\<lambda>_. ret orm))"

definition admit :: "'w engine_env \<Rightarrow> bool \<Rightarrow> conn \<Rightarrow> ('w, string option) eop" where
  "admit v force orm =
     andThen (outsideOp (isCommitRunning (logs v) orm)) (\<lambda>running.
       if \<not> force \<and> running
       then throw (ErrObj (Err ''Another execution is in process. Please try again later.''))
       else outsideOp (getCurrentTransactionId (logs v) orm))"

text \<open>
  The statements of the \<open>try\<close> block, with the values that the variables \<open>orm\<close> and
  \<open>currentTransactionId\<close> have when it is left.
\<close>

definition tryBody ::
  "'w engine_env \<Rightarrow> bool \<Rightarrow> conn option \<Rightarrow> (conn \<Rightarrow> string option \<Rightarrow> ('w, 'a) peop)
     \<Rightarrow> ('w, (js_err thrown + 'a) \<times> conn option \<times> string option) peop" where
  "tryBody v force ormOpt body =
     pThen (pAttempt (always (acquire v ormOpt))) (\<lambda>r1.
       (case r1 of
          Inl e \<Rightarrow> always (ret (Inl e, None, None))
        | Inr orm \<Rightarrow>
            pThen (pAttempt (always (admit v force orm))) (\<lambda>r2.
              (case r2 of
                 Inl e \<Rightarrow> always (ret (Inl e, Some orm, None))
               | Inr tx \<Rightarrow>
                   pThen (pAttempt (body orm tx)) (\<lambda>r3. always (ret (r3, Some orm, tx)))))))"

text \<open>\<open>orm?.dropConn()\<close> is not awaited, so its failure goes nowhere.\<close>

definition leave ::
  "'w engine_env \<Rightarrow> bool \<Rightarrow> conn option \<Rightarrow> conn \<Rightarrow> conn option \<Rightarrow> string option \<Rightarrow> ('w, unit) eop" where
  "leave v dryRun ormOpt parentOrm orm tx =
     andThen (outsideOp (updateIasqlRecordsSince (logs v) (startType dryRun) orm tx)) (\<lambda>_.
       andThen (outsideOp (insertLog (logs v) orm (endType dryRun) tx None)) (\<lambda>_.
         andThen (case orm of
                    Some c \<Rightarrow> (if orm \<noteq> ormOpt
                      then andThen (attempt (onEngine (dropConn (closeConn v) c))) (\<lambda>_. ret ()) else ret ())
                  | None \<Rightarrow> ret ()) (\<lambda>_.
           setOrm parentOrm)))"

definition bracketed ::
  "'w engine_env \<Rightarrow> bool \<Rightarrow> bool \<Rightarrow> conn option \<Rightarrow> ('w emapper emodule list \<Rightarrow> string \<Rightarrow> conn \<Rightarrow> string option \<Rightarrow> ('w, 'a) peop)
     \<Rightarrow> ('w, 'a) peop" where
  "bracketed v dryRun force ormOpt body =
     pThen (always (outsideOp (throwIfUpgrading v force))) (\<lambda>_.
       pThen (always (outsideOp (versionString v))) (\<lambda>version.
         pThen (always (outsideOp (getImportedModules v version force))) (\<lambda>imported.
           pThen (always currentOrm) (\<lambda>parentOrm.
             pThen (tryBody v force ormOpt (body imported version)) (\<lambda>(r, orm, tx).
               always (tryFinally
                 (case r of
                    Inl e \<Rightarrow> andThen (outsideOp (insertErrorLog (logs v) orm (logErrSentry (sentry v) e) tx)) (\<lambda>_. throw e)
                  | Inr x \<Rightarrow> ret x)
                 (leave v dryRun ormOpt parentOrm orm tx)))))))"

section \<open>\<open>commit\<close> and \<open>rollback\<close>\<close>

definition setStart :: "bool \<Rightarrow> audit_log \<Rightarrow> ('w, unit) eop" where
  "setStart dryRun l = onEngine (modifyS (\<lambda>g.
     if dryRun then g\<lparr> previewStartCommit := Some l \<rparr> else g\<lparr> startCommit := Some l \<rparr>))"

text \<open>The changes to commit, from the new start entry on: logged, looked up, given the transaction's id.\<close>

definition startRun :: "'w engine_env \<Rightarrow> bool \<Rightarrow> conn \<Rightarrow> string option \<Rightarrow> ('w, audit_log list) eop" where
  "startRun v dryRun orm tx =
     andThen (outsideOp (insertLog (logs v) (Some orm) (startType dryRun) tx None)) (\<lambda>newStart.
       andThen (setStart dryRun newStart) (\<lambda>_.
         andThen (outsideOp (getPreviousStartCommit (logs v) orm (logTs newStart))) (\<lambda>prev.
           andThen (outsideOp (getChangesToCommit (logs v) orm newStart prev)) (\<lambda>changes.
             andThen (outsideOp (associateTransaction (logs v) (Some orm) changes tx)) (\<lambda>_.
               ret changes)))))"

definition sorting :: "'m emodule option list \<Rightarrow> string list \<Rightarrow> ('s, 'e, 'm emodule list) paction" where
  "sorting ms names = (\<lambda>s. case sortModules ms names of None \<Rightarrow> None | Some ms' \<Rightarrow> Some (Inr ms', s))"

definition commitBody ::
  "'w engine_env \<Rightarrow> bool \<Rightarrow> bool \<Rightarrow> string option \<Rightarrow> 'w emapper emodule list \<Rightarrow> string \<Rightarrow> conn \<Rightarrow> string option
     \<Rightarrow> ('w, plan_row list) peop" where
  "commitBody v dryRun force note imported version orm tx =
     pThen (always (if truthyStr note = None then ret ()
            else andThen (outsideOp (insertLog (logs v) (Some orm) SET_COMMIT_MESSAGE tx note)) (\<lambda>_. ret ()))) (\<lambda>_.
       pThen (always (startRun v dryRun orm tx)) (\<lambda>changes.
         pThen (always (outsideOp (moduleNames v orm))) (\<lambda>names.
           let installed = installedOf imported names;
               withChanges = getModulesWithChanges imported installed names (uniq (map tableName changes)) version in
           pThen (sorting withChanges names) (\<lambda>changedSorted.
             pThen (sorting (map Some installed) names) (\<lambda>installedSorted.
               pThen (always resetCrupdes) (\<lambda>_.
                 commitPhases v dryRun force (withChanges \<noteq> []) changedSorted installedSorted changes tx))))))"

definition commit ::
  "'w engine_env \<Rightarrow> bool \<Rightarrow> bool \<Rightarrow> conn option \<Rightarrow> string option \<Rightarrow> ('w, plan_row list) peop" where
  "commit v dryRun force ormOpt note =
     bracketed v dryRun force ormOpt (commitBody v dryRun force note)"

definition rollbackBody ::
  "'w engine_env \<Rightarrow> bool \<Rightarrow> 'w emapper emodule list \<Rightarrow> string \<Rightarrow> conn \<Rightarrow> string option \<Rightarrow> ('w, plan_row list) peop" where
  "rollbackBody v force imported version orm tx =
     pThen (always (startRun v False orm tx)) (\<lambda>_.
       pThen (always (outsideOp (moduleNames v orm))) (\<lambda>names.
         pThen (sorting (map Some (installedOf imported names)) names) (\<lambda>installedSorted.
           pThen (always resetCrupdes) (\<lambda>_.
             sync v installedSorted force False))))"

definition rollback :: "'w engine_env \<Rightarrow> bool \<Rightarrow> conn option \<Rightarrow> ('w, plan_row list) peop" where
  "rollback v force ormOpt = bracketed v False force ormOpt (rollbackBody v force)"

section \<open>What a returning run has done\<close>

lemma outsideOp_frame:
  "outsideOp m s = (x, s') \<Longrightarrow> heap s' = heap s \<and> memoDb s' = memoDb s \<and> memoCloud s' = memoCloud s \<and>
     ctxOrm (world s') = ctxOrm (world s) \<and> pool (world s') = pool (world s) \<and>
     m (outside (world s)) = (x, outside (world s'))"
  by (auto simp: outsideOp_def onEngine_def inWorld_def split: prod.splits)

lemma setOrm_apply: "setOrm c s = (Inr (), s\<lparr> world := (world s)\<lparr> ctxOrm := c \<rparr> \<rparr>)"
  by (simp add: setOrm_def onEngine_def)

lemma leave_frame:
  assumes "leave v dryRun ormOpt parentOrm orm tx s = (Inr (), s')"
  shows "heap s' = heap s \<and> memoDb s' = memoDb s \<and> memoCloud s' = memoCloud s \<and> ctxOrm (world s') = parentOrm"
proof -
  have drop: "heap s2 = heap s1 \<and> memoDb s2 = memoDb s1 \<and> memoCloud s2 = memoCloud s1"
    if "attempt (onEngine (dropConn (closeConn v) c)) s1 = (x, s2)" for c x s1 s2
    using that by (auto simp: attempt_apply onEngine_def split: prod.splits)
  show ?thesis
    using assms
    by (auto simp: leave_def andThen_Inr_iff setOrm_apply dest!: outsideOp_frame drop split: option.splits if_splits)
qed

lemma tryBody_Inr:
  assumes "tryBody v force ormOpt body s = Some (Inr (Inr x, orm, tx), s')"
  shows "\<exists>c s1. orm = Some c \<and> body c tx s1 = Some (Inr x, s')"
  using assms
  by (auto simp: tryBody_def pThen_pAttempt_iff)

lemma bracketed_returns:
  assumes "bracketed v dryRun force ormOpt body s = Some (Inr x, s')"
  obtains version c tx s1 s2 where "body (allModules v) version c tx s1 = Some (Inr x, s2)"
    "leave v dryRun ormOpt (ctxOrm (world s)) (Some c) tx s2 = (Inr (), s')"
proof -
  from assms obtain version imported s0 s1 s2 where u: "outsideOp (throwIfUpgrading v force) s = (Inr (), s0)"
    and ver: "outsideOp (versionString v) s0 = (Inr version, s1)"
    and imp: "outsideOp (getImportedModules v version force) s1 = (Inr imported, s2)"
    and more: "pThen (tryBody v force ormOpt (body imported version)) (\<lambda>(r, orm, tx).
        always (tryFinally
          (case r of
             Inl e \<Rightarrow> andThen (outsideOp (insertErrorLog (logs v) orm (logErrSentry (sentry v) e) tx)) (\<lambda>_. throw e)
           | Inr x \<Rightarrow> ret x)
          (leave v dryRun ormOpt (ctxOrm (world s2)) orm tx))) s2 = Some (Inr x, s')"
    by (auto simp: bracketed_def pThen_Inr_iff currentOrm_def)
  have frame: "ctxOrm (world s2) = ctxOrm (world s)"
    using u ver imp by (auto dest!: outsideOp_frame)
  from more obtain r orm tx s3 where body: "tryBody v force ormOpt (body imported version) s2 = Some (Inr (r, orm, tx), s3)"
    and fin: "tryFinally (case r of
          Inl e \<Rightarrow> andThen (outsideOp (insertErrorLog (logs v) orm (logErrSentry (sentry v) e) tx)) (\<lambda>_. throw e)
        | Inr x \<Rightarrow> ret x) (leave v dryRun ormOpt (ctxOrm (world s2)) orm tx) s3 = (Inr x, s')"
    by (auto simp: pThen_Inr_iff)
  have "imported = allModules v"
    using imp by (auto simp: getImportedModules_def andThen_Inr_iff dest!: outsideOp_frame split: if_splits)
  moreover have "r = Inr x" and lv: "leave v dryRun ormOpt (ctxOrm (world s2)) orm tx s3 = (Inr (), s')"
    using fin by (cases r; auto simp: tryFinally_apply andThen_apply split: prod.splits sum.splits)+
  ultimately show thesis
    using body lv frame tryBody_Inr [of v force ormOpt "body imported version" s2 x orm tx s3] that by auto
qed

lemma afterApply_returns:
  assumes "afterApply v dryRun force mods tx applyErr s = Some (Inr rows, s')"
  shows "applyErr = None \<and> sync v mods force dryRun s = Some (Inr rows, s')"
  using assms
  by (cases applyErr)
     (auto simp: afterApply_def pThen_assoc pThen_pAttempt_iff Let_def optList_def simp del: ret_apply throw_apply,
      simp_all)

lemma phases_return:
  assumes "commitPhases v False force anyChanged changedSorted installedSorted changes tx s = Some (Inr rows, s')"
  shows "\<exists>s1. ((\<not> anyChanged \<and> s1 = s) \<or>
      (\<exists>r. applyChanges v changedSorted force False (Some changes) s = Some (Inr r, s1)) \<or>
      (\<exists>e s0 r. applyChanges v changedSorted force False (Some changes) s = Some (Inl e, s0) \<and>
         applyChanges v installedSorted force False None s0 = Some (Inr r, s1))) \<and>
    sync v installedSorted force False s1 = Some (Inr rows, s')"
proof -
  let ?rest = "\<lambda>r :: js_err thrown + plan_row list option. case r of
          Inr (Some rows) \<Rightarrow>
            (if False then always (ret rows) else afterApply v False force installedSorted tx None)
        | Inr None \<Rightarrow> afterApply v False force installedSorted tx None
        | Inl _ \<Rightarrow>
            pThen (pAttempt (applyChanges v installedSorted force False None)) (\<lambda>r2.
              afterApply v False force installedSorted tx
                (case r2 of Inl e \<Rightarrow> Some e | Inr _ \<Rightarrow> None))"
  have eq: "commitPhases v False force anyChanged changedSorted installedSorted changes tx =
      (if anyChanged
       then pThen (pAttempt (applyChanges v changedSorted force False (Some changes))) (\<lambda>r. ?rest (map_sum id Some r))
       else ?rest (Inr None))"
    by (simp add: commitPhases_def pThen_assoc del: ret_apply)
  have "(if anyChanged
       then pThen (pAttempt (applyChanges v changedSorted force False (Some changes))) (\<lambda>r. ?rest (map_sum id Some r))
       else ?rest (Inr None)) s = Some (Inr rows, s')"
    using assms by (simp only: eq)
  then show ?thesis
    by (auto simp: pThen_pAttempt_iff dest!: afterApply_returns split: if_splits)
qed



lemma leave_rows:
  assumes "clocked_store (logs v) rows" and "\<And>c w. rows (snd (closeConn v c w)) = rows w"
    and "leave v dryRun ormOpt parentOrm (Some c) tx s = (Inr (), s')"
  obtains l rs s1 where "outsideOp (updateIasqlRecordsSince (logs v) (startType dryRun) (Some c) tx) s = (Inr (), s1)"
    "rs = rows (outside (world s1))" "rows (outside (world s')) = rs @ [l]" "changeType l = endType dryRun"
    "logUser l = dbUser (logs v)" "transactionId l = truthyStr tx" "\<forall>x\<in>set rs. logTs x < logTs l"
proof -
  from assms(3) obtain s1 l s2 s3 where upd: "outsideOp (updateIasqlRecordsSince (logs v) (startType dryRun) (Some c) tx) s = (Inr (), s1)"
    and ins: "outsideOp (insertLog (logs v) (Some c) (endType dryRun) tx None) s1 = (Inr l, s2)"
    and drop: "(if Some c \<noteq> ormOpt then andThen (attempt (onEngine (dropConn (closeConn v) c))) (\<lambda>_. ret ()) else ret ()) s2
        = (Inr (), s3)"
    and s': "s' = s3\<lparr> world := (world s3)\<lparr> ctxOrm := parentOrm \<rparr> \<rparr>"
    by (auto simp: leave_def andThen_Inr_iff setOrm_apply)
  have "rows (snd (closeConn v c w)) = rows w" for w by (rule assms(2))
  with drop have "rows (outside (world s3)) = rows (outside (world s2))"
    by (auto simp: andThen_apply attempt_apply onEngine_def dropConn_def inWorld_def
        split: if_splits prod.splits sum.splits dest: arg_cong [of _ _ snd]) (metis snd_conv)+
  moreover note clocked_store.insertLog_last [OF assms(1) outsideOp_frame [OF ins, THEN conjunct2, THEN conjunct2,
    THEN conjunct2, THEN conjunct2, THEN conjunct2]]
  ultimately show thesis
    using upd s' by (intro that [of s1 _ l]) auto
qed

text \<open>
  C38. Every run of \<open>commit\<close> or \<open>rollback\<close> that returns is closed in the log: its end entry, written by
  the engine, is the newest row of the table.
\<close>

theorem bracket_ends:
  assumes "clocked_store (logs v) rows" and "\<And>c w. rows (snd (closeConn v c w)) = rows w"
    and "bracketed v dryRun force ormOpt body s = Some (Inr x, s')"
  shows "\<exists>rs l. rows (outside (world s')) = rs @ [l] \<and> changeType l = endType dryRun \<and>
    logUser l = dbUser (logs v) \<and> (\<forall>r\<in>set rs. logTs r < logTs l)"
proof -
  from bracketed_returns [OF assms(3)] obtain c tx s2 where
    "leave v dryRun ormOpt (ctxOrm (world s)) (Some c) tx s2 = (Inr (), s')" by blast
  from leave_rows [OF assms(1,2) this] show ?thesis by blast
qed

context clocked_store
begin

lemma insertErrorLog_last:
  assumes "insertErrorLog r (Some c) err tx w = (Inr (), w')"
  obtains l where "rows w' = rows w @ [l]" "changeType l = ERROR" "message l = Some err"
    "transactionId l = truthyStr tx" "logId l \<noteq> None"
proof -
  obtain t w1 where t: "newDate r w = (t, w1)" by (rule prod.exhaust)
  then have w1: "rows w1 = rows w" using date_keeps [of w] by simp
  let ?l = "newLog r ERROR tx (Some err) t"
  from assms t obtain saved where s: "saveIf r (Some c) [?l] w1 = (Inr saved, w')"
    by (auto simp: insertErrorLog_def drawing_def andThen_Inr_iff)
  have "logId ?l = None" by (simp add: newLog_def)
  from saved_one [OF s this] w1 obtain i where "rows w' = rows w @ [?l\<lparr> logId := Some i \<rparr>]" by metis
  then show thesis by (rule that) (simp_all add: newLog_def)
qed

end

lemma updateIasqlRecordsSince_keeps_errors:
  assumes "clocked_store r rows" and "wfRows (rows w)" and "updateIasqlRecordsSince r ct (Some c) tx w = (Inr (), w')"
    and "l \<in> set (rows w)" "changeType l = ERROR"
  shows "l \<in> set (rows w')"
proof -
  have "audit_store r rows" using assms(1) by (rule clocked_store.axioms(1))
  from audit_store.updateIasqlRecordsSince_rows [OF this assms(2,3)]
  consider "rows w' = rows w"
    | t where "rows w' = map (\<lambda>x. if pendingSince r t x then stamp tx x else x) (rows w)" by blast
  then show ?thesis
  proof cases
    case 1
    with assms(4) show ?thesis by simp
  next
    case 2
    have "(if pendingSince r t l then stamp tx l else l) = l"
      using assms(5) by (simp add: pendingSince_def)
    with 2 assms(4) show ?thesis
      using image_eqI [of l "\<lambda>x. if pendingSince r t x then stamp tx x else x" l "set (rows w)"] by simp
  qed
qed

lemma bracketed_threw:
  assumes "outsideOp (throwIfUpgrading v force) s = (Inr (), s0)"
    and "outsideOp (versionString v) s0 = (Inr version, s1)"
    and "outsideOp (getImportedModules v version force) s1 = (Inr imported, s2)"
    and "tryBody v force ormOpt (body imported version) s2 = Some (Inr (Inl e, Some c, tx), s3)"
    and "outsideOp (insertErrorLog (logs v) (Some c) (logErrSentry (sentry v) e) tx) s3 = (Inr (), s4)"
    and "leave v dryRun ormOpt (ctxOrm (world s)) (Some c) tx s4 = (Inr (), s')"
  shows "bracketed v dryRun force ormOpt body s = Some (Inl e, s')"
proof -
  have "ctxOrm (world s2) = ctxOrm (world s)"
    using assms(1-3) by (auto dest!: outsideOp_frame)
  with assms show ?thesis
    by (simp add: bracketed_def pThen_apply currentOrm_def tryFinally_apply)
qed

text \<open>
  A failure is logged and thrown: when the work between the brackets throws \<open>e\<close> and the writes to
  the log succeed, then \<open>e\<close> itself is thrown after an \<open>ERROR\<close> row with its message, under the transaction's
  id, and the end entry were written, and the caller has its connection back.
\<close>

theorem bracket_logs_failure:
  assumes "clocked_store (logs v) rows" and "\<And>c w. rows (snd (closeConn v c w)) = rows w"
    and "outsideOp (throwIfUpgrading v force) s = (Inr (), s0)"
      "outsideOp (versionString v) s0 = (Inr version, s1)"
      "outsideOp (getImportedModules v version force) s1 = (Inr imported, s2)"
    and "tryBody v force ormOpt (body imported version) s2 = Some (Inr (Inl e, Some c, tx), s3)"
    and "outsideOp (insertErrorLog (logs v) (Some c) (logErrSentry (sentry v) e) tx) s3 = (Inr (), s4)"
      "wfRows (rows (outside (world s4)))"
    and "leave v dryRun ormOpt (ctxOrm (world s)) (Some c) tx s4 = (Inr (), s')"
  shows "bracketed v dryRun force ormOpt body s = Some (Inl e, s') \<and> ctxOrm (world s') = ctxOrm (world s) \<and>
    (\<exists>rs err l. rows (outside (world s')) = rs @ [l] \<and> changeType l = endType dryRun \<and> err \<in> set rs \<and>
       changeType err = ERROR \<and> message err = Some (logErrSentry (sentry v) e) \<and> transactionId err = truthyStr tx)"
proof (intro conjI)
  show "bracketed v dryRun force ormOpt body s = Some (Inl e, s')"
    using assms(3-7,9) by (rule bracketed_threw)
  show "ctxOrm (world s') = ctxOrm (world s)"
    using leave_frame [OF assms(9)] by simp
  from assms(7) have "insertErrorLog (logs v) (Some c) (logErrSentry (sentry v) e) tx (outside (world s3))
      = (Inr (), outside (world s4))" by (auto dest: outsideOp_frame)
  from clocked_store.insertErrorLog_last [OF assms(1) this] obtain err where
    "rows (outside (world s4)) = rows (outside (world s3)) @ [err]" and err2: "changeType err = ERROR"
      "message err = Some (logErrSentry (sentry v) e)" "transactionId err = truthyStr tx" .
  then have err: "err \<in> set (rows (outside (world s4)))" "changeType err = ERROR"
      "message err = Some (logErrSentry (sentry v) e)" "transactionId err = truthyStr tx" by simp_all
  obtain l rs s5 where
    upd: "outsideOp (updateIasqlRecordsSince (logs v) (startType dryRun) (Some c) tx) s4 = (Inr (), s5)"
    and l: "rs = rows (outside (world s5))" "rows (outside (world s')) = rs @ [l]" "changeType l = endType dryRun"
    by (rule leave_rows [OF assms(1,2,9)])
  have "updateIasqlRecordsSince (logs v) (startType dryRun) (Some c) tx (outside (world s4)) = (Inr (), outside (world s5))"
    using upd by (auto dest: outsideOp_frame)
  from updateIasqlRecordsSince_keeps_errors [OF assms(1,8) this err(1,2)]
  show "\<exists>rs err l. rows (outside (world s')) = rs @ [l] \<and> changeType l = endType dryRun \<and> err \<in> set rs \<and>
       changeType err = ERROR \<and> message err = Some (logErrSentry (sentry v) e) \<and> transactionId err = truthyStr tx"
    using l err(2-4) by blast
qed


section \<open>Examples\<close>

lemma demo_phases_run: "case commitPhases demoEngine False False False [] [demoModule] [] None (demoStart [''b'']) of
  Some (Inr rows, s') \<Rightarrow> True | _ \<Rightarrow> False"
  by code_simp


lemma outsideOp_reads: "(\<And>w. m w = (Inr x, w)) \<Longrightarrow> outsideOp m s = (Inr x, s)"
  by (simp add: outsideOp_def onEngine_def inWorld_def)

lemma quiet_insert: "insertLog quietRepo (Some c) ct tx msg w = (Inr (newLog quietRepo ct tx (truthyStr msg) 0), w)"
  by (simp add: insertLog_def drawing_def andThen_apply quietRepo_def saveIf_def orm_save_small updateNulls_def Let_def)

lemma quiet_finds:
  "findLogs quietRepo c q w = (Inr [], w)" "findOneLog quietRepo c q w = (Inr None, w)"
  by (simp_all add: quietRepo_def findOneLog_def andThen_apply)

lemma quiet_associate: "associateTransaction quietRepo (Some c) [] tx w = (Inr (), w)"
  by (simp add: associateTransaction_def saveIf_def andThen_apply orm_save_small updateNulls_def quietRepo_def)

lemmas quiet_simps = quiet_insert quiet_finds quiet_associate isCommitRunning_def getCurrentTransactionId_def
  getPreviousStartCommit_def getChangesToCommit_def updateIasqlRecordsSince_def andThen_apply

lemma demo_logs [simp]: "logs demoEngine = quietRepo"
  by (simp add: demoEngine_def)

lemma demo_admitted:
  "outsideOp (throwIfUpgrading demoEngine False) s = (Inr (), s)"
  "outsideOp (versionString demoEngine) s = (Inr ''1'', s)"
  "outsideOp (getImportedModules demoEngine ''1'' False) s = (Inr [demoModule], s)"
  "outsideOp (moduleNames demoEngine c) s = (Inr [''aws_s3@1''], s)"
  "admit demoEngine False c s = (Inr (Some ''<no-id-found>''), s)"
  by (rule outsideOp_reads,
      simp add: throwIfUpgrading_def getImportedModules_def demoEngine_def andThen_apply)+
     (simp add: admit_def andThen_apply outsideOp_def onEngine_def inWorld_def quiet_simps)

lemma demo_leave: "\<exists>s'. leave demoEngine False None p (Some c) tx s = (Inr (), s')"
  by (simp add: leave_def andThen_apply outsideOp_def onEngine_def inWorld_def quiet_simps attempt_apply
      dropConn_def setOrm_apply demoEngine_def)

text \<open>The state of the example once its start entry is written.\<close>

definition demoRunning :: "(jsval, string list engine) ctx" where
  "demoRunning = (demoStart [''b''])\<lparr> world := (world (demoStart [''b'']))\<lparr> pool := [1], nextConn := 2, ctxOrm := 1,
     startCommit := Some (newLog quietRepo START_COMMIT (Some ''<no-id-found>'') None 0), crupdes := noCrupdes \<rparr> \<rparr>"

lemma demo_started:
  "acquire demoEngine None (demoStart [''b'']) = (Inr 1, (demoStart [''b''])\<lparr> world :=
     (world (demoStart [''b'']))\<lparr> pool := [1], nextConn := 2, ctxOrm := 1 \<rparr> \<rparr>)"
  "startRun demoEngine False 1 (Some ''<no-id-found>'')
     ((demoStart [''b''])\<lparr> world := (world (demoStart [''b'']))\<lparr> pool := [1], nextConn := 2, ctxOrm := 1 \<rparr> \<rparr>) = (Inr [], demoRunning)"
  "resetCrupdes demoRunning = (Inr (), demoRunning)"
  by (simp_all add: acquire_def andThen_apply onEngine_def createConn_def inWorld_def setOrm_apply demoStart_def
      demoEngine_def startRun_def outsideOp_def quiet_simps setStart_def resetCrupdes_def demoRunning_def truthyStr_def
      noCrupdes_def)

lemma demo_running: "case commitPhases demoEngine False False False [] [demoModule] [] (Some ''<no-id-found>'') demoRunning of
  Some (Inr rows, s') \<Rightarrow> True | _ \<Rightarrow> False"
  by code_simp

lemma demo_sorted: "sortModules (map Some [demoModule]) [''aws_s3@1''] = Some [demoModule]" "installedOf [demoModule] [''aws_s3@1''] = [demoModule]"
  by (simp_all add: sortModules_def sortLoop.simps depsKnown_def demoModule_def installedOf_def modKey_def)

lemma tryBody_ran:
  "acquire v ormOpt s = (Inr c, s1) \<Longrightarrow> admit v force c s1 = (Inr tx, s2) \<Longrightarrow> body c tx s2 = Some (r, s3) \<Longrightarrow>
     tryBody v force ormOpt body s = Some (Inr (r, Some c, tx), s3)"
  by (simp add: tryBody_def pThen_apply pAttempt_apply)

lemma bracketed_ran:
  assumes "outsideOp (throwIfUpgrading v force) s = (Inr (), s)" "outsideOp (versionString v) s = (Inr version, s)"
    and "outsideOp (getImportedModules v version force) s = (Inr imported, s)"
    and "tryBody v force ormOpt (body imported version) s = Some (Inr (Inr x, orm, tx), s1)"
    and "leave v dryRun ormOpt (ctxOrm (world s)) orm tx s1 = (Inr (), s')"
  shows "bracketed v dryRun force ormOpt body s = Some (Inr x, s')"
  using assms by (simp add: bracketed_def pThen_apply currentOrm_def tryFinally_apply)

lemma demo_commit_runs: "\<exists>rows s'. commit demoEngine False False None None (demoStart [''b'']) = Some (Inr rows, s')"
proof -
  obtain rows s1 where ph: "commitPhases demoEngine False False False [] [demoModule] [] (Some ''<no-id-found>'') demoRunning
      = Some (Inr rows, s1)"
    using demo_running by (auto split: option.splits prod.splits sum.splits)
  have sorts: "sortModules [] names = Some []" for names :: "string list"
    by (simp add: sortModules_def)
  have "commitBody demoEngine False False None [demoModule] ''1'' 1 (Some ''<no-id-found>'')
     ((demoStart [''b''])\<lparr> world := (world (demoStart [''b'']))\<lparr> pool := [1], nextConn := 2, ctxOrm := 1 \<rparr> \<rparr>) = Some (Inr rows, s1)"
    using demo_started(2,3) demo_sorted ph
    by (simp add: commitBody_def pThen_apply demo_admitted sorting_def Let_def truthyStr_def getModulesWithChanges_def sorts)
  then have body: "tryBody demoEngine False None (commitBody demoEngine False False None [demoModule] ''1'') (demoStart [''b''])
      = Some (Inr (Inr rows, Some 1, Some ''<no-id-found>''), s1)"
    by (rule tryBody_ran [where body = "commitBody demoEngine False False None [demoModule] ''1''",
        OF demo_started(1) demo_admitted(5)])
  obtain s' where "leave demoEngine False None (ctxOrm (world (demoStart [''b'']))) (Some 1) (Some ''<no-id-found>'') s1 = (Inr (), s')"
    using demo_leave by blast
  from bracketed_ran [where body = "commitBody demoEngine False False None", OF demo_admitted(1-3) body this]
  show ?thesis unfolding commit_def by blast
qed



text \<open>An audit store whose errors are objects of the engine.\<close>

definition withErrors :: "('e \<Rightarrow> 'f) \<Rightarrow> ('w, 'e) repo \<Rightarrow> ('w, 'f) repo" where
  "withErrors f r = \<lparr>
     findLogs = (\<lambda>c q w. case findLogs r c q w of (Inl e, w') \<Rightarrow> (Inl (f e), w') | (Inr x, w') \<Rightarrow> (Inr x, w')),
     saveLogs = (\<lambda>c ls w. case saveLogs r c ls w of (Inl e, w') \<Rightarrow> (Inl (f e), w') | (Inr x, w') \<Rightarrow> (Inr x, w')),
     newDate = newDate r, uuidv4 = uuidv4 r, sleepSec = sleepSec r, dbUser = dbUser r,
     mkError = (\<lambda>m. f (mkError r m)) \<rparr>"

definition objRepo :: "(audit_log list, js_err thrown) repo" where
  "objRepo = withErrors (\<lambda>m. ErrObj (Err m)) (tableRepo ''iasql'')"

interpretation obj_table: clocked_store objRepo "\<lambda>rs. rs"
proof unfold_locales
  fix c q w ls w'
  assume "findLogs objRepo c q w = (Inr ls, w')"
  then show "answers q w ls"
    using table.find_answers [of "''iasql''" c q w ls w']
    by (auto simp: objRepo_def withErrors_def split: prod.splits sum.splits)
next
  fix c q w
  show "snd (findLogs objRepo c q w) = w"
    using table.find_keeps [of "''iasql''" c q w]
    by (auto simp: objRepo_def withErrors_def split: prod.splits sum.splits)
next
  fix c ls w ls' w'
  assume "saveLogs objRepo c ls w = (Inr ls', w')"
  then show "stored ls w ls' w'"
    using table.save_stores [of "''iasql''" c ls w ls' w']
    by (auto simp: objRepo_def withErrors_def split: prod.splits sum.splits)
next
  fix c ls w e w'
  assume "saveLogs objRepo c ls w = (Inl e, w')"
  then show "w' = w"
    using table.save_fails [of "''iasql''" c ls w _ w']
    by (auto simp: objRepo_def withErrors_def split: prod.splits sum.splits)
next
  show "snd (newDate objRepo w) = w" for w
    using table.date_keeps [of "''iasql''" w] by (simp add: objRepo_def withErrors_def)
next
  show "snd (uuidv4 objRepo w) = w" for w
    using table.uuid_keeps [of "''iasql''" w] by (simp add: objRepo_def withErrors_def)
next
  fix l :: audit_log and w
  assume "l \<in> set w"
  then show "logTs l < fst (newDate objRepo w)"
    using table.date_after [of l w "''iasql''"] by (simp add: objRepo_def withErrors_def)
qed

definition tableEngine :: "audit_log list engine_env" where
  "tableEngine = \<lparr> logs = objRepo, camelCase = id, snakeCase = id, metaOf = (\<lambda>_. demoMeta),
     findOneEnt = (\<lambda>c n wh. ret None), findEnt = (\<lambda>c n wh. ret []), moduleNames = (\<lambda>c. ret []),
     versionString = ret ''1'', upgrading = ret False, configVersion = ''1'', allModules = [],
     pgFormat = (\<lambda>tmpl args. tmpl), cloudIds = [], resolvable = [],
     connect = ret (), closeConn = (\<lambda>c. ret ()), runSql = (\<lambda>c q. ret ()), sentry = None \<rparr>"

definition tableStart :: "(jsval, audit_log list engine) ctx" where
  "tableStart = \<lparr> heap = (\<lambda>a. []), nextAddr = 0, memoDb = [], memoCloud = [],
     world = \<lparr> outside = [bracketRow 1 1 OPEN_TRANSACTION], pool = [], nextConn = 1, ctxOrm = 0, startCommit = None,
       previewStartCommit = None, crupdes = noCrupdes \<rparr> \<rparr>"

text \<open>A store that never fails, used by runs that never fail.\<close>

definition reliable :: "('w, 'e) repo \<Rightarrow> bool" where
  "reliable r \<longleftrightarrow> (\<forall>c q. returns (findLogs r c q)) \<and> (\<forall>c ls. returns (saveLogs r c ls))"

lemma reliable_drawing: "returns (drawing f)"
  by (simp add: returns_def drawing_def split: prod.splits)

lemma reliable_ops:
  assumes "reliable r"
  shows "returns (insertLog r orm ct tx msg)" "returns (insertErrorLog r orm err tx)"
    "returns (updateIasqlRecordsSince r ct orm tx)"
proof -
  have find: "returns (findLogs r c q)" and save: "returns (saveIf r orm ls)" for c q orm ls
    using assms by (auto simp: reliable_def saveIf_def intro: returns_orm_save split: option.splits)
  show "returns (insertLog r orm ct tx msg)" "returns (insertErrorLog r orm err tx)"
    unfolding insertLog_def insertErrorLog_def Let_def
    by (intro returns_andThen returns_ret reliable_drawing save)+
  show "returns (updateIasqlRecordsSince r ct orm tx)"
    unfolding updateIasqlRecordsSince_def findOneLog_def associateTransaction_def
    by (auto intro!: returns_andThen find save split: option.splits simp del: ret_apply)
qed

lemma returns_outside: "returns m \<Longrightarrow> returns (outsideOp m)"
  by (auto simp: returns_def outsideOp_def onEngine_def inWorld_def split: prod.splits) (metis prod.inject)

lemma returns_leave:
  assumes "reliable (logs v)"
  shows "returns (leave v dryRun ormOpt p orm tx)"
  unfolding leave_def
  by (intro returns_andThen returns_outside reliable_ops [OF assms])
     (auto simp: returns_def setOrm_apply andThen_apply attempt_apply split: option.splits prod.splits)

lemma reliable_obj: "reliable objRepo"
  by (auto simp: reliable_def returns_def objRepo_def withErrors_def tableRepo_def split: prod.splits)

lemma table_engine_simps [simp]: "logs tableEngine = objRepo" "closeConn tableEngine c w = (Inr (), w)"
  by (simp_all add: tableEngine_def)

lemma table_admitted:
  "outsideOp (throwIfUpgrading tableEngine False) s = (Inr (), s)"
  "outsideOp (versionString tableEngine) s = (Inr ''1'', s)"
  "outsideOp (getImportedModules tableEngine ''1'' False) s = (Inr [], s)"
  by (rule outsideOp_reads,
      simp add: throwIfUpgrading_def getImportedModules_def tableEngine_def andThen_apply)+

text \<open>A body that throws and one that does not, on a connection given by the caller.\<close>

definition doing :: "(js_err thrown + unit) \<Rightarrow> audit_log list emapper emodule list \<Rightarrow> string \<Rightarrow> conn \<Rightarrow> string option \<Rightarrow> (audit_log list, unit) peop" where
  "doing r _ _ _ _ = (\<lambda>s. Some (r, s))"

lemma table_tryBody:
  "\<exists>tx s'. tryBody tableEngine True (Some 0) (doing r imported version) s = Some (Inr (r, Some 0, tx), s') \<and>
     outside (world s') = outside (world s)"
proof -
  have acq: "acquire tableEngine (Some 0) s = (Inr 0, s\<lparr> world := (world s)\<lparr> ctxOrm := 0 \<rparr> \<rparr>)"
    by (simp add: acquire_def andThen_apply setOrm_apply)
  have "\<exists>tx. admit tableEngine True 0 s1 = (Inr tx, s1)" for s1
    by (simp add: admit_def andThen_apply outsideOp_def onEngine_def inWorld_def isCommitRunning_def
        getCurrentTransactionId_def findOneLog_def objRepo_def withErrors_def tableRepo_def)
  then obtain tx where "admit tableEngine True 0 (s\<lparr> world := (world s)\<lparr> ctxOrm := 0 \<rparr> \<rparr>) = (Inr tx, s\<lparr> world := (world s)\<lparr> ctxOrm := 0 \<rparr> \<rparr>)"
    by blast
  from tryBody_ran [where body = "doing r imported version", OF acq this] show ?thesis
    by (auto simp: doing_def)
qed

theorem bracket_ends_witness:
  "\<exists>s' rs l. bracketed tableEngine False True (Some 0) (doing (Inr ())) tableStart = Some (Inr (), s') \<and>
     outside (world s') = rs @ [l] \<and> changeType l = END_COMMIT"
proof -
  obtain tx s1 where "tryBody tableEngine True (Some 0) (doing (Inr ()) [] ''1'') tableStart = Some (Inr (Inr (), Some 0, tx), s1)"
    using table_tryBody by blast
  moreover obtain s' where "leave tableEngine False (Some 0) (ctxOrm (world tableStart)) (Some 0) tx s1 = (Inr (), s')"
    using returnsE [OF returns_leave [of tableEngine False "Some 0" "ctxOrm (world tableStart)" "Some 0" tx]] reliable_obj
    by (metis (full_types) old.unit.exhaust table_engine_simps(1))
  ultimately have run: "bracketed tableEngine False True (Some 0) (doing (Inr ())) tableStart = Some (Inr (), s')"
    by (intro bracketed_ran) (rule outsideOp_reads, simp add: throwIfUpgrading_def getImportedModules_def tableEngine_def andThen_apply)+
  from bracket_ends [where rows = "\<lambda>rs. rs", OF _ _ run] run obj_table.clocked_store_axioms show ?thesis by auto
qed

definition tableEmpty :: "(jsval, audit_log list engine) ctx" where
  "tableEmpty = tableStart\<lparr> world := (world tableStart)\<lparr> outside := [] \<rparr> \<rparr>"

theorem bracket_logs_failure_witness:
  "\<exists>s' err. bracketed tableEngine False True (Some 0) (doing (Inl (ErrObj (Err ''boom'')))) tableEmpty
       = Some (Inl (ErrObj (Err ''boom'')), s') \<and>
     err \<in> set (outside (world s')) \<and> changeType err = ERROR \<and> message err = Some ''boom''"
proof -
  let ?e = "ErrObj (Err ''boom'')"
  obtain tx s1 where body: "tryBody tableEngine True (Some 0) (doing (Inl ?e) [] ''1'') tableEmpty = Some (Inr (Inl ?e, Some 0, tx), s1)"
    and s1: "outside (world s1) = []"
    using table_tryBody [of "Inl ?e" "[]" "''1''" tableEmpty] by (auto simp: tableEmpty_def)
  have msg: "logErrSentry (sentry tableEngine) ?e = ''boom''" by (simp add: logErrSentry_def tableEngine_def)
  obtain s2 where err: "outsideOp (insertErrorLog (logs tableEngine) (Some 0) (logErrSentry (sentry tableEngine) ?e) tx) s1 = (Inr (), s2)"
    by (rule returnsE [OF returns_outside [OF reliable_ops(2) [OF reliable_obj]]]) (simp, blast)
  then have "insertErrorLog objRepo (Some 0) ''boom'' tx [] = (Inr (), outside (world s2))"
    using s1 msg by (auto dest!: outsideOp_frame)
  from obj_table.insertErrorLog_last [OF this] have wf: "wfRows (outside (world s2))"
    by (metis append_Nil distinct_singleton list.map(1) list.map(2) list.set_intros(1) set_ConsD empty_iff empty_set wfRows_def)
  obtain s' where lv: "leave tableEngine False (Some 0) (ctxOrm (world tableEmpty)) (Some 0) tx s2 = (Inr (), s')"
    using returnsE [OF returns_leave [of tableEngine False "Some 0" "ctxOrm (world tableEmpty)" "Some 0" tx]] reliable_obj
    by (metis (full_types) old.unit.exhaust table_engine_simps(1))
  have "rs (snd (closeConn tableEngine c w)) = rs w" for rs :: "audit_log list \<Rightarrow> audit_log list" and c w by simp
  from bracket_logs_failure [where rows = "\<lambda>rs. rs" and body = "doing (Inl ?e)", OF _ _ _ _ _ body err _ lv]
    table_admitted obj_table.clocked_store_axioms wf msg
  show ?thesis by (fastforce simp: throwIfUpgrading_def getImportedModules_def tableEngine_def andThen_apply outsideOp_reads)
qed

text \<open>
  An engine whose database cannot be read while the world holds \<open>bad\<close>, which the inverse query of the
  user's change removes: the failed preview creates the bucket in the cloud.
\<close>

definition shakyRepo :: "(string list, js_err thrown) repo" where
  "shakyRepo = quietRepo\<lparr> findLogs := (\<lambda>c q. ret [(userRow 1 1)\<lparr> tableName := ''bucket'', changeType := INSERT,
     change := \<lparr> original = None, changed = Some (bucketNamed ''bad'') \<rparr> \<rparr>]) \<rparr>"

definition shakyDb :: "(jsval, string list engine) crud" where
  "shakyDb = demoDb\<lparr> readFn := (\<lambda>_ s. if ''bad'' \<in> set (outside (world s)) then (Inl (ErrObj (Err ''bad row'')), s)
     else (Inr (Some (Several [0])), s)) \<rparr>"

definition shakyModule :: "string list emapper emodule" where
  "shakyModule = demoModule\<lparr> modMappers := [(''Bucket'', demoMapperB\<lparr> emDb := shakyDb \<rparr>)] \<rparr>"

definition shakyEngine :: "string list engine_env" where
  "shakyEngine = demoEngine\<lparr> logs := shakyRepo, allModules := [shakyModule],
     runSql := (\<lambda>c q w. (Inr (), removeAll ''bad'' w)) \<rparr>"

lemma shaky_runs:
  "case applyChanges shakyEngine [shakyModule] False True (Some []) (demoStart [''bad'']) of
     Some (Inl e1, s1) \<Rightarrow> (case applyChanges shakyEngine [shakyModule] False True None s1 of
     Some (Inl e2, s2) \<Rightarrow> (case revert shakyEngine [shakyModule] None s2 of
     Some (r, s3) \<Rightarrow> (case sync shakyEngine [shakyModule] False True s3 of
     Some (res, s4) \<Rightarrow> outside (world s4) = [''b'']
     | _ \<Rightarrow> False) | _ \<Rightarrow> False) | _ \<Rightarrow> False) | _ \<Rightarrow> False"
  by code_simp

lemma threwD: "(case p of Some (Inl e, s) \<Rightarrow> P e s | _ \<Rightarrow> False) \<Longrightarrow> \<exists>e s. p = Some (Inl e, s) \<and> P e s"
  by (auto split: option.split_asm prod.split_asm sum.split_asm)

lemma endedD: "(case p of Some (r, s) \<Rightarrow> P r s | _ \<Rightarrow> False) \<Longrightarrow> \<exists>r s. p = Some (r, s) \<and> P r s"
  by (auto split: option.split_asm prod.split_asm)


end
