(* ===== verification/Install.thy ===== *)
theory Install
  imports Commit
begin

text \<open>
  Installing and uninstalling modules: \<open>modules\<close>, \<open>install\<close> and \<open>uninstall\<close> of
  \<open>src/src/modules/iasql_functions/iasql.ts\<close>.

  The statements that go to the database are parameters (\<open>install_env\<close>): those of a query runner,
  which hold a transaction, and those of the ORM, which use a connection of their own from the pool.  The
  \<open>syncContext\<close> of \<open>install\<close> is always given by its callers and \<open>ormOpt\<close> never is.
\<close>

section \<open>Parameters\<close>

datatype migration = BeforeInstall | InstallStep | AfterInstall | BeforeRemove | RemoveStep | AfterRemove

type_synonym ('w, 'a) dbop = "('w, js_err thrown, 'a) action"

record 'w install_env =
  inEngine :: "'w engine_env"
  platformVersion :: string
  closest :: "string \<Rightarrow> string list \<Rightarrow> string"          \<comment> \<open>\<open>levenshtein.closest\<close>\<close>
  openRunner :: "conn \<Rightarrow> ('w, nat) dbop"                 \<comment> \<open>\<open>createQueryRunner\<close> and \<open>connect\<close>\<close>
  startTx :: "nat \<Rightarrow> ('w, unit) dbop"
  commitTx :: "nat \<Rightarrow> ('w, unit) dbop"
  rollbackTx :: "nat \<Rightarrow> ('w, unit) dbop"
  releaseRunner :: "nat \<Rightarrow> ('w, unit) dbop"
  runnerQuery :: "nat \<Rightarrow> string \<Rightarrow> ('w, unit) dbop"
  publicTables :: "nat \<Rightarrow> ('w, string list) dbop"
  migrationOf :: "string \<Rightarrow> migration \<Rightarrow> (nat \<Rightarrow> ('w, unit) dbop) option"   \<comment> \<open>\<open>md.migrations?.install\<close> etc.\<close>
  findModuleRow :: "conn \<Rightarrow> string \<Rightarrow> ('w, string option) dbop"
  saveModuleRow :: "conn \<Rightarrow> string \<Rightarrow> string option list \<Rightarrow> ('w, unit) dbop"
  removeModuleRow :: "conn \<Rightarrow> string \<Rightarrow> ('w, unit) dbop"
  findTableRows :: "conn \<Rightarrow> string \<Rightarrow> ('w, (string \<times> string) list) dbop"   \<comment> \<open>table and module\<close>
  saveTableRows :: "conn \<Rightarrow> (string \<times> string) list \<Rightarrow> ('w, unit) dbop"
  removeTableRows :: "conn \<Rightarrow> (string \<times> string) list \<Rightarrow> ('w, unit) dbop"

definition newError :: "string \<Rightarrow> js_err thrown" where
  "newError m = ErrObj (Err m)"

section \<open>The list of modules\<close>

definition moduleInfo :: "'m emodule \<Rightarrow> string \<times> string \<times> string list" where
  "moduleInfo m = (modName m, modVersion m, dependencies m)"

definition listModules :: "'w install_env \<Rightarrow> bool \<Rightarrow> bool \<Rightarrow> ('w, (string \<times> string \<times> string list) list) eop" where
  "listModules v every installed =
     andThen (outsideOp (throwIfUpgrading (inEngine v) False)) (\<lambda>_.
       if every then ret (map moduleInfo (allModules (inEngine v)))
       else if installed
       then andThen (onEngine (createConn (connect (inEngine v)))) (\<lambda>orm.
              andThen (outsideOp (moduleNames (inEngine v) orm)) (\<lambda>names.
                ret (map moduleInfo (installedOf (allModules (inEngine v)) names))))
       else throw (newError ''Invalid request parameters''))"

section \<open>Resolving names\<close>

definition builtins :: "string list" where
  "builtins = [''iasql_platform'', ''iasql_functions'']"

definition withVersion :: "string \<Rightarrow> string \<Rightarrow> string" where
  "withVersion version m = (if CHR ''@'' \<in> set m then m else m @ ''@'' @ version)"

definition lookupModule :: "'m emodule list \<Rightarrow> string \<Rightarrow> 'm emodule option" where
  "lookupModule every n = find (\<lambda>m. modKey m = n) every"

definition isUnknown :: "'m emodule list \<Rightarrow> string \<Rightarrow> bool" where
  "isUnknown every n = Option.is_none (lookupModule every n)"

definition resolveInstall :: "'w install_env \<Rightarrow> string list \<Rightarrow> js_err thrown + 'w emapper emodule list" where
  "resolveInstall v wanted =
     (let every = allModules (inEngine v); missing = filter (isUnknown every) wanted in
      if missing \<noteq> []
      then Inl (newError (''The following modules do not exist: '' @ joinWith '', '' missing @ ''. Did you mean: ''
             @ joinWith '', '' (uniq (map (\<lambda>m. closest v m (map modKey every)) missing))))
      else Inr (map (\<lambda>n. the (lookupModule every n)) wanted))"

definition resolveUninstall :: "'w install_env \<Rightarrow> string list \<Rightarrow> js_err thrown + 'w emapper emodule list" where
  "resolveUninstall v wanted =
     (let every = allModules (inEngine v); missing = filter (isUnknown every) wanted in
      if missing \<noteq> []
      then Inl (newError (''The following modules do not exist: '' @ joinWith '', '' missing))
      else Inr (map (\<lambda>n. the (lookupModule every n)) wanted))"

text \<open>
  The loop that attaches missing dependencies.  A dependency that no module provides makes
  \<open>extraMods\<close> hold \<open>undefined\<close>, on which \<open>mod.name\<close> throws.
\<close>

definition missingDeps :: "string \<Rightarrow> string list \<Rightarrow> string list \<Rightarrow> 'm emodule list \<Rightarrow> string list" where
  "missingDeps version existing moduleList mods =
     uniq (filter (\<lambda>d. d \<notin> set [''iasql_platform@'' @ version, ''iasql_functions@'' @ version])
       (concat (map (\<lambda>m. filter (\<lambda>d. d \<notin> set moduleList \<and> d \<notin> set existing) (dependencies m)) mods)))"

function depLoop ::
  "'m emodule list \<Rightarrow> string \<Rightarrow> string list \<Rightarrow> string list \<Rightarrow> 'm emodule list
     \<Rightarrow> js_err thrown + 'm emodule list" where
  "depLoop every version existing moduleList mods =
     (let missing = missingDeps version existing moduleList mods in
      if missing = [] then Inr mods
      else if list_ex (isUnknown every) missing then Inl (newError ''TypeError'')
      else (let extra = map (\<lambda>n. the (lookupModule every n)) missing in
            depLoop every version existing (moduleList @ map modKey extra) (mods @ extra)))"
  by pat_completeness auto

lemma lookupModule_Some: "lookupModule every n = Some m \<Longrightarrow> modKey m = n \<and> m \<in> set every"
  by (auto simp: lookupModule_def find_Some_iff)

lemma missingDeps_new: "d \<in> set (missingDeps version existing moduleList mods) \<Longrightarrow> d \<notin> set moduleList"
  by (auto simp: missingDeps_def)

lemma extra_keys:
  "\<not> list_ex (isUnknown every) missing \<Longrightarrow> map modKey (map (\<lambda>n. the (lookupModule every n)) missing) = missing"
proof (induction missing)
  case (Cons n missing)
  then obtain m where "lookupModule every n = Some m"
    by (cases "lookupModule every n") (auto simp: isUnknown_def)
  with Cons lookupModule_Some [OF this] show ?case by simp
qed simp

termination depLoop
proof (relation "measure (\<lambda>(every, version, existing, moduleList, mods).
    length (filter (\<lambda>m. modKey m \<notin> set moduleList) every))")
  fix every mods extra :: "'m emodule list" and version existing moduleList missing
  assume missing: "missing = missingDeps version existing moduleList mods" "missing \<noteq> []"
    and known: "\<not> list_ex (isUnknown every) missing"
    and extra: "extra = map (\<lambda>n. the (lookupModule every n)) missing"
  from missing(2) obtain d ds where d: "missing = d # ds" by (cases missing) auto
  with known obtain m where m: "lookupModule every d = Some m"
    by (cases "lookupModule every d") (auto simp: isUnknown_def)
  have keys: "map modKey extra = missing" using extra_keys [OF known] extra by simp
  let ?old = "\<lambda>m. modKey m \<notin> set moduleList" and ?new = "\<lambda>m. modKey m \<notin> set (moduleList @ map modKey extra)"
  have "d \<notin> set moduleList"
    by (rule missingDeps_new [of d version existing _ mods]) (simp add: missing(1) [symmetric] d)
  then have "m \<in> set (filter ?old every)" "\<not> ?new m"
    using lookupModule_Some [OF m] keys d by auto
  then have "length (filter ?new (filter ?old every)) < length (filter ?old every)"
    by (rule length_filter_less)
  moreover have "filter ?new (filter ?old every) = filter ?new every"
    by (simp add: filter_filter)
  ultimately show "((every, version, existing, moduleList @ map modKey extra, mods @ extra),
      every, version, existing, moduleList, mods) \<in> measure (\<lambda>(every, version, existing, moduleList, mods).
        length (filter (\<lambda>m. modKey m \<notin> set moduleList) every))" by simp
qed simp

declare depLoop.simps [simp del]

section \<open>Installing\<close>

text \<open>The collisions, as the object \<open>tableCollisions\<close> (a repeated name starts again with \<open>[]\<close>).\<close>

definition tableCollisions :: "string list \<Rightarrow> 'm emodule list \<Rightarrow> string list obj" where
  "tableCollisions tables mods =
     fold (\<lambda>m acc. obj_set (modName m) (filter (\<lambda>t. t \<in> set tables) (provTables m)) acc) mods []"

definition hasCollision :: "string list \<Rightarrow> 'm emodule list \<Rightarrow> bool" where
  "hasCollision tables mods = list_ex (\<lambda>m. list_ex (\<lambda>t. t \<in> set tables) (provTables m)) mods"

definition collisionText :: "string list obj \<Rightarrow> string" where
  "collisionText cs = ''Collision with existing tables detected.'' @ nl #
     joinWith [nl] (map (\<lambda>(m, ts). ''Module '' @ m @ '' collides with tables: '' @ joinWith '', '' ts)
       (filter (\<lambda>(m, ts). ts \<noteq> []) cs))"

definition migrate :: "'w install_env \<Rightarrow> nat \<Rightarrow> 'm emodule \<Rightarrow> migration \<Rightarrow> ('w, unit) dbop" where
  "migrate v q m step = (case migrationOf v (modKey m) step of None \<Rightarrow> ret () | Some run \<Rightarrow> run q)"

definition auditTrigger :: "string \<Rightarrow> string" where
  "auditTrigger t = nl # spaces 10 @ ''CREATE TRIGGER '' @ t @ ''_audit'' @ nl # spaces 10
     @ ''AFTER INSERT OR UPDATE OR DELETE ON '' @ t @ nl # spaces 10
     @ ''FOR EACH ROW EXECUTE FUNCTION iasql_audit();'' @ nl # spaces 8"

definition installOne :: "'w install_env \<Rightarrow> conn \<Rightarrow> nat \<Rightarrow> 'm emodule \<Rightarrow> ('w, unit) dbop" where
  "installOne v orm q m =
     andThen (eachM (migrate v q m) [BeforeInstall, InstallStep, AfterInstall]) (\<lambda>_.
       andThen (mapM (findModuleRow v orm) (dependencies m)) (\<lambda>deps.
         andThen (saveModuleRow v orm (modKey m) deps) (\<lambda>_.
           andThen (saveTableRows v orm (map (\<lambda>t. (t, modKey m)) (provTables m))) (\<lambda>_.
             eachM (\<lambda>t. runnerQuery v q (auditTrigger t)) (provTables m)))))"

text \<open>\<open>startTransaction\<close>, the work, \<open>commitTransaction\<close> or \<open>rollbackTransaction\<close>, and \<open>release\<close>.\<close>

definition inTransaction :: "'w install_env \<Rightarrow> nat \<Rightarrow> ('w, unit) dbop \<Rightarrow> ('w, unit) dbop" where
  "inTransaction v q work =
     andThen (startTx v q) (\<lambda>_.
       tryFinally
         (tryCatch (andThen work (\<lambda>_. commitTx v q)) (\<lambda>e. andThen (rollbackTx v q) (\<lambda>_. throw e)))
         (releaseRunner v q))"

text \<open>A context of its own: \<open>{ orm, memo: {} }\<close>; the caller's is untouched.\<close>

definition inFreshContext :: "conn \<Rightarrow> ('w, 'a) eop \<Rightarrow> ('w, 'a) eop" where
  "inFreshContext orm m = (\<lambda>s.
     case m (s\<lparr> memoDb := [], memoCloud := [], world := (world s)\<lparr> ctxOrm := orm \<rparr> \<rparr>) of
       (x, s') \<Rightarrow> (x, s'\<lparr> memoDb := memoDb s, memoCloud := memoCloud s,
          world := (world s')\<lparr> ctxOrm := ctxOrm (world s) \<rparr> \<rparr>))"

text \<open>The cloud's entities of a newly installed mapper, written to the database.\<close>

definition adopt :: "'w emapper \<Rightarrow> ('w, unit) eop" where
  "adopt m = andThen (read (emCloud m) None) (\<lambda>e.
     (case e of
        None \<Rightarrow> ret ()
      | Some (Several []) \<Rightarrow> ret ()
      | Some a \<Rightarrow> ignore (create (emDb m) a)))"

definition adoptAll :: "'w emapper emodule list \<Rightarrow> ('w, unit) eop" where
  "adoptAll mods = eachM (\<lambda>m. runAll (map (\<lambda>(_, mp). adopt mp) (modMappers m))) mods"

definition checkInstalled :: "'w install_env \<Rightarrow> string list \<Rightarrow> ('w, unit) eop" where
  "checkInstalled v names =
     (case find (isUnknown (allModules (inEngine v))) names of
        None \<Rightarrow> ret ()
      | Some n \<Rightarrow> throw (newError (''This should be impossible. Cannot find module '' @ n)))"

text \<open>After the names are resolved.\<close>

definition installModules ::
  "'w install_env \<Rightarrow> bool \<Rightarrow> string list \<Rightarrow> 'w emapper emodule list \<Rightarrow> ('w, string) peop" where
  "installModules v force wanted resolved =
     pThen (always (onEngine (createConn (connect (inEngine v))))) (\<lambda>orm.
       pThen (always (outsideOp (openRunner v orm))) (\<lambda>q.
         pThen (always (outsideOp (moduleNames (inEngine v) orm))) (\<lambda>existing.
           (case depLoop (allModules (inEngine v)) (platformVersion v) existing wanted
                   (filter (\<lambda>m. modKey m \<notin> set existing) resolved) of
              Inl e \<Rightarrow> always (throw e)
            | Inr [] \<Rightarrow> always (ret ''Done!'')
            | Inr mods \<Rightarrow>
                pThen (always (outsideOp (publicTables v q))) (\<lambda>tables.
                  if hasCollision tables mods
                  then always (throw (newError (collisionText (tableCollisions tables mods))))
                  else
                    pThen (commit (inEngine v) False force (Some orm) None) (\<lambda>_.
                      pThen (sorting (map Some mods) existing) (\<lambda>rootToLeaf.
                        pThen (always (outsideOp (inTransaction v q (eachM (installOne v orm q) rootToLeaf)))) (\<lambda>_.
                          pThen (always (outsideOp (moduleNames (inEngine v) orm))) (\<lambda>names.
                            pThen (always (checkInstalled v names)) (\<lambda>_.
                              pThen (always (inFreshContext orm (adoptAll rootToLeaf))) (\<lambda>_.
                                always (ret ''Done!''))))))))))))"

definition install ::
  "'w install_env \<Rightarrow> string list \<Rightarrow> bool \<Rightarrow> bool \<Rightarrow> ('w, string) peop" where
  "install v moduleList wantAll force =
     pThen (always (outsideOp (throwIfUpgrading (inEngine v) force))) (\<lambda>_.
       pThen (always (if wantAll
                then andThen (listModules v False True) (\<lambda>infos.
                       ret (map modKey (filter (\<lambda>m. modName m \<notin> set (map fst infos) \<and> modName m \<noteq> [] \<and>
                              modVersion m \<noteq> [] \<and> modName m \<notin> set builtins) (allModules (inEngine v)))))
                else ret moduleList)) (\<lambda>names.
         pThen (always (outsideOp (versionString (inEngine v)))) (\<lambda>dbVersion.
           if platformVersion v \<noteq> dbVersion
           then always (throw (newError (''Unsupported version '' @ dbVersion)))
           else
             (let wanted = map (withVersion (platformVersion v)) (uniq names) in
              case resolveInstall v wanted of
                Inl e \<Rightarrow> always (throw e)
              | Inr mods \<Rightarrow> installModules v force wanted mods))))"

section \<open>Uninstalling\<close>

text \<open>
  The dependencies of the modules that stay: each must be installed, and none may be uninstalled.
\<close>

fun leftoverError :: "'m emodule list \<Rightarrow> string list \<Rightarrow> string list \<Rightarrow> js_err thrown option" where
  "leftoverError every installed [] = None"
| "leftoverError every installed (n # ns) =
     (case lookupModule every n of
        None \<Rightarrow> Some (newError (''Somehow '' @ n @ '' does not have a corresponding module defined''))
      | Some m \<Rightarrow>
          (case find (\<lambda>d. d \<notin> set installed) (dependencies m) of
             Some d \<Rightarrow> Some (newError (''Somehow '' @ d @ '' does not have a corresponding module defined''))
           | None \<Rightarrow> leftoverError every installed ns))"

definition dependent :: "'m emodule list \<Rightarrow> string list \<Rightarrow> string \<Rightarrow> bool" where
  "dependent every toUninstall n =
     (case lookupModule every n of None \<Rightarrow> False
      | Some m \<Rightarrow> list_ex (\<lambda>d. d \<in> set toUninstall) (dependencies m))"

definition planUninstall ::
  "'m emodule list \<Rightarrow> string list \<Rightarrow> string list \<Rightarrow> 'm emodule list \<Rightarrow> js_err thrown option" where
  "planUninstall every wanted installed mods =
     (let toUninstall = map modKey mods;
          leftover = filter (\<lambda>n. n \<notin> set toUninstall) installed in
      case leftoverError every installed leftover of
        Some e \<Rightarrow> Some e
      | None \<Rightarrow>
          (case find (dependent every toUninstall) leftover of
             Some n \<Rightarrow> Some (newError (''Cannot uninstall '' @ joinWith '', '' wanted @ '' as '' @ n
                @ '' still depends on one or more of them''))
           | None \<Rightarrow> None))"

definition dropTrigger :: "string \<Rightarrow> string" where
  "dropTrigger t = nl # spaces 10 @ ''DROP TRIGGER IF EXISTS '' @ t @ ''_audit ON '' @ t @ '';'' @ nl # spaces 8"

definition uninstallOne :: "'w install_env \<Rightarrow> conn \<Rightarrow> nat \<Rightarrow> 'm emodule \<Rightarrow> ('w, unit) dbop" where
  "uninstallOne v orm q m =
     andThen (eachM (\<lambda>t. runnerQuery v q (dropTrigger t)) (provTables m)) (\<lambda>_.
       andThen (eachM (migrate v q m) [BeforeRemove, RemoveStep, AfterRemove]) (\<lambda>_.
         andThen (findModuleRow v orm (modKey m)) (\<lambda>e.
           (case e of
              None \<Rightarrow> throw (newError ''TypeError'')
            | Some n \<Rightarrow>
                andThen (findTableRows v orm n) (\<lambda>rows.
                  andThen (removeTableRows v orm rows) (\<lambda>_. removeModuleRow v orm n))))))"

definition uninstall :: "'w install_env \<Rightarrow> string list \<Rightarrow> bool \<Rightarrow> conn option \<Rightarrow> ('w, string) peop" where
  "uninstall v moduleList force ormOpt =
     pThen (always (outsideOp (throwIfUpgrading (inEngine v) force))) (\<lambda>_.
       (let wanted = map (withVersion (platformVersion v)) (uniq moduleList) in
        case resolveUninstall v wanted of
          Inl e \<Rightarrow> always (throw e)
        | Inr resolved \<Rightarrow>
            pThen (always (case ormOpt of Some c \<Rightarrow> ret c | None \<Rightarrow> onEngine (createConn (connect (inEngine v))))) (\<lambda>orm.
              pThen (always (outsideOp (openRunner v orm))) (\<lambda>q.
                pThen (always (outsideOp (moduleNames (inEngine v) orm))) (\<lambda>installed.
                  (let mods = filter (\<lambda>m. modKey m \<in> set installed) resolved in
                   if mods = [] then always (ret ''Done!'')
                   else
                     (case planUninstall (allModules (inEngine v)) wanted installed mods of
                        Some e \<Rightarrow> always (throw e)
                      | None \<Rightarrow>
                          pThen (sorting (map Some mods) (filter (\<lambda>n. n \<notin> set (map modKey mods)) installed)) (\<lambda>rootToLeaf.
                            pThen (always (outsideOp (inTransaction v q (eachM (uninstallOne v orm q) (rev rootToLeaf))))) (\<lambda>_.
                              always (ret ''Done!''))))))))))"

section \<open>The modules that are installed\<close>

lemma lookup_unknown: "isUnknown every n \<longleftrightarrow> lookupModule every n = None"
  by (auto simp: isUnknown_def Option.is_none_def)

lemma resolveInstall_keys:
  assumes "resolveInstall v wanted = Inr ms"
  shows "map modKey ms = wanted" and "set ms \<subseteq> set (allModules (inEngine v))"
proof -
  let ?every = "allModules (inEngine v)"
  from assms have known: "\<not> list_ex (isUnknown ?every) wanted" and
    ms: "ms = map (\<lambda>n. the (lookupModule ?every n)) wanted"
    by (auto simp: resolveInstall_def Let_def filter_empty_conv list_ex_iff split: if_splits)
  show "map modKey ms = wanted" unfolding ms by (rule extra_keys [OF known])
  from known have "lookupModule ?every n \<noteq> None" if "n \<in> set wanted" for n
    using that by (auto simp: list_ex_iff lookup_unknown)
  then show "set ms \<subseteq> set ?every" unfolding ms
    by (force dest: lookupModule_Some)
qed

text \<open>What the loop adds, and what it has settled when it ends.\<close>

lemma missingDeps_Nil_iff:
  "missingDeps version existing moduleList mods = [] \<longleftrightarrow>
   (\<forall>m\<in>set mods. set (dependencies m) \<subseteq>
      set moduleList \<union> set existing \<union> {''iasql_platform@'' @ version, ''iasql_functions@'' @ version})"
proof -
  have "missingDeps version existing moduleList mods = [] \<longleftrightarrow> set (missingDeps version existing moduleList mods) = {}"
    by simp
  also have "\<dots> \<longleftrightarrow> (\<forall>m\<in>set mods. set (dependencies m) \<subseteq>
      set moduleList \<union> set existing \<union> {''iasql_platform@'' @ version, ''iasql_functions@'' @ version})"
    unfolding missingDeps_def by (auto simp del: append.simps)
  finally show ?thesis .
qed

lemma depLoop_result:
  assumes "depLoop every version existing moduleList mods = Inr ms"
  shows "\<exists>extra. ms = mods @ extra \<and> set extra \<subseteq> set every \<and>
    missingDeps version existing (moduleList @ map modKey extra) ms = []"
  using assms
proof (induction every version existing moduleList mods arbitrary: ms rule: depLoop.induct)
  case (1 every version existing moduleList mods)
  let ?missing = "missingDeps version existing moduleList mods"
  let ?extra = "map (\<lambda>n. the (lookupModule every n)) ?missing"
  show ?case
  proof (cases "?missing = []")
    case True
    with 1(2) show ?thesis by (simp add: depLoop.simps [of every version existing moduleList mods])
  next
    case False
    with 1(2) have known: "\<not> list_ex (isUnknown every) ?missing"
      and rest: "depLoop every version existing (moduleList @ map modKey ?extra) (mods @ ?extra) = Inr ms"
      by (auto simp: depLoop.simps [of every version existing moduleList mods] Let_def split: if_splits)
    from 1(1) [OF refl False known refl rest] obtain extra where
      e: "ms = (mods @ ?extra) @ extra" "set extra \<subseteq> set every"
        "missingDeps version existing ((moduleList @ map modKey ?extra) @ map modKey extra) ms = []" by blast
    have "set ?extra \<subseteq> set every"
      using known by (force simp: list_ex_iff lookup_unknown dest: lookupModule_Some)
    with e show ?thesis by (intro exI [of _ "?extra @ extra"]) simp
  qed
qed

lemma depLoop_closed:
  assumes "resolveInstall v wanted = Inr resolved"
    and "depLoop (allModules (inEngine v)) version existing wanted
      (filter (\<lambda>m. modKey m \<notin> set existing) resolved) = Inr ms"
    and "m \<in> set ms"
  shows "set (dependencies m) \<subseteq> set existing \<union> set (map modKey ms)
    \<union> {''iasql_platform@'' @ version, ''iasql_functions@'' @ version}"
proof -
  let ?mods = "filter (\<lambda>m. modKey m \<notin> set existing) resolved"
  from depLoop_result [OF assms(2)] obtain extra where
    e: "ms = ?mods @ extra" "missingDeps version existing (wanted @ map modKey extra) ms = []" by blast
  from e(2) assms(3) have "set (dependencies m) \<subseteq> set (wanted @ map modKey extra) \<union> set existing
    \<union> {''iasql_platform@'' @ version, ''iasql_functions@'' @ version}"
    unfolding missingDeps_Nil_iff by blast
  moreover have "set wanted \<subseteq> set (map modKey ?mods) \<union> set existing"
    using resolveInstall_keys(1) [OF assms(1)] by auto
  ultimately show ?thesis using e(1) by (auto simp del: append.simps)
qed

lemma depLoop_subset:
  assumes "resolveInstall v wanted = Inr resolved"
    and "depLoop (allModules (inEngine v)) version existing wanted
      (filter (\<lambda>m. modKey m \<notin> set existing) resolved) = Inr ms"
  shows "set ms \<subseteq> set (allModules (inEngine v))"
    and "set (filter (\<lambda>m. modKey m \<notin> set existing) resolved) \<subseteq> set ms"
proof -
  from depLoop_result [OF assms(2)] obtain extra where
    e: "ms = filter (\<lambda>m. modKey m \<notin> set existing) resolved @ extra" "set extra \<subseteq> set (allModules (inEngine v))" by blast
  with resolveInstall_keys(2) [OF assms(1)] show "set ms \<subseteq> set (allModules (inEngine v))" by auto
  from e show "set (filter (\<lambda>m. modKey m \<notin> set existing) resolved) \<subseteq> set ms" by simp
qed

text \<open>
  What \<open>install\<close> is about to install: every requested module that is not installed yet is among
  the modules, the dependencies attached by the loop complete them, and, when the two built-in modules
  are installed and no module depends on itself through others (a rank decreases along
  dependencies), \<open>sortModules\<close> returns an order of exactly these modules in which every module
  comes after everything it depends on.
\<close>

theorem install_plan_is_ordered:
  assumes resolved: "resolveInstall v wanted = Inr resolved"
    and loop: "depLoop (allModules (inEngine v)) version existing wanted
      (filter (\<lambda>m. modKey m \<notin> set existing) resolved) = Inr ms"
    and builtin: "{''iasql_platform@'' @ version, ''iasql_functions@'' @ version} \<subseteq> set existing"
    and acyclic: "\<And>m m'. m \<in> set (allModules (inEngine v)) \<Longrightarrow> m' \<in> set (allModules (inEngine v)) \<Longrightarrow>
      modKey m' \<in> set (dependencies m) \<Longrightarrow> rank m' < (rank m :: nat)"
  shows "set wanted \<subseteq> set existing \<union> set (map modKey ms) \<and>
    (\<exists>order. sortModules (map Some ms) existing = Some order \<and> mset order = mset ms \<and>
       dependency_order existing order)"
proof
  from depLoop_subset(2) [OF resolved loop] resolveInstall_keys(1) [OF resolved]
  show "set wanted \<subseteq> set existing \<union> set (map modKey ms)" by (auto simp: subset_iff image_iff) blast
  have "d \<in> set existing \<or> (\<exists>m' \<in> set ms. modKey m' = d \<and> rank m' < rank m)"
    if m: "m \<in> set ms" and d: "d \<in> set (dependencies m)" for m d
  proof (cases "d \<in> set existing")
    case False
    with depLoop_closed [OF resolved loop m] builtin d obtain m' where m': "m' \<in> set ms" "modKey m' = d"
      by (auto simp del: append.simps)
    with acyclic [of m m'] depLoop_subset(1) [OF resolved loop] m d show ?thesis by blast
  qed simp
  then obtain order where run: "sortLoop (map Some ms) existing [] = Some order"
    using sortLoop_returns by blast
  have "sort_inv existing ms (map Some ms) existing []" by (simp add: sort_inv_def comp_def)
  from sortLoop_inv [OF run this] run
  show "\<exists>order. sortModules (map Some ms) existing = Some order \<and> mset order = mset ms \<and>
      dependency_order existing order"
    by (auto simp: sortModules_def)
qed

definition demoModules :: "string list emapper emodule list" where
  "demoModules = [demoModule\<lparr> modName := ''b'', dependencies := [''a@1''] \<rparr>,
     demoModule\<lparr> modName := ''a'', dependencies := [''iasql_platform@1''] \<rparr>]"

definition idle :: "('w, unit) dbop" where
  "idle = ret ()"

definition demoInstall :: "string list install_env" where
  "demoInstall = \<lparr> inEngine = demoEngine\<lparr> allModules := demoModules \<rparr>, platformVersion = ''1'', closest = (\<lambda>n ns. hd ns),
     openRunner = (\<lambda>c. ret 0), startTx = (\<lambda>q. idle), commitTx = (\<lambda>q. idle), rollbackTx = (\<lambda>q. idle),
     releaseRunner = (\<lambda>q. idle), runnerQuery = (\<lambda>q t. idle), publicTables = (\<lambda>q. ret []),
     migrationOf = (\<lambda>m st. if m = ''b@1'' \<and> st = InstallStep then Some (\<lambda>q. throw (newError ''no'')) else None),
     findModuleRow = (\<lambda>c n w. (Inr (if n \<in> set w then Some n else None), w)),
     saveModuleRow = (\<lambda>c n ds w. (Inr (), n # w)), removeModuleRow = (\<lambda>c n w. (Inr (), removeAll n w)),
     findTableRows = (\<lambda>c n. ret []), saveTableRows = (\<lambda>c ts. idle), removeTableRows = (\<lambda>c ts. idle) \<rparr>"

lemma demo_resolve: "resolveInstall demoInstall [''b@1''] = Inr [hd demoModules]"
  by (simp add: resolveInstall_def isUnknown_def lookupModule_def demoInstall_def demoModules_def demoModule_def modKey_def)

lemma demo_depLoop: "depLoop demoModules ''1'' [''iasql_platform@1'', ''iasql_functions@1''] [''b@1''] [hd demoModules] = Inr demoModules"
  by (simp add: depLoop.simps missingDeps_def isUnknown_def lookupModule_def demoModules_def demoModule_def modKey_def Let_def)

theorem install_plan_is_ordered_witness:
  "\<exists>order. sortModules (map Some demoModules) [''iasql_platform@1'', ''iasql_functions@1''] = Some order \<and>
     mset order = mset demoModules \<and> dependency_order [''iasql_platform@1'', ''iasql_functions@1''] order"
proof -
  have every: "allModules (inEngine demoInstall) = demoModules" by (simp add: demoInstall_def)
  have loop: "depLoop (allModules (inEngine demoInstall)) ''1'' [''iasql_platform@1'', ''iasql_functions@1''] [''b@1'']
      (filter (\<lambda>m. modKey m \<notin> set [''iasql_platform@1'', ''iasql_functions@1'']) [hd demoModules]) = Inr demoModules"
    using demo_depLoop by (simp add: every demoModules_def modKey_def)
  show ?thesis
    by (rule install_plan_is_ordered [OF demo_resolve loop, where rank = "\<lambda>m. if modName m = ''b'' then 1 else 0", THEN conjunct2])
      (auto simp: every demoModules_def demoModule_def modKey_def)
qed

text \<open>The checks of \<open>uninstall\<close>.\<close>

lemma leftoverError_None:
  "leftoverError every installed ns = None \<Longrightarrow> n \<in> set ns \<Longrightarrow>
   \<exists>m. lookupModule every n = Some m \<and> set (dependencies m) \<subseteq> set installed"
  by (induction every installed ns rule: leftoverError.induct)
    (auto simp: find_None_iff split: option.splits)

text \<open>
  Uninstalling keeps the installed modules closed under dependencies: when the checks of
  \<open>uninstall\<close> pass, every module that stays is known and each of its dependencies stays
  installed too, whatever the state was before.
\<close>

theorem uninstall_keeps_closed:
  assumes "planUninstall every wanted installed mods = None"
    and "n \<in> set installed" and "n \<notin> set (map modKey mods)"
  shows "\<exists>m. lookupModule every n = Some m \<and> set (dependencies m) \<subseteq> set installed - set (map modKey mods)"
proof -
  let ?left = "filter (\<lambda>n. n \<notin> set (map modKey mods)) installed"
  from assms(1) have ok: "leftoverError every installed ?left = None"
    and free: "find (dependent every (map modKey mods)) ?left = None"
    by (auto simp: planUninstall_def Let_def split: option.splits)
  have n: "n \<in> set ?left" using assms(2,3) by simp
  from leftoverError_None [OF ok n] obtain m where m: "lookupModule every n = Some m" "set (dependencies m) \<subseteq> set installed"
    by blast
  from free n have "\<not> dependent every (map modKey mods) n" by (auto simp: find_None_iff)
  with m show ?thesis by (auto simp: dependent_def list_ex_iff)
qed

definition named :: "string \<Rightarrow> string list \<Rightarrow> string list emapper emodule" where
  "named n deps = demoModule\<lparr> modName := n, dependencies := deps \<rparr>"

theorem uninstall_keeps_closed_witness:
  "\<exists>m. lookupModule [named ''b'' [''a@1''], named ''a'' []] ''a@1'' = Some m \<and>
     set (dependencies m) \<subseteq> set [''a@1'', ''b@1''] - set (map modKey [named ''b'' [''a@1'']])"
  by (rule uninstall_keeps_closed [where wanted = "[''b@1'']"])
    (simp_all add: planUninstall_def named_def demoModule_def modKey_def lookupModule_def dependent_def)

section \<open>A failing installation\<close>

text \<open>
  The rows of \<open>iasql_module\<close> as the ORM's connections see them: a save adds its row, the other statements
  of an installation remove none, and the transaction of the query runner is on another connection, so
  that its rollback does not touch them.
\<close>

definition rowsSurvive :: "('w \<Rightarrow> string set) \<Rightarrow> 'w install_env \<Rightarrow> conn \<Rightarrow> nat \<Rightarrow> bool" where
  "rowsSurvive rows v orm q \<longleftrightarrow>
     (\<forall>n. keeps (\<lambda>w. n \<in> rows w) (rollbackTx v q) \<and> keeps (\<lambda>w. n \<in> rows w) (releaseRunner v q) \<and>
       (\<forall>sql. keeps (\<lambda>w. n \<in> rows w) (runnerQuery v q sql)) \<and>
       (\<forall>m st run. migrationOf v m st = Some run \<longrightarrow> keeps (\<lambda>w. n \<in> rows w) (run q)) \<and>
       (\<forall>d. keeps (\<lambda>w. n \<in> rows w) (findModuleRow v orm d)) \<and>
       (\<forall>d ds. keeps (\<lambda>w. n \<in> rows w) (saveModuleRow v orm d ds)) \<and>
       (\<forall>ts. keeps (\<lambda>w. n \<in> rows w) (saveTableRows v orm ts))) \<and>
     (\<forall>n ds w w'. saveModuleRow v orm n ds w = (Inr (), w') \<longrightarrow> n \<in> rows w')"

lemma installOne_keeps:
  assumes "rowsSurvive rows v orm q"
  shows "keeps (\<lambda>w. n \<in> rows w) (installOne v orm q m)"
  using assms unfolding installOne_def migrate_def rowsSurvive_def
  by (intro keeps_andThen keeps_eachM keeps_mapM) (auto split: option.split)

lemma installOne_adds:
  assumes surv: "rowsSurvive rows v orm q" and run: "installOne v orm q m w = (Inr (), w')"
  shows "modKey m \<in> rows w'"
proof -
  from run obtain deps w1 w2 where save: "saveModuleRow v orm (modKey m) deps w1 = (Inr (), w2)"
    and rest: "andThen (saveTableRows v orm (map (\<lambda>t. (t, modKey m)) (provTables m))) (\<lambda>_.
             eachM (\<lambda>t. runnerQuery v q (auditTrigger t)) (provTables m)) w2 = (Inr (), w')"
    unfolding installOne_def by (auto simp: andThen_Inr_iff)
  let ?tail = "andThen (saveTableRows v orm (map (\<lambda>t. (t, modKey m)) (provTables m))) (\<lambda>_.
             eachM (\<lambda>t. runnerQuery v q (auditTrigger t)) (provTables m))"
  from surv save have "modKey m \<in> rows w2" unfolding rowsSurvive_def by blast
  moreover have "keeps (\<lambda>w. modKey m \<in> rows w) ?tail"
    using surv unfolding rowsSurvive_def by (intro keeps_andThen keeps_eachM) auto
  ultimately have "modKey m \<in> rows (snd (?tail w2))" by (simp only: keeps_def)
  with rest show ?thesis by simp
qed

lemma installAll_adds:
  assumes surv: "rowsSurvive rows v orm q"
  shows "eachM (installOne v orm q) ms w = (Inr (), w') \<Longrightarrow> modKey ` set ms \<subseteq> rows w'"
proof (induction ms arbitrary: w)
  case (Cons m ms)
  from Cons.prems obtain w1 where one: "installOne v orm q m w = (Inr (), w1)"
    and rest: "eachM (installOne v orm q) ms w1 = (Inr (), w')"
    by (auto simp: andThen_Inr_iff)
  have "keeps (\<lambda>w. modKey m \<in> rows w) (eachM (installOne v orm q) ms)"
    by (intro keeps_eachM installOne_keeps surv)
  with keepsD [OF this installOne_adds [OF surv one] rest] Cons.IH [OF rest] show ?case by simp
qed simp

text \<open>
  A failing installation is not undone: the rows that \<open>install\<close> writes through the ORM for the modules
  before the failing one stay, although the transaction around the loop is rolled back, because the ORM's
  statements are not part of the query runner's transaction.
\<close>

theorem failed_install_keeps_rows:
  assumes surv: "rowsSurvive rows v orm q"
    and "startTx v q w0 = (Inr (), w1)"
    and before: "eachM (installOne v orm q) installed w1 = (Inr (), w2)"
    and fails: "installOne v orm q m w2 = (Inl e, w3)"
  shows "\<exists>e' w'. inTransaction v q (eachM (installOne v orm q) (installed @ m # queue)) w0 = (Inl e', w') \<and>
     modKey ` set installed \<subseteq> rows w'"
proof -
  have "modKey ` set installed \<subseteq> rows w3"
    using installAll_adds [OF surv before] keepsD [OF installOne_keeps [OF surv] _ fails] by blast
  then have after: "modKey ` set installed \<subseteq> rows (snd (releaseRunner v q (snd (rollbackTx v q w3))))"
    using surv unfolding rowsSurvive_def keeps_def by (meson subset_iff)
  have "eachM (installOne v orm q) (installed @ m # queue) w1 = (Inl e, w3)"
    using before fails by (simp add: eachM_append andThen_apply)
  with assms(2) have "inTransaction v q (eachM (installOne v orm q) (installed @ m # queue)) w0 =
      tryFinally (andThen (rollbackTx v q) (\<lambda>_. throw e)) (releaseRunner v q) w3"
    by (simp add: inTransaction_def andThen_apply tryCatch_apply tryFinally_apply)
  then show ?thesis using after
    by (auto simp: andThen_apply tryFinally_apply split: prod.splits sum.splits)
qed

theorem failed_install_keeps_rows_witness:
  "\<exists>e w'. inTransaction demoInstall 0 (eachM (installOne demoInstall 0 0) ([hd (tl demoModules)] @ hd demoModules # [])) [] = (Inl e, w') \<and>
     ''a@1'' \<in> set w'"
proof -
  have surv: "rowsSurvive set demoInstall 0 0"
    by (auto simp: rowsSurvive_def demoInstall_def idle_def keeps_def split: if_splits)
  have "installOne demoInstall 0 0 (hd (tl demoModules)) [] = (Inr (), [''a@1''])"
    "\<exists>e w3. installOne demoInstall 0 0 (hd demoModules) [''a@1''] = (Inl e, w3)"
    by (simp_all add: installOne_def migrate_def demoInstall_def demoModules_def demoModule_def modKey_def idle_def andThen_apply)
  then obtain e w3 where before: "eachM (installOne demoInstall 0 0) [hd (tl demoModules)] [] = (Inr (), [''a@1''])"
    and fails: "installOne demoInstall 0 0 (hd demoModules) [''a@1''] = (Inl e, w3)"
    by (auto simp: andThen_apply)
  have "startTx demoInstall 0 [] = (Inr (), [])" by (simp add: demoInstall_def idle_def)
  from failed_install_keeps_rows [OF surv this before fails, of "[]"] show ?thesis
    by (auto simp: demoModules_def demoModule_def modKey_def)
qed

end
