(* ===== verification/Metadata.thy ===== *)
theory Metadata
  imports Crud_Cache
begin

text \<open>
  The metadata database: \<open>src/src/entity/index.ts\<close> and
  \<open>src/src/services/repositories/metadata.ts\<close>, which record the users, their databases and the join
  table between them.

  The two TypeORM repositories and the connections are parameters (\<open>meta_repo\<close>).  The locale
  \<open>meta_store\<close> states what they do to the three tables (\<open>meta_tables\<close>, an observation of the world):
  a save inserts or overwrites the row of its primary key, saving a user makes the join table hold
  exactly the databases in \<open>iasqlDatabases\<close>, removing a database also removes it from the join table, a
  statement that throws changes nothing.  It is interpreted for tables kept as lists.
  The abstract specification is \<open>directory\<close>: which user has which database under which alias.
\<close>

section \<open>Entities\<close>

record database =
  pgName :: string            \<comment> \<open>primary key\<close>
  aliasOf :: string          \<comment> \<open>\<open>alias\<close>\<close>
  pgUser :: string
  numRecords :: int           \<comment> \<open>\<open>recordCount\<close>\<close>
  recordsApplied :: int
  recordsSynced :: int
  isUpgrading :: bool

record iasql_user =
  userId :: string            \<comment> \<open>primary key\<close>
  email :: string
  databases :: "database list"   \<comment> \<open>\<open>iasqlDatabases\<close>, loaded with the user\<close>

record 'w meta_repo =
  findUser :: "string \<Rightarrow> ('w, js_err thrown, iasql_user option) action"
  saveUser :: "iasql_user \<Rightarrow> ('w, js_err thrown, unit) action"
  findDb :: "string \<Rightarrow> ('w, js_err thrown, database option) action"
  findDbs :: "('w, js_err thrown, database list) action"
  usersOf :: "database \<Rightarrow> ('w, js_err thrown, iasql_user list) action"   \<comment> \<open>\<open>relations: ['iasqlUsers']\<close>\<close>
  saveRow :: "database \<Rightarrow> ('w, js_err thrown, unit) action"
  removeRow :: "database \<Rightarrow> ('w, js_err thrown, unit) action"
  notFound :: "js_err thrown"                                  \<comment> \<open>of \<open>findOneOrFail\<close>\<close>
  openBase :: "('w, js_err thrown, unit) action"
  closeBase :: "('w, js_err thrown, unit) action"
  createMeta :: "('w, js_err thrown, unit) action"             \<comment> \<open>\<open>CREATE DATABASE iasql_metadata\<close>\<close>
  openMeta :: "('w, js_err thrown, unit) action"
  addCron :: "('w, js_err thrown, unit) action"
  runMigrations :: "('w, js_err thrown, unit) action"
  actualDbs :: "('w, js_err thrown, string list) action"       \<comment> \<open>\<open>SELECT datname FROM pg_database\<close>\<close>

section \<open>The repository\<close>

definition removeMissing :: "'w meta_repo \<Rightarrow> string list \<Rightarrow> database \<Rightarrow> ('w, js_err thrown, unit) action" where
  "removeMissing r actual d = (if pgName d \<in> set actual then ret () else removeRow r d)"

definition cleanup :: "'w meta_repo \<Rightarrow> ('w, js_err thrown, unit) action" where
  "cleanup r = andThen (findDbs r) (\<lambda>expected. andThen (actualDbs r) (\<lambda>actual.
     eachM (removeMissing r actual) expected))"

definition metaInit :: "'w meta_repo \<Rightarrow> bool \<Rightarrow> ('w, js_err thrown, unit) action" where
  "metaInit r cleanDbs =
     andThen (openBase r) (\<lambda>_.
       andThen (tryFinally (tryCatch (createMeta r) (\<lambda>_. ret ())) (closeBase r)) (\<lambda>_.
         andThen (openMeta r) (\<lambda>_. andThen (addCron r) (\<lambda>_. andThen (runMigrations r) (\<lambda>_.
           if cleanDbs then cleanup r else ret ())))))"

definition hasAlias :: "string \<Rightarrow> database \<Rightarrow> bool" where
  "hasAlias a d = (aliasOf d = a)"

definition saveBoth :: "'w meta_repo \<Rightarrow> database \<Rightarrow> iasql_user \<Rightarrow> ('w, js_err thrown, database) action" where
  "saveBoth r db u = andThen (saveRow r db) (\<lambda>_. andThen (saveUser r u) (\<lambda>_. ret db))"

definition saveDb :: "'w meta_repo \<Rightarrow> string \<Rightarrow> string \<Rightarrow> database \<Rightarrow> ('w, js_err thrown, database) action" where
  "saveDb r a0Id mail db = andThen (findUser r a0Id) (\<lambda>found.
     case found of
       None \<Rightarrow> saveBoth r db \<lparr> userId = a0Id, email = mail, databases = [db] \<rparr>
     | Some u \<Rightarrow>
         if list_ex (hasAlias (aliasOf db)) (databases u)
         then throw (ErrObj (Err (''User with ID '' @ a0Id @ '' already has an IaSQL database with alias '' @ aliasOf db)))
         else saveBoth r db (u\<lparr> databases := databases u @ [db] \<rparr>))"

definition noAlias :: "string \<Rightarrow> string \<Rightarrow> js_err thrown" where
  "noAlias a0Id a = ErrObj (Err (''User with ID '' @ a0Id @ '' has no IaSQL database with alias '' @ a))"

definition userOrFail :: "'w meta_repo \<Rightarrow> string \<Rightarrow> ('w, js_err thrown, iasql_user) action" where
  "userOrFail r a0Id = andThen (findUser r a0Id) (\<lambda>found.
     case found of None \<Rightarrow> throw (notFound r) | Some u \<Rightarrow> ret u)"

definition getDb :: "'w meta_repo \<Rightarrow> string \<Rightarrow> string \<Rightarrow> ('w, js_err thrown, database) action" where
  "getDb r a0Id dbAlias = andThen (userOrFail r a0Id) (\<lambda>u.
     case find (hasAlias dbAlias) (databases u) of None \<Rightarrow> throw (noAlias a0Id dbAlias) | Some d \<Rightarrow> ret d)"

definition getDbById :: "'w meta_repo \<Rightarrow> string \<Rightarrow> ('w, js_err thrown, database option) action" where
  "getDbById r dbId = findDb r dbId"

definition getEmailByUid :: "'w meta_repo \<Rightarrow> string \<Rightarrow> ('w, js_err thrown, string) action" where
  "getEmailByUid r a0Id = andThen (findUser r a0Id) (\<lambda>found.
     ret (case found of None \<Rightarrow> ''hello@iasql.com'' | Some u \<Rightarrow> email u))"

definition updateDb ::
  "'w meta_repo \<Rightarrow> string \<Rightarrow> (database \<Rightarrow> database) \<Rightarrow> ('w, js_err thrown, database option) action" where
  "updateDb r dbId f = andThen (findDb r dbId) (\<lambda>found.
     case found of None \<Rightarrow> ret None | Some d \<Rightarrow> andThen (saveRow r (f d)) (\<lambda>_. ret (Some (f d))))"

definition updateRecordCount :: "'w meta_repo \<Rightarrow> string \<Rightarrow> int \<Rightarrow> ('w, js_err thrown, unit) action" where
  "updateRecordCount r dbId n = andThen (updateDb r dbId (\<lambda>d. d\<lparr> numRecords := n \<rparr>)) (\<lambda>_. ret ())"

definition incrementRecordsSynced :: "'w meta_repo \<Rightarrow> string \<Rightarrow> int \<Rightarrow> ('w, js_err thrown, int option) action" where
  "incrementRecordsSynced r dbId n =
     andThen (updateDb r dbId (\<lambda>d. d\<lparr> recordsSynced := recordsSynced d + n \<rparr>)) (\<lambda>d. ret (map_option recordsSynced d))"

definition incrementRecordsApplied :: "'w meta_repo \<Rightarrow> string \<Rightarrow> int \<Rightarrow> ('w, js_err thrown, int option) action" where
  "incrementRecordsApplied r dbId n =
     andThen (updateDb r dbId (\<lambda>d. d\<lparr> recordsApplied := recordsApplied d + n \<rparr>)) (\<lambda>d. ret (map_option recordsApplied d))"

definition getUserFromDbId :: "'w meta_repo \<Rightarrow> string \<Rightarrow> ('w, js_err thrown, iasql_user option) action" where
  "getUserFromDbId r dbId = andThen (findDb r dbId) (\<lambda>found.
     case found of None \<Rightarrow> ret None
     | Some d \<Rightarrow> andThen (usersOf r d) (\<lambda>us. ret (case us of [] \<Rightarrow> None | u # _ \<Rightarrow> Some u)))"

definition getDbs :: "'w meta_repo \<Rightarrow> string \<Rightarrow> string \<Rightarrow> ('w, js_err thrown, database list) action" where
  "getDbs r a0Id mail = andThen (findUser r a0Id) (\<lambda>found.
     case found of
       None \<Rightarrow> andThen (saveUser r \<lparr> userId = a0Id, email = mail, databases = [] \<rparr>) (\<lambda>_. ret [])
     | Some u \<Rightarrow> ret (databases u))"

definition getAllDbs :: "'w meta_repo \<Rightarrow> ('w, js_err thrown, database list) action" where
  "getAllDbs r = findDbs r"

definition dbUpgrading :: "'w meta_repo \<Rightarrow> database \<Rightarrow> bool \<Rightarrow> ('w, js_err thrown, unit) action" where
  "dbUpgrading r db up = saveRow r (db\<lparr> isUpgrading := up \<rparr>)"

definition delDb :: "'w meta_repo \<Rightarrow> string \<Rightarrow> string \<Rightarrow> ('w, js_err thrown, unit) action" where
  "delDb r a0Id dbAlias = andThen (userOrFail r a0Id) (\<lambda>u.
     case find (hasAlias dbAlias) (databases u) of
       None \<Rightarrow> throw (noAlias a0Id dbAlias)
     | Some d \<Rightarrow>
         andThen (saveUser r (u\<lparr> databases := filter (\<lambda>x. \<not> hasAlias dbAlias x) (databases u) \<rparr>)) (\<lambda>_.
           removeRow r d))"

section \<open>The tables\<close>

record meta_tables =
  emails :: "string \<Rightarrow> string option"
  dbRows :: "string \<Rightarrow> database option"
  links :: "(string \<times> string) set"        \<comment> \<open>\<open>iasql_user_databases\<close>\<close>

definition owned :: "meta_tables \<Rightarrow> string \<Rightarrow> database set" where
  "owned t u = {d. \<exists>n. (u, n) \<in> links t \<and> dbRows t n = Some d}"

definition loadedUser :: "meta_tables \<Rightarrow> iasql_user \<Rightarrow> bool" where
  "loadedUser t u \<longleftrightarrow> emails t (userId u) = Some (email u) \<and> set (databases u) = owned t (userId u)"

definition putUser :: "iasql_user \<Rightarrow> meta_tables \<Rightarrow> meta_tables" where
  "putUser u t = t\<lparr> emails := (emails t)(userId u \<mapsto> email u),
     links := {(v, n) \<in> links t. v \<noteq> userId u} \<union> {(userId u, pgName d) |d. d \<in> set (databases u)} \<rparr>"

definition putRow :: "database \<Rightarrow> meta_tables \<Rightarrow> meta_tables" where
  "putRow d t = t\<lparr> dbRows := (dbRows t)(pgName d \<mapsto> d) \<rparr>"

definition dropRow :: "database \<Rightarrow> meta_tables \<Rightarrow> meta_tables" where
  "dropRow d t = t\<lparr> dbRows := (dbRows t)(pgName d := None), links := {(v, n) \<in> links t. n \<noteq> pgName d} \<rparr>"

text \<open>
  Rows are stored under their own name, the join table refers to existing rows, a database has one
  user (as \<open>getUserFromDbId\<close> assumes), and a user has one database per alias.
\<close>

definition wfMeta :: "meta_tables \<Rightarrow> bool" where
  "wfMeta t \<longleftrightarrow>
     (\<forall>n d. dbRows t n = Some d \<longrightarrow> pgName d = n) \<and>
     (\<forall>u n. (u, n) \<in> links t \<longrightarrow> emails t u \<noteq> None \<and> dbRows t n \<noteq> None) \<and>
     (\<forall>u v n. (u, n) \<in> links t \<longrightarrow> (v, n) \<in> links t \<longrightarrow> u = v) \<and>
     (\<forall>u d e. d \<in> owned t u \<longrightarrow> e \<in> owned t u \<longrightarrow> aliasOf d = aliasOf e \<longrightarrow> d = e)"

definition directory :: "meta_tables \<Rightarrow> (string \<times> string \<times> database) set" where
  "directory t = {(u, aliasOf d, d) |u d. d \<in> owned t u}"

section \<open>The contract of the ORM\<close>

locale meta_store =
  fixes r :: "'w meta_repo" and meta :: "'w \<Rightarrow> meta_tables"
  assumes findUser_keeps: "meta (snd (findUser r u w)) = meta w"
    and findUser_None: "findUser r u w = (Inr None, w') \<Longrightarrow> emails (meta w) u = None"
    and findUser_Some: "findUser r u w = (Inr (Some usr), w') \<Longrightarrow> userId usr = u \<and> loadedUser (meta w) usr"
    and findDb_keeps: "meta (snd (findDb r n w)) = meta w"
    and findDb_row: "findDb r n w = (Inr row, w') \<Longrightarrow> row = dbRows (meta w) n"
    and findDbs_keeps: "meta (snd (findDbs r w)) = meta w"
    and findDbs_rows: "findDbs r w = (Inr ds, w') \<Longrightarrow> set ds = ran (dbRows (meta w))"
    and actual_keeps: "meta (snd (actualDbs r w)) = meta w"
    and saveUser_puts: "saveUser r usr w = (Inr (), w') \<Longrightarrow> meta w' = putUser usr (meta w)"
    and saveUser_fails: "saveUser r usr w = (Inl e, w') \<Longrightarrow> meta w' = meta w"
    and saveRow_puts: "saveRow r d w = (Inr (), w') \<Longrightarrow> meta w' = putRow d (meta w)"
    and saveRow_fails: "saveRow r d w = (Inl e, w') \<Longrightarrow> meta w' = meta w"
    and removeRow_drops: "removeRow r d w = (Inr (), w') \<Longrightarrow> meta w' = dropRow d (meta w)"
    and removeRow_fails: "removeRow r d w = (Inl e, w') \<Longrightarrow> meta w' = meta w"

section \<open>The operations on the tables\<close>

lemma links_putUser:
  "(v, n) \<in> links (putUser x t) \<longleftrightarrow> (if v = userId x then \<exists>y\<in>set (databases x). n = pgName y else (v, n) \<in> links t)"
  by (auto simp: putUser_def)

lemma rows_putUser [simp]: "dbRows (putUser x t) = dbRows t"
  by (simp add: putUser_def)

lemma rows_putRow [simp]: "dbRows (putRow d t) = (dbRows t)(pgName d \<mapsto> d)"
  by (simp add: putRow_def)

lemma in_owned: "d \<in> owned t u \<longleftrightarrow> (\<exists>n. (u, n) \<in> links t \<and> dbRows t n = Some d)"
  by (simp add: owned_def)

lemma owned_putUser:
  "d \<in> owned (putUser x t) v \<longleftrightarrow>
     (if v = userId x then \<exists>y\<in>set (databases x). dbRows t (pgName y) = Some d else d \<in> owned t v)"
  by (simp add: in_owned links_putUser) blast

lemma owned_putRow:
  assumes "dbRows t (pgName d) = None"
  shows "e \<in> owned (putRow d t) v \<longleftrightarrow> e \<in> owned t v \<or> e = d \<and> (v, pgName d) \<in> links t"
proof -
  have "links (putRow d t) = links t" by (simp add: putRow_def)
  moreover have "dbRows (putRow d t) n = Some e \<longleftrightarrow> dbRows t n = Some e \<or> n = pgName d \<and> e = d" for n
    using assms by (cases "n = pgName d") auto
  ultimately show ?thesis unfolding in_owned by blast
qed

lemma wf_key: "wfMeta t \<Longrightarrow> dbRows t n = Some d \<Longrightarrow> pgName d = n"
  by (simp add: wfMeta_def)

lemma wf_owned:
  assumes "wfMeta t" and "d \<in> owned t u"
  shows "dbRows t (pgName d) = Some d" and "(u, pgName d) \<in> links t"
proof -
  from assms(2) obtain n where n: "(u, n) \<in> links t" "dbRows t n = Some d" unfolding owned_def by blast
  with wf_key [OF assms(1) n(2)] show "dbRows t (pgName d) = Some d" "(u, pgName d) \<in> links t" by auto
qed

lemma wf_link: "wfMeta t \<Longrightarrow> (u, n) \<in> links t \<Longrightarrow> emails t u \<noteq> None \<and> dbRows t n \<noteq> None"
  by (simp add: wfMeta_def)

lemma wf_one_user: "wfMeta t \<Longrightarrow> (u, n) \<in> links t \<Longrightarrow> (v, n) \<in> links t \<Longrightarrow> u = v"
  by (simp add: wfMeta_def)

lemma wf_one_alias: "wfMeta t \<Longrightarrow> d \<in> owned t u \<Longrightarrow> e \<in> owned t u \<Longrightarrow> aliasOf d = aliasOf e \<Longrightarrow> d = e"
  by (simp add: wfMeta_def)

lemma no_user_owns_nothing: "wfMeta t \<Longrightarrow> emails t u = None \<Longrightarrow> owned t u = {}"
  by (auto simp: owned_def dest: wf_link)

lemma wf_fresh_unlinked: "wfMeta t \<Longrightarrow> dbRows t n = None \<Longrightarrow> (v, n) \<notin> links t"
  by (auto dest: wf_link)

text \<open>Adding a fresh database to a user.\<close>

lemma add_owned:
  assumes wf: "wfMeta t" and fresh: "dbRows t (pgName db) = None" and ds: "set (databases x) = insert db (owned t (userId x))"
  shows "owned (putUser x (putRow db t)) v = (if v = userId x then insert db (owned t v) else owned t v)"
proof -
  have other: "d \<in> owned (putRow db t) v \<longleftrightarrow> d \<in> owned t v" for d
    using owned_putRow [OF fresh] wf_fresh_unlinked [OF wf fresh] by simp
  have "{d. \<exists>y\<in>set (databases x). dbRows (putRow db t) (pgName y) = Some d} = insert db (owned t (userId x))"
  proof -
    have "dbRows (putRow db t) (pgName y) = Some y" if "y \<in> insert db (owned t (userId x))" for y
      using that wf_owned(1) [OF wf, of y "userId x"] fresh by (auto simp: putRow_def)
    then show ?thesis unfolding ds by auto
  qed
  with other show ?thesis by (intro set_eqI) (simp add: owned_putUser set_eq_iff)
qed

lemma add_wf:
  assumes wf: "wfMeta t" and fresh: "dbRows t (pgName db) = None" and ds: "set (databases x) = insert db (owned t (userId x))"
    and free: "\<forall>d\<in>owned t (userId x). aliasOf d \<noteq> aliasOf db"
  shows "wfMeta (putUser x (putRow db t))"
proof -
  let ?t = "putUser x (putRow db t)"
  have rows: "dbRows ?t = (dbRows t)(pgName db \<mapsto> db)" by simp
  have em: "emails ?t = (emails t)(userId x \<mapsto> email x)" by (simp add: putUser_def putRow_def)
  have lk: "(u, n) \<in> links ?t \<longleftrightarrow> (if u = userId x then n = pgName db \<or> (\<exists>d\<in>owned t u. n = pgName d) else (u, n) \<in> links t)" for u n
    using ds by (auto simp: putUser_def putRow_def)
  have own: "(userId x, pgName d) \<in> links t" if "d \<in> owned t (userId x)" for d
    using wf_owned(2) [OF wf that] .
  have lk2: "(u, n) \<in> links ?t \<Longrightarrow> u = userId x \<and> n = pgName db \<or> (u, n) \<in> links t" for u n
    unfolding lk by (auto simp: own split: if_splits)
  show ?thesis
    unfolding wfMeta_def
  proof (intro conjI allI impI)
    fix n d assume "dbRows ?t n = Some d"
    then show "pgName d = n" using wf_key [OF wf] by (auto simp: rows split: if_splits)
  next
    fix u n assume "(u, n) \<in> links ?t"
    from lk2 [OF this] show "emails ?t u \<noteq> None" "dbRows ?t n \<noteq> None"
      using wf_link [OF wf] by (auto simp: em rows)
  next
    fix u v n assume "(u, n) \<in> links ?t" "(v, n) \<in> links ?t"
    from lk2 [OF this(1)] lk2 [OF this(2)] show "u = v"
      using wf_one_user [OF wf] wf_fresh_unlinked [OF wf fresh] by blast
  next
    fix u d e assume "d \<in> owned ?t u" "e \<in> owned ?t u" "aliasOf d = aliasOf e"
    then show "d = e"
      using add_owned [OF wf fresh ds, of u] free wf_one_alias [OF wf, of d u e] by (auto split: if_splits)
  qed
qed

lemma add_directory:
  assumes wf: "wfMeta t" and fresh: "dbRows t (pgName db) = None" and ds: "set (databases x) = insert db (owned t (userId x))"
  shows "directory (putUser x (putRow db t)) = insert (userId x, aliasOf db, db) (directory t)"
  unfolding directory_def using add_owned [OF wf fresh ds] by (auto split: if_splits)

text \<open>A row that no user has.\<close>

lemma orphan_owned:
  assumes "wfMeta t" and "dbRows t (pgName db) = None"
  shows "owned (putRow db t) = owned t"
  using owned_putRow [OF assms(2)] wf_fresh_unlinked [OF assms] by (intro ext set_eqI) simp

lemma orphan_wf:
  assumes wf: "wfMeta t" and fresh: "dbRows t (pgName db) = None"
  shows "wfMeta (putRow db t)"
  using assms orphan_owned [OF assms] unfolding wfMeta_def by (auto simp: putRow_def)

text \<open>Taking a database from its user.\<close>

lemma take_owned:
  assumes wf: "wfMeta t" and ds: "set (databases x) \<subseteq> owned t (userId x)"
  shows "owned (putUser x t) v = (if v = userId x then set (databases x) else owned t v)"
proof -
  have "dbRows t (pgName y) = Some y" if "y \<in> set (databases x)" for y
    using wf_owned(1) [OF wf] ds that by blast
  then show ?thesis by (intro set_eqI) (auto simp: owned_putUser)
qed

lemma take_wf:
  assumes wf: "wfMeta t" and ds: "set (databases x) \<subseteq> owned t (userId x)" and "emails t (userId x) = Some (email x)"
  shows "wfMeta (putUser x t)"
proof -
  have "(userId x, pgName d) \<in> links t" if "d \<in> set (databases x)" for d
    using wf_owned(2) [OF wf] ds that by blast
  then have lk: "(u, n) \<in> links t" if "(u, n) \<in> links (putUser x t)" for u n
    using that by (auto simp: putUser_def)
  have own: "d \<in> owned t v" if "d \<in> owned (putUser x t) v" for d v
    using that take_owned [OF wf ds, of v] ds by (auto split: if_splits)
  have same: "emails (putUser x t) = emails t" "dbRows (putUser x t) = dbRows t"
    using assms(3) by (auto simp: putUser_def)
  show ?thesis
    unfolding wfMeta_def same
    using wf_key [OF wf] wf_link [OF wf] wf_one_user [OF wf] wf_one_alias [OF wf] by (blast dest: lk own)
qed

text \<open>Removing a database that its user no longer has.\<close>

lemma drop_owned: "e \<in> owned (dropRow d t) v \<longleftrightarrow> e \<in> owned t v \<and> (\<exists>n. n \<noteq> pgName d \<and> (v, n) \<in> links t \<and> dbRows t n = Some e)"
  by (auto simp: in_owned dropRow_def)

lemma drop_unlinked_owned:
  assumes "\<And>v. (v, pgName d) \<notin> links t"
  shows "owned (dropRow d t) = owned t"
proof (intro ext set_eqI)
  fix v e
  show "e \<in> owned (dropRow d t) v \<longleftrightarrow> e \<in> owned t v"
    unfolding drop_owned using assms in_owned [of e t v] by metis
qed

lemma drop_wf:
  assumes wf: "wfMeta t"
  shows "wfMeta (dropRow d t)"
proof -
  have own: "e \<in> owned t v" if "e \<in> owned (dropRow d t) v" for e v using that by (simp add: drop_owned)
  have lk: "(u, n) \<in> links t \<and> n \<noteq> pgName d" if "(u, n) \<in> links (dropRow d t)" for u n
    using that by (simp add: dropRow_def)
  have rows: "dbRows (dropRow d t) n = (if n = pgName d then None else dbRows t n)" "emails (dropRow d t) = emails t" for n
    by (simp_all add: dropRow_def)
  show ?thesis
    unfolding wfMeta_def rows
    using wf_key [OF wf] wf_link [OF wf] wf_one_user [OF wf] wf_one_alias [OF wf]
    by (auto dest!: lk own split: if_splits)
qed

section \<open>The repository meets its specification\<close>

context meta_store
begin

lemma userOrFail_loaded:
  assumes "userOrFail r u w = (Inr x, w')"
  shows "userId x = u" "loadedUser (meta w) x" "meta w' = meta w"
proof -
  from assms have "findUser r u w = (Inr (Some x), w')"
    by (auto simp: userOrFail_def andThen_apply split: prod.splits sum.splits option.splits)
  with findUser_Some findUser_keeps [of u w] show "userId x = u" "loadedUser (meta w) x" "meta w' = meta w" by auto
qed

lemma userOrFail_throws:
  assumes "userOrFail r u w = (Inl e, w')"
  shows "meta w' = meta w" "findUser r u w = (Inl e, w') \<or> emails (meta w) u = None"
  using assms findUser_keeps [of u w] findUser_None [of u w]
  by (auto simp: userOrFail_def andThen_apply split: prod.splits sum.splits option.splits)

lemma in_directory: "(u, a, d) \<in> directory t \<longleftrightarrow> d \<in> owned t u \<and> a = aliasOf d"
  by (auto simp: directory_def)

lemma saveBoth_adds:
  assumes wf: "wfMeta (meta w)" and fresh: "dbRows (meta w) (pgName db) = None"
    and ds: "set (databases x) = insert db (owned (meta w) (userId x))"
    and free: "\<forall>d\<in>owned (meta w) (userId x). aliasOf d \<noteq> aliasOf db"
    and run: "saveBoth r db x w = (res, w')"
  shows "wfMeta (meta w') \<and> directory (meta w') =
    (case res of Inl _ \<Rightarrow> directory (meta w) | Inr _ \<Rightarrow> insert (userId x, aliasOf db, db) (directory (meta w)))"
proof -
  obtain res1 w1 where row: "saveRow r db w = (res1, w1)" by force
  show ?thesis
  proof (cases res1)
    case (Inl e)
    with run row saveRow_fails [of db w e w1] wf show ?thesis by (auto simp: saveBoth_def)
  next
    case (Inr u)
    then have m1: "meta w1 = putRow db (meta w)" using row saveRow_puts [of db w w1] by simp
    obtain res2 w2 where usr: "saveUser r x w1 = (res2, w2)" by force
    show ?thesis
    proof (cases res2)
      case (Inl e)
      with run row usr Inr have "res = Inl e" "w' = w2" by (auto simp: saveBoth_def andThen_apply)
      moreover from usr Inl have "meta w2 = putRow db (meta w)" using saveUser_fails [of x w1 e w2] m1 by simp
      moreover have "directory (putRow db (meta w)) = directory (meta w)"
        by (simp add: directory_def orphan_owned [OF wf fresh])
      ultimately show ?thesis using orphan_wf [OF wf fresh] by simp
    next
      case (Inr u')
      with run row usr \<open>res1 = Inr u\<close> have "res = Inr db" "w' = w2" by (auto simp: saveBoth_def andThen_apply)
      moreover from usr Inr have "meta w2 = putUser x (putRow db (meta w))" using saveUser_puts [of x w1 w2] m1 by simp
      ultimately show ?thesis using add_wf [OF wf fresh ds free] add_directory [OF wf fresh ds] by simp
    qed
  qed
qed

lemma saveDb_adds:
  assumes wf: "wfMeta (meta w)" and fresh: "dbRows (meta w) (pgName db) = None"
    and run: "saveDb r u mail db w = (res, w')"
  shows "wfMeta (meta w') \<and>
    (case res of
       Inl _ \<Rightarrow> directory (meta w') = directory (meta w)
     | Inr _ \<Rightarrow> directory (meta w') = insert (u, aliasOf db, db) (directory (meta w)) \<and>
         (\<forall>d. (u, aliasOf db, d) \<notin> directory (meta w)))"
proof -
  obtain res1 w1 where f: "findUser r u w = (res1, w1)" by force
  have m1: "meta w1 = meta w" using findUser_keeps [of u w] f by simp
  show ?thesis
  proof (cases res1)
    case (Inl e)
    with run f wf m1 show ?thesis by (auto simp: saveDb_def)
  next
    case (Inr found)
    show ?thesis
    proof (cases found)
      case None
      let ?x = "\<lparr> userId = u, email = mail, databases = [db] \<rparr>"
      from run f Inr None have b: "saveBoth r db ?x w1 = (res, w')" by (simp add: saveDb_def)
      have o: "owned (meta w) u = {}" using no_user_owns_nothing [OF wf] findUser_None f Inr None by blast
      from saveBoth_adds [OF _ _ _ _ b] wf fresh o m1
      show ?thesis by (auto simp: in_directory split: sum.splits)
    next
      case (Some x)
      with f Inr findUser_Some have x: "userId x = u" "set (databases x) = owned (meta w) u"
        by (auto simp: loadedUser_def)
      show ?thesis
      proof (cases "list_ex (hasAlias (aliasOf db)) (databases x)")
        case True
        with run f Inr Some wf m1 show ?thesis by (auto simp: saveDb_def)
      next
        case False
        with run f Inr Some have b: "saveBoth r db (x\<lparr> databases := databases x @ [db] \<rparr>) w1 = (res, w')"
          by (simp add: saveDb_def)
        from False x have "\<forall>d\<in>owned (meta w) u. aliasOf d \<noteq> aliasOf db"
          by (auto simp: list_ex_iff hasAlias_def)
        with saveBoth_adds [OF _ _ _ _ b] wf fresh x m1
        show ?thesis by (auto simp: in_directory split: sum.splits)
      qed
    qed
  qed
qed

lemma getDb_looks_up:
  assumes "wfMeta (meta w)" and "getDb r u a w = (res, w')"
  shows "meta w' = meta w \<and>
    (case res of
       Inr d \<Rightarrow> (u, a, d) \<in> directory (meta w)
     | Inl e \<Rightarrow> findUser r u w = (Inl e, w') \<or> (\<forall>d. (u, a, d) \<notin> directory (meta w)))"
proof (cases "userOrFail r u w")
  case (Pair res1 w1)
  show ?thesis
  proof (cases res1)
    case (Inl e)
    with Pair userOrFail_throws [of u w e w1] assms no_user_owns_nothing [OF assms(1), of u]
    show ?thesis by (auto simp: getDb_def in_directory)
  next
    case (Inr x)
    with Pair userOrFail_loaded [of u w x w1] have "set (databases x) = owned (meta w) u" "meta w1 = meta w"
      by (auto simp: loadedUser_def)
    with assms(2) Pair Inr show ?thesis
      by (auto simp: getDb_def in_directory hasAlias_def find_Some_iff find_None_iff split: option.splits)
  qed
qed

end

lemma directory_dropRow:
  assumes wf: "wfMeta t"
  shows "directory (dropRow d t) = {(u, a, e) \<in> directory t. pgName e \<noteq> pgName d}"
proof -
  have "e \<in> owned (dropRow d t) u \<longleftrightarrow> e \<in> owned t u \<and> pgName e \<noteq> pgName d" for e u
    unfolding drop_owned using wf_key [OF wf, of _ e] wf_owned [OF wf, of e u] by blast
  then show ?thesis by (auto simp: directory_def)
qed

lemma directory_take:
  assumes wf: "wfMeta t" and ds: "set (databases x) = {d \<in> owned t (userId x). aliasOf d \<noteq> a}"
  shows "directory (putUser x t) = {(v, b, d) \<in> directory t. \<not> (v = userId x \<and> b = a)}"
proof -
  have "set (databases x) \<subseteq> owned t (userId x)" using ds by blast
  from take_owned [OF wf this] ds show ?thesis by (auto simp: directory_def split: if_splits)
qed

context meta_store
begin

lemma delDb_removes:
  assumes wf: "wfMeta (meta w)" and run: "delDb r u a w = (res, w')"
  defines "rest \<equiv> {(v, b, d) \<in> directory (meta w). \<not> (v = u \<and> b = a)}"
  shows "wfMeta (meta w') \<and>
    (case res of Inr _ \<Rightarrow> directory (meta w') = rest | Inl _ \<Rightarrow> directory (meta w') \<in> {directory (meta w), rest})"
proof (cases "userOrFail r u w")
  case (Pair res1 w1)
  show ?thesis
  proof (cases res1)
    case (Inl e)
    with Pair userOrFail_throws [of u w e w1] run wf show ?thesis by (auto simp: delDb_def)
  next
    case (Inr x)
    with Pair userOrFail_loaded [of u w x w1] have x: "userId x = u" "set (databases x) = owned (meta w) u"
      "emails (meta w) u = Some (email x)" and m1: "meta w1 = meta w" by (auto simp: loadedUser_def)
    show ?thesis
    proof (cases "find (hasAlias a) (databases x)")
      case None
      with Pair Inr run wf m1 show ?thesis by (auto simp: delDb_def)
    next
      case (Some d)
      then have "d \<in> set (databases x)" "aliasOf d = a" by (auto simp: find_Some_iff hasAlias_def)
      with x have d: "d \<in> owned (meta w) u" "aliasOf d = a" by auto
      let ?x = "x\<lparr> databases := filter (\<lambda>y. \<not> hasAlias a y) (databases x) \<rparr>" and ?t = "meta w"
      have left: "set (databases ?x) = {d \<in> owned ?t (userId ?x). aliasOf d \<noteq> a}" using x by (auto simp: hasAlias_def)
      have dir: "directory (putUser ?x ?t) = rest"
        using directory_take [OF wf left] x(1) by (simp add: rest_def)
      have sub: "set (databases ?x) \<subseteq> owned ?t (userId ?x)" using left by blast
      have wf': "wfMeta (putUser ?x ?t)" using take_wf [OF wf sub] x by simp
      obtain res2 w2 where usr: "saveUser r ?x w1 = (res2, w2)" by force
      show ?thesis
      proof (cases res2)
        case (Inl e)
        with usr saveUser_fails [of ?x w1 e w2] m1 have "meta w2 = ?t" by simp
        with run Pair Inr Some usr Inl wf \<open>res1 = Inr x\<close> show ?thesis by (auto simp: delDb_def)
      next
        case (Inr u2)
        with usr saveUser_puts [of ?x w1 w2] m1 have m2: "meta w2 = putUser ?x ?t" by simp
        have last: "removeRow r d w2 = (res, w')"
          using run Pair \<open>res1 = Inr x\<close> Some usr Inr by (simp add: delDb_def)
        have "(v, pgName d) \<notin> links (putUser ?x ?t)" for v
        proof
          assume lk: "(v, pgName d) \<in> links (putUser ?x ?t)"
          show False
          proof (cases "v = u")
            case True
            with lk x(1) obtain y where y: "y \<in> set (databases ?x)" "pgName y = pgName d"
              by (auto simp: links_putUser)
            with left x(1) wf_owned(1) [OF wf, of y u] wf_owned(1) [OF wf d(1)] d(2) show False by auto
          next
            case False
            with lk x(1) have "(v, pgName d) \<in> links ?t" by (simp add: links_putUser)
            with wf_one_user [OF wf this wf_owned(2) [OF wf d(1)]] False show False by simp
          qed
        qed
        then have "directory (dropRow d (putUser ?x ?t)) = rest"
          using drop_unlinked_owned [of d "putUser ?x ?t"] dir by (simp add: directory_def)
        moreover have "wfMeta (dropRow d (putUser ?x ?t))" using drop_wf [OF wf'] .
        ultimately show ?thesis
          using last removeRow_drops [of d w2 w'] removeRow_fails [of d w2 _ w'] m2 dir wf'
          by (cases res) auto
      qed
    qed
  qed
qed

lemma removeMissing_rows:
  "eachM (removeMissing r actual) ds w = (Inr (), w') \<Longrightarrow>
   dbRows (meta w') = (\<lambda>n. if n \<in> pgName ` set ds \<and> n \<notin> set actual then None else dbRows (meta w) n)"
proof (induction ds arbitrary: w)
  case (Cons d ds)
  then obtain u w1 where one: "removeMissing r actual d w = (Inr u, w1)"
    and rest: "eachM (removeMissing r actual) ds w1 = (Inr (), w')"
    by (auto simp: andThen_Inr_iff)
  have "dbRows (meta w1) = (if pgName d \<in> set actual then dbRows (meta w) else (dbRows (meta w))(pgName d := None))"
    using one removeRow_drops [of d w w1] by (auto simp: removeMissing_def dropRow_def split: if_splits)
  with Cons.IH [OF rest] show ?case by (auto simp: fun_eq_iff split: if_splits)
qed simp

lemma cleanup_rows:
  assumes wf: "wfMeta (meta w)" and run: "cleanup r w = (Inr (), w')"
  obtains actual w1 w2 where "actualDbs r w1 = (Inr actual, w2)" "meta w1 = meta w"
    "dbRows (meta w') = dbRows (meta w) |` set actual"
proof -
  from run obtain ds w1 actual w2 where steps: "findDbs r w = (Inr ds, w1)" "actualDbs r w1 = (Inr actual, w2)"
      "eachM (removeMissing r actual) ds w2 = (Inr (), w')"
    by (auto simp: cleanup_def andThen_Inr_iff)
  have m: "meta w1 = meta w" "meta w2 = meta w"
    using findDbs_keeps [of w] actual_keeps [of w1] steps by simp_all
  have "dbRows (meta w) n = None \<or> n \<in> pgName ` set ds" for n
    using findDbs_rows [OF steps(1)] wf_key [OF wf, of n] by (cases "dbRows (meta w) n") (auto simp: ran_def image_iff)
  then have "dbRows (meta w') = dbRows (meta w) |` set actual"
    using removeMissing_rows [OF steps(3)] m by (fastforce simp: fun_eq_iff restrict_map_def)
  with that steps m show thesis by blast
qed

end

section \<open>Tables kept as lists\<close>

record meta_world =
  wUsers :: "(string \<times> string) list"
  wDbs :: "database list"
  wLinks :: "(string \<times> string) list"
  wActual :: "string list"

definition rowIn :: "meta_world \<Rightarrow> string \<Rightarrow> database option" where
  "rowIn w n = find (\<lambda>d. pgName d = n) (wDbs w)"

definition tablesOf :: "meta_world \<Rightarrow> meta_tables" where
  "tablesOf w = \<lparr> emails = map_of (wUsers w), dbRows = rowIn w, links = set (wLinks w) \<rparr>"

definition loadUser :: "meta_world \<Rightarrow> string \<Rightarrow> iasql_user option" where
  "loadUser w u = map_option (\<lambda>e. \<lparr> userId = u, email = e,
     databases = List.map_filter (rowIn w) (map snd (filter (\<lambda>l. fst l = u) (wLinks w))) \<rparr>) (map_of (wUsers w) u)"

definition writing :: "(meta_world \<Rightarrow> meta_world) \<Rightarrow> (meta_world, js_err thrown, unit) action" where
  "writing f = (\<lambda>w. (Inr (), f w))"

definition listMeta :: "meta_world meta_repo" where
  "listMeta = \<lparr>
     findUser = (\<lambda>u w. (Inr (loadUser w u), w)),
     saveUser = (\<lambda>x. writing (\<lambda>w. w\<lparr> wUsers := (userId x, email x) # wUsers w,
       wLinks := filter (\<lambda>l. fst l \<noteq> userId x) (wLinks w) @ map (\<lambda>d. (userId x, pgName d)) (databases x) \<rparr>)),
     findDb = (\<lambda>n w. (Inr (rowIn w n), w)),
     findDbs = (\<lambda>w. (Inr (filter (\<lambda>d. rowIn w (pgName d) = Some d) (wDbs w)), w)),
     usersOf = (\<lambda>d w. (Inr (List.map_filter (loadUser w) (map fst (filter (\<lambda>l. snd l = pgName d) (wLinks w)))), w)),
     saveRow = (\<lambda>d. writing (\<lambda>w. w\<lparr> wDbs := d # wDbs w \<rparr>)),
     removeRow = (\<lambda>d. writing (\<lambda>w. w\<lparr> wDbs := filter (\<lambda>x. pgName x \<noteq> pgName d) (wDbs w),
       wLinks := filter (\<lambda>l. snd l \<noteq> pgName d) (wLinks w) \<rparr>)),
     notFound = ErrObj (Err ''EntityNotFoundError''),
     openBase = ret (), closeBase = ret (), createMeta = ret (), openMeta = ret (), addCron = ret (), runMigrations = ret (),
     actualDbs = (\<lambda>w. (Inr (wActual w), w)) \<rparr>"

lemma rowIn_key: "rowIn w n = Some d \<Longrightarrow> pgName d = n \<and> d \<in> set (wDbs w)"
  by (auto simp: rowIn_def find_Some_iff)

lemma rowIn_Nil: "rowIn (w\<lparr> wDbs := [] \<rparr>) = (\<lambda>n. None)"
  by (simp add: rowIn_def fun_eq_iff)

lemma find_filter: "find P (filter Q xs) = find (\<lambda>x. Q x \<and> P x) xs"
  by (induction xs) auto

lemma find_never [simp]: "find (\<lambda>x. False) xs = None"
  by (induction xs) auto

lemma loadUser_owned: "loadUser w u = Some x \<Longrightarrow> set (databases x) = owned (tablesOf w) u"
  by (auto simp: loadUser_def tablesOf_def owned_def List.map_filter_def image_iff) (blast, metis option.sel)

interpretation list_meta: meta_store listMeta tablesOf
proof unfold_locales
  fix u w usr w'
  assume "findUser listMeta u w = (Inr (Some usr), w')"
  then have l: "loadUser w u = Some usr" by (auto simp: listMeta_def)
  then have "userId usr = u" "emails (tablesOf w) u = Some (email usr)"
    by (auto simp: loadUser_def tablesOf_def)
  with loadUser_owned [OF l] show "userId usr = u \<and> loadedUser (tablesOf w) usr"
    by (simp add: loadedUser_def)
next
  fix w ds w'
  assume "findDbs listMeta w = (Inr ds, w')"
  then have "ds = filter (\<lambda>d. rowIn w (pgName d) = Some d) (wDbs w)" by (auto simp: listMeta_def)
  then show "set ds = ran (dbRows (tablesOf w))"
    using rowIn_key [of w] by (fastforce simp: tablesOf_def ran_def)
next
  fix d w w'
  assume "removeRow listMeta d w = (Inr (), w')"
  then show "tablesOf w' = dropRow d (tablesOf w)"
    by (auto simp: listMeta_def writing_def tablesOf_def dropRow_def rowIn_def find_filter fun_eq_iff intro!: arg_cong [where f = "\<lambda>P. find P (wDbs w)"])
qed (auto simp: listMeta_def writing_def tablesOf_def loadUser_def putUser_def putRow_def rowIn_def fun_eq_iff)

section \<open>Claims\<close>

text \<open>
  C8. Saving a new database refines insertion into the directory: when \<open>saveDb\<close> returns, the user had
  no database of that alias, the directory is the old one with the new entry, and every later
  \<open>getDb\<close> that returns finds exactly the database saved; when it throws, the directory is as before.
  The tables stay well-formed either way.
\<close>

theorem saveDb_refines:
  assumes store: "meta_store r meta" and wf: "wfMeta (meta w)" and fresh: "dbRows (meta w) (pgName db) = None"
    and run: "saveDb r u mail db w = (res, w')"
  shows "wfMeta (meta w') \<and>
    (case res of
       Inl _ \<Rightarrow> directory (meta w') = directory (meta w)
     | Inr _ \<Rightarrow> (\<forall>d. (u, aliasOf db, d) \<notin> directory (meta w)) \<and>
         directory (meta w') = insert (u, aliasOf db, db) (directory (meta w)) \<and>
         (\<forall>d w''. getDb r u (aliasOf db) w' = (Inr d, w'') \<longrightarrow> d = db))"
proof -
  note added = meta_store.saveDb_adds [OF store wf fresh run]
  show ?thesis
  proof (cases res)
    case (Inr x)
    have "d = db" if "getDb r u (aliasOf db) w' = (Inr d, w'')" for d w''
    proof -
      from meta_store.getDb_looks_up [OF store _ that] added have "(u, aliasOf db, d) \<in> directory (meta w')" by simp
      with added Inr show ?thesis by simp
    qed
    with added Inr show ?thesis by simp
  qed (use added in simp)
qed

definition demoDatabase :: "string \<Rightarrow> string \<Rightarrow> database" where
  "demoDatabase n a = \<lparr> pgName = n, aliasOf = a, pgUser = ''u'', numRecords = 0, recordsApplied = 0, recordsSynced = 0, isUpgrading = False \<rparr>"

definition demoMetaWorld :: meta_world where
  "demoMetaWorld = \<lparr> wUsers = [(''u1'', ''u1@x'')], wDbs = [demoDatabase ''d1'' ''prod''], wLinks = [(''u1'', ''d1'')], wActual = [''d2''] \<rparr>"

lemma demo_tables:
  "emails (tablesOf demoMetaWorld) = [''u1'' \<mapsto> ''u1@x'']" "dbRows (tablesOf demoMetaWorld) = [''d1'' \<mapsto> demoDatabase ''d1'' ''prod'']"
  "links (tablesOf demoMetaWorld) = {(''u1'', ''d1'')}"
  by (simp_all add: tablesOf_def demoMetaWorld_def rowIn_def demoDatabase_def fun_eq_iff)

lemma demo_wf: "wfMeta (tablesOf demoMetaWorld)"
  by (auto simp: wfMeta_def owned_def demo_tables demoDatabase_def split: if_splits)

theorem saveDb_refines_witness:
  "directory (tablesOf (snd (saveDb listMeta ''u1'' ''u1@x'' (demoDatabase ''d2'' ''test'') demoMetaWorld))) =
     insert (''u1'', ''test'', demoDatabase ''d2'' ''test'') (directory (tablesOf demoMetaWorld))"
proof -
  let ?db = "demoDatabase ''d2'' ''test''"
  obtain w' where run: "saveDb listMeta ''u1'' ''u1@x'' ?db demoMetaWorld = (Inr ?db, w')"
    by (simp add: saveDb_def saveBoth_def andThen_apply listMeta_def loadUser_def demoMetaWorld_def rowIn_def
        List.map_filter_def hasAlias_def demoDatabase_def writing_def)
  have "dbRows (tablesOf demoMetaWorld) (pgName ?db) = None" by (simp add: demo_tables demoDatabase_def)
  from saveDb_refines [OF list_meta.meta_store_axioms demo_wf this run] run show ?thesis
    by (simp add: demoDatabase_def)
qed

text \<open>
  Deleting a database refines removal from the directory: when \<open>delDb\<close> returns, exactly the entry of
  that user and alias is gone, and the tables stay well-formed.  A failure between its two statements
  has already removed the entry, and nothing else changes.
\<close>

theorem delDb_refines:
  assumes "meta_store r meta" and "wfMeta (meta w)" and "delDb r u a w = (res, w')"
  shows "wfMeta (meta w') \<and>
    directory (meta w') \<in> {{(v, b, d) \<in> directory (meta w). \<not> (v = u \<and> b = a)}} \<union>
      (case res of Inl _ \<Rightarrow> {directory (meta w)} | Inr _ \<Rightarrow> {})"
  using meta_store.delDb_removes [OF assms] by (cases res) auto

theorem delDb_refines_witness:
  "directory (tablesOf (snd (delDb listMeta ''u1'' ''prod'' demoMetaWorld))) = {}"
proof -
  obtain w' where run: "delDb listMeta ''u1'' ''prod'' demoMetaWorld = (Inr (), w')"
    by (simp add: delDb_def userOrFail_def andThen_apply listMeta_def loadUser_def demoMetaWorld_def rowIn_def
        List.map_filter_def hasAlias_def demoDatabase_def writing_def)
  have "directory (tablesOf demoMetaWorld) \<subseteq> {(''u1'', ''prod'', demoDatabase ''d1'' ''prod'')}"
    by (auto simp: directory_def owned_def demo_tables demoDatabase_def split: if_splits)
  with delDb_refines [OF list_meta.meta_store_axioms demo_wf run] run show ?thesis by auto
qed

text \<open>
  Starting up with \<open>cleanDbs\<close> leaves exactly the rows whose database exists on the server.
\<close>

theorem cleanup_keeps_existing:
  assumes "meta_store r meta" and "wfMeta (meta w)" and "cleanup r w = (Inr (), w')"
  shows "\<exists>actual w1 w2. actualDbs r w1 = (Inr actual, w2) \<and> dbRows (meta w') = dbRows (meta w) |` set actual"
  by (rule meta_store.cleanup_rows [OF assms]) blast

theorem cleanup_keeps_existing_witness:
  "dbRows (tablesOf (snd (cleanup listMeta demoMetaWorld))) = Map.empty"
proof -
  obtain w' where run: "cleanup listMeta demoMetaWorld = (Inr (), w')"
    by (simp add: cleanup_def andThen_apply listMeta_def demoMetaWorld_def rowIn_def removeMissing_def
        demoDatabase_def writing_def)
  from cleanup_keeps_existing [OF list_meta.meta_store_axioms demo_wf run] obtain actual w1 w2 where
    a: "actualDbs listMeta w1 = (Inr actual, w2)" "dbRows (tablesOf w') = dbRows (tablesOf demoMetaWorld) |` set actual"
    by blast
  have "dbRows (tablesOf w') ''d1'' = None"
    using run by (auto simp: cleanup_def andThen_apply listMeta_def demoMetaWorld_def rowIn_def removeMissing_def
        demoDatabase_def writing_def tablesOf_def)
  with a(2) run show ?thesis by (auto simp: demo_tables restrict_map_def fun_eq_iff split: if_splits)
qed

end
