(* ===== verification/Db_Manager.thy ===== *)
theory Db_Manager
  imports Install Metadata "HOL-Library.Word"
begin

text \<open>
  \<open>src/src/services/db-manager.ts\<close>: names and credentials of new databases, the statements that set
  them up, and \<open>migrate\<close>.

  \<open>pg-format\<close> is a parameter (\<open>fmt\<close>).  Randomness is a parameter too: the bytes of \<open>randomBytes(8)\<close>,
  and \<open>rnd i n\<close>, the value of \<open>Math.floor(Math.random() * n)\<close> in the i-th call of \<open>randChar\<close>.
\<close>

section \<open>Names and credentials\<close>

definition hexChar :: "nat \<Rightarrow> char" where
  "hexChar n = ''0123456789abcdef'' ! n"

definition hexByte :: "8 word \<Rightarrow> string" where
  "hexByte b = [hexChar (unat b div 16), hexChar (unat b mod 16)]"

definition randomHexValue :: "8 word list \<Rightarrow> string" where
  "randomHexValue bytes = concat (map hexByte bytes)"

definition genDbId :: "bool \<Rightarrow> 8 word list \<Rightarrow> string \<Rightarrow> string" where
  "genDbId multiUser bytes dbAlias = (if multiUser then CHR ''_'' # randomHexValue bytes else dbAlias)"

definition charsFrom :: "char \<Rightarrow> nat \<Rightarrow> string" where
  "charsFrom c n = map (\<lambda>i. char_of (of_char c + i :: nat)) [0..<n]"

definition userFirstCharCharset :: string where
  "userFirstCharCharset = charsFrom (CHR ''a'') 26"

definition userRestCharCharset :: string where
  "userRestCharCharset = userFirstCharCharset @ charsFrom (CHR ''0'') 10"

definition passwordCharset :: string where
  "passwordCharset = userRestCharCharset @ charsFrom (CHR ''A'') 26 @ ''$.^*''"

definition randChar :: "(nat \<Rightarrow> nat \<Rightarrow> nat) \<Rightarrow> nat \<Rightarrow> string \<Rightarrow> char" where
  "randChar rnd i a = a ! rnd i (length a)"

definition genUserAndPass :: "(nat \<Rightarrow> nat \<Rightarrow> nat) \<Rightarrow> string \<times> string" where
  "genUserAndPass rnd =
     (randChar rnd 0 userFirstCharCharset # map (\<lambda>i. randChar rnd i userRestCharCharset) [1..<8],
      map (\<lambda>i. randChar rnd i passwordCharset) [8..<24])"

section \<open>Statements\<close>

type_synonym formatter = "string \<Rightarrow> string list \<Rightarrow> string"

definition getGroupRole :: "string \<Rightarrow> string" where
  "getGroupRole dbId = ''group_role_'' @ dbId"

definition sqlLines :: "string list \<Rightarrow> string" where
  "sqlLines ls = nl # concat (map (\<lambda>l. spaces 4 @ l @ [nl]) ls) @ spaces 2"

definition newPostgresRoleQuery :: "formatter \<Rightarrow> string \<Rightarrow> string \<Rightarrow> string \<Rightarrow> string" where
  "newPostgresRoleQuery fmt user pass dbId =
     fmt (sqlLines [''CREATE ROLE %I LOGIN PASSWORD %L;'', ''GRANT CONNECT ON DATABASE %I TO %I;'',
            ''GRANT CREATE ON SCHEMA public TO %I;'']) [user, pass, dbId, user, user]"

definition createDbPostgreGroupRole :: "formatter \<Rightarrow> string \<Rightarrow> string" where
  "createDbPostgreGroupRole fmt dbId =
     fmt (sqlLines [''DO $$'', ''BEGIN'', ''CREATE ROLE %I;'',
            ''EXCEPTION WHEN duplicate_object THEN RAISE NOTICE '' @ [CHR 0x27] @ ''%, skipping'' @ [CHR 0x27] @
              '', SQLERRM USING ERRCODE = SQLSTATE;'', ''END'', ''$$;'']) [getGroupRole dbId]"

definition grantPostgresGroupRoleToUser :: "formatter \<Rightarrow> string \<Rightarrow> string \<Rightarrow> string" where
  "grantPostgresGroupRoleToUser fmt user dbId = fmt (sqlLines [''GRANT %I to %I;'']) [getGroupRole dbId, user]"

definition setPostgresRoleQuery :: "formatter \<Rightarrow> string \<Rightarrow> string" where
  "setPostgresRoleQuery fmt dbId = fmt (sqlLines [''SET ROLE %I;'']) [getGroupRole dbId]"

definition revokePostgresRoleQuery :: "formatter \<Rightarrow> string \<Rightarrow> string \<Rightarrow> string" where
  "revokePostgresRoleQuery fmt user dbId = fmt (sqlLines [''REVOKE %I FROM %I;'']) [getGroupRole dbId, user]"

definition dropPostgresRoleQuery :: "formatter \<Rightarrow> string \<Rightarrow> string \<Rightarrow> bool \<Rightarrow> string" where
  "dropPostgresRoleQuery fmt user dbId dropGroupRole =
     (if dropGroupRole then fmt ''DROP ROLE IF EXISTS %I; DROP ROLE IF EXISTS %I;'' [user, getGroupRole dbId]
      else fmt ''DROP ROLE IF EXISTS %I;'' [user])"

definition setUpDblink :: "formatter \<Rightarrow> string \<Rightarrow> string \<Rightarrow> string \<Rightarrow> string \<Rightarrow> string \<Rightarrow> string" where
  "setUpDblink fmt host port user password dbId =
     (let server = ''cron_dblink_'' @ dbId in
      fmt (sqlLines [''CREATE EXTENSION IF NOT EXISTS dblink;'',
            ''CREATE SERVER IF NOT EXISTS %I FOREIGN DATA WRAPPER dblink_fdw OPTIONS (host %L, dbname '' @
              [CHR 0x27] @ ''iasql_metadata'' @ [CHR 0x27] @ '', port %L);'',
            ''CREATE USER MAPPING IF NOT EXISTS FOR %I SERVER %I OPTIONS (user %L, password %L);''])
        [server, host, port, user, server, user, password])"

section \<open>The first migration of a database\<close>

definition quote :: "string \<Rightarrow> string" where
  "quote s = [CHR 0x27] @ s @ [CHR 0x27]"

definition insertModule :: "string \<Rightarrow> string" where
  "insertModule m = ''INSERT INTO iasql_module'' @ nl # spaces 18 @ ''VALUES ('' @ quote m @ '')''"

definition insertDependency :: "string \<Rightarrow> string \<Rightarrow> string" where
  "insertDependency m d = ''INSERT INTO iasql_dependencies'' @ nl # spaces 5 @ ''VALUES ('' @ quote m @ '', '' @ quote d @ '')''"

definition insertTables :: "string \<Rightarrow> string list \<Rightarrow> string" where
  "insertTables m ts = ''INSERT INTO iasql_tables (\"table\", \"module\") VALUES'' @ nl # spaces 4 @
     joinWith '', '' (map (\<lambda>t. ''('' @ quote t @ '', '' @ quote m @ '')'') ts) @ '';'' @ nl # spaces 2"

definition migrateDb :: "'w install_env \<Rightarrow> 'm emodule \<Rightarrow> 'm emodule \<Rightarrow> conn \<Rightarrow> ('w, unit) dbop" where
  "migrateDb v platform functions c =
     (let platformKey = ''iasql_platform@'' @ modVersion platform; functionsKey = ''iasql_functions@'' @ modVersion platform in
      andThen (openRunner v c) (\<lambda>qr.
        andThen (eachM (migrate v qr platform) [BeforeInstall, InstallStep, AfterInstall]) (\<lambda>_.
          andThen (runnerQuery v qr (insertModule platformKey)) (\<lambda>_.
            andThen (eachM (migrate v qr functions) [BeforeInstall, InstallStep, AfterInstall]) (\<lambda>_.
              andThen (runnerQuery v qr (insertModule functionsKey)) (\<lambda>_.
                andThen (runnerQuery v qr (insertDependency functionsKey platformKey)) (\<lambda>_.
                  andThen (runnerQuery v qr (insertTables platformKey (provTables platform))) (\<lambda>_.
                    releaseRunner v qr))))))))"

section \<open>What the generators produce\<close>

lemma charset_lengths [simp]:
  "length userFirstCharCharset = 26" "length userRestCharCharset = 36" "length passwordCharset = 66"
  by (simp_all add: userFirstCharCharset_def userRestCharCharset_def passwordCharset_def charsFrom_def)

lemma charsets:
  "set userFirstCharCharset = set ''abcdefghijklmnopqrstuvwxyz''"
  "set userRestCharCharset = set ''abcdefghijklmnopqrstuvwxyz0123456789''"
  "set passwordCharset = set ''abcdefghijklmnopqrstuvwxyz0123456789ABCDEFGHIJKLMNOPQRSTUVWXYZ$.^*''"
  by code_simp+

lemma randChar_in: "rnd i (length a) < length a \<Longrightarrow> randChar rnd i a \<in> set a"
  by (simp add: randChar_def)



lemma hexChar_inj: "i < 16 \<Longrightarrow> j < 16 \<Longrightarrow> hexChar i = hexChar j \<longleftrightarrow> i = j"
proof -
  have "\<forall>i\<in>set [0..<16]. \<forall>j\<in>set [0..<16]. hexChar i = hexChar j \<longrightarrow> i = j" by code_simp
  then show "i < 16 \<Longrightarrow> j < 16 \<Longrightarrow> hexChar i = hexChar j \<longleftrightarrow> i = j" by auto
qed

lemma unat_byte: "unat (b :: 8 word) < 256"
  using unsigned_less [where ?'a = nat, of b] by simp

lemma hexByte_inj: "hexByte a = hexByte b \<longleftrightarrow> a = b"
proof
  assume "hexByte a = hexByte b"
  then have "unat a div 16 = unat b div 16" "unat a mod 16 = unat b mod 16"
    using unat_byte [of a] unat_byte [of b] by (simp_all add: hexByte_def hexChar_inj)
  then have "unat a = unat b" by (metis div_mult_mod_eq)
  then show "a = b" by (simp add: word_unat_eq_iff)
qed simp

lemma randomHexValue_inj: "randomHexValue as = randomHexValue bs \<Longrightarrow> as = bs"
proof (induction as arbitrary: bs)
  case Nil
  then show ?case by (cases bs) (simp_all add: randomHexValue_def hexByte_def)
next
  case (Cons a as)
  then obtain b bs' where bs: "bs = b # bs'" by (cases bs) (simp_all add: randomHexValue_def hexByte_def)
  with Cons.prems have "hexByte a = hexByte b" "randomHexValue as = randomHexValue bs'"
    by (simp_all add: randomHexValue_def hexByte_def)
  with Cons.IH bs show ?case by (simp add: hexByte_inj)
qed

text \<open>Different random bytes give different names, so two databases of different draws never share one.\<close>

theorem genDbId_injective:
  "genDbId True as alias1 = genDbId True bs alias2 \<longleftrightarrow> as = bs"
  using randomHexValue_inj by (auto simp: genDbId_def)

end
