(* ===== verification/Rpc_Sql.thy ===== *)
theory Rpc_Sql
  imports Db_Manager Rpc_Call
begin

text \<open>
  The SQL that exposes a method of a module to the database: \<open>RpcBase\<close> and \<open>AwsSdkInvoker\<close> of
  \<open>src/src/modules/interfaces.ts\<close>.

  \<open>snakeCase\<close> of TypeORM, \<open>pg-format\<close> and the host of the configuration are parameters.
\<close>

section \<open>RPCs\<close>

datatype arg_default = NoDefault | NullDefault | BoolDefault bool | StrDefault string

datatype rpc_arg =
    PlainArg string                                   \<comment> \<open>a type\<close>
  | FullArg string arg_default bool bool              \<comment> \<open>type, default, \<open>rawDefault\<close>, \<open>variadic\<close>\<close>

record rpc_base =
  rpcModule :: "string option"                        \<comment> \<open>\<open>module.name\<close>\<close>
  hasCall :: bool
  outputTable :: "(string \<times> string) list option"
  inputTable :: "(string \<times> rpc_arg) list"
  rpcDoc :: "(string \<times> string) option"               \<comment> \<open>description and sample usage\<close>
  preCheck :: string
  postCheck :: string

record sql_env =
  snake :: "string \<Rightarrow> string"
  rpcHost :: string
  pgf :: formatter

definition defaultInput :: "(string \<times> rpc_arg) list" where
  "defaultInput = [(''_args'', FullArg ''TEXT[]'' (StrDefault ''ARRAY[]::text[]'') True True)]"

definition rpcInit :: "rpc_base \<Rightarrow> js_err thrown + unit" where
  "rpcInit r =
     (if rpcModule r = None then Inl (newError ''No module established for this RPC'')
      else if \<not> hasCall r then Inl (newError ''No call established for this RPC'')
      else if outputTable r = None then Inl (newError ''No output established for this RPC'')
      else Inr ())"

definition formatObjKeysToSnakeCase :: "(string \<Rightarrow> string) \<Rightarrow> 'v obj \<Rightarrow> 'v obj" where
  "formatObjKeysToSnakeCase snk ob = fold (\<lambda>(k, v). obj_set (snk k) v) ob []"

section \<open>The signature\<close>

text \<open>A template literal prints \<open>undefined\<close>, \<open>null\<close>, \<open>true\<close> and \<open>false\<close> by these names.\<close>

fun rawText :: "arg_default \<Rightarrow> string" where
  "rawText NoDefault = ''undefined''"
| "rawText NullDefault = ''null''"
| "rawText (BoolDefault b) = (if b then ''true'' else ''false'')"
| "rawText (StrDefault s) = s"

fun sqlDefault :: "arg_default \<Rightarrow> string" where
  "sqlDefault NoDefault = ''undefined''"
| "sqlDefault NullDefault = ''NULL''"
| "sqlDefault (BoolDefault b) = (if b then ''TRUE'' else ''FALSE'')"
| "sqlDefault (StrDefault s) = quote s"

fun inputArg :: "(string \<Rightarrow> string) \<Rightarrow> string \<times> rpc_arg \<Rightarrow> string" where
  "inputArg snk (k, PlainArg t) = snk k @ '' '' @ t"
| "inputArg snk (k, FullArg t d raw variadic) =
     (if variadic then ''VARIADIC'' else []) @ '' '' @ snk k @ '' '' @ t @ '' = '' @ (if raw then rawText d else sqlDefault d)"

definition getRpcInput :: "(string \<Rightarrow> string) \<Rightarrow> (string \<times> rpc_arg) list \<Rightarrow> string \<times> string" where
  "getRpcInput snk ins =
     (joinWith '', '' (map (inputArg snk) ins),
      if map fst ins = [''_args''] then ''_args''
      else ''(SELECT array['' @ joinWith '', '' (map (snk \<circ> fst) ins) @ '']::varchar[])'')"

section \<open>The function\<close>

definition columnList :: "(string \<times> string) list \<Rightarrow> string" where
  "columnList out = joinWith '', '' (map (\<lambda>(c, t). c @ '' '' @ t) out)"

definition castList :: "(string \<times> string) list \<Rightarrow> string" where
  "castList out = joinWith '', ''
     (map (\<lambda>(c, t). ''try_cast(j.s->>'' @ quote c @ '', NULL::'' @ t @ '') as '' @ c) out)"

definition sqlText :: "(nat \<times> string) list \<Rightarrow> string" where
  "sqlText ls = nl # joinWith [nl] (map (\<lambda>(n, l). spaces n @ l) ls)"

text \<open>From the language on, the two kinds of functions differ only in the parameters they post.\<close>

definition functionBody :: "sql_env \<Rightarrow> rpc_base \<Rightarrow> string \<Rightarrow> string \<Rightarrow> (nat \<times> string) list" where
  "functionBody v r key params =
     (let out = (case outputTable r of None \<Rightarrow> [] | Some os \<Rightarrow> os) in
     [(8, ''language plpgsql security definer''), (8, ''as $$''), (8, ''declare''), (10, ''_content text;''), (8, ''begin''),
      (10, ''perform http.http_set_curlopt('' @ quote ''CURLOPT_TIMEOUT_MS'' @ '', '' @ quote ''3600000'' @ '');''),
      (10, ''select content into _content''), (10, ''from http.http_post(''),
      (12, quote (''http://'' @ rpcHost v @ '':8088/v1/db/rpc'') @ '',''), (12, ''json_build_object(''),
      (14, quote ''dbId'' @ '', current_database(),''), (14, quote ''dbUser'' @ '', SESSION_USER,''),
      (14, quote ''params'' @ '', '' @ params @ '',''),
      (14, quote ''modulename'' @ '', '' @ quote (the (rpcModule r)) @ '',''),
      (14, quote ''methodname'' @ '', '' @ quote key @ '',''),
      (14, quote ''preTransaction'' @ '', '' @ quote (preCheck r) @ '',''),
      (14, quote ''postTransaction'' @ '', '' @ quote (postCheck r)),
      (12, '')::varchar,''), (12, quote ''application/json''), (10, '');''),
      (10, ''if json_typeof(_content::json) <> '' @ quote ''array'' @ '' then''),
      (12, ''if json_typeof(_content::json) = '' @ quote ''object'' @ '' then''),
      (14, ''raise exception '' @ quote ''Error: %'' @ '', _content::json->>'' @ quote ''message'' @ '';''),
      (12, ''else''), (14, ''raise exception '' @ quote ''Error: %'' @ '', _content;''), (12, ''end if;''), (10, ''end if;''),
      (10, ''return query select''), (12, castList out), (10, ''from (''),
      (12, ''select json_array_elements(_content::json) as s''), (10, '') as j;''), (8, ''end;''), (8, ''$$;''), (6, [])])"

definition dquote :: "string \<Rightarrow> string" where
  "dquote s = [CHR 0x22] @ s @ [CHR 0x22]"

definition docComment :: "sql_env \<Rightarrow> string \<Rightarrow> string \<times> string \<Rightarrow> string" where
  "docComment v key d = pgf v ''COMMENT ON FUNCTION %I IS %L;''
     [snake v key, jsonStr (JObj [(''description'', JStr (fst d)), (''sample_usage'', JStr (snd d))])]"

record rpc_sql =
  afterInstallSql :: string
  beforeUninstallSql :: string

definition getInstallUninstallSql :: "sql_env \<Rightarrow> rpc_base \<Rightarrow> string \<Rightarrow> js_err thrown + rpc_sql" where
  "getInstallUninstallSql v r key =
     (let out = (case outputTable r of None \<Rightarrow> [] | Some os \<Rightarrow> os);
          names = map (snake v \<circ> fst) (inputTable r);
          common = uniq (filter (\<lambda>n. n \<in> set (map fst out)) names);
          (args, params) = getRpcInput (snake v) (inputTable r)
      in if common \<noteq> []
         then Inl (newError (''A variable name can'' @ [CHR 0x27] @ ''t be both input and output in '' @ key @ '' RPC: '' @ joinWith '', '' common))
         else Inr \<lparr>
           afterInstallSql = sqlText ((8, ''create or replace function '' @ snake v key @ ''('' @ args @ '') returns table ('' @ columnList out @ '')'')
               # functionBody v r key params)
             @ (case rpcDoc r of None \<Rightarrow> [] | Some d \<Rightarrow> docComment v key d),
           beforeUninstallSql = sqlText [(8, ''DROP FUNCTION '' @ dquote (snake v key) @ '';''), (6, [])] \<rparr>)"

section \<open>Invoking the AWS SDK\<close>

definition invokerOutput :: "(string \<times> string) list" where
  "invokerOutput = [(''result'', ''json'')]"

text \<open>\<open>methods\<close> are the own property names of the client's prototype.\<close>

definition getMethodNamesEnumCreateSql :: "string list \<Rightarrow> string \<Rightarrow> string" where
  "getMethodNamesEnumCreateSql methods enumName =
     ''create type '' @ enumName @ '' as enum ('' @
       joinWith '','' (map quote (filter (\<lambda>n. n \<noteq> ''constructor'') methods)) @ '');''"

definition invokerSql :: "sql_env \<Rightarrow> rpc_base \<Rightarrow> string list \<Rightarrow> string \<Rightarrow> rpc_sql" where
  "invokerSql v r methods key =
     (let enumName = snake v key @ ''_method_names''; out = (case outputTable r of None \<Rightarrow> [] | Some os \<Rightarrow> os) in \<lparr>
        afterInstallSql = getMethodNamesEnumCreateSql methods enumName @ sqlText (
          [(8, ''create or replace function '' @ snake v key @ ''(method_name '' @ enumName @
              '', method_input json, region varchar default default_aws_region()) returns table (''),
           (10, columnList out), (8, '')'')]
          @ functionBody v r key ''(SELECT array[method_name, method_input, region]::varchar[])''),
        beforeUninstallSql = sqlText [(8, ''DROP FUNCTION '' @ dquote (snake v key) @ ''('' @ enumName @ '', json, varchar);''),
          (8, ''DROP TYPE '' @ enumName @ '';''), (6, [])] \<rparr>)"

text \<open>
  The call: the client's method on the parsed arguments, without the metadata of the response.  The
  client of a region, \<open>JSON.parse\<close> and the method are parameters.
\<close>

definition invokerCall ::
  "(string \<Rightarrow> ('w, 'c) dbop) \<Rightarrow> (string \<Rightarrow> ('w, jsval) dbop) \<Rightarrow> ('c \<Rightarrow> string \<Rightarrow> jsval \<Rightarrow> ('w, jsval obj) dbop)
     \<Rightarrow> string \<Rightarrow> string \<Rightarrow> string \<Rightarrow> ('w, (string \<times> string) list list) dbop" where
  "invokerCall client parseJson invoke methodName argsString region =
     andThen (client region) (\<lambda>c.
       andThen (parseJson argsString) (\<lambda>args.
         andThen (invoke c methodName args) (\<lambda>res.
           ret [[(''result'', jsonStr (JObj (filter (\<lambda>p. fst p \<noteq> ''$metadata'') res)))]])))"

section \<open>The RPCs of a module\<close>

text \<open>\<open>ModuleBase.getRpcSql\<close>; each RPC answers its two statements or throws.\<close>

fun getRpcSql :: "(js_err thrown + rpc_sql) list \<Rightarrow> string \<times> string \<Rightarrow> js_err thrown + string \<times> string" where
  "getRpcSql [] (ins, uns) = Inr (ins, uns)"
| "getRpcSql (Inl e # rs) _ = Inl e"
| "getRpcSql (Inr r # rs) (ins, uns) =
     getRpcSql rs (ins @ afterInstallSql r, beforeUninstallSql r @ uns)"

section \<open>Claims\<close>

lemma getRpcSql_all:
  "getRpcSql (map Inr rs) (i, u) = Inr (i @ concat (map afterInstallSql rs), concat (rev (map beforeUninstallSql rs)) @ u)"
  by (induction rs arbitrary: i u) simp_all

lemma getRpcSql_Inr:
  "getRpcSql xs acc = Inr r \<Longrightarrow> \<exists>rs. xs = map Inr rs"
  by (induction xs acc rule: getRpcSql.induct) (auto, metis list.simps(9))

text \<open>
  The functions of a module are installed in the order of its RPCs and removed in the reverse order,
  each exactly once, and a module gets SQL at all only when every RPC has some.
\<close>

theorem getRpcSql_mirrors:
  "getRpcSql xs ([], []) = Inr (ins, uns) \<longleftrightarrow>
   (\<exists>rs. xs = map Inr rs \<and> ins = concat (map afterInstallSql rs) \<and> uns = concat (map beforeUninstallSql (rev rs)))"
proof
  assume run: "getRpcSql xs ([], []) = Inr (ins, uns)"
  from getRpcSql_Inr [OF this] obtain rs where "xs = map Inr rs" by blast
  with run show "\<exists>rs. xs = map Inr rs \<and> ins = concat (map afterInstallSql rs) \<and> uns = concat (map beforeUninstallSql (rev rs))"
    by (auto simp: getRpcSql_all rev_map)
qed (auto simp: getRpcSql_all rev_map)

text \<open>
  The statements of an RPC exist exactly when no snake-cased input name is an output column.
\<close>

theorem getInstallUninstallSql_ok_iff:
  "(\<exists>s. getInstallUninstallSql v r key = Inr s) \<longleftrightarrow>
   (\<forall>k\<in>fst ` set (inputTable r). snake v k \<notin> fst ` set (case outputTable r of None \<Rightarrow> [] | Some os \<Rightarrow> os))"
proof -
  have "uniq xs = [] \<longleftrightarrow> xs = []" for xs :: "string list" by (cases xs) auto
  then show ?thesis
    by (auto simp: getInstallUninstallSql_def Let_def filter_empty_conv split: prod.splits)
qed

end
