(* ===== verification/Module_Base.thy ===== *)
theory Module_Base
  imports Rpc_Sql
begin

text \<open>
  Loading a module: \<open>ModuleBase\<close> of \<open>src/src/modules/interfaces.ts\<close>, which finds a module's name,
  dependencies, tables, functions and migrations in its directory.

  The file system, the parser \<open>pgsql-parser\<close> and \<open>JSON.parse\<close> are parameters; of a syntax tree the model
  has the nodes the code looks at (\<open>pg_stmt\<close>).  Of the generated migration class the model has the
  texts that its \<open>up\<close> passes to \<open>query\<close>, which the code collects by running a copy of \<open>up\<close>.
\<close>

section \<open>Syntax trees\<close>

record fn_param =
  paramMode :: string
  paramName :: "string option"
  paramType :: "string list"          \<comment> \<open>\<open>argType.names\<close>\<close>

datatype pg_stmt =
    CreateStmt "string option"                                            \<comment> \<open>\<open>relation.relname\<close>\<close>
  | CreateFunctionStmt "string list" "string list" "fn_param list"        \<comment> \<open>\<open>funcname\<close>, \<open>returnType.names\<close>, \<open>parameters\<close>\<close>
  | CommentStmt "string list option" "string option"                      \<comment> \<open>\<open>objname\<close> and \<open>comment\<close>\<close>
  | OtherStmt

record fn_doc =
  description :: "string option"
  sample_usage :: "string option"
  signature :: "string option"

text \<open>\<open>names?.pop()?.String?.str\<close>\<close>

definition popName :: "string list \<Rightarrow> string option" where
  "popName ns = (if ns = [] then None else Some (last ns))"

definition shown :: "string option \<Rightarrow> string" where
  "shown s = (case s of None \<Rightarrow> ''undefined'' | Some x \<Rightarrow> x)"

section \<open>Tables and functions of a SQL file\<close>

fun createdTable :: "pg_stmt \<Rightarrow> string option" where
  "createdTable (CreateStmt n) = truthyStr n"
| "createdTable _ = None"

definition getTablesFromSql :: "(string \<Rightarrow> pg_stmt list option) \<Rightarrow> string \<Rightarrow> string list" where
  "getTablesFromSql parse sql = (case parse sql of None \<Rightarrow> [] | Some ss \<Rightarrow> List.map_filter createdTable ss)"

definition isInput :: "fn_param \<Rightarrow> bool" where
  "isInput p = (paramMode p = ''FUNC_PARAM_IN'' \<or> paramMode p = ''FUNC_PARAM_VARIADIC'')"

definition inputText :: "fn_param \<Rightarrow> string" where
  "inputText p =
     (let variadic = (paramMode p = ''FUNC_PARAM_VARIADIC'') in
      (if variadic then ''variadic '' else []) @ shown (paramName p) @ '' '' @ shown (popName (paramType p))
        @ (if variadic then ''[]'' else []))"

definition outputText :: "fn_param \<Rightarrow> string" where
  "outputText p = shown (paramName p) @ '' '' @ shown (popName (paramType p))"

definition signatureOf :: "fn_param list \<Rightarrow> string" where
  "signatureOf ps =
     ''('' @ joinWith '', '' (map inputText (filter isInput ps)) @ '') => (''
       @ joinWith '', '' (map outputText (filter (\<lambda>p. \<not> isInput p) ps)) @ '')''"

fun createdFunction :: "pg_stmt \<Rightarrow> (string \<times> fn_doc) option" where
  "createdFunction (CreateFunctionStmt names rtype params) =
     (if popName rtype = Some ''trigger'' then None
      else (case truthyStr (popName names) of None \<Rightarrow> None
       | Some n \<Rightarrow> Some (n, \<lparr> description = None, sample_usage = None, signature = Some (signatureOf params) \<rparr>)))"
| "createdFunction _ = None"

text \<open>The name and the documentation of a comment; an empty \<open>objname\<close> is a TypeError.\<close>

fun commented :: "(string \<Rightarrow> (string option \<times> string option) option) \<Rightarrow> pg_stmt
    \<Rightarrow> js_err thrown + (string \<times> string option \<times> string option) option" where
  "commented parseDoc (CommentStmt objname c) =
     (if objname = Some [] then Inl (newError ''TypeError'')
      else Inr (case (objname, c) of
        (Some ns, Some txt) \<Rightarrow>
          (case (truthyStr (popName ns), parseDoc txt) of (Some n, Some d) \<Rightarrow> Some (n, d) | _ \<Rightarrow> None)
      | _ \<Rightarrow> None))"
| "commented _ _ = Inr None"

fun mapE :: "('a \<Rightarrow> 'e + 'b) \<Rightarrow> 'a list \<Rightarrow> 'e + 'b list" where
  "mapE f [] = Inr []"
| "mapE f (x # xs) = (case f x of Inl e \<Rightarrow> Inl e
     | Inr y \<Rightarrow> (case mapE f xs of Inl e \<Rightarrow> Inl e | Inr ys \<Rightarrow> Inr (y # ys)))"

definition noDoc :: fn_doc where
  "noDoc = \<lparr> description = None, sample_usage = None, signature = None \<rparr>"

definition withDoc :: "string \<times> string option \<times> string option \<Rightarrow> fn_doc obj \<Rightarrow> fn_doc obj" where
  "withDoc d fs =
     (case d of (n, desc, usage) \<Rightarrow>
       obj_set n ((case map_of fs n of None \<Rightarrow> noDoc | Some f \<Rightarrow> f)\<lparr> description := desc, sample_usage := usage \<rparr>) fs)"

definition getFunctionsFromSql :: "(string \<Rightarrow> pg_stmt list option) \<Rightarrow>
    (string \<Rightarrow> (string option \<times> string option) option) \<Rightarrow> string \<Rightarrow> fn_doc obj" where
  "getFunctionsFromSql parse parseDoc sql =
     (case parse sql of None \<Rightarrow> []
      | Some ss \<Rightarrow>
          (let fs = fold (\<lambda>(n, f). obj_set n f) (List.map_filter createdFunction ss) [] in
           case mapE (commented parseDoc) ss of
             Inl e \<Rightarrow> []
           | Inr ds \<Rightarrow> fold withDoc (List.map_filter id ds) fs))"

section \<open>\<open>loadBasics\<close>\<close>

record load_env =
  sqlOf :: sql_env
  engineVersion :: string
  readFile :: "string \<Rightarrow> string option"          \<comment> \<open>\<open>fs.readFileSync\<close>\<close>
  listDir :: "string \<Rightarrow> string list"             \<comment> \<open>\<open>fs.readdirSync\<close>\<close>
  parsePg :: "string \<Rightarrow> pg_stmt list option"
  parseDocs :: "string \<Rightarrow> (string option \<times> string option) option"
  moduleJson :: "string \<Rightarrow> string list"          \<comment> \<open>\<open>dependencies\<close> of \<open>module.json\<close>\<close>
  upQueries :: "string \<Rightarrow> string list option"    \<comment> \<open>of the migration in a file; \<open>None\<close>: it is not a migration\<close>

record loaded =
  ldName :: string
  ldVersion :: string
  ldDeps :: "string list"
  ldTables :: "string option list"
  ldFunctions :: "fn_doc obj"
  ldMigrations :: "(migration \<times> string) list"    \<comment> \<open>the texts that are run, where there are any\<close>

definition readSqlDir :: "load_env \<Rightarrow> string \<Rightarrow> string \<Rightarrow> string" where
  "readSqlDir v dirname f = (case readFile v (dirname @ ''/sql/'' @ f @ ''.sql'') of None \<Rightarrow> [] | Some t \<Rightarrow> t)"

definition moduleName :: "string \<Rightarrow> string" where
  "moduleName dirname = last (splitOn (CHR ''/'') dirname)"

definition migrationTexts :: "string \<Rightarrow> string \<Rightarrow> string \<Rightarrow> string \<Rightarrow> (migration \<times> string) list" where
  "migrationTexts beforeInstall afterInstall beforeUninstall afterUninstall =
     filter (\<lambda>(_, t). t \<noteq> []) [(BeforeInstall, beforeInstall), (AfterInstall, afterInstall),
       (BeforeRemove, beforeUninstall), (AfterRemove, afterUninstall)]"

definition tablesIn :: "load_env \<Rightarrow> string \<Rightarrow> string list" where
  "tablesIn v sql = (if sql = [] then [] else getTablesFromSql (parsePg v) sql)"

definition functionsIn :: "load_env \<Rightarrow> string \<Rightarrow> fn_doc obj" where
  "functionsIn v sql = (if sql = [] then [] else getFunctionsFromSql (parsePg v) (parseDocs v) sql)"

definition mergeObj :: "'v obj \<Rightarrow> 'v obj \<Rightarrow> 'v obj" where   \<comment> \<open>\<open>{ ...a, ...b }\<close>\<close>
  "mergeObj a b = fold (\<lambda>(k, x). obj_set k x) b a"

text \<open>\<open>declared\<close> are the dependencies the module sets itself, \<open>rpcs\<close> the answers of its RPCs.\<close>

definition loadBasics ::
  "load_env \<Rightarrow> string \<Rightarrow> string list option \<Rightarrow> (js_err thrown + rpc_sql) list \<Rightarrow> js_err thrown + loaded" where
  "loadBasics v dirname declared rpcs =
     (let name = moduleName dirname; version = engineVersion v;
          deps = map (withVersion version) (case declared of None \<Rightarrow> moduleJson v dirname | Some ds \<Rightarrow> ds)
      in if name \<noteq> ''iasql_platform'' \<and> ''iasql_platform@'' @ version \<notin> set deps
         then Inl (newError (name @ '' did not declare an iasql_platform dependency and cannot be loaded.''))
         else (case getRpcSql rpcs ([], []) of
           Inl e \<Rightarrow> Inl e
         | Inr (rpcAfterInstall, rpcBeforeUninstall) \<Rightarrow>
             (let before = readSqlDir v dirname ''before_install'';
                  after = readSqlDir v dirname ''after_install'' @ rpcAfterInstall
              in Inr \<lparr> ldName = name, ldVersion = version, ldDeps = deps,
                   ldTables = map Some (tablesIn v before @ tablesIn v after),
                   ldFunctions = mergeObj (mergeObj [] (functionsIn v before)) (functionsIn v after),
                   ldMigrations = migrationTexts before after
                     (rpcBeforeUninstall @ readSqlDir v dirname ''before_uninstall'')
                     (readSqlDir v dirname ''after_uninstall'') \<rparr>)))"

section \<open>\<open>loadTypeORM\<close>\<close>

definition lowerChar :: "char \<Rightarrow> char" where
  "lowerChar c = (let n = of_char c :: nat in if 65 \<le> n \<and> n \<le> 90 then char_of (n + 32) else c)"

definition startsWith :: "string \<Rightarrow> string \<Rightarrow> bool" where   \<comment> \<open>\<open>/^kw/i.test(text)\<close>\<close>
  "startsWith kw t = (map lowerChar (take (length kw) t) = kw)"

text \<open>\<open>/^[^"]*"([^"]*)"/\<close>\<close>

definition firstQuoted :: "string \<Rightarrow> string option" where
  "firstQuoted t = (case splitOn (CHR 0x22) t of _ # q # _ # _ \<Rightarrow> Some q | _ \<Rightarrow> None)"

text \<open>\<open>(text.match(/^kw ([^(]*)/i) ?? [])[0] ?? ''\<close>: the whole match.\<close>

definition wholeMatch :: "string \<Rightarrow> string \<Rightarrow> string" where
  "wholeMatch kw t =
     (if startsWith (kw @ '' '') t
      then take (length kw + 1) t @ takeWhile (\<lambda>c. c \<noteq> CHR ''('') (drop (length kw + 1) t) else [])"

fun scanQueries :: "string list \<Rightarrow> string option list \<times> string list" where
  "scanQueries [] = ([], [])"
| "scanQueries (t # ts) =
     (let (tables, functions) = scanQueries ts in
      if startsWith ''create table'' t then (firstQuoted t # tables, functions)
      else if startsWith ''create or replace procedure'' t then (tables, wholeMatch ''create or replace procedure'' t # functions)
      else if startsWith ''create or replace function'' t then (tables, wholeMatch ''create or replace function'' t # functions)
      else (tables, functions))"

definition isMapFile :: "string \<Rightarrow> bool" where   \<comment> \<open>\<open>/.map$/\<close>\<close>
  "isMapFile f = (4 \<le> length f \<and> drop (length f - 3) f = ''map'')"

definition loadTypeORM :: "load_env \<Rightarrow> string \<Rightarrow> loaded \<Rightarrow> js_err thrown + loaded" where
  "loadTypeORM v dirname m =
     (let dir = dirname @ ''/migration''; files = filter (\<lambda>f. \<not> isMapFile f) (listDir v dir) in
      case files of
        [f] \<Rightarrow>
          (case upQueries v (dir @ ''/'' @ f) of
             None \<Rightarrow> Inl (newError ''Presumed migration file is not a TypeORM migration'')
           | Some qs \<Rightarrow>
               (let (tables, functions) = scanQueries qs in
                Inr (m\<lparr> ldTables := tables,
                  ldFunctions := mergeObj (ldFunctions m) (fold (\<lambda>n. obj_set n noDoc) functions []),
                  ldMigrations := ldMigrations m @ [(InstallStep, f), (RemoveStep, f)] \<rparr>)))
      | _ \<Rightarrow> Inl (newError ''Cannot determine which file is the migration''))"

definition initModule ::
  "load_env \<Rightarrow> string \<Rightarrow> string list option \<Rightarrow> (js_err thrown + rpc_sql) list \<Rightarrow> js_err thrown + loaded" where
  "initModule v dirname declared rpcs =
     (case loadBasics v dirname declared rpcs of Inl e \<Rightarrow> Inl e | Inr m \<Rightarrow> loadTypeORM v dirname m)"

section \<open>Claims\<close>

lemma withVersion_at: "CHR ''@'' \<in> set (withVersion version d)"
  by (simp add: withVersion_def)

lemma initModule_basics:
  assumes "initModule v dirname declared rpcs = Inr m"
  obtains m0 where "loadBasics v dirname declared rpcs = Inr m0" "loadTypeORM v dirname m0 = Inr m"
    "ldName m = ldName m0" "ldDeps m = ldDeps m0" "ldVersion m = ldVersion m0"
proof -
  from assms obtain m0 where m0: "loadBasics v dirname declared rpcs = Inr m0" "loadTypeORM v dirname m0 = Inr m"
    by (auto simp: initModule_def split: sum.splits)
  from m0(2) have "ldName m = ldName m0" "ldDeps m = ldDeps m0" "ldVersion m = ldVersion m0"
    by (auto simp: loadTypeORM_def Let_def split: list.splits option.splits prod.splits)
  with m0 that show thesis by blast
qed

text \<open>
  A loaded module is well-formed: its name is the last segment of its directory, its version is the
  engine's, every dependency carries a version, and it depends on the platform unless it is the
  platform.
\<close>

theorem initModule_wellformed:
  assumes "initModule v dirname declared rpcs = Inr m"
  shows "ldName m = last (splitOn (CHR ''/'') dirname) \<and> ldVersion m = engineVersion v \<and>
    (\<forall>d\<in>set (ldDeps m). CHR ''@'' \<in> set d) \<and>
    (ldName m = ''iasql_platform'' \<or> ''iasql_platform@'' @ engineVersion v \<in> set (ldDeps m))"
proof -
  obtain m0 where m0: "loadBasics v dirname declared rpcs = Inr m0"
    "ldName m = ldName m0" "ldDeps m = ldDeps m0" "ldVersion m = ldVersion m0"
    by (rule initModule_basics [OF assms])
  from m0(1) have "ldName m0 = moduleName dirname \<and> ldVersion m0 = engineVersion v \<and>
     (\<exists>ds. ldDeps m0 = map (withVersion (engineVersion v)) ds) \<and>
     \<not> (ldName m0 \<noteq> ''iasql_platform'' \<and> ''iasql_platform@'' @ engineVersion v \<notin> set (ldDeps m0))"
    by (auto simp: loadBasics_def Let_def simp del: append.simps split: if_splits sum.splits)
  with m0(2-4) withVersion_at show ?thesis by (auto simp: moduleName_def simp del: append.simps)
qed

definition demoLoad :: load_env where
  "demoLoad = \<lparr> sqlOf = \<lparr> snake = id, rpcHost = ''h'', pgf = (\<lambda>t args. t) \<rparr>, engineVersion = ''0.0.1'',
     readFile = (\<lambda>f. None), listDir = (\<lambda>d. [''m.js'', ''m.js.map'']), parsePg = (\<lambda>t. None), parseDocs = (\<lambda>t. None),
     moduleJson = (\<lambda>d. [''iasql_platform'', ''aws_vpc@9'']),
     upQueries = (\<lambda>f. Some [''CREATE TABLE '' @ dquote ''bucket'' @ '' (id int)'', ''CREATE OR REPLACE FUNCTION f(a int)'']) \<rparr>"

lemma demo_init: "initModule demoLoad ''/src/aws_s3'' None [] = Inr \<lparr> ldName = ''aws_s3'', ldVersion = ''0.0.1'',
    ldDeps = [''iasql_platform@0.0.1'', ''aws_vpc@9''], ldTables = [Some ''bucket''],
    ldFunctions = [(''CREATE OR REPLACE FUNCTION f'', noDoc)], ldMigrations = [(InstallStep, ''m.js''), (RemoveStep, ''m.js'')] \<rparr>"
  by code_simp

theorem initModule_wellformed_witness:
  "\<exists>m. initModule demoLoad ''/src/aws_s3'' None [] = Inr m \<and> ''iasql_platform@0.0.1'' \<in> set (ldDeps m)"
  using initModule_wellformed [OF demo_init] demo_init by (auto simp: demoLoad_def)

definition tableStmt :: "string \<Rightarrow> string \<Rightarrow> string" where
  "tableStmt n rest = ''CREATE TABLE '' @ dquote n @ rest"

fun stmtText :: "(string \<times> string) + string \<Rightarrow> string" where
  "stmtText (Inl (n, rest)) = tableStmt n rest"
| "stmtText (Inr t) = t"

lemma starts_prefix: "length p = length kw \<Longrightarrow> startsWith kw (p @ t) = (map lowerChar p = kw)"
  by (simp add: startsWith_def)

lemma lower_create:
  "map lowerChar ''CREATE TABLE'' = ''create table''"
  "map lowerChar ''CREATE OR RE'' \<noteq> ''create table''"
  "map lowerChar ''CREATE OR REPLACE FUNCTIO'' \<noteq> ''create or replace procedur''"
  "map lowerChar ''CREATE OR REPLACE FUNCTION'' = ''create or replace function''"
  "map lowerChar ''CREATE OR REPLACE FUNCTION '' = ''create or replace function ''"
  "map lowerChar ''ALTER TABLE '' \<noteq> ''create table''"
  by code_simp+

lemma tableStmt_starts: "startsWith ''create table'' (tableStmt n rest)"
  using starts_prefix [of "''CREATE TABLE''" "''create table''" "'' '' @ dquote n @ rest"] lower_create(1)
  by (simp add: tableStmt_def del: list.map)

lemma scan_table:
  "startsWith ''create table'' t \<Longrightarrow> fst (scanQueries (t # ts)) = firstQuoted t # fst (scanQueries ts)"
  by (auto simp: Let_def split: prod.splits)

lemma tableStmt_quoted:
  assumes "CHR 0x22 \<notin> set n"
  shows "firstQuoted (tableStmt n rest) = Some n"
proof -
  have "splitOn (CHR 0x22) (''CREATE TABLE '' @ CHR 0x22 # (n @ CHR 0x22 # rest)) = ''CREATE TABLE '' # n # splitOn (CHR 0x22) rest"
    using assms by (simp add: splitOn_append_sep)
  moreover obtain q qs where "splitOn (CHR 0x22) rest = q # qs"
    using splitOn_not_Nil [of "CHR 0x22" rest] by (cases "splitOn (CHR 0x22) rest") auto
  ultimately show ?thesis by (simp add: firstQuoted_def tableStmt_def dquote_def)
qed

lemma scan_other: "\<not> startsWith ''create table'' t \<Longrightarrow> fst (scanQueries (t # ts)) = fst (scanQueries ts)"
  by (auto simp: Let_def split: prod.splits)

text \<open>
  The tables of a module are read off its migration exactly: among any other statements, each
  \<open>CREATE TABLE "n"\<close> contributes its name, in order.
\<close>

theorem scanQueries_tables:
  assumes "\<And>n rest. Inl (n, rest) \<in> set items \<Longrightarrow> CHR 0x22 \<notin> set n"
    and "\<And>t. Inr t \<in> set items \<Longrightarrow> \<not> startsWith ''create table'' t"
  shows "fst (scanQueries (map stmtText items)) =
    List.map_filter (\<lambda>i. case i of Inl (n, rest) \<Rightarrow> Some (Some n) | Inr t \<Rightarrow> None) items"
  using assms
proof (induction items)
  case (Cons i items)
  then have IH: "fst (scanQueries (map stmtText items)) =
      List.map_filter (\<lambda>i. case i of Inl (n, rest) \<Rightarrow> Some (Some n) | Inr t \<Rightarrow> None) items" by auto
  show ?case
  proof (cases i)
    case (Inl p)
    obtain n rest where p: "p = (n, rest)" by force
    with Inl Cons.prems(1) have "firstQuoted (tableStmt n rest) = Some n" by (intro tableStmt_quoted) auto
    with Inl p IH tableStmt_starts scan_table show ?thesis
      by (simp add: List.map_filter_simps del: scanQueries.simps)
  next
    case (Inr t)
    with Cons.prems(2) IH scan_other show ?thesis by (simp add: List.map_filter_simps del: scanQueries.simps)
  qed
qed (simp add: List.map_filter_simps)

theorem scanQueries_tables_witness:
  "fst (scanQueries (map stmtText [Inl (''a'', '' (id int)''), Inr ''ALTER TABLE x'', Inl (''b'', [])])) = [Some ''a'', Some ''b'']"
proof -
  have other: "\<not> startsWith ''create table'' ''ALTER TABLE x''" by code_simp
  show ?thesis
    by (subst scanQueries_tables) (auto simp: other List.map_filter_simps simp del: scanQueries.simps)
qed

text \<open>
  The functions of a migration are recorded under the wrong name: for a statement that creates or
  replaces \<open>f\<close>, the key is the statement's text up to the parenthesis, not \<open>f\<close>.
\<close>

theorem scanQueries_function_key:
  assumes "CHR ''('' \<notin> set f"
  shows "scanQueries [''CREATE OR REPLACE FUNCTION '' @ f @ ''('' @ rest] = ([], [''CREATE OR REPLACE FUNCTION '' @ f])"
proof -
  let ?t = "''CREATE OR REPLACE FUNCTION '' @ f @ ''('' @ rest"
  have "takeWhile (\<lambda>c. c \<noteq> CHR ''('') (f @ ''('' @ rest) = f"
    using assms by (subst takeWhile_append2) auto
  then have "wholeMatch ''create or replace function'' ?t = ''CREATE OR REPLACE FUNCTION '' @ f"
    using starts_prefix [of "''CREATE OR REPLACE FUNCTION ''" "''create or replace function ''" "f @ ''('' @ rest"]
      lower_create(5) by (simp add: wholeMatch_def del: list.map)
  moreover have "\<not> startsWith ''create table'' ?t"
    using starts_prefix [of "''CREATE OR RE''" "''create table''" "''PLACE FUNCTION '' @ f @ ''('' @ rest"]
      lower_create(2) by (simp del: list.map)
  moreover have "startsWith ''create or replace function'' ?t"
    using starts_prefix [of "''CREATE OR REPLACE FUNCTION''" "''create or replace function''" "'' '' @ f @ ''('' @ rest"]
      lower_create(4) by (simp del: list.map)
  moreover have "\<not> startsWith ''create or replace procedure'' ?t"
    by (simp add: startsWith_def lowerChar_def Let_def)
  ultimately show ?thesis by (simp add: Let_def)
qed

theorem scanQueries_function_key_witness:
  "scanQueries [''CREATE OR REPLACE FUNCTION '' @ ''f'' @ ''('' @ ''a int)''] = ([], [''CREATE OR REPLACE FUNCTION '' @ ''f''])"
  by (rule scanQueries_function_key) simp

end
