(* ===== verification/Connect.thy ===== *)
theory Connect
  imports Db_Manager
begin

text \<open>
  Creating and deleting databases: \<open>connect\<close>, \<open>disconnect\<close> and their helpers in
  \<open>src/src/services/iasql.ts\<close>.

  The local variables that the \<open>catch\<close> and \<open>finally\<close> blocks read (\<open>conn1\<close>, \<open>conn2\<close>, \<open>dbUser\<close>, \<open>dbSaved\<close>,
  \<open>roleGranted\<close>) are part of the state (\<open>scope\<close>).  The driver is a parameter: connecting to a database
  of the server by name, running a statement, closing.  The locale \<open>pg_server\<close> states what the
  statements do to the set of databases of the server and to the metadata tables.
\<close>

section \<open>Parameters and scope\<close>

record 'w connect_env =
  installer :: "'w install_env"
  metaRepo :: "'w meta_repo"
  platformModule :: "'w emapper emodule"
  functionsModule :: "'w emapper emodule"
  multiUser :: bool
  fmt :: formatter
  dbHost :: string
  dbPort :: string
  dbPassword :: string
  openPg :: "string \<Rightarrow> ('w, conn) dbop"
  closePg :: "conn \<Rightarrow> ('w, unit) dbop"
  runPg :: "conn \<Rightarrow> string \<Rightarrow> ('w, unit) dbop"
  sumCounts :: "conn \<Rightarrow> ('w, int option) dbop"            \<comment> \<open>the query of \<open>getDbRecCount\<close>, \<open>null\<close> without tables\<close>
  drawRandom :: "('w, nat \<Rightarrow> nat \<Rightarrow> nat) dbop"

record 'w scope =
  pg :: 'w
  conn1 :: "conn option"
  conn2 :: "conn option"
  roleName :: "string option"     \<comment> \<open>\<open>dbUser\<close>\<close>
  dbSaved :: bool
  roleGranted :: bool

definition onPg :: "('w, 'a) dbop \<Rightarrow> ('w scope, js_err thrown, 'a) action" where
  "onPg m = (\<lambda>s. case m (pg s) of (x, w) \<Rightarrow> (x, s\<lparr> pg := w \<rparr>))"

definition inScope :: "('w scope, js_err thrown, 'a) action \<Rightarrow> ('w, 'a) dbop" where
  "inScope m = (\<lambda>w. case m \<lparr> pg = w, conn1 = None, conn2 = None, roleName = None, dbSaved = False, roleGranted = False \<rparr> of
     (x, s) \<Rightarrow> (x, pg s))"

text \<open>\<open>conn?.f()\<close>\<close>

definition optionally :: "(conn \<Rightarrow> ('w, unit) dbop) \<Rightarrow> conn option \<Rightarrow> ('w scope, js_err thrown, unit) action" where
  "optionally f c = (case c of None \<Rightarrow> ret () | Some c' \<Rightarrow> onPg (f c'))"

definition getDbRecCount :: "'w connect_env \<Rightarrow> conn \<Rightarrow> ('w, int) dbop" where
  "getDbRecCount v c = andThen (sumCounts v c) (\<lambda>n. ret (case n of None \<Rightarrow> 0 | Some k \<Rightarrow> k))"

section \<open>\<open>connect\<close>\<close>

definition createSql :: "'w connect_env \<Rightarrow> string \<Rightarrow> string" where
  "createSql v dbId = fmt v ''CREATE DATABASE %I;'' [dbId]"

definition dropSql :: "'w connect_env \<Rightarrow> string \<Rightarrow> string" where
  "dropSql v dbId = fmt v ''DROP DATABASE IF EXISTS %I WITH (FORCE);'' [dbId]"

text \<open>\<open>dbPregen ?? dbMan.genUserAndPass()\<close>; a pregenerated pair may lack the password.\<close>

definition credentials :: "'w connect_env \<Rightarrow> (string \<times> string option) option \<Rightarrow> ('w, string \<times> string option) dbop" where
  "credentials v dbPregen =
     (case dbPregen of Some gen \<Rightarrow> ret gen
      | None \<Rightarrow> andThen (drawRandom v) (\<lambda>rnd. ret (case genUserAndPass rnd of (u, p) \<Rightarrow> (u, Some p))))"

definition newDatabase :: "string \<Rightarrow> string \<Rightarrow> string \<Rightarrow> database" where
  "newDatabase dbId dbAlias user = \<lparr> pgName = dbId, aliasOf = dbAlias, pgUser = user, numRecords = 0,
     recordsApplied = 0, recordsSynced = 0, isUpgrading = False \<rparr>"

record connected =
  cnUser :: string
  cnPassword :: "string option"
  cnRecordCount :: int
  cnAlias :: string
  cnId :: string

definition setupStatements :: "'w connect_env \<Rightarrow> string \<Rightarrow> string \<Rightarrow> string option \<Rightarrow> string list" where
  "setupStatements v dbId user pass =
     [''CREATE SCHEMA http; CREATE EXTENSION http WITH SCHEMA http;'',
      setUpDblink (fmt v) (dbHost v) (dbPort v) (dbUser (logs (inEngine (installer v)))) (dbPassword v) dbId,
      ''SELECT * FROM query_cron('' @ quote ''schedule'' @ '');'',
      ''SELECT * FROM query_cron('' @ quote ''schedule_purge'' @ '');'',
      createDbPostgreGroupRole (fmt v) dbId]
     @ (case truthyStr pass of None \<Rightarrow> [] | Some p \<Rightarrow> [newPostgresRoleQuery (fmt v) user p dbId])
     @ [grantPostgresGroupRoleToUser (fmt v) user dbId]"

definition registerDb :: "'w connect_env \<Rightarrow> string \<Rightarrow> string \<Rightarrow> string \<Rightarrow> string \<Rightarrow> (string \<times> string option) option
    \<Rightarrow> ('w scope, js_err thrown, string \<times> string option) action" where
  "registerDb v dbAlias uid mail dbId dbPregen =
     andThen (onPg (credentials v dbPregen)) (\<lambda>(user, pass).
       andThen (modifyS (\<lambda>s. s\<lparr> roleName := Some user \<rparr>)) (\<lambda>_.
         andThen (if dbPregen = None then onPg (andThen (saveDb (metaRepo v) uid mail (newDatabase dbId dbAlias user)) (\<lambda>_. ret ()))
                  else ret ()) (\<lambda>_.
           andThen (modifyS (\<lambda>s. s\<lparr> dbSaved := True \<rparr>)) (\<lambda>_. ret (user, pass)))))"

definition createDatabase :: "'w connect_env \<Rightarrow> string \<Rightarrow> string \<Rightarrow> string option \<Rightarrow> ('w scope, js_err thrown, conn) action" where
  "createDatabase v dbId user pass =
     andThen (onPg (openPg v ''postgres'')) (\<lambda>c1.
       andThen (modifyS (\<lambda>s. s\<lparr> conn1 := Some c1 \<rparr>)) (\<lambda>_.
         andThen (onPg (runPg v c1 (createSql v dbId))) (\<lambda>_.
           andThen (onPg (openPg v dbId)) (\<lambda>c2.
             andThen (modifyS (\<lambda>s. s\<lparr> conn2 := Some c2 \<rparr>)) (\<lambda>_.
               andThen (onPg (migrateDb (installer v) (platformModule v) (functionsModule v) c2)) (\<lambda>_.
                 andThen (onPg (eachM (runPg v c2) (setupStatements v dbId user pass))) (\<lambda>_.
                   andThen (modifyS (\<lambda>s. s\<lparr> roleGranted := True \<rparr>)) (\<lambda>_. ret c2))))))))"

definition countRecords :: "'w connect_env \<Rightarrow> string \<Rightarrow> bool \<Rightarrow> conn \<Rightarrow> ('w, int) dbop" where
  "countRecords v dbId fresh c2 = andThen (getDbRecCount v c2) (\<lambda>n.
     andThen (if fresh then updateRecordCount (metaRepo v) dbId n else ret ()) (\<lambda>_. ret n))"

definition connectBody :: "'w connect_env \<Rightarrow> string \<Rightarrow> string \<Rightarrow> string \<Rightarrow> string \<Rightarrow> (string \<times> string option) option
    \<Rightarrow> ('w scope, js_err thrown, connected) action" where
  "connectBody v dbAlias uid mail dbId dbPregen =
     andThen (registerDb v dbAlias uid mail dbId dbPregen) (\<lambda>(user, pass).
       andThen (createDatabase v dbId user pass) (\<lambda>c2.
         andThen (onPg (countRecords v dbId (dbPregen = None) c2)) (\<lambda>n.
           ret \<lparr> cnUser = user, cnPassword = pass, cnRecordCount = n, cnAlias = dbAlias, cnId = dbId \<rparr>)))"

text \<open>The \<open>catch\<close> block; a statement of it that throws replaces the error.\<close>

definition undoConnect :: "'w connect_env \<Rightarrow> string \<Rightarrow> string \<Rightarrow> string \<Rightarrow> (string \<times> string option) option \<Rightarrow> js_err thrown
    \<Rightarrow> ('w scope, js_err thrown, 'a) action" where
  "undoConnect v dbAlias uid dbId dbPregen e =
     andThen (\<lambda>s. if dbSaved s then optionally (\<lambda>c. runPg v c (dropSql v dbId)) (conn1 s) s else ret () s) (\<lambda>_.
       andThen (\<lambda>s. case roleName s of
           Some user \<Rightarrow> if roleGranted s \<and> user \<noteq> []
             then optionally (\<lambda>c. runPg v c (dropPostgresRoleQuery (fmt v) user dbId True)) (conn1 s) s else ret () s
         | None \<Rightarrow> ret () s) (\<lambda>_.
         andThen (\<lambda>s. if dbSaved s \<and> dbPregen = None then onPg (delDb (metaRepo v) uid dbAlias) s else ret () s) (\<lambda>_.
           throw e)))"

definition closeBoth :: "'w connect_env \<Rightarrow> ('w scope, js_err thrown, unit) action" where
  "closeBoth v = andThen (\<lambda>s. optionally (closePg v) (conn1 s) s) (\<lambda>_ s. optionally (closePg v) (conn2 s) s)"

definition connectDb :: "'w connect_env \<Rightarrow> string \<Rightarrow> string \<Rightarrow> string \<Rightarrow> string \<Rightarrow> (string \<times> string option) option
    \<Rightarrow> ('w, connected) dbop" where
  "connectDb v dbAlias uid mail dbId dbPregen =
     inScope (tryFinally
       (tryCatch (connectBody v dbAlias uid mail dbId dbPregen) (undoConnect v dbAlias uid dbId dbPregen))
       (closeBoth v))"

section \<open>\<open>disconnect\<close>\<close>

definition maybeHoldTransaction :: "'w connect_env \<Rightarrow> conn \<Rightarrow> ('w, unit) dbop" where
  "maybeHoldTransaction v c =
     tryCatch (andThen (isCommitRunning (logs (inEngine (installer v))) c) (\<lambda>running.
         if running then maybeOpenTransaction (logs (inEngine (installer v))) c else ret ()))
       (\<lambda>_. ret ())"

definition unscheduleJobs :: "'w connect_env \<Rightarrow> conn \<Rightarrow> ('w, unit) dbop" where
  "unscheduleJobs v c =
     tryCatch (eachM (runPg v c) [''SELECT * FROM query_cron('' @ quote ''unschedule'' @ '');'',
         ''SELECT * FROM query_cron('' @ quote ''unschedule_purge'' @ '');''])
       (\<lambda>_. ret ())"

definition revokeSql :: "'w connect_env \<Rightarrow> database \<Rightarrow> string" where
  "revokeSql v db = fmt v ''REVOKE CONNECT ON DATABASE %I FROM PUBLIC, %I, %I;''
     [pgName db, dbUser (logs (inEngine (installer v))), pgUser db]"

definition killSql :: "'w connect_env \<Rightarrow> database \<Rightarrow> string" where
  "killSql v db = fmt v (''SELECT'' @ nl # spaces 8 @ ''pg_terminate_backend(pid), pg_cancel_backend(pid)'' @ nl # spaces 6 @
     ''FROM'' @ nl # spaces 8 @ ''pg_stat_activity'' @ nl # spaces 6 @ ''WHERE'' @ nl # spaces 8 @
     ''-- don'' @ [CHR 0x27] @ ''t kill my own connection!'' @ nl # spaces 8 @ ''pid <> pg_backend_pid()'' @ nl # spaces 8 @
     ''-- don'' @ [CHR 0x27] @ ''t kill the connections to other databases'' @ nl # spaces 8 @ ''AND datname = %L;'' @ nl # spaces 4)
     [pgName db]"

definition dropAll :: "'w connect_env \<Rightarrow> string \<Rightarrow> string \<Rightarrow> database \<Rightarrow> conn \<Rightarrow> conn \<Rightarrow> ('w, string) dbop" where
  "dropAll v dbAlias uid db c1 c2 =
     andThen (maybeHoldTransaction v c2) (\<lambda>_. andThen (unscheduleJobs v c2) (\<lambda>_.
       andThen (eachM (runPg v c1) [revokeSql v db, killSql v db, dropSql v (pgName db),
           dropPostgresRoleQuery (fmt v) (pgUser db) (pgName db) True]) (\<lambda>_.
         andThen (delDb (metaRepo v) uid dbAlias) (\<lambda>_. ret (pgName db)))))"

text \<open>The \<open>finally\<close> block waits for nothing, so an error of closing is not seen.\<close>

definition disconnectDb :: "'w connect_env \<Rightarrow> string \<Rightarrow> string \<Rightarrow> ('w, string) dbop" where
  "disconnectDb v dbAlias uid =
     inScope (tryFinally
       (andThen (onPg (getDb (metaRepo v) uid dbAlias)) (\<lambda>db.
         andThen (onPg (openPg v ''postgres'')) (\<lambda>c1.
           andThen (modifyS (\<lambda>s. s\<lparr> conn1 := Some c1 \<rparr>)) (\<lambda>_.
             andThen (onPg (openPg v (pgName db))) (\<lambda>c2.
               andThen (modifyS (\<lambda>s. s\<lparr> conn2 := Some c2 \<rparr>)) (\<lambda>_. onPg (dropAll v dbAlias uid db c1 c2)))))))
       (andThen (\<lambda>s. attempt (optionally (closePg v) (conn1 s)) s) (\<lambda>_.
          andThen (\<lambda>s. attempt (optionally (closePg v) (conn2 s)) s) (\<lambda>_. ret ()))))"

section \<open>The contract of the server\<close>

text \<open>An action that leaves an observation of the world as it is, whatever its outcome.\<close>

definition silent :: "('w \<Rightarrow> 'o) \<Rightarrow> ('w, 'a) dbop \<Rightarrow> bool" where
  "silent obs m \<longleftrightarrow> (\<forall>w. obs (snd (m w)) = obs w)"

lemma silent_iff: "silent obs m \<longleftrightarrow> (\<forall>x. keeps (\<lambda>w. obs w = x) m)"
  by (auto simp: silent_def keeps_def)

lemma silentD: "silent obs m \<Longrightarrow> m w = (x, w') \<Longrightarrow> obs w' = obs w"
  by (auto simp: silent_def dest: spec [of _ w])

lemma silent_andThen [intro]: "silent obs m \<Longrightarrow> (\<And>a. silent obs (f a)) \<Longrightarrow> silent obs (andThen m f)"
  unfolding silent_iff by (rule allI, rule keeps_andThen) auto

lemma silent_eachM [intro]: "(\<And>x. x \<in> set xs \<Longrightarrow> silent obs (f x)) \<Longrightarrow> silent obs (eachM f xs)"
  unfolding silent_iff by (rule allI, rule keeps_eachM) auto

lemma silent_tryCatch [intro]: "silent obs m \<Longrightarrow> (\<And>e. silent obs (h e)) \<Longrightarrow> silent obs (tryCatch m h)"
  unfolding silent_iff by (rule allI, rule keeps_tryCatch) auto

lemma silent_ret [simp, intro]: "silent obs (ret a)" "silent obs (throw e)"
  by (simp_all add: silent_def)

lemma onPg_frame:
  assumes "onPg m s = (x, s')"
  shows "m (pg s) = (x, pg s')" "conn1 s' = conn1 s" "conn2 s' = conn2 s" "roleName s' = roleName s"
    "dbSaved s' = dbSaved s" "roleGranted s' = roleGranted s"
  using assms by (auto simp: onPg_def split: prod.splits)

lemma onPg_Inr_iff: "onPg m s = (Inr x, s') \<longleftrightarrow> (\<exists>w. m (pg s) = (Inr x, w) \<and> s' = s\<lparr> pg := w \<rparr>)"
  by (auto simp: onPg_def split: prod.splits)

lemma keeps_onPg:
  assumes "silent obs m" and "\<And>s w. P s \<Longrightarrow> obs w = obs (pg s) \<Longrightarrow> P (s\<lparr> pg := w \<rparr>)"
  shows "keeps P (onPg m)"
proof
  fix s assume "P s"
  moreover have "obs (snd (m (pg s))) = obs (pg s)" using assms(1) by (simp add: silent_def)
  moreover have "snd (onPg m s) = s\<lparr> pg := snd (m (pg s)) \<rparr>" by (simp add: onPg_def split: prod.split)
  ultimately show "P (snd (onPg m s))" using assms(2) by simp
qed

locale pg_server = meta_store "metaRepo v" meta
  for v :: "'w connect_env" and meta :: "'w \<Rightarrow> meta_tables" +
  fixes dbsOn :: "'w \<Rightarrow> string set"
  assumes create_ok: "runPg v c (createSql v n) w = (Inr (), w') \<Longrightarrow> n \<notin> dbsOn w \<and> dbsOn w' = insert n (dbsOn w)"
    and create_fails: "runPg v c (createSql v n) w = (Inl e, w') \<Longrightarrow> dbsOn w' = dbsOn w"
    and create_meta: "silent meta (runPg v c (createSql v n))"
    and drop_ok: "runPg v c (dropSql v n) w = (Inr (), w') \<Longrightarrow> dbsOn w' = dbsOn w - {n}"
    and drop_meta: "silent meta (runPg v c (dropSql v n))"
    and open_silent: "silent (\<lambda>w. (meta w, dbsOn w)) (openPg v n)"
    and close_silent: "silent (\<lambda>w. (meta w, dbsOn w)) (closePg v c)"
    and random_silent: "silent (\<lambda>w. (meta w, dbsOn w)) (drawRandom v)"
    and counts_silent: "silent (\<lambda>w. (meta w, dbsOn w)) (sumCounts v c)"
    and migrate_silent: "silent (\<lambda>w. (meta w, dbsOn w)) (migrateDb (installer v) (platformModule v) (functionsModule v) c)"
    and setup_silent: "sql \<in> set (setupStatements v n u p) \<Longrightarrow> silent (\<lambda>w. (meta w, dbsOn w)) (runPg v c sql)"
    and role_silent: "silent (\<lambda>w. (meta w, dbsOn w)) (runPg v c (dropPostgresRoleQuery (fmt v) u n True))"
    and find_silent: "silent dbsOn (findUser (metaRepo v) uid)" "silent dbsOn (findDb (metaRepo v) n)"
    and save_silent: "silent dbsOn (saveUser (metaRepo v) usr)" "silent dbsOn (saveRow (metaRepo v) d)"
      "silent dbsOn (removeRow (metaRepo v) d)"
begin

lemma onPg_obs:
  assumes "silent (\<lambda>w. (meta w, dbsOn w)) m" and "onPg m s = (x, s')"
  shows "meta (pg s') = meta (pg s)" "dbsOn (pg s') = dbsOn (pg s)"
  using silentD [OF assms(1) onPg_frame(1) [OF assms(2)]] by simp_all

lemma credentials_silent: "silent (\<lambda>w. (meta w, dbsOn w)) (credentials v g)"
  unfolding credentials_def by (cases g) (auto intro!: random_silent silent_andThen)

lemma saveDb_silent: "silent dbsOn (saveDb (metaRepo v) u mail db)"
  unfolding saveDb_def saveBoth_def by (auto intro!: silent_andThen find_silent save_silent split: option.split)

lemma delDb_silent: "silent dbsOn (delDb (metaRepo v) u a)"
  unfolding delDb_def userOrFail_def by (auto intro!: silent_andThen find_silent save_silent split: option.split)

lemma updateRecordCount_silent: "silent dbsOn (updateRecordCount (metaRepo v) n k)"
  unfolding updateRecordCount_def updateDb_def by (auto intro!: silent_andThen find_silent save_silent split: option.split)

text \<open>The scope after a new database was created or not, for a request that registered it.\<close>

definition created :: "meta_tables \<Rightarrow> string set \<Rightarrow> string \<Rightarrow> 'w scope \<Rightarrow> bool" where
  "created M S n s \<longleftrightarrow> meta (pg s) = M \<and> dbsOn (pg s) - {n} = S - {n} \<and>
     (conn1 s = None \<longrightarrow> dbsOn (pg s) = S) \<and> dbSaved s"

lemma createDatabase_created:
  assumes "meta (pg s) = M" "dbsOn (pg s) = S" "dbSaved s" "conn1 s = None"
    and run: "createDatabase v n user pass s = (x, s')"
  shows "created M S n s'"
proof -
  obtain x1 s1 where o: "onPg (openPg v ''postgres'') s = (x1, s1)" by force
  note o1 = onPg_obs [OF open_silent o] onPg_frame(2-6) [OF o]
  show ?thesis
  proof (cases x1)
    case (Inl e)
    with run o have "s' = s1" by (simp add: createDatabase_def)
    with o1 assms(1-4) show ?thesis by (simp add: created_def)
  next
    case (Inr c1)
    define s2 where "s2 = s1\<lparr> conn1 := Some c1 \<rparr>"
    let ?K = "\<lambda>s. meta (pg s) = M \<and> dbsOn (pg s) - {n} = S - {n} \<and> conn1 s \<noteq> None \<and> dbSaved s"
    have "keeps ?K (onPg m)" if "silent (\<lambda>w. (meta w, dbsOn w)) m" for m :: "('w, 'a) dbop"
      by (rule keeps_onPg [OF that]) auto
    note quiet = this
    have create: "keeps ?K (onPg (runPg v c1 (createSql v n)))"
    proof
      fix s :: "'w scope" assume K: "?K s"
      obtain y w where r: "runPg v c1 (createSql v n) (pg s) = (y, w)" by force
      have "dbsOn w - {n} = dbsOn (pg s) - {n}"
        using r create_ok [of c1 n "pg s" w] create_fails [of c1 n "pg s" _ w] by (cases y) auto
      moreover have "meta w = meta (pg s)" using silentD [OF create_meta r] .
      ultimately show "?K (snd (onPg (runPg v c1 (createSql v n)) s))" using K r by (simp add: onPg_def)
    qed
    have "keeps ?K (andThen (onPg (runPg v c1 (createSql v n))) (\<lambda>_.
           andThen (onPg (openPg v n)) (\<lambda>c2.
             andThen (modifyS (\<lambda>s. s\<lparr> conn2 := Some c2 \<rparr>)) (\<lambda>_.
               andThen (onPg (migrateDb (installer v) (platformModule v) (functionsModule v) c2)) (\<lambda>_.
                 andThen (onPg (eachM (runPg v c2) (setupStatements v n user pass))) (\<lambda>_.
                   andThen (modifyS (\<lambda>s. s\<lparr> roleGranted := True \<rparr>)) (\<lambda>_. ret c2)))))))" (is "keeps ?K ?rest")
      by (intro keeps_andThen create quiet open_silent migrate_silent silent_eachM setup_silent keeps_ret)
        (auto simp: keeps_def)
    moreover have "?K s2" using o1 assms(1-4) by (simp add: s2_def)
    moreover have "?rest s2 = (x, s')" using run o Inr by (simp add: createDatabase_def s2_def andThen_apply)
    ultimately have "?K s'" by (rule keepsD)
    then show ?thesis unfolding created_def by (elim conjE, intro conjI impI) (assumption | erule notE)+
  qed
qed

end

text \<open>The statements of the \<open>catch\<close> and \<open>finally\<close> blocks do not fail themselves.\<close>

definition tidy :: "'w connect_env \<Rightarrow> bool" where
  "tidy v \<longleftrightarrow> (\<forall>c n. returns (runPg v c (dropSql v n))) \<and>
     (\<forall>c u n. returns (runPg v c (dropPostgresRoleQuery (fmt v) u n True))) \<and> (\<forall>c. returns (closePg v c)) \<and>
     (\<forall>u. returns (findUser (metaRepo v) u)) \<and> (\<forall>x. returns (saveUser (metaRepo v) x)) \<and>
     (\<forall>d. returns (removeRow (metaRepo v) d))"

lemma returns_onPg: "returns m \<Longrightarrow> returns (onPg m)"
  unfolding returns_def
proof
  fix s :: "'a scope"
  assume "\<forall>s. \<exists>a s'. m s = (Inr a, s')"
  then obtain a w where "m (pg s) = (Inr a, w)" by blast
  then show "\<exists>a s'. onPg m s = (Inr a, s')" by (simp add: onPg_def)
qed

lemma returns_optionally: "(\<And>c. returns (f c)) \<Longrightarrow> returns (optionally f c)"
  unfolding optionally_def by (cases c) (auto intro: returns_onPg)

context meta_store
begin

lemma delDb_returns:
  assumes "wfMeta (meta w)" and entry: "(u, a, d) \<in> directory (meta w)"
    and ok: "\<forall>u. returns (findUser r u)" "\<forall>x. returns (saveUser r x)" "\<forall>d. returns (removeRow r d)"
  shows "\<exists>w'. delDb r u a w = (Inr (), w')"
proof -
  from entry have d: "d \<in> owned (meta w) u" "a = aliasOf d" by (auto simp: in_directory)
  obtain x w1 where f: "findUser r u w = (Inr x, w1)" by (rule returnsE [OF spec [OF ok(1)]])
  have "emails (meta w) u \<noteq> None" using d(1) no_user_owns_nothing [OF assms(1), of u] by blast
  with f findUser_None [of u w w1] obtain y where y: "x = Some y" by (cases x) auto
  with f have "userId y = u \<and> loadedUser (meta w) y" using findUser_Some [of u w y w1] by simp
  with d(1) have "d \<in> set (databases y)" by (simp add: loadedUser_def)
  with d(2) have "find (hasAlias a) (databases y) \<noteq> None" by (auto simp: find_None_iff hasAlias_def)
  then obtain e where e: "find (hasAlias a) (databases y) = Some e" by blast
  let ?y = "y\<lparr> databases := filter (\<lambda>x. \<not> hasAlias a x) (databases y) \<rparr>"
  obtain u2 w2 where s: "saveUser r ?y w1 = (Inr u2, w2)" by (rule returnsE [OF spec [OF ok(2)]])
  obtain u3 w3 where "removeRow r e w2 = (Inr u3, w3)" by (rule returnsE [OF spec [OF ok(3)]])
  with f y e s show ?thesis by (simp add: delDb_def userOrFail_def)
qed

end

context pg_server
begin

definition registered :: "'w \<Rightarrow> string \<Rightarrow> string \<Rightarrow> string \<Rightarrow> meta_tables \<Rightarrow> bool" where
  "registered w uid a n M \<longleftrightarrow> wfMeta M \<and> (\<forall>d. (uid, a, d) \<notin> directory (meta w)) \<and>
     (\<exists>user. directory M = insert (uid, a, newDatabase n a user) (directory (meta w)))"

definition fresh :: "'w \<Rightarrow> 'w scope \<Rightarrow> bool" where
  "fresh w s \<longleftrightarrow> meta (pg s) = meta w \<and> dbsOn (pg s) = dbsOn w \<and> conn1 s = None \<and> \<not> dbSaved s"

lemma registerDb_result:
  assumes wf: "wfMeta (meta w)" and new: "dbRows (meta w) n = None" and start: "fresh w s"
    and run: "registerDb v a uid mail n None s = (x, s')"
  shows "case x of
      Inl e \<Rightarrow> wfMeta (meta (pg s')) \<and> directory (meta (pg s')) = directory (meta w) \<and> dbsOn (pg s') = dbsOn w \<and>
        conn1 s' = None \<and> \<not> dbSaved s'
    | Inr _ \<Rightarrow> registered w uid a n (meta (pg s')) \<and> dbsOn (pg s') = dbsOn w \<and> conn1 s' = None \<and> dbSaved s'"
proof -
  obtain x1 s1 where c: "onPg (credentials v None) s = (x1, s1)" by force
  note s1 = onPg_obs [OF credentials_silent c] onPg_frame(2-6) [OF c]
  show ?thesis
  proof (cases x1)
    case (Inl e)
    with run c have "x = Inl e" "s' = s1" by (auto simp: registerDb_def)
    with s1 start wf show ?thesis by (simp add: fresh_def)
  next
    case (Inr cred)
    obtain user pass where cred: "cred = (user, pass)" by force
    let ?db = "newDatabase n a user"
    let ?s2 = "s1\<lparr> roleName := Some user \<rparr>"
    obtain x3 w3 where sv: "saveDb (metaRepo v) uid mail ?db (pg s1) = (x3, w3)" by force
    have m: "meta (pg s1) = meta w" "dbsOn (pg s1) = dbsOn w" using s1 start by (simp_all add: fresh_def)
    have "wfMeta (meta (pg s1))" "dbRows (meta (pg s1)) (pgName ?db) = None"
      using wf new m by (simp_all add: newDatabase_def)
    note added = saveDb_adds [OF this sv]
    have d3: "dbsOn w3 = dbsOn w" using silentD [OF saveDb_silent sv] m by simp
    show ?thesis
    proof (cases x3)
      case (Inl e)
      with run c Inr cred sv have "x = Inl e" "s' = ?s2\<lparr> pg := w3 \<rparr>"
        by (auto simp: registerDb_def andThen_apply onPg_def)
      with added Inl d3 m s1 start show ?thesis by (simp add: fresh_def)
    next
      case (Inr y)
      with run c \<open>x1 = Inr cred\<close> cred sv have "x = Inr (user, pass)" "s' = ?s2\<lparr> pg := w3, dbSaved := True \<rparr>"
        by (auto simp: registerDb_def andThen_apply onPg_def)
      with added Inr d3 m s1 start show ?thesis
        by (auto simp: fresh_def registered_def newDatabase_def)
    qed
  qed
qed

lemma countRecords_throws:
  assumes "countRecords v n b c w = (Inl e, w')"
  shows "meta w' = meta w" "dbsOn w' = dbsOn w"
proof -
  obtain x1 w1 where s: "sumCounts v c w = (x1, w1)" by force
  note m1 = silentD [OF counts_silent s]
  have "meta w' = meta w1 \<and> dbsOn w' = dbsOn w1" if "updateRecordCount (metaRepo v) n k w1 = (Inl e, w')" for k
  proof -
    have "dbsOn w' = dbsOn w1" using silentD [OF updateRecordCount_silent that] .
    moreover have "meta w' = meta w1"
      using that findDb_keeps [of n w1] saveRow_fails [of _ _ e w']
      by (auto simp: updateRecordCount_def updateDb_def andThen_apply split: prod.splits sum.splits option.splits)
    ultimately show ?thesis by simp
  qed
  with assms s m1 show "meta w' = meta w" "dbsOn w' = dbsOn w"
    by (auto simp: countRecords_def getDbRecCount_def andThen_apply split: sum.splits if_splits prod.splits)
qed

lemma connectBody_throws:
  assumes wf: "wfMeta (meta w)" and new: "dbRows (meta w) n = None" and start: "fresh w s"
    and run: "connectBody v a uid mail n None s = (Inl e, s')"
  shows "(wfMeta (meta (pg s')) \<and> directory (meta (pg s')) = directory (meta w) \<and> dbsOn (pg s') = dbsOn w \<and>
            conn1 s' = None \<and> \<not> dbSaved s') \<or>
    (\<exists>M. registered w uid a n M \<and> created M (dbsOn w) n s')"
proof -
  obtain x1 s1 where reg: "registerDb v a uid mail n None s = (x1, s1)" by force
  note r = registerDb_result [OF wf new start reg]
  show ?thesis
  proof (cases x1)
    case (Inl e')
    with run reg r show ?thesis by (simp add: connectBody_def)
  next
    case (Inr cred)
    obtain user pass where cred: "cred = (user, pass)" by force
    obtain x2 s2 where cr: "createDatabase v n user pass s1 = (x2, s2)" by force
    from r Inr have r': "registered w uid a n (meta (pg s1))" "dbsOn (pg s1) = dbsOn w" "conn1 s1 = None" "dbSaved s1"
      by simp_all
    from createDatabase_created [OF refl r'(2,4,3) cr] have c: "created (meta (pg s1)) (dbsOn w) n s2" .
    have "created (meta (pg s1)) (dbsOn w) n s'"
    proof (cases x2)
      case (Inl e')
      with run reg \<open>x1 = Inr cred\<close> cred cr c show ?thesis by (simp add: connectBody_def)
    next
      case (Inr c2)
      from run reg \<open>x1 = Inr cred\<close> cred cr Inr have "onPg (countRecords v n True c2) s2 = (Inl e, s')"
        by (auto simp: connectBody_def andThen_apply split: prod.splits sum.splits)
      note o = onPg_frame [OF this]
      from countRecords_throws [OF o(1)] o c show ?thesis by (simp add: created_def)
    qed
    with r'(1) show ?thesis by blast
  qed
qed

end

lemma optionally_ok:
  assumes "\<And>c. returns (f c)"
  obtains w' where "optionally f c s = (Inr (), s\<lparr> pg := w' \<rparr>)"
    "case c of None \<Rightarrow> w' = pg s | Some c' \<Rightarrow> f c' (pg s) = (Inr (), w')"
proof (cases c)
  case None
  with that [of "pg s"] show thesis by (simp add: optionally_def)
next
  case (Some c')
  obtain u w' where "f c' (pg s) = (Inr u, w')" by (rule returnsE [OF assms [of c']])
  with that [of w'] Some show thesis by (simp add: optionally_def onPg_def)
qed

context pg_server
begin

lemma undo_drop:
  assumes "tidy v" and "dbSaved s"
  obtains w' where "optionally (\<lambda>c. runPg v c (dropSql v n)) (conn1 s) s = (Inr (), s\<lparr> pg := w' \<rparr>)"
    "meta w' = meta (pg s)" "dbsOn w' = (if conn1 s = None then dbsOn (pg s) else dbsOn (pg s) - {n})"
proof -
  from assms(1) have ok: "\<And>c. returns (runPg v c (dropSql v n))" by (simp add: tidy_def)
  obtain w' where o: "optionally (\<lambda>c. runPg v c (dropSql v n)) (conn1 s) s = (Inr (), s\<lparr> pg := w' \<rparr>)"
    "case conn1 s of None \<Rightarrow> w' = pg s | Some c' \<Rightarrow> runPg v c' (dropSql v n) (pg s) = (Inr (), w')"
    by (rule optionally_ok [where f = "\<lambda>c. runPg v c (dropSql v n)" and c = "conn1 s" and s = s, OF ok])
  show thesis
  proof (rule that [OF o(1)])
    show "meta w' = meta (pg s)" using o(2) silentD [OF drop_meta] by (cases "conn1 s") auto
    show "dbsOn w' = (if conn1 s = None then dbsOn (pg s) else dbsOn (pg s) - {n})"
      using o(2) drop_ok by (cases "conn1 s") auto
  qed
qed

lemma undo_role:
  assumes "tidy v"
  obtains w' where "(case roleName s of
           Some user \<Rightarrow> if roleGranted s \<and> user \<noteq> []
             then optionally (\<lambda>c. runPg v c (dropPostgresRoleQuery (fmt v) user n True)) (conn1 s) s else ret () s
         | None \<Rightarrow> ret () s) = (Inr (), s\<lparr> pg := w' \<rparr>)"
    "meta w' = meta (pg s)" "dbsOn w' = dbsOn (pg s)"
proof (cases "\<exists>user. roleName s = Some user \<and> roleGranted s \<and> user \<noteq> []")
  case True
  then obtain user where u: "roleName s = Some user" "roleGranted s \<and> user \<noteq> []" by blast
  from assms have ok: "\<And>c. returns (runPg v c (dropPostgresRoleQuery (fmt v) user n True))" by (simp add: tidy_def)
  obtain w' where o: "optionally (\<lambda>c. runPg v c (dropPostgresRoleQuery (fmt v) user n True)) (conn1 s) s = (Inr (), s\<lparr> pg := w' \<rparr>)"
    "case conn1 s of None \<Rightarrow> w' = pg s
       | Some c' \<Rightarrow> runPg v c' (dropPostgresRoleQuery (fmt v) user n True) (pg s) = (Inr (), w')"
    by (rule optionally_ok [where f = "\<lambda>c. runPg v c (dropPostgresRoleQuery (fmt v) user n True)" and c = "conn1 s" and s = s, OF ok])
  have "meta w' = meta (pg s) \<and> dbsOn w' = dbsOn (pg s)"
    using o(2) silentD [OF role_silent] by (cases "conn1 s") auto
  with that [of w'] o(1) u show thesis by simp
next
  case False
  then have "(case roleName s of
           Some user \<Rightarrow> if roleGranted s \<and> user \<noteq> []
             then optionally (\<lambda>c. runPg v c (dropPostgresRoleQuery (fmt v) user n True)) (conn1 s) s else ret () s
         | None \<Rightarrow> ret () s) = (Inr (), s\<lparr> pg := pg s \<rparr>)" by (auto split: option.split)
  with that show thesis by blast
qed

lemma registered_entry:
  assumes "registered w uid a n M"
  shows "\<exists>d. (uid, a, d) \<in> directory M" "{(x, b, d) \<in> directory M. \<not> (x = uid \<and> b = a)} = directory (meta w)"
  using assms unfolding registered_def by auto

lemma undoConnect_result:
  assumes ok: "tidy v"
    and state: "(wfMeta (meta (pg s)) \<and> directory (meta (pg s)) = directory (meta w) \<and> dbsOn (pg s) = dbsOn w \<and>
            conn1 s = None \<and> \<not> dbSaved s) \<or> (\<exists>M. registered w uid a n M \<and> created M (dbsOn w) n s)"
  obtains s' where "undoConnect v a uid n None e s = (Inl e, s')" "wfMeta (meta (pg s'))"
    "directory (meta (pg s')) = directory (meta w)"
    "dbsOn (pg s') = (if conn1 s = None then dbsOn w else dbsOn w - {n})"
proof (cases "dbSaved s")
  case False
  with state have st: "wfMeta (meta (pg s))" "directory (meta (pg s)) = directory (meta w)" "dbsOn (pg s) = dbsOn w" "conn1 s = None"
    by (auto simp: created_def)
  obtain w2 where r: "(case roleName s of
           Some user \<Rightarrow> if roleGranted s \<and> user \<noteq> []
             then optionally (\<lambda>c. runPg v c (dropPostgresRoleQuery (fmt v) user n True)) (conn1 s) s else ret () s
         | None \<Rightarrow> ret () s) = (Inr (), s\<lparr> pg := w2 \<rparr>)" "meta w2 = meta (pg s)" "dbsOn w2 = dbsOn (pg s)"
    by (rule undo_role [OF ok])
  have "undoConnect v a uid n None e s = (Inl e, s\<lparr> pg := w2 \<rparr>)"
    unfolding undoConnect_def andThen_apply using False r(1) by simp
  with that [of "s\<lparr> pg := w2 \<rparr>"] r st show thesis by simp
next
  case True
  with state obtain M where M: "registered w uid a n M" "created M (dbsOn w) n s" by blast
  obtain w1 where d: "optionally (\<lambda>c. runPg v c (dropSql v n)) (conn1 s) s = (Inr (), s\<lparr> pg := w1 \<rparr>)"
    "meta w1 = meta (pg s)" "dbsOn w1 = (if conn1 s = None then dbsOn (pg s) else dbsOn (pg s) - {n})"
    by (rule undo_drop [OF ok True])
  let ?s1 = "s\<lparr> pg := w1 \<rparr>"
  obtain w2 where r: "(case roleName ?s1 of
           Some user \<Rightarrow> if roleGranted ?s1 \<and> user \<noteq> []
             then optionally (\<lambda>c. runPg v c (dropPostgresRoleQuery (fmt v) user n True)) (conn1 ?s1) ?s1 else ret () ?s1
         | None \<Rightarrow> ret () ?s1) = (Inr (), ?s1\<lparr> pg := w2 \<rparr>)" "meta w2 = meta (pg ?s1)" "dbsOn w2 = dbsOn (pg ?s1)"
    by (rule undo_role [OF ok])
  have m2: "meta w2 = M" using r d M(2) by (simp add: created_def)
  have wf2: "wfMeta (meta w2)" using m2 M(1) by (simp add: registered_def)
  from registered_entry(1) [OF M(1)] m2 obtain db where "(uid, a, db) \<in> directory (meta w2)" by auto
  from delDb_returns [OF wf2 this] ok obtain w3 where del: "delDb (metaRepo v) uid a w2 = (Inr (), w3)"
    unfolding tidy_def by blast
  have "undoConnect v a uid n None e s = (Inl e, ?s1\<lparr> pg := w3 \<rparr>)"
    unfolding undoConnect_def andThen_apply using True d(1) r(1) del by (simp add: onPg_def)
  moreover have "wfMeta (meta w3)" "directory (meta w3) = directory (meta w)"
    using delDb_removes [OF wf2 del] m2 registered_entry(2) [OF M(1)] by simp_all
  moreover have "dbsOn w3 = (if conn1 s = None then dbsOn w else dbsOn w - {n})"
    using silentD [OF delDb_silent del] r(3) d(3) M(2) by (simp add: created_def)
  ultimately show thesis using that [of "?s1\<lparr> pg := w3 \<rparr>"] by simp
qed

lemma closeBoth_quiet:
  assumes "tidy v"
  obtains s' where "closeBoth v s = (Inr (), s')" "meta (pg s') = meta (pg s)" "dbsOn (pg s') = dbsOn (pg s)"
proof -
  from assms have ok: "\<And>c. returns (closePg v c)" by (simp add: tidy_def)
  have quiet: "meta w' = meta (pg t) \<and> dbsOn w' = dbsOn (pg t)"
    if "case c of None \<Rightarrow> w' = pg t | Some c' \<Rightarrow> closePg v c' (pg t) = (Inr (), w')" for c w' and t :: "'w scope"
    using that silentD [OF close_silent] by (cases c) auto
  obtain w1 where 1: "optionally (closePg v) (conn1 s) s = (Inr (), s\<lparr> pg := w1 \<rparr>)"
    "case conn1 s of None \<Rightarrow> w1 = pg s | Some c' \<Rightarrow> closePg v c' (pg s) = (Inr (), w1)"
    by (rule optionally_ok [where f = "closePg v" and c = "conn1 s" and s = s, OF ok])
  let ?s1 = "s\<lparr> pg := w1 \<rparr>"
  obtain w2 where 2: "optionally (closePg v) (conn2 ?s1) ?s1 = (Inr (), ?s1\<lparr> pg := w2 \<rparr>)"
    "case conn2 ?s1 of None \<Rightarrow> w2 = pg ?s1 | Some c' \<Rightarrow> closePg v c' (pg ?s1) = (Inr (), w2)"
    by (rule optionally_ok [where f = "closePg v" and c = "conn2 ?s1" and s = ?s1, OF ok])
  have "closeBoth v s = (Inr (), ?s1\<lparr> pg := w2 \<rparr>)"
    unfolding closeBoth_def andThen_apply using 1(1) 2(1) by simp
  with that [of "?s1\<lparr> pg := w2 \<rparr>"] quiet [OF 1(2)] quiet [OF 2(2)] show thesis by simp
qed

end

section \<open>A server kept as a list of names\<close>

record server =
  metaW :: meta_world
  dbNames :: "string list"

definition onMeta :: "(meta_world, js_err thrown, 'a) action \<Rightarrow> (server, 'a) dbop" where
  "onMeta m = (\<lambda>w. case m (metaW w) of (x, w') \<Rightarrow> (x, w\<lparr> metaW := w' \<rparr>))"

definition serverMeta :: "server meta_repo" where
  "serverMeta = \<lparr>
     findUser = (\<lambda>u. onMeta (findUser listMeta u)), saveUser = (\<lambda>x. onMeta (saveUser listMeta x)),
     findDb = (\<lambda>n. onMeta (findDb listMeta n)), findDbs = onMeta (findDbs listMeta),
     usersOf = (\<lambda>d. onMeta (usersOf listMeta d)), saveRow = (\<lambda>d. onMeta (saveRow listMeta d)),
     removeRow = (\<lambda>d. onMeta (removeRow listMeta d)), notFound = notFound listMeta,
     openBase = ret (), closeBase = ret (), createMeta = ret (), openMeta = ret (), addCron = ret (), runMigrations = ret (),
     actualDbs = (\<lambda>w. (Inr (dbNames w), w)) \<rparr>"

lemma onMeta_run: "onMeta m w = (x, w') \<Longrightarrow> m (metaW w) = (x, metaW w') \<and> dbNames w' = dbNames w"
  by (auto simp: onMeta_def split: prod.splits)

interpretation server_meta: meta_store serverMeta "\<lambda>w. tablesOf (metaW w)"
proof unfold_locales
  fix u w show "tablesOf (metaW (snd (findUser serverMeta u w))) = tablesOf (metaW w)"
    by (simp add: serverMeta_def onMeta_def listMeta_def)
next
  fix u w w' assume "findUser serverMeta u w = (Inr None, w')"
  then show "emails (tablesOf (metaW w)) u = None"
    using list_meta.findUser_None by (auto simp: serverMeta_def dest!: onMeta_run)
next
  fix u w usr w' assume "findUser serverMeta u w = (Inr (Some usr), w')"
  then show "userId usr = u \<and> loadedUser (tablesOf (metaW w)) usr"
    using list_meta.findUser_Some by (auto simp: serverMeta_def dest!: onMeta_run)
next
  fix w ds w' assume "findDbs serverMeta w = (Inr ds, w')"
  then show "set ds = ran (dbRows (tablesOf (metaW w)))"
    using list_meta.findDbs_rows by (auto simp: serverMeta_def dest!: onMeta_run)
next
  fix d w w' assume "removeRow serverMeta d w = (Inr (), w')"
  then show "tablesOf (metaW w') = dropRow d (tablesOf (metaW w))"
    using list_meta.removeRow_drops by (auto simp: serverMeta_def dest!: onMeta_run)
next
  fix d w w' assume "saveRow serverMeta d w = (Inr (), w')"
  then show "tablesOf (metaW w') = putRow d (tablesOf (metaW w))"
    using list_meta.saveRow_puts by (auto simp: serverMeta_def dest!: onMeta_run)
next
  fix usr w w' assume "saveUser serverMeta usr w = (Inr (), w')"
  then show "tablesOf (metaW w') = putUser usr (tablesOf (metaW w))"
    using list_meta.saveUser_puts by (auto simp: serverMeta_def dest!: onMeta_run)
qed (auto simp: serverMeta_def onMeta_def listMeta_def writing_def tablesOf_def)

definition idleRepo :: "('w, js_err thrown) repo" where
  "idleRepo = \<lparr> findLogs = (\<lambda>c q. ret []), saveLogs = (\<lambda>c ls. ret ls), newDate = (\<lambda>w. (0, w)),
     uuidv4 = (\<lambda>w. ([], w)), sleepSec = id, dbUser = ''iasql'', mkError = (\<lambda>m. ErrObj (Err m)) \<rparr>"

definition idleEngine :: "'w engine_env" where
  "idleEngine = \<lparr> logs = idleRepo, camelCase = id, snakeCase = id, metaOf = (\<lambda>_. demoMeta),
     findOneEnt = (\<lambda>c n wh. ret None), findEnt = (\<lambda>c n wh. ret []), moduleNames = (\<lambda>c. ret []),
     versionString = ret ''1'', upgrading = ret False, configVersion = ''1'', allModules = [],
     pgFormat = (\<lambda>tmpl args. tmpl), cloudIds = [], resolvable = [],
     connect = ret (), closeConn = (\<lambda>c. ret ()), runSql = (\<lambda>c q. ret ()), sentry = None \<rparr>"

definition idleInstall :: "'w install_env" where
  "idleInstall = \<lparr> inEngine = idleEngine, platformVersion = ''1'', closest = (\<lambda>n ns. n),
     openRunner = (\<lambda>c. ret 0), startTx = (\<lambda>q. ret ()), commitTx = (\<lambda>q. ret ()), rollbackTx = (\<lambda>q. ret ()),
     releaseRunner = (\<lambda>q. ret ()), runnerQuery = (\<lambda>q t. ret ()), publicTables = (\<lambda>q. ret []),
     migrationOf = (\<lambda>m st. None), findModuleRow = (\<lambda>c n. ret None), saveModuleRow = (\<lambda>c n ds. ret ()),
     removeModuleRow = (\<lambda>c n. ret ()), findTableRows = (\<lambda>c n. ret []), saveTableRows = (\<lambda>c ts. ret ()),
     removeTableRows = (\<lambda>c ts. ret ()) \<rparr>"

definition builtin :: "string \<Rightarrow> 'w emapper emodule" where
  "builtin n = \<lparr> modName = n, modVersion = ''1'', dependencies = [], provTables = [], modMappers = [] \<rparr>"

text \<open>The two statements on databases are recognised by their first words; a name follows the template.\<close>

definition createT :: string where "createT = ''CREATE DATABASE %I;''"
definition dropT :: string where "dropT = ''DROP DATABASE IF EXISTS %I WITH (FORCE);''"

definition serverRun :: "conn \<Rightarrow> string \<Rightarrow> (server, unit) dbop" where
  "serverRun c sql = (\<lambda>w.
     if take (length createT) sql = createT
     then (let n = drop (length createT) sql in
           if n \<in> set (dbNames w) then (Inl (ErrObj (Err (''database '' @ n @ '' already exists''))), w)
           else (Inr (), w\<lparr> dbNames := n # dbNames w \<rparr>))
     else if take (length dropT) sql = dropT
     then (Inr (), w\<lparr> dbNames := removeAll (drop (length dropT) sql) (dbNames w) \<rparr>)
     else (Inr (), w))"

definition demoServer :: "server connect_env" where
  "demoServer = \<lparr> installer = idleInstall, metaRepo = serverMeta, platformModule = builtin ''iasql_platform'',
     functionsModule = builtin ''iasql_functions'', multiUser = False, fmt = (\<lambda>t args. t @ concat args),
     dbHost = ''h'', dbPort = ''5432'', dbPassword = ''p'', openPg = (\<lambda>n. ret 0), closePg = (\<lambda>c. ret ()),
     runPg = serverRun, sumCounts = (\<lambda>c. ret None), drawRandom = ret (\<lambda>i n. 0) \<rparr>"

lemma serverRun_create: "serverRun c (createT @ n) w =
    (if n \<in> set (dbNames w) then (Inl (ErrObj (Err (''database '' @ n @ '' already exists''))), w)
     else (Inr (), w\<lparr> dbNames := n # dbNames w \<rparr>))"
  by (simp add: serverRun_def Let_def)

lemma serverRun_drop: "serverRun c (dropT @ n) w = (Inr (), w\<lparr> dbNames := removeAll n (dbNames w) \<rparr>)"
  by (simp add: serverRun_def createT_def dropT_def)

lemma serverRun_other:
  "take (length createT) sql \<noteq> createT \<Longrightarrow> take (length dropT) sql \<noteq> dropT \<Longrightarrow> serverRun c sql w = (Inr (), w)"
  by (simp add: serverRun_def)

lemma demo_fields:
  "installer demoServer = idleInstall" "metaRepo demoServer = serverMeta" "runPg demoServer = serverRun"
  "fmt demoServer = (\<lambda>t args. t @ concat args)" "openPg demoServer = (\<lambda>n. ret 0)" "closePg demoServer = (\<lambda>c. ret ())"
  "sumCounts demoServer = (\<lambda>c. ret None)" "drawRandom demoServer = ret (\<lambda>i n. 0)"
  "platformModule demoServer = builtin ''iasql_platform''" "functionsModule demoServer = builtin ''iasql_functions''"
  by (simp_all add: demoServer_def)

lemma demo_sql: "createSql demoServer n = createT @ n" "dropSql demoServer n = dropT @ n"
  by (simp_all add: createSql_def dropSql_def demo_fields createT_def dropT_def)

lemma setup_other:
  assumes "sql \<in> set (setupStatements demoServer n u p)"
  shows "serverRun c sql w = (Inr (), w)"
proof (rule serverRun_other)
  from assms have start: "take 1 sql = [nl] \<or> take 13 sql = ''CREATE SCHEMA'' \<or> take 6 sql = ''SELECT''"
    by (auto simp: setupStatements_def setUpDblink_def createDbPostgreGroupRole_def newPostgresRoleQuery_def
        grantPostgresGroupRoleToUser_def sqlLines_def demo_fields Let_def split: option.splits)
  have parts: "take j sql = take j T" if "take (length T) sql = T" "j \<le> length T" for T :: string and j
  proof -
    have "take j (take (length T) sql) = take j sql" using that(2) by (simp add: min_def)
    with that(1) show ?thesis by simp
  qed
  show "take (length createT) sql \<noteq> createT"
    using parts [of createT 1] parts [of createT 13] parts [of createT 6] start by (auto simp: createT_def)
  show "take (length dropT) sql \<noteq> dropT"
    using parts [of dropT 1] parts [of dropT 13] parts [of dropT 6] start by (auto simp: dropT_def)
qed

lemma role_other: "serverRun c (dropPostgresRoleQuery (fmt demoServer) u n b) w = (Inr (), w)"
  by (rule serverRun_other) (auto simp: dropPostgresRoleQuery_def demo_fields createT_def dropT_def)

lemma migrate_idle: "migrateDb idleInstall (builtin a) (builtin b) c w = (Inr (), w)"
  by (simp add: migrateDb_def migrate_def idleInstall_def Let_def)

abbreviation serverMetaOf :: "server \<Rightarrow> meta_tables" where
  "serverMetaOf w \<equiv> tablesOf (metaW w)"

abbreviation serverDbs :: "server \<Rightarrow> string set" where
  "serverDbs w \<equiv> set (dbNames w)"

lemma silent_by_run: "(\<And>w. m w = (Inr (), w)) \<Longrightarrow> silent obs m"
  by (simp add: silent_def)

interpretation list_server: pg_server demoServer serverMetaOf serverDbs
proof (intro pg_server.intro)
  show "meta_store (metaRepo demoServer) serverMetaOf"
    using server_meta.meta_store_axioms by (simp add: demo_fields)
  show "pg_server_axioms demoServer serverMetaOf serverDbs"
  proof
    fix c n w w'
    assume "runPg demoServer c (createSql demoServer n) w = (Inr (), w')"
    then show "n \<notin> serverDbs w \<and> serverDbs w' = insert n (serverDbs w)"
      by (auto simp: demo_fields demo_sql serverRun_create split: if_splits)
  next
    fix c n w e w'
    assume "runPg demoServer c (createSql demoServer n) w = (Inl e, w')"
    then show "serverDbs w' = serverDbs w" by (auto simp: demo_fields demo_sql serverRun_create split: if_splits)
  next
    fix c n w w'
    assume "runPg demoServer c (dropSql demoServer n) w = (Inr (), w')"
    then show "serverDbs w' = serverDbs w - {n}" by (auto simp: demo_fields demo_sql serverRun_drop)
  next
    fix c sql n u p
    assume "sql \<in> set (setupStatements demoServer n u p)"
    from setup_other [OF this] show "silent (\<lambda>w. (serverMetaOf w, serverDbs w)) (runPg demoServer c sql)"
      by (simp add: silent_def demo_fields)
  next
    fix c u n
    show "silent (\<lambda>w. (serverMetaOf w, serverDbs w)) (runPg demoServer c (dropPostgresRoleQuery (fmt demoServer) u n True))"
      using role_other by (simp add: silent_def demo_fields)
  next
    fix c
    show "silent (\<lambda>w. (serverMetaOf w, serverDbs w))
       (migrateDb (installer demoServer) (platformModule demoServer) (functionsModule demoServer) c)"
      by (simp add: silent_def demo_fields migrate_idle)
  qed (auto simp: silent_def demo_fields demo_sql serverRun_create serverRun_drop serverMeta_def onMeta_def listMeta_def
      writing_def split: prod.splits)
qed

lemma demo_tidy: "tidy demoServer"
proof -
  have run: "returns (serverRun c (dropT @ n))" "returns (serverRun c (dropPostgresRoleQuery (fmt demoServer) u n True))" for c u n
    by (simp_all add: returns_def serverRun_drop role_other)
  have "returns (onMeta m)" if "returns m" for m :: "(meta_world, js_err thrown, 'a) action"
    using that by (auto simp: returns_def onMeta_def split: prod.splits) (metis Pair_inject)
  then show ?thesis using run
    by (auto simp: tidy_def demo_sql demo_fields serverMeta_def listMeta_def writing_def returns_def onMeta_def)
qed

section \<open>Claims\<close>

lemma fresh_start:
  "pg_server v meta dbsOn \<Longrightarrow> pg_server.fresh meta dbsOn w
     \<lparr> pg = w, conn1 = None, conn2 = None, roleName = None, dbSaved = False, roleGranted = False \<rparr>"
  by (simp add: pg_server.fresh_def)

abbreviation startScope :: "'w \<Rightarrow> 'w scope" where
  "startScope w \<equiv> \<lparr> pg = w, conn1 = None, conn2 = None, roleName = None, dbSaved = False, roleGranted = False \<rparr>"

text \<open>What is left when the body of \<open>connect\<close> fails, for any request.\<close>

lemma connectDb_undone:
  assumes server: "pg_server v meta dbsOn" and ok: "tidy v" and wf: "wfMeta (meta w)" and new: "dbRows (meta w) n = None"
    and body: "connectBody v a uid mail n None (startScope w) = (Inl e, s)"
  obtains w' where "connectDb v a uid mail n None w = (Inl e, w')" "wfMeta (meta w')"
    "directory (meta w') = directory (meta w)" "dbsOn w' = (if conn1 s = None then dbsOn w else dbsOn w - {n})"
proof -
  note state = pg_server.connectBody_throws [OF server wf new fresh_start [OF server] body]
  obtain s1 where u: "undoConnect v a uid n None e s = (Inl e :: js_err thrown + connected, s1)" "wfMeta (meta (pg s1))"
    "directory (meta (pg s1)) = directory (meta w)"
    "dbsOn (pg s1) = (if conn1 s = None then dbsOn w else dbsOn w - {n})"
    by (rule pg_server.undoConnect_result [OF server ok state])
  obtain s2 where c: "closeBoth v s1 = (Inr (), s2)" "meta (pg s2) = meta (pg s1)" "dbsOn (pg s2) = dbsOn (pg s1)"
    by (rule pg_server.closeBoth_quiet [OF server ok])
  have "connectDb v a uid mail n None w = (Inl e, pg s2)"
    using body u(1) c(1) by (simp add: connectDb_def inScope_def tryFinally_apply tryCatch_apply)
  with that [of "pg s2"] u c show thesis by simp
qed



definition demoServerWorld :: "string list \<Rightarrow> server" where
  "demoServerWorld names = \<lparr> metaW = demoMetaWorld, dbNames = names \<rparr>"

lemma demo_server_wf: "wfMeta (tablesOf (metaW (demoServerWorld names)))"
  using demo_wf by (simp add: demoServerWorld_def)

lemma demo_server_new: "dbRows (tablesOf (metaW (demoServerWorld names))) ''x'' = None"
  by (simp add: demoServerWorld_def demo_tables)

lemma demo_save:
  "\<exists>w'. saveDb serverMeta ''u1'' ''m'' (newDatabase ''x'' ''x'' u) (demoServerWorld names) = (Inr (newDatabase ''x'' ''x'' u), w')"
  by (simp add: saveDb_def saveBoth_def andThen_apply serverMeta_def onMeta_def listMeta_def loadUser_def demoServerWorld_def
      demoMetaWorld_def rowIn_def List.map_filter_def hasAlias_def demoDatabase_def newDatabase_def writing_def)


text \<open>A server whose counting query fails, at the end of \<open>connect\<close>.\<close>

definition failingServer :: "server connect_env" where
  "failingServer = demoServer\<lparr> sumCounts := (\<lambda>c. throw (ErrObj (Err ''no tables''))) \<rparr>"

lemma failing_sql [simp]:
  "createSql failingServer = createSql demoServer" "dropSql failingServer = dropSql demoServer"
  "setupStatements failingServer = setupStatements demoServer"
  by (simp_all add: fun_eq_iff createSql_def dropSql_def setupStatements_def failingServer_def split: option.split)

lemma failing_fields [simp]:
  "installer failingServer = installer demoServer" "metaRepo failingServer = metaRepo demoServer"
  "runPg failingServer = runPg demoServer" "fmt failingServer = fmt demoServer" "openPg failingServer = openPg demoServer"
  "closePg failingServer = closePg demoServer" "drawRandom failingServer = drawRandom demoServer"
  "platformModule failingServer = platformModule demoServer" "functionsModule failingServer = functionsModule demoServer"
  "sumCounts failingServer c = throw (ErrObj (Err ''no tables''))"
  by (simp_all add: failingServer_def)

lemma failing_server: "pg_server failingServer serverMetaOf serverDbs"
proof (intro pg_server.intro pg_server_axioms.intro)
  show "meta_store (metaRepo failingServer) serverMetaOf"
    using list_server.meta_store_axioms by simp
qed (simp_all add: list_server.create_ok list_server.create_fails list_server.create_meta list_server.drop_ok
    list_server.drop_meta list_server.open_silent list_server.close_silent list_server.random_silent
    list_server.migrate_silent list_server.setup_silent list_server.role_silent list_server.find_silent list_server.save_silent)

lemma failing_body: "fst (connectBody failingServer a uid mail n None s) \<noteq> Inr d"
proof
  assume "fst (connectBody failingServer a uid mail n None s) = Inr d"
  then obtain s' where "connectBody failingServer a uid mail n None s = (Inr d, s')" by (metis prod.collapse)
  then obtain c k s1 s2 where "onPg (countRecords failingServer n True c) s1 = (Inr k, s2)"
    by (auto simp: connectBody_def andThen_Inr_iff split: prod.splits)
  from onPg_frame(1) [OF this] show False by (simp add: countRecords_def getDbRecCount_def)
qed

lemma failing_tidy: "tidy failingServer"
  using demo_tidy by (simp add: tidy_def)


section \<open>Deleting a database\<close>

locale pg_disconnect = pg_server +
  assumes hold_silent: "silent (\<lambda>w. (meta w, dbsOn w)) (maybeHoldTransaction v c)"
    and unschedule_silent: "silent (\<lambda>w. (meta w, dbsOn w)) (unscheduleJobs v c)"
    and revoke_silent: "silent (\<lambda>w. (meta w, dbsOn w)) (runPg v c (revokeSql v db))"
    and kill_silent: "silent (\<lambda>w. (meta w, dbsOn w)) (runPg v c (killSql v db))"
begin

lemma dropAll_removes:
  assumes wf: "wfMeta (meta w)" and run: "dropAll v a uid db c1 c2 w = (Inr n, w')"
  shows "n = pgName db \<and> wfMeta (meta w') \<and>
    directory (meta w') = {(x, b, d) \<in> directory (meta w). \<not> (x = uid \<and> b = a)} \<and> dbsOn w' = dbsOn w - {n}"
proof -
  from run obtain w1 w2 w6 u1 u2 u where steps:
    "maybeHoldTransaction v c2 w = (Inr u1, w1)" "unscheduleJobs v c2 w1 = (Inr u2, w2)"
    "delDb (metaRepo v) uid a w6 = (Inr u, w')" "n = pgName db" and
    sqls: "eachM (runPg v c1) [revokeSql v db, killSql v db, dropSql v (pgName db),
        dropPostgresRoleQuery (fmt v) (pgUser db) (pgName db) True] w2 = (Inr (), w6)"
    by (auto simp: dropAll_def andThen_Inr_iff simp del: eachM.simps)
  from sqls obtain w3 w4 w5 u3 u4 u5 u6 where sql:
    "runPg v c1 (revokeSql v db) w2 = (Inr u3, w3)" "runPg v c1 (killSql v db) w3 = (Inr u4, w4)"
    "runPg v c1 (dropSql v (pgName db)) w4 = (Inr u5, w5)"
    "runPg v c1 (dropPostgresRoleQuery (fmt v) (pgUser db) (pgName db) True) w5 = (Inr u6, w6)"
    by (auto simp: andThen_Inr_iff)
  note m = silentD [OF hold_silent steps(1)] silentD [OF unschedule_silent steps(2)] silentD [OF revoke_silent sql(1)]
    silentD [OF kill_silent sql(2)] silentD [OF drop_meta sql(3)] silentD [OF role_silent sql(4)]
  have d: "dbsOn w5 = dbsOn w4 - {pgName db}" using drop_ok sql(3) by simp
  have wf6: "wfMeta (meta w6)" using m wf by simp
  from delDb_removes [OF wf6 steps(3)] silentD [OF delDb_silent steps(3)] m d steps(4) show ?thesis by simp
qed

lemma disconnectDb_removes:
  assumes wf: "wfMeta (meta w)" and run: "disconnectDb v a uid w = (Inr n, w')"
  shows "(\<exists>d. (uid, a, d) \<in> directory (meta w) \<and> pgName d = n) \<and> wfMeta (meta w') \<and>
    directory (meta w') = {(x, b, d) \<in> directory (meta w). \<not> (x = uid \<and> b = a)} \<and> dbsOn w' = dbsOn w - {n}"
proof -
  let ?main = "andThen (onPg (getDb (metaRepo v) uid a)) (\<lambda>db.
         andThen (onPg (openPg v ''postgres'')) (\<lambda>c1.
           andThen (modifyS (\<lambda>s. s\<lparr> conn1 := Some c1 \<rparr>)) (\<lambda>_.
             andThen (onPg (openPg v (pgName db))) (\<lambda>c2.
               andThen (modifyS (\<lambda>s. s\<lparr> conn2 := Some c2 \<rparr>)) (\<lambda>_. onPg (dropAll v a uid db c1 c2))))))"
  let ?close = "andThen (\<lambda>s. attempt (optionally (closePg v) (conn1 s)) s) (\<lambda>_.
          andThen (\<lambda>s. attempt (optionally (closePg v) (conn2 s)) s) (\<lambda>_. ret ()))"
  obtain x s where main: "?main (startScope w) = (x, s)" by force
  obtain y s' where close: "?close s = (y, s')" by force
  have r: "x = Inr n" "w' = pg s'"
    using run main close by (auto simp: disconnectDb_def inScope_def tryFinally_apply split: sum.splits prod.splits)
  have opt: "keeps (\<lambda>s. (meta (pg s), dbsOn (pg s)) = o1) (\<lambda>s. attempt (optionally (closePg v) (f s)) s)" for f o1
  proof
    fix s :: "_ scope" assume "(meta (pg s), dbsOn (pg s)) = o1"
    then show "(meta (pg (snd (attempt (optionally (closePg v) (f s)) s))), dbsOn (pg (snd (attempt (optionally (closePg v) (f s)) s)))) = o1"
      using silentD [OF close_silent]
      by (cases "f s") (auto simp: optionally_def attempt_apply onPg_def split: prod.splits)
  qed
  have "keeps (\<lambda>t. (meta (pg t), dbsOn (pg t)) = (meta (pg s), dbsOn (pg s))) ?close"
    by (intro keeps_andThen opt keeps_ret)
  from keepsD [OF this refl close] have cl: "meta (pg s') = meta (pg s)" "dbsOn (pg s') = dbsOn (pg s)" by simp_all
  obtain db w1 c1 w2 c2 w3 w4 where steps: "getDb (metaRepo v) uid a w = (Inr db, w1)" "openPg v ''postgres'' w1 = (Inr c1, w2)"
      "openPg v (pgName db) w2 = (Inr c2, w3)" "dropAll v a uid db c1 c2 w3 = (Inr n, w4)" "pg s = w4"
    using main r(1) by (auto simp: andThen_Inr_iff onPg_Inr_iff)
  have "silent dbsOn (getDb (metaRepo v) uid a)"
    unfolding getDb_def userOrFail_def by (auto intro!: silent_andThen find_silent split: option.split)
  from silentD [OF this steps(1)] getDb_looks_up [OF wf steps(1)]
  have look: "(uid, a, db) \<in> directory (meta w)" "meta w1 = meta w" "dbsOn w1 = dbsOn w" by simp_all
  note m = silentD [OF open_silent steps(2)] silentD [OF open_silent steps(3)]
  have "wfMeta (meta w3)" using m look wf by simp
  from dropAll_removes [OF this steps(4)] m look cl r(2) steps(5) show ?thesis by auto
qed

end

lemma other_first: "take 1 sql = ''R'' \<or> take 1 sql = ''S'' \<Longrightarrow> serverRun c sql w = (Inr (), w)"
proof (rule serverRun_other)
  assume "take 1 sql = ''R'' \<or> take 1 sql = ''S''"
  then show "take (length createT) sql \<noteq> createT" "take (length dropT) sql \<noteq> dropT"
    by (cases sql; auto simp: createT_def dropT_def)+
qed

interpretation list_disconnect: pg_disconnect demoServer serverMetaOf serverDbs
proof
  fix c db
  have l: "logs (inEngine (installer demoServer)) = idleRepo"
    by (simp add: demo_fields idleInstall_def idleEngine_def)
  have "isCommitRunning idleRepo c w = (Inr False, w)" for w :: server
    by (simp add: isCommitRunning_def andThen_apply idleRepo_def)
  then show "silent (\<lambda>w. (serverMetaOf w, serverDbs w)) (maybeHoldTransaction demoServer c)"
    unfolding maybeHoldTransaction_def l by (intro silent_by_run) (simp add: tryCatch_apply andThen_apply)
  show "silent (\<lambda>w. (serverMetaOf w, serverDbs w)) (unscheduleJobs demoServer c)"
    by (intro silent_by_run) (simp add: unscheduleJobs_def demo_fields tryCatch_apply andThen_apply other_first)
  show "silent (\<lambda>w. (serverMetaOf w, serverDbs w)) (runPg demoServer c (revokeSql demoServer db))"
    "silent (\<lambda>w. (serverMetaOf w, serverDbs w)) (runPg demoServer c (killSql demoServer db))"
    by (auto intro!: silent_by_run other_first simp: demo_fields revokeSql_def killSql_def)
qed

text \<open>
  A \<open>disconnect\<close> that returns has removed exactly that database: the user had an entry of the alias,
  the name returned is its name, the entry and the database are gone, everything else is as before.
\<close>

theorem disconnect_removes:
  assumes "pg_disconnect v meta dbsOn" and "wfMeta (meta w)" and "disconnectDb v a uid w = (Inr n, w')"
  shows "(\<exists>d. (uid, a, d) \<in> directory (meta w) \<and> pgName d = n) \<and> wfMeta (meta w') \<and>
    directory (meta w') = {(x, b, d) \<in> directory (meta w). \<not> (x = uid \<and> b = a)} \<and> dbsOn w' = dbsOn w - {n}"
  by (rule pg_disconnect.disconnectDb_removes [OF assms])

lemma disconnect_run:
  "\<exists>w'. disconnectDb demoServer ''prod'' ''u1'' (demoServerWorld [''postgres'', ''d1'']) = (Inr ''d1'', w')"
proof -
  let ?w = "demoServerWorld [''postgres'', ''d1'']" and ?db = "demoDatabase ''d1'' ''prod''"
  have l: "logs (inEngine (installer demoServer)) = idleRepo"
    by (simp add: demo_fields idleInstall_def idleEngine_def)
  have g: "getDb (metaRepo demoServer) ''u1'' ''prod'' ?w = (Inr ?db, ?w)"
    by (simp add: getDb_def userOrFail_def andThen_apply demo_fields serverMeta_def onMeta_def listMeta_def loadUser_def
        demoServerWorld_def demoMetaWorld_def rowIn_def List.map_filter_def hasAlias_def demoDatabase_def)
  have idle: "maybeHoldTransaction demoServer c w = (Inr (), w)" for c w
    unfolding maybeHoldTransaction_def l
    by (simp add: isCommitRunning_def idleRepo_def tryCatch_apply andThen_apply)
  have "\<exists>w'. dropAll demoServer ''prod'' ''u1'' ?db 0 0 ?w = (Inr ''d1'', w')"
    by (simp add: dropAll_def andThen_apply idle unscheduleJobs_def demo_fields demo_sql tryCatch_apply
        other_first revokeSql_def killSql_def serverRun_drop role_other [unfolded demo_fields]
        delDb_def userOrFail_def serverMeta_def onMeta_def listMeta_def loadUser_def
        demoServerWorld_def demoMetaWorld_def rowIn_def List.map_filter_def hasAlias_def demoDatabase_def writing_def)
  then obtain w' where d: "dropAll demoServer ''prod'' ''u1'' ?db 0 0 ?w = (Inr ''d1'', w')" by blast
  show ?thesis
    by (simp add: disconnectDb_def inScope_def tryFinally_apply andThen_apply onPg_def g [unfolded demo_fields] d demo_fields
        attempt_apply optionally_def)
qed

theorem disconnect_removes_witness:
  "\<exists>w'. disconnectDb demoServer ''prod'' ''u1'' (demoServerWorld [''postgres'', ''d1'']) = (Inr ''d1'', w') \<and>
     serverDbs w' = {''postgres''}"
proof -
  obtain w' where run: "disconnectDb demoServer ''prod'' ''u1'' (demoServerWorld [''postgres'', ''d1'']) = (Inr ''d1'', w')"
    using disconnect_run by blast
  from disconnect_removes [OF list_disconnect.pg_disconnect_axioms demo_server_wf run] run
  show ?thesis by (auto simp: demoServerWorld_def)
qed

end
