(* ===== verification/Router.thy ===== *)
theory Router
  imports Module_Base Connect Commit
begin

text \<open>
  The HTTP interface of the engine: the handlers of \<open>src/src/router/db.ts\<close>.

  The state adds the replies of the request to the connections of \<open>net\<close>; the client sees the first
  one, since a reply after it is dropped by the server.  Telemetry and logging, which cannot throw and
  are not waited for, are left out, and so are requests whose \<open>user\<close> is not a string and method names
  that are properties of every object.  The exports of \<open>src/src/modules\<close> are parameters.
\<close>

section \<open>Requests and replies\<close>

record rpc_request =
  rqDbId :: "string option"
  rqDbUser :: "string option"
  rqParams :: "string list option"
  rqModule :: "string option"
  rqMethod :: "string option"
  rqPre :: "string option"
  rqPost :: "string option"

record alias_request =
  urlParams :: "string list"            \<comment> \<open>the keys of \<open>req.params\<close>\<close>
  rqAlias :: "string option"
  rqUser :: string

datatype 'r body =
    Rows "'r option"
  | Sentence string
  | OneLine string                      \<comment> \<open>\<open>{ message }\<close>\<close>
  | Lines "string list"                 \<comment> \<open>\<open>{ message }\<close>, split\<close>
  | Connected connected
  | Ended "string option"

record ('w, 'r) session = "'w net" +
  replies :: "(nat \<times> 'r body) list"

type_synonym ('w, 'r, 'a) handler = "(('w, 'r) session, js_err thrown, 'a) action"

definition reply :: "nat \<Rightarrow> 'r body \<Rightarrow> ('w, 'r, unit) handler" where
  "reply status b = modifyS (\<lambda>s. s\<lparr> replies := replies s @ [(status, b)] \<rparr>)"

section \<open>Modules\<close>

datatype 'c exportedValue = Fn 'c | Val 'c

datatype 'c contextValue = Orm conn | NewMemo | Shared 'c | Cloned 'c

type_synonym 'c rpcContext = "'c contextValue obj"

record ('w, 'c, 'r) exported =
  exName :: "string option"
  exVersion :: "string option"
  isModuleBase :: bool
  exContext :: "'c exportedValue obj"
  exRpc :: "(string \<Rightarrow> string \<Rightarrow> 'c rpcContext \<Rightarrow> string list \<Rightarrow> ('w, 'r) dbop) obj option"

record ('w, 'c, 'r) router_env =
  rpcEnv :: "('w, js_err thrown) rpc_env"
  connector :: "'w connect_env"
  allModules :: "('w, 'c, 'r) exported obj"
  hasModuleEntity :: bool
  installedNames :: "conn \<Rightarrow> ('w, string list) dbop"
  versionNames :: "string \<Rightarrow> ('w, string list option) dbop"   \<comment> \<open>the query of \<open>getVersionString\<close>\<close>
  dialDb :: "string \<Rightarrow> ('w, unit) dbop"                       \<comment> \<open>\<open>TypeormWrapper.createConn\<close>\<close>
  hangUp :: "conn \<Rightarrow> ('w, unit) dbop"
  randomBytes16 :: "('w, 8 word list) dbop"
  configVersion :: string
  sentry :: "(string \<Rightarrow> string) option"

section \<open>\<open>getContext\<close>\<close>

fun toContext :: "'c exportedValue \<Rightarrow> 'c contextValue" where
  "toContext (Fn f) = Shared f"
| "toContext (Val x) = Cloned x"

definition moduleNamed :: "('w, 'c, 'r) exported obj \<Rightarrow> string \<Rightarrow> ('w, 'c, 'r) exported option" where
  "moduleNamed ms n = find (\<lambda>m. shown (exName m) @ ''@'' @ shown (exVersion m) = n) (obj_values ms)"

fun addContexts :: "('w, 'c, 'r) exported obj \<Rightarrow> string list \<Rightarrow> 'c rpcContext \<Rightarrow> js_err thrown + 'c rpcContext" where
  "addContexts ms [] context = Inr context"
| "addContexts ms (n # ns) context =
     (case moduleNamed ms n of
        None \<Rightarrow> Inl (newError (''This should be impossible. Cannot find module '' @ n))
      | Some m \<Rightarrow> addContexts ms ns (fold (\<lambda>(k, x). obj_set k (toContext x)) (exContext m) context))"

definition getContext :: "('w, 'c, 'r) router_env \<Rightarrow> conn \<Rightarrow> ('w, 'c rpcContext) dbop" where
  "getContext v c =
     (if \<not> hasModuleEntity v then throw (newError ''Core IasqlModule not found'')
      else andThen (installedNames v c) (\<lambda>names.
        case addContexts (allModules v) names [(''orm'', Orm c), (''memo'', NewMemo)] of
          Inl e \<Rightarrow> throw e | Inr context \<Rightarrow> ret context))"

section \<open>\<open>/rpc\<close>\<close>

definition truthyKey :: "string option \<Rightarrow> bool" where
  "truthyKey x = (truthyStr x \<noteq> None)"

definition missingKeys :: "rpc_request \<Rightarrow> string list" where
  "missingKeys q =
     (if truthyKey (rqDbId q) then [] else [''dbId'']) @ (if truthyKey (rqDbUser q) then [] else [''dbUser''])
     @ (if rqParams q \<noteq> None then [] else [''params'']) @ (if truthyKey (rqModule q) then [] else [''modulename''])
     @ (if truthyKey (rqMethod q) then [] else [''methodname''])"

text \<open>\<open>Modules[name]?.rpc?.[methodname].call(dbId, dbUser, context, ...params)\<close>\<close>

definition callMethod :: "('w, 'c, 'r) exported \<Rightarrow> rpc_request \<Rightarrow> 'c rpcContext \<Rightarrow> ('w, 'r option) dbop" where
  "callMethod m q context =
     (case exRpc m of None \<Rightarrow> ret None
      | Some rpcs \<Rightarrow> (case map_of rpcs (the (rqMethod q)) of
          None \<Rightarrow> throw (newError ''TypeError'')
        | Some f \<Rightarrow> andThen (f (the (rqDbId q)) (the (rqDbUser q)) context (the (rqParams q))) (\<lambda>r. ret (Some r))))"

text \<open>What the handler looks up before its inner \<open>try\<close>.\<close>

definition gather :: "('w, 'c, 'r) router_env \<Rightarrow> string
    \<Rightarrow> (('w, 'r) session, js_err thrown, database option \<times> string option \<times> conn) action" where
  "gather v dbId =
     andThen (inWorld (getUserFromDbId (metaRepo (connector v)) dbId)) (\<lambda>user.
       andThen (inWorld (getDbById (metaRepo (connector v)) dbId)) (\<lambda>dbRec.
         andThen (inWorld (versionNames v dbId)) (\<lambda>names.
           andThen (createConn (dialDb v dbId)) (\<lambda>c.
             ret (dbRec, getVersionString (configVersion v) names, c)))))"

definition runRpc :: "('w, 'c, 'r) router_env \<Rightarrow> rpc_request \<Rightarrow> string option \<Rightarrow> conn \<Rightarrow> ('w, 'r, unit) handler" where
  "runRpc v q vstr c =
     (if vstr \<noteq> Some (configVersion v) then throw (newError (''Unsupported version '' @ shown vstr))
      else (case find (\<lambda>m. exName m = rqModule q) (filter isModuleBase (obj_values (allModules v))) of
          None \<Rightarrow> throw (newError (''Module '' @ the (rqModule q) @ '' not found''))
        | Some m \<Rightarrow> andThen (inWorld (getContext v c)) (\<lambda>context.
            andThen (inWorld (rpcCall (rpcEnv v) c (callMethod m q context) (shown (rqPre q)) (shown (rqPost q)))) (\<lambda>rpcRes.
              reply 200 (Rows rpcRes)))))"

definition rpcError :: "('w, 'c, 'r) router_env \<Rightarrow> js_err thrown \<Rightarrow> ('w, 'r, unit) handler" where
  "rpcError v e =
     (let m = logErrSentry (sentry v) e in
      reply 400 (if CHR 0x0A \<in> set m then Lines (splitOn (CHR 0x0A) m) else OneLine m))"

definition afterRpc :: "('w, 'c, 'r) router_env \<Rightarrow> string \<Rightarrow> conn \<Rightarrow> ('w, 'r, unit) handler" where
  "afterRpc v dbId c =
     tryFinally
       (tryCatch (inWorld (andThen (getDbRecCount (connector v) c) (updateRecordCount (metaRepo (connector v)) dbId)))
         (\<lambda>_. ret ()))
       (dropConn (hangUp v) c)"

definition rpcHandler :: "('w, 'c, 'r) router_env \<Rightarrow> rpc_request \<Rightarrow> ('w, 'r, unit) handler" where
  "rpcHandler v q =
     (if missingKeys q \<noteq> [] then reply 400 (Sentence (''Required key(s) '' @ joinWith '', '' (missingKeys q) @ '' not provided''))
      else tryCatch
        (andThen (gather v (the (rqDbId q))) (\<lambda>(dbRec, vstr, c).
          if (case dbRec of None \<Rightarrow> False | Some d \<Rightarrow> isUpgrading d)
          then throw (newError (''Database '' @ the (rqDbId q) @ '' is upgrading.''))
          else tryFinally (tryCatch (runRpc v q vstr c) (rpcError v)) (afterRpc v (the (rqDbId q)) c)))
        (\<lambda>e. reply 500 (Ended (thrownMessage e))))"

section \<open>\<open>/connect\<close> and \<open>/disconnect\<close>\<close>

definition connectHandler :: "('w, 'c, 'r) router_env \<Rightarrow> alias_request \<Rightarrow> ('w, 'r, unit) handler" where
  "connectHandler v q =
     (case truthyStr (rqAlias q) of
        None \<Rightarrow> reply 400 (Sentence (''Required key(s) not provided: '' @
          joinWith '', '' (filter (\<lambda>k. k \<notin> set (urlParams q)) [''dbAlias''])))
      | Some dbAlias \<Rightarrow>
          andThen (inWorld (getEmailByUid (metaRepo (connector v)) (rqUser q))) (\<lambda>mail.
            andThen (inWorld (randomBytes16 v)) (\<lambda>bytes.
              let dbId = genDbId (multiUser (connector v)) bytes dbAlias in
              tryCatch
                (andThen (inWorld (connectDb (connector v) dbAlias (rqUser q) mail dbId None)) (\<lambda>db. reply 200 (Connected db)))
                (\<lambda>e. reply 500 (Ended (Some (logErrSentry (sentry v) e)))))))"

definition disconnectHandler :: "('w, 'c, 'r) router_env \<Rightarrow> alias_request \<Rightarrow> ('w, 'r, unit) handler" where
  "disconnectHandler v q =
     (case truthyStr (rqAlias q) of
        None \<Rightarrow> reply 400 (Sentence (''Required key '' @ quote ''dbAlias'' @ '' not provided''))
      | Some dbAlias \<Rightarrow>
          andThen (inWorld (getEmailByUid (metaRepo (connector v)) (rqUser q))) (\<lambda>mail.
            tryCatch
              (andThen (inWorld (disconnectDb (connector v) dbAlias (rqUser q))) (\<lambda>dbId.
                 reply 200 (Sentence (''disconnected '' @ dbAlias))))
              (\<lambda>e. reply 500 (Ended (Some (logErrSentry (sentry v) e))))))"

section \<open>Replies and connections\<close>

definition stays :: "('w, 'r) session \<Rightarrow> ('w, 'r) session \<Rightarrow> bool" where   \<comment> \<open>but for the world\<close>
  "stays s s' = (pool s' = pool s \<and> replies s' = replies s)"

lemma stays_refl [simp]: "stays s s"
  by (simp add: stays_def)

lemma inWorld_stays: "inWorld m s = (x, s') \<Longrightarrow> stays s s'"
  by (auto simp: inWorld_def stays_def split: prod.splits)

lemma gather_effect:
  assumes "gather v dbId s = (x, s')"
  shows "replies s' = replies s \<and> pool s' = (case x of Inl e \<Rightarrow> pool s | Inr (r, vs, c) \<Rightarrow> c # pool s)"
  using assms
  by (auto simp: gather_def createConn_def andThen_def inWorld_def split: prod.splits sum.splits)

lemma runRpc_effect:
  assumes "runRpc v q vs c s = (x, s')"
  shows "pool s' = pool s \<and> (case x of Inl e \<Rightarrow> replies s' = replies s | Inr _ \<Rightarrow> \<exists>r. replies s' = replies s @ [(200, Rows r)])"
  using assms
  by (auto simp: runRpc_def andThen_def inWorld_def reply_def split: prod.splits sum.splits if_splits option.splits)

lemma rpcError_effect:
  obtains b where "rpcError v e s = (Inr (), s\<lparr> replies := replies s @ [(400, b)] \<rparr>)"
  by (simp add: rpcError_def reply_def Let_def split: if_splits)

lemma tried_effect:
  "\<exists>a s'. tryCatch (runRpc v q vs c) (rpcError v) s = (Inr (), s') \<and> pool s' = pool s \<and> replies s' = replies s @ [a]"
proof (cases "runRpc v q vs c s")
  case (Pair x s1)
  note eff = runRpc_effect [OF this]
  show ?thesis
  proof (cases x)
    case (Inl e)
    obtain b where "rpcError v e s1 = (Inr (), s1\<lparr> replies := replies s1 @ [(400, b)] \<rparr>)"
      by (rule rpcError_effect)
    with Pair eff Inl show ?thesis by (auto simp: tryCatch_def)
  next
    case (Inr u)
    with Pair eff show ?thesis by (auto simp: tryCatch_def)
  qed
qed

lemma counted_effect:
  obtains s' where "tryCatch (inWorld m) (\<lambda>_. ret ()) s = (Inr (), s')" "stays s s'"
proof (cases "inWorld m s")
  case (Pair x s')
  then have "stays s s'" by (rule inWorld_stays)
  with Pair that show thesis by (cases x) (auto simp: tryCatch_def)
qed

lemma dropConn_effect:
  assumes "dropConn close c s = (x, s')"
  shows "replies s' = replies s \<and> pool s' = (case x of Inl e \<Rightarrow> pool s | Inr _ \<Rightarrow> remove1 c (pool s))"
  using assms by (auto simp: dropConn_def andThen_def inWorld_def split: prod.splits sum.splits)

lemma afterRpc_effect:
  assumes "afterRpc v dbId c s = (x, s')"
  shows "replies s' = replies s \<and> pool s' = (case x of Inl e \<Rightarrow> pool s | Inr _ \<Rightarrow> remove1 c (pool s))"
proof -
  obtain s1 where s1: "tryCatch (inWorld (andThen (getDbRecCount (connector v) c) (updateRecordCount (metaRepo (connector v)) dbId)))
         (\<lambda>_. ret ()) s = (Inr (), s1)" "stays s s1" by (rule counted_effect)
  obtain y s2 where d: "dropConn (hangUp v) c s1 = (y, s2)" by fastforce
  with assms s1(1) have "s' = s2 \<and> x = y" by (cases y) (auto simp: afterRpc_def tryFinally_def)
  with dropConn_effect [OF d] s1(2) show ?thesis by (cases y) (simp_all add: stays_def)
qed

lemma served_effect:
  assumes "tryFinally (tryCatch (runRpc v q vs c) (rpcError v)) (afterRpc v dbId c) s = (x, s')"
  shows "\<exists>a. replies s' = replies s @ [a] \<and> pool s' = (case x of Inl e \<Rightarrow> pool s | Inr _ \<Rightarrow> remove1 c (pool s))"
proof -
  obtain a s1 where t: "tryCatch (runRpc v q vs c) (rpcError v) s = (Inr (), s1)" "pool s1 = pool s" "replies s1 = replies s @ [a]"
    using tried_effect [of v q vs c s] by blast
  obtain y s2 where f: "afterRpc v dbId c s1 = (y, s2)" by fastforce
  from assms t f have "s' = s2 \<and> (case y of Inl e \<Rightarrow> x = Inl e | Inr _ \<Rightarrow> x = Inr ())"
    by (auto simp: tryFinally_def split: sum.splits)
  with afterRpc_effect [OF f] t show ?thesis by (auto split: sum.splits)
qed


text \<open>
  C14. When connections always close, an RPC request leaves the pool of connections as it was, except
  that each request to a database which is being upgraded leaks the connection it opened.
\<close>

theorem rpcHandler_connections:
  assumes closes: "\<And>c w. \<exists>w'. hangUp v c w = (Inr (), w')"
  shows "pool (snd (rpcHandler v q s)) =
    (case gather v (the (rqDbId q)) s of
       (Inr (Some d, _, c), _) \<Rightarrow> if missingKeys q = [] \<and> isUpgrading d then c # pool s else pool s
     | _ \<Rightarrow> pool s)"
proof -
  have after: "fst (afterRpc v dbId c s1) = Inr ()" for dbId c s1
  proof -
    obtain s2 where "tryCatch (inWorld (andThen (getDbRecCount (connector v) c) (updateRecordCount (metaRepo (connector v)) dbId)))
         (\<lambda>_. ret ()) s1 = (Inr (), s2)" by (rule counted_effect)
    moreover obtain w' where "hangUp v c (outside s2) = (Inr (), w')" using closes by blast
    ultimately show ?thesis by (simp add: afterRpc_def tryFinally_def dropConn_def andThen_def inWorld_def)
  qed
  obtain x s1 where g: "gather v (the (rqDbId q)) s = (x, s1)" by fastforce
  note eff = gather_effect [OF g]
  show ?thesis
  proof (cases "missingKeys q = [] \<and> (\<exists>t. x = Inr t)")
    case True
    then obtain r vs c where x: "x = Inr (r, vs, c)" by (metis prod_cases3)
    show ?thesis
    proof (cases "case r of None \<Rightarrow> False | Some d \<Rightarrow> isUpgrading d")
      case up: True
      with True g x eff show ?thesis
        by (auto simp: rpcHandler_def tryCatch_def andThen_def reply_def split: option.splits)
    next
      case False
      obtain y s2 where srv: "tryFinally (tryCatch (runRpc v q vs c) (rpcError v)) (afterRpc v (the (rqDbId q)) c) s1 = (y, s2)"
        by fastforce
      have "y = Inr ()"
      proof -
        obtain a s3 where "tryCatch (runRpc v q vs c) (rpcError v) s1 = (Inr (), s3)"
          using tried_effect [of v q vs c s1] by blast
        with srv after [of "the (rqDbId q)" c s3] show ?thesis by (auto simp: tryFinally_def split: prod.splits sum.splits)
      qed
      with served_effect [OF srv] eff x have "pool s2 = pool s" by auto
      with True g x False srv \<open>y = Inr ()\<close> show ?thesis
        by (auto simp: rpcHandler_def tryCatch_def andThen_def split: option.splits)
    qed
  next
    case False
    with g eff show ?thesis
      by (auto simp: rpcHandler_def tryCatch_def andThen_def reply_def split: sum.splits option.splits)
  qed
qed

text \<open>A server with one database, which is being upgraded, and no modules.\<close>

definition busyDb :: database where
  "busyDb = (newDatabase ''d'' ''a'' ''u'')\<lparr> isUpgrading := True \<rparr>"

definition busyServer :: server where
  "busyServer = \<lparr> metaW = \<lparr> wUsers = [], wDbs = [busyDb], wLinks = [], wActual = [''d''] \<rparr>, dbNames = [''d''] \<rparr>"

definition demoRouter :: "(server, unit, unit) router_env" where
  "demoRouter = \<lparr>
     rpcEnv = \<lparr> logRepo = idleRepo, beginQuery = (\<lambda>c. ret ()), commitQuery = (\<lambda>c. ret ()), msgOf = thrownMessage, withMsg = renamed \<rparr>,
     connector = demoServer, allModules = [], hasModuleEntity = True, installedNames = (\<lambda>c. ret []),
     versionNames = (\<lambda>n. ret None), dialDb = (\<lambda>n. ret ()), hangUp = (\<lambda>c. ret ()), randomBytes16 = ret [],
     configVersion = ''1'', sentry = None \<rparr>"

definition demoRequest :: rpc_request where
  "demoRequest = \<lparr> rqDbId = Some ''d'', rqDbUser = Some ''u'', rqParams = Some [], rqModule = Some ''m'', rqMethod = Some ''f'',
     rqPre = None, rqPost = None \<rparr>"

definition demoSession :: "(server, unit) session" where
  "demoSession = \<lparr> outside = busyServer, pool = [3], nextConn = 7, replies = [] \<rparr>"

theorem rpcHandler_connections_witness:
  "pool (snd (rpcHandler demoRouter demoRequest demoSession)) = [7, 3]"
proof -
  have "rowIn (metaW busyServer) ''d'' = Some busyDb"
    by (simp add: rowIn_def busyServer_def busyDb_def newDatabase_def)
  then have "gather demoRouter ''d'' demoSession
      = (Inr (Some busyDb, Some ''1'', 7), demoSession\<lparr> pool := [7, 3], nextConn := 8 \<rparr>)"
    by (simp add: gather_def demoRouter_def demo_fields serverMeta_def onMeta_def listMeta_def getUserFromDbId_def
        getDbById_def andThen_def inWorld_def createConn_def getVersionString_def demoSession_def busyServer_def
        busyDb_def newDatabase_def)
  moreover have "missingKeys demoRequest = []"
    by (simp add: missingKeys_def demoRequest_def truthyKey_def truthyStr_def)
  ultimately show ?thesis
    by (subst rpcHandler_connections) (simp_all add: demoRouter_def demoRequest_def demoSession_def busyDb_def)
qed

text \<open>
  A request to create a database is answered once, unless its user cannot be looked up (or no random
  bytes are to be had): then the handler throws before any reply, and the client waits for ever.
\<close>

theorem connectHandler_answers:
  "case connectHandler v q s of
     (Inr _, s') \<Rightarrow> pool s' = pool s \<and> (\<exists>a. replies s' = replies s @ [a])
   | (Inl e, s') \<Rightarrow> replies s' = replies s \<and>
       (fst (getEmailByUid (metaRepo (connector v)) (rqUser q) (outside s)) = Inl e \<or>
        (\<exists>w. fst (randomBytes16 v w) = Inl e))"
proof (cases "truthyStr (rqAlias q)")
  case (Some dbAlias)
  obtain x w1 where m: "getEmailByUid (metaRepo (connector v)) (rqUser q) (outside s) = (x, w1)" by fastforce
  show ?thesis
  proof (cases x)
    case (Inr mail)
    obtain y w2 where b: "randomBytes16 v w1 = (y, w2)" by fastforce
    show ?thesis
    proof (cases y)
      case (Inl e)
      have "\<exists>w. fst (randomBytes16 v w) = Inl e" by (rule exI [of _ w1]) (simp add: b Inl)
      with Some m b Inr Inl show ?thesis by (auto simp: connectHandler_def andThen_def inWorld_def)
    next
      case bytes: (Inr bs)
      obtain z w3 where c: "connectDb (connector v) dbAlias (rqUser q) mail (genDbId (multiUser (connector v)) bs dbAlias) None w2 = (z, w3)"
        by fastforce
      with Some m b Inr bytes show ?thesis
        by (cases z) (simp_all add: connectHandler_def andThen_def inWorld_def tryCatch_def reply_def Let_def)
    qed
  next
    case (Inl e)
    with Some m show ?thesis by (simp add: connectHandler_def andThen_def inWorld_def)
  qed
qed (simp add: connectHandler_def reply_def)

lemma map_of_contexts:
  "map_of (fold (\<lambda>(k, x). obj_set k (toContext x)) es ob) k =
   (case map_of (rev es) k of None \<Rightarrow> map_of ob k | Some x \<Rightarrow> Some (toContext x))"
  by (induction es arbitrary: ob) (auto simp: map_add_def split: option.splits)

text \<open>
  The context of an RPC: every installed module is an export, and the value of a key is that of the
  last installed module which provides it, or what the engine put there itself.
\<close>

theorem addContexts_last_wins:
  assumes "addContexts ms ns ctxt = Inr c"
  shows "(\<forall>n\<in>set ns. moduleNamed ms n \<noteq> None) \<and>
    map_of c k = (case map_of (rev (concat (map (\<lambda>n. exContext (the (moduleNamed ms n))) ns))) k of
        None \<Rightarrow> map_of ctxt k | Some x \<Rightarrow> Some (toContext x))"
  using assms
proof (induction ns arbitrary: ctxt)
  case (Cons n ns)
  then obtain m where m: "moduleNamed ms n = Some m"
    "addContexts ms ns (fold (\<lambda>(k, x). obj_set k (toContext x)) (exContext m) ctxt) = Inr c"
    by (auto split: option.splits)
  from Cons.IH [OF m(2)] m(1) show ?case
    by (auto simp: map_of_contexts map_add_def split: option.splits)
qed simp

definition demoExports :: "(server, string, unit) exported obj" where
  "demoExports =
     [(''awsAccount'', \<lparr> exName = Some ''aws_account'', exVersion = Some ''1'', isModuleBase = True,
        exContext = [(''getAwsClient'', Fn ''f''), (''region'', Val ''r'')], exRpc = None \<rparr>),
      (''awsSdk'', \<lparr> exName = Some ''aws_sdk'', exVersion = Some ''1'', isModuleBase = True,
        exContext = [(''region'', Val ''x'')], exRpc = None \<rparr>)]"

lemma demo_context:
  "addContexts demoExports [''aws_account@1'', ''aws_sdk@1''] [(''orm'', Orm 0)]
     = Inr [(''orm'', Orm 0), (''getAwsClient'', Shared ''f''), (''region'', Cloned ''x'')]"
  by code_simp

theorem addContexts_last_wins_witness:
  "map_of [(''orm'', Orm 0), (''getAwsClient'', Shared ''f''), (''region'', Cloned ''x'')] ''region'' = Some (Cloned ''x'')
   \<and> moduleNamed demoExports ''aws_sdk@1'' \<noteq> None"
  using addContexts_last_wins [OF demo_context] by simp

end
