(* ===== verification/Rpcs.thy ===== *)
theory Rpcs
  imports Module_Base Commit
begin

text \<open>
  The functions a user calls in the database: the \<open>call\<close> methods of
  \<open>src/src/modules/iasql_functions/rpcs/\<close>, over the engine's operations.

  A call is an action that may not return (\<open>paction\<close>), because \<open>commit\<close>, \<open>install\<close> and their kin are.
  Queries that are only sent to the database (\<open>ormQuery\<close>) and the cast of a date (\<open>tryCast\<close>) are
  parameters; \<open>fuel\<close> bounds the nesting of sub-queries as in \<open>Queries\<close>.
\<close>

section \<open>Parameters and results\<close>

record 'w calls_env =
  instEnv :: "'w install_env"
  ormQuery :: "conn \<Rightarrow> string \<Rightarrow> ('w, jsval obj list) dbop"
  tryCast :: "conn \<Rightarrow> string \<Rightarrow> ('w, int option) dbop"
  functionsOf :: "'w emapper emodule \<Rightarrow> fn_doc obj"       \<comment> \<open>\<open>provides.functions\<close>\<close>
  fuel :: nat

abbreviation eng :: "'w calls_env \<Rightarrow> 'w engine_env" where
  "eng v \<equiv> inEngine (instEnv v)"

type_synonym rpc_rows = "jsval obj list"

definition strOrUndef :: "string option \<Rightarrow> jsval" where
  "strOrUndef s = (case s of None \<Rightarrow> JUndef | Some x \<Rightarrow> JStr x)"

definition onOrm :: "(conn \<Rightarrow> ('w, 'a) dbop) \<Rightarrow> ('w, 'a) peop" where
  "onOrm f = always (andThen currentOrm (\<lambda>c. outsideOp (f c)))"

definition answer :: "('w, 'a) peop \<Rightarrow> ('a \<Rightarrow> 'b) \<Rightarrow> ('w, 'b) peop" where
  "answer m f = pThen m (\<lambda>x. always (ret (f x)))"

section \<open>Transactions\<close>

definition deprecated :: "string \<Rightarrow> string \<Rightarrow> ('w, rpc_rows) peop" where
  "deprecated old new = always (throw (newError (old @ ''() has been deprecated in favor of '' @ new @ ''()'')))"

definition iasqlApply :: "('w, rpc_rows) peop" where
  "iasqlApply = deprecated ''iasql_apply'' ''iasql_commit''"

definition iasqlPreviewApply :: "('w, rpc_rows) peop" where
  "iasqlPreviewApply = deprecated ''iasql_preview_apply'' ''iasql_preview''"

definition iasqlSync :: "('w, rpc_rows) peop" where
  "iasqlSync = deprecated ''iasql_sync'' ''iasql_commit''"

definition iasqlPreviewSync :: "('w, rpc_rows) peop" where
  "iasqlPreviewSync = deprecated ''iasql_preview_sync'' ''iasql_preview''"

definition iasqlBegin :: "'w calls_env \<Rightarrow> ('w, rpc_rows) peop" where
  "iasqlBegin v = answer (onOrm (getCurrentTransactionId (logs (eng v))))
     (\<lambda>tx. [[(''message'', JStr ''Transaction started''), (''transaction_id'', strOrUndef tx)]])"

fun actionName :: "plan_action \<Rightarrow> string" where
  "actionName plan_action.Create = ''create''"
| "actionName plan_action.Update = ''update''"
| "actionName plan_action.Replace = ''replace''"
| "actionName plan_action.Delete = ''delete''"

definition planObj :: "plan_row \<Rightarrow> jsval obj" where
  "planObj r = [(''action'', JStr (actionName (action r))), (''tableName'', JStr (planTable r)),
     (''id'', JStr (planId r)), (''description'', JStr (planDescription r))]"

definition planRowsOf :: "'w calls_env \<Rightarrow> plan_row list \<Rightarrow> rpc_rows" where
  "planRowsOf v rs = map (\<lambda>r. formatObjKeysToSnakeCase (snakeCase (eng v)) (planObj r)) rs"

definition iasqlCommit :: "'w calls_env \<Rightarrow> string option \<Rightarrow> ('w, rpc_rows) peop" where
  "iasqlCommit v note = answer (commit (eng v) False False None note) (planRowsOf v)"

definition iasqlPreview :: "'w calls_env \<Rightarrow> ('w, rpc_rows) peop" where
  "iasqlPreview v = answer (commit (eng v) True False None None) (planRowsOf v)"

text \<open>A force of \<open>null\<close> has no \<open>toLowerCase\<close>.\<close>

definition iasqlRollback :: "'w calls_env \<Rightarrow> string option \<Rightarrow> ('w, rpc_rows) peop" where
  "iasqlRollback v force =
     (case force of None \<Rightarrow> always (throw (newError ''TypeError''))
      | Some f \<Rightarrow> answer (rollback (eng v) (map lowerChar f = ''true'') None) (planRowsOf v))"

definition iasqlGetErrors :: "'w calls_env \<Rightarrow> ('w, rpc_rows) peop" where
  "iasqlGetErrors v = onOrm (\<lambda>c. ormQuery v c (sqlText [(6, ''select ts, message''), (6, ''from iasql_audit_log''),
     (6, ''where change_type = '' @ quote ''ERROR''), (6, ''order by ts desc limit 500;''), (4, [])]))"

section \<open>Modules\<close>

definition iasqlModulesList :: "'w calls_env \<Rightarrow> ('w, rpc_rows) peop" where
  "iasqlModulesList v = answer (always (listModules (instEnv v) True False))
     (map (\<lambda>(n, ver, deps). formatObjKeysToSnakeCase (snakeCase (eng v))
        [(''moduleName'', JStr n), (''moduleVersion'', JStr ver), (''dependencies'', JStr (jsonStr (JArr (map JStr deps))))]))"

definition helpRow :: "string \<Rightarrow> string \<times> fn_doc \<Rightarrow> jsval obj" where
  "helpRow m p = (case p of (n, d) \<Rightarrow>
     [(''module'', JStr m), (''name'', JStr n), (''signature'', strOrUndef (signature d)),
      (''description'', JStr (case description d of None \<Rightarrow> [] | Some t \<Rightarrow> t)),
      (''sample_usage'', JStr (case sample_usage d of None \<Rightarrow> [] | Some t \<Rightarrow> t))])"

definition iasqlHelp :: "'w calls_env \<Rightarrow> ('w, rpc_rows) peop" where
  "iasqlHelp v = answer (onOrm (getInstalledModules (eng v)))
     (\<lambda>ms. concat (map (\<lambda>m. map (helpRow (modName m)) (functionsOf v m)) ms))"

definition tablesQuery :: "'w calls_env \<Rightarrow> string \<Rightarrow> string list \<Rightarrow> string" where
  "tablesQuery v column params = sqlText
     [(6, ''select''), (10, ''m.name as module_name,''), (10, ''t.table as '' @ column @ '',''),
      (10, ''(xpath('' @ quote ''/row/c/text()'' @ '', query_to_xml(format('' @ quote ''select count(*) as c from public.%I''
         @ '', t.table), FALSE, TRUE, '' @ quote [] @ '')))[1]::text::int AS record_count''),
      (6, ''from iasql_module as m''), (6, ''inner join iasql_tables as t on m.name = t.module''),
      (6, ''inner join (select unnest(array['' @ pgFormat (eng v) ''%L'' [JArr (map JStr params)] @ '']) as module) as mo on true''),
      (6, ''where left(m.name, length(mo.module)) = mo.module;''), (4, [])]"

definition iasqlInstall :: "'w calls_env \<Rightarrow> string list \<Rightarrow> ('w, rpc_rows) peop" where
  "iasqlInstall v params =
     pThen (install (instEnv v) params False False) (\<lambda>_.
       onOrm (\<lambda>c. ormQuery v c (tablesQuery v ''created_table_name'' params)))"

definition userModules :: "string list \<Rightarrow> string list" where
  "userModules params = filter (\<lambda>m. m \<notin> {''iasql_functions'', ''iasql_platform''}) params"

definition iasqlUninstall :: "'w calls_env \<Rightarrow> string list \<Rightarrow> ('w, rpc_rows) peop" where
  "iasqlUninstall v params =
     pThen (onOrm (\<lambda>c. ormQuery v c (tablesQuery v ''dropped_table_name'' (userModules params)))) (\<lambda>rows.
       pThen (uninstall (instEnv v) (userModules params) False None) (\<lambda>_. always (ret rows)))"

section \<open>SQL of the audit log\<close>

text \<open>Ascending by \<open>ts\<close>, then by the primary key: the reverse of the descending order.\<close>

definition oldestFirst :: "('w, 'e) repo \<Rightarrow> conn \<Rightarrow> log_query \<Rightarrow> ('w, 'e, audit_log list) action" where
  "oldestFirst r c q = andThen (findLogs r c (q\<lparr> qThenId := True \<rparr>)) (\<lambda>ls. ret (rev ls))"

text \<open>A condition that is \<open>undefined\<close> is skipped by the ORM.\<close>

definition inTransactionId :: "string option \<Rightarrow> audit_log \<Rightarrow> bool" where
  "inTransactionId tx l = (tx = None \<or> transactionId l = tx)"

definition getUserChangeLogsByTransaction :: "(js_err thrown) \<Rightarrow> ('w, js_err thrown) repo \<Rightarrow> conn \<Rightarrow> string option
    \<Rightarrow> ('w, audit_log list) dbop" where
  "getUserChangeLogsByTransaction typeErr r c txId =
     andThen (case truthyStr txId of Some t \<Rightarrow> ret (Some t)
              | None \<Rightarrow> andThen (findOneLog r c (whereType (TypeIs OPEN_TRANSACTION))) (\<lambda>l.
                  case l of None \<Rightarrow> throw typeErr | Some x \<Rightarrow> ret (transactionId x))) (\<lambda>tx.
       andThen (oldestFirst r c ((whereType (TypeIn [INSERT, UPDATE, DELETE]))\<lparr> qUser := UserNot (dbUser r) \<rparr>)) (\<lambda>ls.
         ret (filter (inTransactionId tx) ls)))"

definition getChangeLogs :: "'w calls_env \<Rightarrow> conn \<Rightarrow> string option \<Rightarrow> ('w, audit_log list) dbop" where
  "getChangeLogs v c limitDate =
     (let q = whereType (TypeIn [INSERT, UPDATE, DELETE]) in
      case truthyStr limitDate of
        None \<Rightarrow> oldestFirst (logs (eng v)) c q
      | Some d \<Rightarrow> andThen (tryCast v c d) (\<lambda>t. case t of
            None \<Rightarrow> throw (newError (''Cannot cast '' @ d @ '' to timestamp with time zone''))
          | Some ts \<Rightarrow> oldestFirst (logs (eng v)) c (q\<lparr> qTs := TsMoreThan ts \<rparr>)))"

definition unlessStopped :: "('w, js_err thrown stop, 'a) action \<Rightarrow> ('w, 'a) peop" where
  "unlessStopped m = (\<lambda>s. case m (outside (world s)) of
       (Inl OutOfFuel, w) \<Rightarrow> None
     | (Inl (Thrown e), w) \<Rightarrow> Some (Inl e, s\<lparr> world := (world s)\<lparr> outside := w \<rparr> \<rparr>)
     | (Inr x, w) \<Rightarrow> Some (Inr x, s\<lparr> world := (world s)\<lparr> outside := w \<rparr> \<rparr>))"

definition sqlOfLogs :: "'w calls_env \<Rightarrow> (conn \<Rightarrow> ('w, audit_log list) dbop) \<Rightarrow> ('w, rpc_rows) peop" where
  "sqlOfLogs v logsOf =
     pThen (always currentOrm) (\<lambda>c.
       pThen (always (outsideOp (logsOf c))) (\<lambda>changeLogs.
         pThen (always (outsideOp (getInstalledModules (eng v) c))) (\<lambda>installed.
           answer (unlessStopped (recreateQueries (fuel v) (eng v) changeLogs (indexModsByTable installed) c False True))
             (map (\<lambda>q. [(''sql'', JStr q)])))))"

definition iasqlGetSqlForTransaction :: "'w calls_env \<Rightarrow> string option \<Rightarrow> ('w, rpc_rows) peop" where
  "iasqlGetSqlForTransaction v txId =
     sqlOfLogs v (\<lambda>c. getUserChangeLogsByTransaction (newError ''TypeError'') (logs (eng v)) c txId)"

definition iasqlGetSqlSince :: "'w calls_env \<Rightarrow> string option \<Rightarrow> ('w, rpc_rows) peop" where
  "iasqlGetSqlSince v limitDate = sqlOfLogs v (\<lambda>c. getChangeLogs v c limitDate)"

section \<open>\<open>iasql_create_review\<close>\<close>

definition escapePipes :: "string \<Rightarrow> string" where   \<comment> \<open>\<open>replaceAll('|', '\|')\<close>\<close>
  "escapePipes s = concat (map (\<lambda>c. if c = CHR ''|'' then [CHR 0x5C, CHR ''|''] else [c]) s)"

definition cellText :: "jsval \<Rightarrow> string" where
  "cellText x = (case x of JStr s \<Rightarrow> escapePipes s | _ \<Rightarrow> joinStr x)"

definition tableRow :: "string list \<Rightarrow> string" where
  "tableRow cells = ''| '' @ joinWith '' | '' cells @ '' |''"

definition propOrUndef :: "jsval obj \<Rightarrow> string \<Rightarrow> jsval" where
  "propOrUndef row k = (case map_of row k of None \<Rightarrow> JUndef | Some x \<Rightarrow> x)"

definition previewRow :: "string list \<Rightarrow> jsval obj \<Rightarrow> string" where
  "previewRow keys row = tableRow (map (\<lambda>k. cellText (propOrUndef row k)) keys)"

definition fence :: string where
  "fence = replicate 3 (CHR 0x60)"

definition generateMarkdown :: "string \<Rightarrow> string \<Rightarrow> rpc_rows \<Rightarrow> string option \<Rightarrow> string" where
  "generateMarkdown title desc preview sql =
     (case preview of
        [] \<Rightarrow> joinWith [nl, nl] [''# '' @ title, desc]
      | row # _ \<Rightarrow>
          (let keys = obj_keys row;
               previewMarkdown = joinWith [nl] ([''## IaSQL Preview'' @ [nl], tableRow keys, tableRow (map (\<lambda>_. ''---'') keys)]
                 @ map (previewRow keys) preview)
           in joinWith [nl, nl] [''# '' @ title, desc, previewMarkdown, ''## SQL changes'',
                fence @ ''sql'' @ [nl] @ shown sql @ [nl] @ fence]))"

text \<open>The two statements run the functions of this theory in sessions of their own.\<close>

definition iasqlCreateReview :: "'w calls_env \<Rightarrow> string \<Rightarrow> string \<Rightarrow> ('w, rpc_rows) peop" where
  "iasqlCreateReview v title desc =
     pThen (onOrm (\<lambda>c. ormQuery v c ''SELECT * FROM iasql_preview();'')) (\<lambda>preview.
       pThen (onOrm (\<lambda>c. ormQuery v c ''SELECT * FROM iasql_get_sql_for_transaction();'')) (\<lambda>transactionSql.
         always (ret [[(''markdown'', JStr (generateMarkdown title desc preview
           (case transactionSql of [] \<Rightarrow> None | r # _ \<Rightarrow>
              (case propOrUndef r ''sql'' of JUndef \<Rightarrow> None | x \<Rightarrow> Some (toStr x)))))]])))"

section \<open>Reading a table row\<close>

text \<open>
  How Markdown reads a row: cells are separated by bars that no backslash precedes, an escaped bar is
  a bar of the cell, and a blank around each cell is dropped.
\<close>

fun cellsOf :: "string \<Rightarrow> string list" where
  "cellsOf [] = [[]]"
| "cellsOf [c] = (if c = CHR ''|'' then [[], []] else [[c]])"
| "cellsOf (c # d # s) =
     (if c = CHR 0x5C \<and> d = CHR ''|'' then (case cellsOf s of w # ws \<Rightarrow> (d # w) # ws | [] \<Rightarrow> [])
      else if c = CHR ''|'' then [] # cellsOf (d # s)
      else (case cellsOf (d # s) of w # ws \<Rightarrow> (c # w) # ws | [] \<Rightarrow> []))"

definition unpad :: "string \<Rightarrow> string" where
  "unpad s = butlast (tl s)"

definition readRow :: "string \<Rightarrow> string list" where
  "readRow line = map unpad (butlast (tl (cellsOf line)))"

lemma cellsOf_not_Nil [simp]: "cellsOf s \<noteq> []"
  by (induction s rule: cellsOf.induct) (auto split: list.splits)

lemma cellsOf_bar: "cellsOf (CHR ''|'' # s) = [] # cellsOf s"
  by (cases s) auto

lemma escapePipes_Nil [simp]: "escapePipes [] = []"
  by (simp add: escapePipes_def)

lemma escapePipes_Cons [simp]: "escapePipes (c # s) = (if c = CHR ''|'' then [CHR 0x5C, CHR ''|''] else [c]) @ escapePipes s"
  by (simp add: escapePipes_def)

definition prefixCell :: "string \<Rightarrow> string list \<Rightarrow> string list" where
  "prefixCell s ws = (s @ hd ws) # tl ws"

text \<open>Escaped text followed by a blank ends no cell, and the blank protects what comes next.\<close>

lemma cellsOf_blank: "cellsOf (CHR '' '' # rest) = prefixCell '' '' (cellsOf rest)"
  by (cases rest) (auto simp: prefixCell_def cellsOf_bar split: list.splits)

lemma cellsOf_escaped:
  "cellsOf (escapePipes s @ CHR '' '' # rest) = prefixCell (s @ '' '') (cellsOf rest)"
proof (induction s)
  case (Cons c s)
  let ?u = "escapePipes s @ CHR '' '' # rest"
  have "?u \<noteq> [] \<and> hd ?u \<noteq> CHR ''|''" by (cases s) auto
  then obtain d t where u: "?u = d # t" "d \<noteq> CHR ''|''" by (metis list.exhaust_sel)
  show ?case
  proof (cases "c = CHR ''|''")
    case True
    then show ?thesis using Cons.IH by (auto simp: prefixCell_def split: list.splits)
  next
    case False
    then have "cellsOf (c # ?u) = prefixCell [c] (cellsOf ?u)"
      using u by (auto simp: prefixCell_def split: list.splits)
    with False Cons.IH show ?thesis by (simp add: prefixCell_def)
  qed
qed (simp add: cellsOf_blank)

lemma cellsOf_row:
  "ws \<noteq> [] \<Longrightarrow> cellsOf (CHR '' '' # joinWith '' | '' (map escapePipes ws) @ '' |'') = map (\<lambda>w. '' '' @ w @ '' '') ws @ [[]]"
proof (induction ws rule: induct_list012)
  case (2 w)
  then show ?case
    by (simp add: cellsOf_blank cellsOf_escaped cellsOf_bar prefixCell_def)
next
  case (3 w x ws)
  then show ?case
    using cellsOf_escaped [of w "CHR ''|'' # CHR '' '' # joinWith '' | '' (map escapePipes (x # ws)) @ '' |''"]
    by (simp add: cellsOf_blank cellsOf_bar prefixCell_def)
qed simp

text \<open>
  A preview survives its Markdown: reading the row of a record back gives the record's values, whatever
  bars and backslashes they contain.
\<close>

theorem previewRow_roundtrip:
  assumes "keys \<noteq> []" and "\<forall>k\<in>set keys. map_of row k = Some (JStr (val k))"
  shows "readRow (previewRow keys row) = map val keys"
proof -
  have "previewRow keys row = CHR ''|'' # CHR '' '' # joinWith '' | '' (map escapePipes (map val keys)) @ '' |''"
    using assms(2) by (simp add: previewRow_def tableRow_def propOrUndef_def cellText_def cong: map_cong)
  then show ?thesis
    using cellsOf_row [of "map val keys"] assms(1)
    by (simp add: readRow_def cellsOf_bar unpad_def butlast_append comp_def)
qed

theorem previewRow_roundtrip_witness:
  "readRow (previewRow [''a'', ''b''] [(''a'', JStr ''x|y''), (''b'', JStr [CHR 0x5C])]) = [''x|y'', [CHR 0x5C]]"
  by (subst previewRow_roundtrip [where val = "\<lambda>k. if k = ''a'' then ''x|y'' else [CHR 0x5C]"]) simp_all

section \<open>The changes of a transaction\<close>

text \<open>
  The SQL of a transaction is recreated from exactly the changes of the rows that users other than
  the engine made under its id, oldest first.
\<close>

theorem transaction_logs_exact:
  assumes store: "audit_store r tbl" and run: "getUserChangeLogsByTransaction typeErr r c (Some tx) w = (Inr ls, w')" and tx: "tx \<noteq> []"
  shows "set ls = {l \<in> set (tbl w). changeType l \<in> {INSERT, UPDATE, DELETE} \<and> logUser l \<noteq> dbUser r \<and> transactionId l = Some tx}
    \<and> sorted (map logTs ls)"
proof -
  let ?q = "(whereType (TypeIn [INSERT, UPDATE, DELETE]))\<lparr> qUser := UserNot (dbUser r), qThenId := True \<rparr>"
  from run tx obtain found where f: "findLogs r c ?q w = (Inr found, w')"
      and ls: "ls = filter (inTransactionId (Some tx)) (rev found)"
    by (auto simp: getUserChangeLogsByTransaction_def oldestFirst_def truthyStr_def andThen_Inr_iff)
  from audit_store.find_answers [OF store f] have a: "mset found = mset (filter (matches ?q) (tbl w))" "sorted_wrt (later True) found"
    by (auto simp: answers_def whereType_def)
  from a(1) have "set found = {l \<in> set (tbl w). matches ?q l}"
    by (metis set_mset_mset set_filter)
  moreover have "sorted (map logTs (rev found))"
  proof -
    from a(2) have "sorted_wrt (\<lambda>x y. logTs y \<le> logTs x) found"
      by (rule sorted_wrt_mono_rel [rotated]) (auto simp: later_def)
    then show ?thesis by (simp add: sorted_wrt_map sorted_wrt_rev)
  qed
  ultimately show ?thesis
    unfolding ls by (auto simp: matches_def whereType_def inTransactionId_def sorted_filter)
qed

definition demoTx :: "audit_log list" where
  "demoTx = [(userRow 1 1)\<lparr> transactionId := Some ''t1'' \<rparr>, userRow 2 2]"

theorem transaction_logs_exact_witness:
  "\<exists>ls. getUserChangeLogsByTransaction (newError []) objRepo 0 (Some ''t1'') demoTx = (Inr ls, demoTx) \<and>
     set ls = {(userRow 1 1)\<lparr> transactionId := Some ''t1'' \<rparr>}"
proof -
  obtain ls where run: "getUserChangeLogsByTransaction (newError []) objRepo 0 (Some ''t1'') demoTx = (Inr ls, demoTx)"
    by (simp add: getUserChangeLogsByTransaction_def oldestFirst_def truthyStr_def objRepo_def withErrors_def)
  have "set ls = {l \<in> set demoTx. changeType l \<in> {INSERT, UPDATE, DELETE} \<and> logUser l \<noteq> dbUser objRepo \<and> transactionId l = Some ''t1''}"
    using transaction_logs_exact [OF obj_table.audit_store_axioms run] by simp
  also have "\<dots> = {(userRow 1 1)\<lparr> transactionId := Some ''t1'' \<rparr>}"
    by (auto simp: demoTx_def userRow_def objRepo_def withErrors_def tableRepo_def)
  finally show ?thesis using run by blast
qed

end
