(* ===== verification/Dash_Run.thy ===== *)
theory Dash_Run
  imports Js_Value
begin

text \<open>
  The endpoint that runs the SQL of the dashboard: \<open>src/dashboard/src/pages/api/run.ts\<close>.

  Parameters (\<open>run_env\<close>) are the verification of tokens, Stripe's list of sessions, the parser of
  statements, the drivers of the metadata database and of the clients, and the clock.  The state has
  the module's own connection to the metadata database, the number of open clients and the replies of
  the request, of which the caller sees the first.  The handler of connection errors, which fires
  outside of the control flow, and logging are left out.
\<close>

section \<open>State and parameters\<close>

record run_err =
  runMsg :: "string option"       \<comment> \<open>\<open>e?.message\<close>\<close>

definition runError :: "string \<Rightarrow> run_err" where
  "runError m = \<lparr> runMsg = Some m \<rparr>"

text \<open>The promise in \<open>dbConns\<close>, once settled.\<close>

datatype meta_conn = NoConn | Opened | Rejected run_err

record pg_rows =
  pgStringly :: "string option"            \<comment> \<open>\<open>isString(queryRes)\<close>\<close>
  pgRows :: "jsval obj list option"
  pgCommand :: string
  pgRowCount :: "int option"
  pgFields :: "(string \<times> int) list"

datatype out_row =
    Affected string int
  | TextResult string string
  | TableResult string "jsval obj list" "int obj"
  | Unexpected string

datatype run_body =
    Output "out_row list"
  | PaymentLink string                      \<comment> \<open>of \<open>User is not a stripe customer\<close>\<close>
  | Failure string

record 'w run_state =
  outer :: 'w
  metaConn :: meta_conn
  clients :: nat
  sent :: "(nat \<times> run_body) list"

type_synonym ('w, 'a) runop = "('w, run_err, 'a) action"
type_synonym ('w, 'a) hop = "('w run_state, run_err, 'a) action"

record claims =
  subject :: "string option"
  claimedEmail :: "string option"

record checkout =
  hasCustomer :: bool
  complete :: bool
  reference :: "string option"

record ('w, 'st) run_env =
  authOn :: bool
  verifyToken :: "string \<Rightarrow> ('w, claims) runop"
  stripeOn :: bool
  whitelist :: "string list"
  sessions :: "('w, checkout list) runop"
  paymentUrl :: string
  iasqlUid :: "string option"
  metaReady :: "'w \<Rightarrow> bool"                 \<comment> \<open>\<open>isInitialized\<close>\<close>
  openMetaDb :: "('w, unit) runop"
  roleQuery :: "string \<Rightarrow> string \<Rightarrow> string \<Rightarrow> ('w, unit) runop"     \<comment> \<open>user, email, password\<close>
  pgNameQuery :: "string \<Rightarrow> string \<Rightarrow> ('w, string option) runop"  \<comment> \<open>user, alias\<close>
  grantQuery :: "string \<Rightarrow> string \<Rightarrow> ('w, unit) runop"
  draws :: "'w \<Rightarrow> nat list"                                     \<comment> \<open>\<open>Math.floor(Math.random() * a.length)\<close>\<close>
  parseSql :: "string \<Rightarrow> run_err + 'st list"
  deparse :: "'st \<Rightarrow> string"
  openClient :: "string \<Rightarrow> string \<Rightarrow> string \<Rightarrow> ('w, unit) runop"
  queryClient :: "string \<Rightarrow> ('w, pg_rows) runop"
  endClient :: "('w, unit) runop"
  elapsed :: "'w \<Rightarrow> 'w \<Rightarrow> nat"                                  \<comment> \<open>milliseconds\<close>

definition outside :: "('w, 'a) runop \<Rightarrow> ('w, 'a) hop" where
  "outside m = (\<lambda>s. case m (outer s) of (x, w) \<Rightarrow> (x, s\<lparr> outer := w \<rparr>))"

definition respond :: "nat \<Rightarrow> run_body \<Rightarrow> ('w, unit) hop" where
  "respond status b = modifyS (\<lambda>s. s\<lparr> sent := sent s @ [(status, b)] \<rparr>)"

section \<open>Users\<close>

definition uidChar :: "char \<Rightarrow> bool" where
  "uidChar c = (let n = of_char c :: nat in
     (97 \<le> n \<and> n \<le> 122) \<or> (65 \<le> n \<and> n \<le> 90) \<or> (48 \<le> n \<and> n \<le> 57) \<or> c = CHR ''_'' \<or> c = CHR ''-'')"

definition conformUidToStripe :: "string \<Rightarrow> string" where
  "conformUidToStripe uid = filter uidChar uid"

definition endsWith :: "string \<Rightarrow> string \<Rightarrow> bool" where
  "endsWith s d = (length d \<le> length s \<and> drop (length s - length d) s = d)"

definition isCustomer :: "('w, 'st) run_env \<Rightarrow> string \<Rightarrow> string \<Rightarrow> ('w, bool) runop" where
  "isCustomer v uid email =
     (if \<not> stripeOn v then ret True
      else if list_ex (endsWith email) (whitelist v) then ret True
      else andThen (sessions v) (\<lambda>ss. ret
        (list_ex (\<lambda>c. hasCustomer c \<and> complete c \<and> reference c = Some (conformUidToStripe uid)) ss)))"

definition extractTokenFromHeader :: "string option \<Rightarrow> string option" where
  "extractTokenFromHeader authorization =
     (case map_option (splitOn (CHR '' '')) authorization of
        Some (w # rest) \<Rightarrow> if w = ''Bearer'' then (case rest of [] \<Rightarrow> None | t # _ \<Rightarrow> Some t) else None
      | _ \<Rightarrow> None)"

definition validateToken :: "('w, 'st) run_env \<Rightarrow> string \<Rightarrow> ('w, claims) runop" where
  "validateToken v token =
     (if \<not> authOn v then ret \<lparr> subject = None, claimedEmail = None \<rparr> else verifyToken v token)"

section \<open>The metadata database\<close>

definition metaQuery :: "('w, 'st) run_env \<Rightarrow> ('w, 'a) runop \<Rightarrow> ('w, 'a) hop" where
  "metaQuery v q = (\<lambda>s.
     case metaConn s of
       Rejected e \<Rightarrow> (Inl e, s)
     | mc \<Rightarrow>
         (if mc = Opened \<and> metaReady v (outer s) then outside q s
          else (case openMetaDb v (outer s) of
                  (Inl e, w) \<Rightarrow> (Inl e, s\<lparr> outer := w, metaConn := Rejected e \<rparr>)
                | (Inr _, w) \<Rightarrow> outside q (s\<lparr> outer := w, metaConn := Opened \<rparr>))))"

definition dashCharset :: string where
  "dashCharset = map (\<lambda>i. char_of (97 + i)) [0..<26] @ map (\<lambda>i. char_of (65 + i)) [0..<26]
     @ map (\<lambda>i. char_of (48 + i :: nat)) [0..<10] @ ''.^*''"

definition drawPassword :: "nat list \<Rightarrow> string" where
  "drawPassword ds = map (\<lambda>i. dashCharset ! (if i < length ds then ds ! i else 0)) [0..<16]"

text \<open>The loop \<open>do ... while (!success && maxTries)\<close>; its outcome is not looked at.\<close>

fun grantLoop :: "('w, 'st) run_env \<Rightarrow> string \<Rightarrow> string \<Rightarrow> nat \<Rightarrow> ('w, bool) hop" where
  "grantLoop v grp username 0 = ret False"
| "grantLoop v grp username (Suc tries) =
     andThen (attempt (metaQuery v (grantQuery v grp username))) (\<lambda>r.
       case r of Inr _ \<Rightarrow> ret True | Inl _ \<Rightarrow> if tries = 0 then ret False else grantLoop v grp username tries)"

definition notFound :: "string \<Rightarrow> run_err" where
  "notFound a = runError (''dbAlias '' @ a @ '' not found'')"

definition pgNameOf :: "('w, 'st) run_env \<Rightarrow> string \<Rightarrow> string \<Rightarrow> ('w, string) hop" where
  "pgNameOf v username dbAlias = andThen (metaQuery v (pgNameQuery v username dbAlias)) (\<lambda>n.
     case n of None \<Rightarrow> throw (notFound dbAlias) | Some x \<Rightarrow> ret x)"

definition metadataDb :: string where
  "metadataDb = ''iasql_metadata''"

definition getUserData :: "('w, 'st) run_env \<Rightarrow> claims \<Rightarrow> string \<Rightarrow> ('w, string \<times> string \<times> string) hop" where
  "getUserData v info dbAlias =
     andThen (if authOn v
              then (case subject info of
                  None \<Rightarrow> throw (runError ''No username found on auth token'')
                | Some u \<Rightarrow> ret (u, case claimedEmail info of None \<Rightarrow> ''hello@iasql.com'' | Some m \<Rightarrow> m))
              else (let u = (case iasqlUid v of None \<Rightarrow> [] | Some x \<Rightarrow> x) in ret (u, ''hello+'' @ u @ ''@iasql.com''))) (\<lambda>(u, m).
       andThen (getS (\<lambda>s. drawPassword (draws v (outer s)))) (\<lambda>password.
         andThen (metaQuery v (roleQuery v u m password)) (\<lambda>_.
           if dbAlias = metadataDb then ret (u, password, m)
           else andThen (pgNameOf v u dbAlias) (\<lambda>dbId.
             andThen (grantLoop v (''group_role_'' @ dbId) u 10) (\<lambda>_. ret (u, password, m))))))"

section \<open>Running statements\<close>

definition shapeRow :: "string \<times> pg_rows \<Rightarrow> out_row" where
  "shapeRow t = (case t of (stmt, r) \<Rightarrow>
     if pgRows r = Some [] \<and> pgCommand r \<noteq> ''SELECT'' \<and> pgRowCount r \<noteq> None then Affected stmt (the (pgRowCount r))
     else (case pgStringly r of Some x \<Rightarrow> TextResult stmt x
       | None \<Rightarrow> (case pgRows r of Some rows \<Rightarrow> TableResult stmt rows (obj_of (pgFields r)) | None \<Rightarrow> Unexpected stmt)))"

text \<open>Every statement has a client of its own, which is ended whatever happens.\<close>

definition runStatement :: "('w, 'st) run_env \<Rightarrow> string \<Rightarrow> string \<Rightarrow> string \<Rightarrow> 'st \<Rightarrow> ('w, string \<times> pg_rows) hop" where
  "runStatement v dbId u password st =
     andThen (outside (openClient v dbId u password)) (\<lambda>_.
       andThen (modifyS (\<lambda>s. s\<lparr> clients := clients s + 1 \<rparr>)) (\<lambda>_.
         tryFinally (andThen (outside (queryClient v (deparse v st))) (\<lambda>r. ret (deparse v st, r)))
           (andThen (outside (endClient v)) (\<lambda>_. modifyS (\<lambda>s. s\<lparr> clients := clients s - 1 \<rparr>)))))"

definition runSql :: "('w, 'st) run_env \<Rightarrow> string \<Rightarrow> string \<Rightarrow> string \<Rightarrow> string \<Rightarrow> ('w, out_row list) hop" where
  "runSql v sql dbAlias u password =
     andThen (if dbAlias = metadataDb then ret dbAlias else pgNameOf v u dbAlias) (\<lambda>dbId.
       case parseSql v sql of
         Inl e \<Rightarrow> throw e
       | Inr stmts \<Rightarrow> andThen (mapM (runStatement v dbId u password) stmts) (\<lambda>rs. ret (map shapeRow rs)))"

section \<open>The handler\<close>

definition execLimit :: nat where
  "execLimit = 15 * 60 * 1000 - 100"

text \<open>\<open>until\<close>: the outcome of a promise that settles after \<open>t\<close> milliseconds.\<close>

definition until :: "nat \<Rightarrow> run_err + 'a \<Rightarrow> nat \<Rightarrow> run_err + 'a" where
  "until t x timeout = (if t < timeout then x else Inl (runError (''Timeout of '' @ digits timeout @ ''ms reached'')))"

record run_request =
  authHeader :: "string option"
  bodyAlias :: string
  bodySql :: string

definition serve :: "('w, 'st) run_env \<Rightarrow> run_request \<Rightarrow> ('w, out_row list) hop" where
  "serve v q =
     andThen (outside (validateToken v (case extractTokenFromHeader (authHeader q) of None \<Rightarrow> [] | Some t \<Rightarrow> t))) (\<lambda>info.
       andThen (getUserData v info (bodyAlias q)) (\<lambda>(u, password, m).
         andThen (outside (isCustomer v u m)) (\<lambda>isCust.
           andThen (if isCust then ret ()
                    else respond 403 (PaymentLink (paymentUrl v @ ''?client_reference_id='' @ conformUidToStripe u))) (\<lambda>_.
             runSql v (bodySql q) (bodyAlias q) u password))))"

definition runHandler :: "('w, 'st) run_env \<Rightarrow> run_request \<Rightarrow> ('w, unit) hop" where
  "runHandler v q = (\<lambda>s.
     case serve v q s of (x, s') \<Rightarrow>
       (case until (elapsed v (outer s) (outer s')) x execLimit of
          Inr out \<Rightarrow> respond 200 (Output out) s'
        | Inl e \<Rightarrow> respond 401 (Failure (case runMsg e of None \<Rightarrow> ''Unknown error'' | Some m \<Rightarrow> m)) s'))"

definition demoRun :: "(unit, string) run_env" where
  "demoRun = \<lparr> authOn = True,
     verifyToken = (\<lambda>_. ret \<lparr> subject = Some ''u|1'', claimedEmail = None \<rparr>),
     stripeOn = True, whitelist = [''@x.com''], sessions = ret [], paymentUrl = ''pay'', iasqlUid = None,
     metaReady = (\<lambda>_. True), openMetaDb = ret (), roleQuery = (\<lambda>_ _ _. ret ()),
     pgNameQuery = (\<lambda>_ _. ret (Some ''db'')), grantQuery = (\<lambda>_ _. throw (runError ''syntax error'')),
     draws = (\<lambda>_. []), parseSql = (\<lambda>q. Inr [q]), deparse = (\<lambda>q. q),
     openClient = (\<lambda>_ _ _. ret ()),
     queryClient = (\<lambda>_. throw (runError ''denied'')),
     endClient = ret (), elapsed = (\<lambda>_ _. 1) \<rparr>"

definition demoState :: "unit run_state" where
  "demoState = \<lparr> outer = (), metaConn = Opened, clients = 0, sent = [] \<rparr>"

definition demoRequest :: run_request where
  "demoRequest = \<lparr> authHeader = Some ''Bearer t'', bodyAlias = ''iasql_metadata'', bodySql = ''SELECT 1'' \<rparr>"

section \<open>Claims\<close>

lemma outside_frame: "outside m s = (x, s') \<Longrightarrow> metaConn s' = metaConn s \<and> clients s' = clients s \<and> sent s' = sent s"
  by (auto simp: outside_def split: prod.splits)

text \<open>
  The check of customers does not stop anything: a user who is not a customer is told so, and then the
  statements are run all the same.
\<close>

theorem noncustomer_runs_sql:
  assumes token: "validateToken v (case extractTokenFromHeader (authHeader q) of None \<Rightarrow> [] | Some t \<Rightarrow> t) (outer s) = (Inr info, w1)"
    and user: "getUserData v info (bodyAlias q) (s\<lparr> outer := w1 \<rparr>) = (Inr (u, password, m), s2)"
    and cust: "isCustomer v u m (outer s2) = (Inr False, w3)"
  shows "serve v q s = runSql v (bodySql q) (bodyAlias q) u password
    (s2\<lparr> outer := w3, sent := sent s2 @ [(403, PaymentLink (paymentUrl v @ ''?client_reference_id='' @ conformUidToStripe u))] \<rparr>)"
  using assms by (simp add: serve_def andThen_def outside_def respond_def)

lemma noncustomer_runs_sql_witness:
  "serve demoRun demoRequest demoState = runSql demoRun ''SELECT 1'' ''iasql_metadata'' ''u|1'' (drawPassword [])
     (demoState\<lparr> sent := [(403, PaymentLink ''pay?client_reference_id=u1'')] \<rparr>)"
proof -
  have a: "validateToken demoRun (case extractTokenFromHeader (authHeader demoRequest) of None \<Rightarrow> [] | Some t \<Rightarrow> t)
      (outer demoState) = (Inr \<lparr> subject = Some ''u|1'', claimedEmail = None \<rparr>, ())"
    by (simp add: validateToken_def demoRun_def)
  have b: "getUserData demoRun \<lparr> subject = Some ''u|1'', claimedEmail = None \<rparr> (bodyAlias demoRequest) (demoState\<lparr> outer := () \<rparr>) =
      (Inr (''u|1'', drawPassword [], ''hello@iasql.com''), demoState)"
    by (simp add: getUserData_def demoRun_def demoState_def demoRequest_def metadataDb_def metaQuery_def
        andThen_def getS_def outside_def)
  have c: "isCustomer demoRun ''u|1'' ''hello@iasql.com'' (outer demoState) = (Inr False, ())"
    by (simp add: isCustomer_def demoRun_def endsWith_def)
  have d: "conformUidToStripe ''u|1'' = ''u1''" by code_simp
  show ?thesis
    using noncustomer_runs_sql [OF a b c] by (simp add: d) (simp add: demoRun_def demoRequest_def demoState_def)
qed

lemma metaQuery_rejected: "metaConn s = Rejected e \<Longrightarrow> metaQuery v m s = (Inl e, s)"
  by (simp add: metaQuery_def)

text \<open>
  A failed connection to the metadata database is never retried: once the stored promise was rejected,
  every request fails without running a statement, whatever the state of the database.
\<close>

theorem meta_never_recovers:
  assumes "metaConn s = Rejected e"
  shows "\<exists>e' s'. serve v q s = (Inl e', s') \<and> metaConn s' = Rejected e \<and> clients s' = clients s \<and> sent s' = sent s"
proof -
  let ?tok = "outside (validateToken v (case extractTokenFromHeader (authHeader q) of None \<Rightarrow> [] | Some t \<Rightarrow> t))"
  obtain x s1 where t: "?tok s = (x, s1)" by fastforce
  note frame = outside_frame [OF t]
  show ?thesis
  proof (cases x)
    case (Inl e')
    with t frame assms show ?thesis by (simp add: serve_def)
  next
    case (Inr info)
    have "\<exists>e'. getUserData v info (bodyAlias q) s1 = (Inl e', s1)"
      using frame assms
      by (auto simp: getUserData_def andThen_def metaQuery_rejected Let_def split: option.split)
    with t frame assms Inr show ?thesis by (auto simp: serve_def)
  qed
qed

lemma meta_never_recovers_witness:
  "\<exists>e' s'. serve demoRun demoRequest (demoState\<lparr> metaConn := Rejected (runError ''refused'') \<rparr>) = (Inl e', s') \<and>
     metaConn s' = Rejected (runError ''refused'') \<and>
     clients s' = clients (demoState\<lparr> metaConn := Rejected (runError ''refused'') \<rparr>) \<and>
     sent s' = sent (demoState\<lparr> metaConn := Rejected (runError ''refused'') \<rparr>)"
  by (rule meta_never_recovers) simp

lemma runStatement_clients:
  assumes ends: "\<And>w. \<exists>w'. endClient v w = (Inr (), w')" and run: "runStatement v dbId u password st s = (x, s')"
  shows "clients s' = clients s"
proof -
  obtain a w1 where o1: "openClient v dbId u password (outer s) = (a, w1)" by fastforce
  show ?thesis
  proof (cases a)
    case (Inl e)
    with o1 run show ?thesis by (auto simp: runStatement_def andThen_def outside_def)
  next
    case (Inr y)
    obtain b w2 where q: "queryClient v (deparse v st) w1 = (b, w2)" by fastforce
    obtain w3 where "endClient v w2 = (Inr (), w3)" using ends by blast
    with o1 Inr q run show ?thesis
      by (cases b) (auto simp: runStatement_def andThen_def outside_def tryFinally_def)
  qed
qed

text \<open>
  Running statements leaves no client open: when clients can be ended, as many are open afterwards as
  before, also when a statement fails or cannot be parsed.
\<close>

theorem runSql_ends_clients:
  assumes ends: "\<And>w. \<exists>w'. endClient v w = (Inr (), w')"
  shows "clients (snd (runSql v sql dbAlias u password s)) = clients s"
proof -
  have meta: "keeps (\<lambda>s. clients s = n) (metaQuery v m)" for n m
    by (rule keepsI) (auto simp: metaQuery_def outside_def split: meta_conn.split prod.split sum.split)
  have name: "keeps (\<lambda>s. clients s = n) (pgNameOf v u dbAlias)" for n
    unfolding pgNameOf_def by (rule keeps_andThen [OF meta]) (auto split: option.split)
  have stmt: "keeps (\<lambda>s. clients s = n) (runStatement v dbId u password st)" for n dbId st
    by (rule keepsI) (metis ends prod.collapse runStatement_clients)
  have "keeps (\<lambda>s. clients s = n) (runSql v sql dbAlias u password)" for n
    unfolding runSql_def
    by (rule keeps_andThen) (use name stmt in \<open>auto intro!: keeps_andThen keeps_mapM split: sum.split\<close>)
  then show ?thesis by (simp add: keeps_def)
qed

lemma runSql_ends_clients_witness:
  "clients (snd (runSql demoRun ''SELECT 1'' ''iasql_metadata'' ''u'' ''p'' demoState)) = clients demoState"
  by (rule runSql_ends_clients) (simp add: demoRun_def)

text \<open>
  Every request is answered at the end with status 200 or 401, and what was sent before stays.
\<close>

theorem runHandler_answers:
  "\<exists>s' status b. runHandler v q s = (Inr (), s') \<and> sent s' = sent (snd (serve v q s)) @ [(status, b)] \<and>
     (status = 200 \<longleftrightarrow> (\<exists>out. fst (serve v q s) = Inr out) \<and> elapsed v (outer s) (outer (snd (serve v q s))) < execLimit) \<and>
     (status = 200 \<or> status = 401)"
proof (cases "serve v q s")
  case (Pair x s')
  show ?thesis
  proof (cases "elapsed v (outer s) (outer s') < execLimit")
    case True
    with Pair show ?thesis by (cases x) (simp_all add: runHandler_def until_def respond_def)
  next
    case False
    with Pair show ?thesis by (simp add: runHandler_def until_def respond_def)
  qed
qed

end
