(* ===== verification/Dash_Store.thy ===== *)
theory Dash_Store
  imports Js_Value Iam_Policy
begin

text \<open>
  The store of the dashboard: \<open>src/dashboard/src/components/providers/AppProvider.tsx\<close>.

  \<open>reducer\<close> computes the next state from a payload (\<open>event\<close>); \<open>middlewareReducer\<close> talks to the
  engine and dispatches events for a payload of the user interface (\<open>request\<close>).  The data of a
  payload depends on its action, so both are datatypes with one constructor per action.  The reducer
  returns \<open>None\<close> where the source throws a \<open>TypeError\<close>.  Tabs and databases are values: the source
  writes to tab objects shared with the state it replaces, which nobody reads any more.

  Parameters are the calls of \<open>services/dbApi.ts\<close> (\<open>engine\<close>), the comparison of versions and the
  generator of names.  A call of \<open>middlewareReducer\<close> that is not awaited becomes a \<open>task\<close>: the part
  up to its first \<open>await\<close> has run, \<open>finishTask\<close> is the rest.  Telemetry is left out.
\<close>

section \<open>State\<close>

record tab =
  title :: string
  content :: string
  queryRes :: jsval
  closable :: bool
  isRunning :: bool

record dbase =
  dbName :: string                \<comment> \<open>\<open>alias\<close>\<close>
  dbVersion :: string
  isUnsupported :: bool

record column =
  dataType :: string
  isMandatory :: bool

datatype cell = Column column | RecordCount int

record help_row =
  helpModule :: string
  helpName :: string
  helpSignature :: string

record column_row =
  colModule :: string
  colTable :: string
  colName :: string
  colType :: string
  colNullable :: string
  colDefault :: "string option"

record autocomplete =
  helpRows :: "help_row list"
  columnRows :: "column_row list"
  moduleRows :: "(string \<times> string list) list"
  countRows :: "(string \<times> int) list"

type_synonym module_data = "cell obj obj obj"

record app_state =
  token :: "string option"
  selectedDb :: "dbase option"
  oldestVersion :: "string option"
  latestVersion :: "string option"
  isRunningSql :: bool
  databases :: "dbase list"
  error :: "string option"
  newDb :: jsval
  allModules :: "string obj"
  moduleFunctions :: "string obj obj"
  installedModules :: module_data
  isDarkMode :: bool
  shouldShowDisconnect :: bool
  shouldShowConnect :: bool
  editorTabsCreated :: nat
  editorSelectedTab :: nat
  editorTabs :: "tab list"
  forceRun :: bool

datatype event =
    Failed string                                    \<comment> \<open>any action with \<open>data.error\<close>\<close>
  | SelectDb "dbase option"
  | InitialLoad "string option" "dbase list" string string     \<comment> \<open>token, databases, latest, oldest\<close>
  | NewDb jsval "dbase list"
  | ResetNewDb
  | EditContent string
  | RunningSql bool nat
  | RunSql jsval "dbase list option" nat
  | RunAutocompleteSql autocomplete
  | InstallModule string
  | UninstallModule string
  | DisconnectDb "dbase list"
  | ShowDisconnect bool
  | ShowConnect bool
  | ResetError
  | SetError "string option"
  | EditorNewTab
  | EditorSelectTab nat
  | EditorCloseTab nat
  | SelectAppTheme string
  | SelectTable string
  | Ignored                                          \<comment> \<open>\<open>List\<close>, \<open>Disconnect\<close>, \<open>UpgradeDb\<close>, \<open>FetchData\<close>, \<open>Stop\<close>\<close>

record semver =
  valid :: "string \<Rightarrow> bool"
  lessThan :: "string \<Rightarrow> string \<Rightarrow> bool option"     \<comment> \<open>\<open>None\<close>: it throws\<close>

section \<open>The reducer\<close>

definition supportOf :: "semver \<Rightarrow> app_state \<Rightarrow> dbase \<Rightarrow> bool option" where
  "supportOf v s db =
     (if \<not> valid v (dbVersion db) then Some True
      else (case oldestVersion s of
          None \<Rightarrow> Some False
        | Some old \<Rightarrow> if old = [] then Some False else lessThan v (dbVersion db) old))"

definition forgetResults :: "tab list \<Rightarrow> tab list" where
  "forgetResults tabs = map (\<lambda>t. t\<lparr> queryRes := JUndef \<rparr>) tabs"

definition updateTab :: "nat \<Rightarrow> (tab \<Rightarrow> tab) \<Rightarrow> app_state \<Rightarrow> app_state option" where
  "updateTab i f s =
     (if i < length (editorTabs s)
      then Some (s\<lparr> editorTabs := (editorTabs s)[i := f (editorTabs s ! i)] \<rparr>) else None)"

text \<open>The new tab goes before the last one, which is the \<open>+\<close> tab.\<close>

definition insertTab :: "string \<Rightarrow> app_state \<Rightarrow> app_state" where
  "insertTab body s =
     (let fresh = \<lparr> title = ''Query-'' @ digits (editorTabsCreated s), content = body, queryRes = JUndef,
                    closable = True, isRunning = False \<rparr>;
          tabs = editorTabs s
      in s\<lparr> editorTabs := (if tabs = [] then [fresh] else butlast tabs @ [fresh, last tabs]),
            editorTabsCreated := editorTabsCreated s + 1 \<rparr>)"

definition removeAt :: "nat \<Rightarrow> 'a list \<Rightarrow> 'a list" where     \<comment> \<open>\<open>splice(index, 1)\<close>\<close>
  "removeAt i xs = take i xs @ drop (Suc i) xs"

definition installContent :: "string \<Rightarrow> string \<Rightarrow> string" where
  "installContent fn m = ''/* BEGIN IaSQL auto-generated statement */'' @ [CHR 0x0A] @
     ''SELECT * FROM iasql_'' @ fn @ [CHR ''('', CHR 0x27] @ m @ [CHR 0x27] @ '');'' @ [CHR 0x0A] @
     ''/* END IaSQL auto-generated statement */'' @ [CHR 0x0A]"

definition orObj :: "'v obj option \<Rightarrow> 'v obj" where
  "orObj x = (case x of None \<Rightarrow> [] | Some ob \<Rightarrow> ob)"

definition addFunction :: "help_row \<Rightarrow> string obj obj \<Rightarrow> string obj obj" where
  "addFunction r fs =
     obj_set (helpModule r) (obj_set (helpName r) (helpSignature r) (orObj (map_of fs (helpModule r)))) fs"

definition columnOf :: "column_row \<Rightarrow> column" where
  "columnOf r = \<lparr> dataType = colType r,
     isMandatory = \<not> (colDefault r \<noteq> None \<or> colNullable r = ''YES'') \<rparr>"

definition countOf :: "(string \<times> int) list \<Rightarrow> string \<Rightarrow> int" where
  "countOf counts t = (case map_of counts t of None \<Rightarrow> 0 | Some n \<Rightarrow> n)"

definition addColumn :: "(string \<times> int) list \<Rightarrow> column_row \<Rightarrow> module_data \<Rightarrow> module_data" where
  "addColumn counts r ms =
     (let m = orObj (map_of ms (colModule r));
          t = orObj (map_of m (colTable r));
          t' = obj_set ''recordCount'' (RecordCount (countOf counts (colTable r)))
                 (obj_set (colName r) (Column (columnOf r)) t)
      in obj_set (colModule r) (obj_set (colTable r) t' m) ms)"

definition addModule :: "string \<times> string list \<Rightarrow> string obj \<Rightarrow> string obj" where
  "addModule r ms = obj_set (fst r) (joinWith '', '' (snd r)) ms"

definition loadAutocomplete :: "autocomplete \<Rightarrow> app_state \<Rightarrow> app_state" where
  "loadAutocomplete a s = s\<lparr> moduleFunctions := fold addFunction (helpRows a) [],
     allModules := fold addModule (moduleRows a) [],
     installedModules := fold (addColumn (countRows a)) (columnRows a) [] \<rparr>"

fun reducer :: "semver \<Rightarrow> app_state \<Rightarrow> event \<Rightarrow> app_state option" where
  "reducer v s (Failed e) = Some (s\<lparr> error := Some e \<rparr>)"
| "reducer v s (SelectDb None) = None"
| "reducer v s (SelectDb (Some db)) = map_option (\<lambda>u.
     s\<lparr> editorTabs := (if Some (dbName db) \<noteq> map_option dbName (selectedDb s)
                       then forgetResults (editorTabs s) else editorTabs s),
        selectedDb := Some (db\<lparr> isUnsupported := u \<rparr>) \<rparr>) (supportOf v s db)"
| "reducer v s (InitialLoad tk dbs latest oldest) = Some
     (s\<lparr> databases := dbs, latestVersion := Some latest, oldestVersion := Some oldest, token := tk \<rparr>)"
| "reducer v s (NewDb new dbs) = (if new = JUndef \<or> new = JNull then None else Some
     (s\<lparr> databases := dbs, selectedDb := find (\<lambda>d. JStr (dbName d) = getProp new ''alias'') dbs,
        newDb := new, editorTabs := forgetResults (editorTabs s) \<rparr>))"
| "reducer v s ResetNewDb = Some (s\<lparr> newDb := JUndef \<rparr>)"
| "reducer v s (EditContent c) = updateTab (editorSelectedTab s) (\<lambda>t. t\<lparr> content := c \<rparr>) s"
| "reducer v s (RunningSql b i) = updateTab i (\<lambda>t. t\<lparr> isRunning := b \<rparr>) s"
| "reducer v s (RunSql res dbs i) = Option.bind (updateTab i (\<lambda>t. t\<lparr> queryRes := res \<rparr>) s) (\<lambda>s'.
     case dbs of
       None \<Rightarrow> Some (s'\<lparr> forceRun := False \<rparr>)
     | Some ds \<Rightarrow>
         (if ds = [] then Some (s'\<lparr> databases := [], selectedDb := None, forceRun := False \<rparr>)
          else Option.bind (selectedDb s) (\<lambda>cur. Some (s'\<lparr> databases := ds,
            selectedDb := find (\<lambda>d. dbName d = dbName cur) ds, forceRun := False \<rparr>))))"
| "reducer v s (RunAutocompleteSql a) = Some (loadAutocomplete a s)"
| "reducer v s (InstallModule m) = Some ((insertTab (installContent ''install'' m) s)\<lparr> forceRun := True \<rparr>)"
| "reducer v s (UninstallModule m) = Some ((insertTab (installContent ''uninstall'' m) s)\<lparr> forceRun := True \<rparr>)"
| "reducer v s (DisconnectDb dbs) = Some
     (s\<lparr> selectedDb := (case dbs of [] \<Rightarrow> None | d # _ \<Rightarrow> Some d), databases := dbs, shouldShowDisconnect := False \<rparr>)"
| "reducer v s (ShowDisconnect b) = Some (s\<lparr> shouldShowDisconnect := b \<rparr>)"
| "reducer v s (ShowConnect b) = Some (s\<lparr> shouldShowConnect := b \<rparr>)"
| "reducer v s ResetError = Some (s\<lparr> error := None \<rparr>)"
| "reducer v s (SetError e) = Some (s\<lparr> error := e \<rparr>)"
| "reducer v s EditorNewTab = Some (insertTab [] s)"
| "reducer v s (EditorSelectTab i) = Some (s\<lparr> editorSelectedTab := i \<rparr>)"
| "reducer v s (EditorCloseTab i) = Some (s\<lparr> editorTabs := removeAt i (editorTabs s) \<rparr>)"
| "reducer v s (SelectAppTheme t) = Some (s\<lparr> isDarkMode := (t = ''dark'') \<rparr>)"
| "reducer v s (SelectTable t) = Some ((insertTab (''SELECT * FROM '' @ t @ '';'') s)\<lparr> forceRun := True \<rparr>)"
| "reducer v s Ignored = Some s"

definition plusTab :: tab where
  "plusTab = \<lparr> title = ''+'', content = [], queryRes = JUndef, closable = False, isRunning = False \<rparr>"

definition initialState :: "string \<Rightarrow> app_state" where
  "initialState gettingStarted = \<lparr> token = None, selectedDb = None, oldestVersion = None, latestVersion = None,
     isRunningSql = False, databases = [], error = None, newDb = JUndef, allModules = [], moduleFunctions = [],
     installedModules = [], isDarkMode = False, shouldShowDisconnect = False, shouldShowConnect = False,
     editorTabsCreated = 1, editorSelectedTab = 0,
     editorTabs = [\<lparr> title = ''Getting started'', content = gettingStarted, queryRes = JUndef, closable = True,
                     isRunning = False \<rparr>, plusTab],
     forceRun = False \<rparr>"

section \<open>The middleware\<close>

text \<open>What is thrown is an \<open>Error\<close> with a message, possibly empty.\<close>

record credentials =
  awsAccessKeyId :: string
  awsSecretAccessKey :: string
  awsSessionToken :: string              \<comment> \<open>empty when there is none\<close>
  awsRegion :: string

datatype request =
    AskInitialLoad
  | AskNewDb string credentials
  | AskRunSql string dbase nat           \<comment> \<open>content, database, tab\<close>
  | AskAutocomplete string
  | AskDisconnect string
  | AskSelectTab nat "dbase option" bool "tab list"
  | Plain event

datatype task = Disconnecting string | Running string dbase nat

type_synonym ('w, 'a) call = "('w, string, 'a) action"

record 'w engine =
  listDbs :: "string \<Rightarrow> ('w, dbase list) call"
  getOldestVersion :: "string \<Rightarrow> ('w, string) call"
  getLatestVersion :: "string \<Rightarrow> ('w, string) call"
  connectDb :: "string \<Rightarrow> string \<Rightarrow> ('w, jsval) call"             \<comment> \<open>token, alias\<close>
  disconnectDb :: "string \<Rightarrow> string \<Rightarrow> ('w, unit) call"
  runQuery :: "string \<Rightarrow> string \<Rightarrow> string \<Rightarrow> ('w, jsval) call"       \<comment> \<open>token, alias, statements\<close>
  initialize :: "string \<Rightarrow> string \<Rightarrow> ('w, autocomplete) call"   \<comment> \<open>\<open>run\<close> of \<open>initializingQueries\<close>\<close>
  uniqueName :: "'w \<Rightarrow> string"

record 'w mid =
  remote :: 'w
  dispatched :: "event list"
  spawned :: "task list"

type_synonym ('w, 'a) mop = "('w mid, string, 'a) action"

definition remotely :: "('w, 'a) call \<Rightarrow> ('w, 'a) mop" where
  "remotely m = (\<lambda>s. case m (remote s) of (x, w) \<Rightarrow> (x, s\<lparr> remote := w \<rparr>))"

definition dispatch :: "event \<Rightarrow> ('w, unit) mop" where
  "dispatch e = modifyS (\<lambda>s. s\<lparr> dispatched := dispatched s @ [e] \<rparr>)"

definition spawn :: "task \<Rightarrow> ('w, unit) mop" where
  "spawn t = modifyS (\<lambda>s. s\<lparr> spawned := spawned s @ [t] \<rparr>)"

definition orMessage :: "string \<Rightarrow> string \<Rightarrow> string" where
  "orMessage m other = (if m = [] then other else m)"

text \<open>\<open>try { m } catch (e) { dispatch({ ...payload, data: { error } }) }\<close>; the result says whether it succeeded.\<close>

definition guarded :: "('w, 'a) mop \<Rightarrow> string \<Rightarrow> ('w, 'a option) mop" where
  "guarded m other = andThen (attempt m) (\<lambda>r. case r of
     Inr a \<Rightarrow> ret (Some a)
   | Inl e \<Rightarrow> andThen (dispatch (Failed (orMessage e other))) (\<lambda>_. ret None))"

definition noToken :: event where
  "noToken = Failed ''No auth token defined.''"

definition tokenText :: "string option \<Rightarrow> string" where
  "tokenText tk = (case tk of None \<Rightarrow> [] | Some t \<Rightarrow> t)"

definition hasToken :: "string option \<Rightarrow> bool" where
  "hasToken tk = (tokenText tk \<noteq> [])"

definition beforeDash :: "string \<Rightarrow> string" where
  "beforeDash v = hd (splitOn (CHR ''-'') v)"

definition loadInitial :: "'w engine \<Rightarrow> string option \<Rightarrow> ('w, unit) mop" where
  "loadInitial g tk = andThen (guarded
     (andThen (remotely (listDbs g (tokenText tk))) (\<lambda>dbs.
      andThen (remotely (getOldestVersion g (tokenText tk))) (\<lambda>oldest.
      andThen (remotely (getLatestVersion g (tokenText tk))) (\<lambda>latest.
      dispatch (InitialLoad tk dbs (beforeDash latest) (beforeDash oldest))))))
     ''Unexpected error getting initial load'') (\<lambda>_. ret ())"

definition quoted :: "string \<Rightarrow> string" where
  "quoted x = [CHR 0x27] @ x @ [CHR 0x27]"

definition credentialsSql :: "credentials \<Rightarrow> string" where
  "credentialsSql c =
     (if awsSessionToken c \<noteq> []
      then ''INSERT INTO aws_credentials (access_key_id, secret_access_key, session_token) VALUES ('' @
        quoted (awsAccessKeyId c) @ '', '' @ quoted (awsSecretAccessKey c) @ '', '' @ quoted (awsSessionToken c) @ '');''
      else ''INSERT INTO aws_credentials (access_key_id, secret_access_key) VALUES ('' @
        quoted (awsAccessKeyId c) @ '', '' @ quoted (awsSecretAccessKey c) @ '');'')"

definition setUpSql :: "credentials \<Rightarrow> string list" where
  "setUpSql c = [credentialsSql c, ''SELECT * FROM iasql_begin();'', ''SELECT * FROM iasql_commit();'',
     ''SELECT * FROM default_aws_region('' @ quoted (awsRegion c) @ '');'']"

definition installAccountSql :: string where
  "installAccountSql = ''SELECT * FROM iasql_install('' @ quoted ''aws_account'' @ '');''"

text \<open>The disconnection after a failure runs up to its request and goes on in the background.\<close>

definition finishAccount :: "'w engine \<Rightarrow> string \<Rightarrow> string \<Rightarrow> string \<Rightarrow> credentials \<Rightarrow> jsval \<Rightarrow> ('w, unit) mop" where
  "finishAccount g tk name dbAlias c new =
     andThen (attempt (eachM (\<lambda>q. remotely (runQuery g tk name q)) (setUpSql c))) (\<lambda>r.
       case r of
         Inl e \<Rightarrow> andThen (spawn (Disconnecting name)) (\<lambda>_.
           dispatch (Failed (orMessage e (''Error adding credentials '' @ dbAlias))))
       | Inr _ \<Rightarrow>
           (if truthy new
            then andThen (remotely (listDbs g tk)) (\<lambda>dbs. dispatch (NewDb new dbs))
            else ret ()))"

definition installAccount :: "'w engine \<Rightarrow> string \<Rightarrow> string \<Rightarrow> string \<Rightarrow> credentials \<Rightarrow> jsval \<Rightarrow> ('w, unit) mop" where
  "installAccount g tk name dbAlias c new =
     andThen (guarded (remotely (runQuery g tk name installAccountSql)) (''Error adding aws_account '' @ name)) (\<lambda>r.
       case r of None \<Rightarrow> ret () | Some _ \<Rightarrow> finishAccount g tk name dbAlias c new)"

definition connectNamed :: "'w engine \<Rightarrow> string \<Rightarrow> string \<Rightarrow> string \<Rightarrow> credentials \<Rightarrow> ('w, unit) mop" where
  "connectNamed g tk name dbAlias c =
     andThen (guarded (remotely (connectDb g tk name)) (''Unexpected error connecting database '' @ name)) (\<lambda>r.
       case r of None \<Rightarrow> ret () | Some new \<Rightarrow> installAccount g tk name dbAlias c new)"

definition connectAccount :: "'w engine \<Rightarrow> string option \<Rightarrow> string \<Rightarrow> credentials \<Rightarrow> ('w, unit) mop" where
  "connectAccount g tk dbAlias c =
     (if \<not> hasToken tk then dispatch noToken
      else andThen (getS (\<lambda>s. if dbAlias \<noteq> [] then dbAlias else uniqueName g (remote s))) (\<lambda>name.
        connectNamed g (tokenText tk) name dbAlias c))"

definition includesText :: "string \<Rightarrow> string \<Rightarrow> bool" where
  "includesText s d = list_ex (\<lambda>i. take (length d) (drop i s) = d) [0..<Suc (length s)]"

definition compFn :: "jsval \<Rightarrow> string \<Rightarrow> bool" where
  "compFn r stmt = (case getProp r ''statement'' of JStr s \<Rightarrow> s \<noteq> [] \<and> includesText (toLowerCase s) stmt | _ \<Rightarrow> False)"

text \<open>
  The rows a \<open>for ... of\<close> visits; a string is visited by character, other values cannot be iterated.
\<close>

definition iterated :: "jsval \<Rightarrow> string + jsval list" where
  "iterated res = (case res of
     JArr rs \<Rightarrow> (if list_ex (\<lambda>r. r = JNull \<or> r = JUndef) rs then Inl ''Cannot read properties of null'' else Inr rs)
   | JStr s \<Rightarrow> Inr (map (\<lambda>c. JStr [c]) s)
   | _ \<Rightarrow> Inl ''queryRes is not iterable'')"

definition changesModules :: "jsval list \<Rightarrow> bool" where
  "changesModules rs = list_ex (\<lambda>r. compFn r ''iasql_install('' \<or> compFn r ''iasql_uninstall('') rs"

text \<open>The outcome of a run: what to show, the new list of databases, the new completions.\<close>

definition runOutcome :: "'w engine \<Rightarrow> string \<Rightarrow> string \<Rightarrow> string \<Rightarrow> ('w, jsval \<times> dbase list option \<times> autocomplete option) mop" where
  "runOutcome g tk name body =
     andThen (attempt (andThen (if tk \<noteq> [] \<and> body \<noteq> [] then remotely (runQuery g tk name body)
                                else ret (JStr ''Invalid or empty response'')) (\<lambda>res.
         case iterated res of Inl e \<Rightarrow> throw e | Inr rs \<Rightarrow> ret (res, changesModules rs)))) (\<lambda>r.
       let failed = (\<lambda>e dbs. (JStr (orMessage e ''Unhandled error in SQL execution''), dbs, None)) in
       case r of
         Inl e \<Rightarrow> ret (failed e None)
       | Inr (res, changed) \<Rightarrow>
           (if \<not> changed then ret (res, None, None)
            else andThen (attempt (remotely (listDbs g tk))) (\<lambda>l. case l of
                Inl e \<Rightarrow> ret (failed e None)
              | Inr dbs \<Rightarrow> andThen (attempt (remotely (initialize g tk name))) (\<lambda>a. case a of
                  Inl e \<Rightarrow> ret (failed e (Some dbs))
                | Inr ac \<Rightarrow> ret (res, Some dbs, Some ac)))))"

text \<open>\<open>RunSql\<close> up to its first \<open>await\<close> (whether it goes on) and from there.\<close>

definition startRun :: "string option \<Rightarrow> dbase \<Rightarrow> nat \<Rightarrow> ('w, bool) mop" where
  "startRun tk db i =
     (if \<not> hasToken tk then andThen (dispatch noToken) (\<lambda>_. ret False)
      else if isUnsupported db then ret False
      else andThen (dispatch (RunningSql True i)) (\<lambda>_. ret True))"

definition finishRun :: "'w engine \<Rightarrow> string \<Rightarrow> string \<Rightarrow> dbase \<Rightarrow> nat \<Rightarrow> ('w, unit) mop" where
  "finishRun g tk body db i = andThen (runOutcome g tk (dbName db) body) (\<lambda>(res, dbs, ac).
     andThen (dispatch (RunningSql False i)) (\<lambda>_.
       andThen (dispatch (RunSql res dbs i)) (\<lambda>_.
         case ac of None \<Rightarrow> ret () | Some a \<Rightarrow> dispatch (RunAutocompleteSql a))))"

definition autocompleteDb :: "'w engine \<Rightarrow> string option \<Rightarrow> string \<Rightarrow> ('w, unit) mop" where
  "autocompleteDb g tk name =
     (if \<not> hasToken tk then dispatch noToken
      else andThen (guarded (andThen (remotely (initialize g (tokenText tk) name)) (\<lambda>a. dispatch (RunAutocompleteSql a)))
        ''Unexpected error'') (\<lambda>_. ret ()))"

definition finishDisconnect :: "'w engine \<Rightarrow> string \<Rightarrow> string \<Rightarrow> ('w, unit) mop" where
  "finishDisconnect g tk name = andThen (guarded
     (andThen (remotely (disconnectDb g tk name)) (\<lambda>_.
      andThen (remotely (listDbs g tk)) (\<lambda>dbs. dispatch (DisconnectDb dbs))))
     (''Unexpected error disconnecting database '' @ name)) (\<lambda>_. ret ())"

text \<open>Without a break, \<open>EditorSelectTab\<close> falls through to the default and is dispatched itself.\<close>

definition selectTab :: "string option \<Rightarrow> nat \<Rightarrow> dbase option \<Rightarrow> bool \<Rightarrow> tab list \<Rightarrow> ('w, unit) mop" where
  "selectTab tk i db force tabs =
     (let body = (if i < length tabs then content (tabs ! i) else []) in
      andThen (if hasToken tk \<and> force \<and> body \<noteq> [] then
           (case db of
              None \<Rightarrow> ret ()                  \<comment> \<open>a rejected promise that is not awaited\<close>
            | Some d \<Rightarrow> andThen (startRun tk d i) (\<lambda>go. if go then spawn (Running body d i) else ret ()))
         else ret ())
       (\<lambda>_. dispatch (EditorSelectTab i)))"

fun middlewareReducer :: "'w engine \<Rightarrow> string option \<Rightarrow> request \<Rightarrow> ('w, unit) mop" where
  "middlewareReducer g tk AskInitialLoad = loadInitial g tk"
| "middlewareReducer g tk (AskNewDb name c) = connectAccount g tk name c"
| "middlewareReducer g tk (AskRunSql body db i) =
     andThen (startRun tk db i) (\<lambda>go. if go then finishRun g (tokenText tk) body db i else ret ())"
| "middlewareReducer g tk (AskAutocomplete name) = autocompleteDb g tk name"
| "middlewareReducer g tk (AskDisconnect name) =
     (if hasToken tk then finishDisconnect g (tokenText tk) name else dispatch noToken)"
| "middlewareReducer g tk (AskSelectTab i db force tabs) = selectTab tk i db force tabs"
| "middlewareReducer g tk (Plain e) = dispatch e"

fun finishTask :: "'w engine \<Rightarrow> string \<Rightarrow> task \<Rightarrow> ('w, unit) mop" where
  "finishTask g tk (Disconnecting name) = finishDisconnect g tk name"
| "finishTask g tk (Running body db i) = finishRun g tk body db i"

section \<open>Claims about requests\<close>

lemma remotely_frame:
  "remotely m s = (x, s') \<Longrightarrow> dispatched s' = dispatched s \<and> spawned s' = spawned s"
  by (auto simp: remotely_def split: prod.splits)

lemma guarded_cases:
  "guarded m other s = (case m s of (Inr a, s') \<Rightarrow> (Inr (Some a), s')
     | (Inl e, s') \<Rightarrow> (Inr None, s'\<lparr> dispatched := dispatched s' @ [Failed (orMessage e other)] \<rparr>))"
  by (simp add: guarded_def attempt_def andThen_def dispatch_def split: prod.split sum.split)

abbreviation quiet :: "event list \<Rightarrow> task list \<Rightarrow> 'w mid \<Rightarrow> bool" where
  "quiet d t s \<equiv> dispatched s = d \<and> spawned s = t"

lemma keeps_remotely [intro]: "keeps (quiet d t) (remotely m)"
  by (rule keepsI) (simp add: remotely_def split: prod.split)

lemma runOutcome_keeps: "keeps (quiet d t) (runOutcome g tk name body)"
  unfolding runOutcome_def Let_def
  by (intro keeps_andThen keeps_attempt)
    (auto split: sum.split intro!: keeps_andThen keeps_attempt)

lemma runOutcome_outcome:
  "\<exists>res dbs ac s'. runOutcome g tk name body s = (Inr (res, dbs, ac), s') \<and> (ac \<noteq> None \<longrightarrow> dbs \<noteq> None)"
proof -
  let ?m = "andThen (if tk \<noteq> [] \<and> body \<noteq> [] then remotely (runQuery g tk name body)
      else ret (JStr ''Invalid or empty response'')) (\<lambda>res.
        case iterated res of Inl e \<Rightarrow> throw e | Inr rs \<Rightarrow> ret (res, changesModules rs))"
  obtain r s1 where r: "?m s = (r, s1)" by fastforce
  obtain l s2 where l: "remotely (listDbs g tk) s1 = (l, s2)" by fastforce
  obtain a s3 where a: "remotely (initialize g tk name) s2 = (a, s3)" by fastforce
  show ?thesis
  proof (cases r)
    case (Inl e)
    with r show ?thesis by (simp add: runOutcome_def attempt_def andThen_apply)
  next
    case (Inr p)
    with r l a show ?thesis
      by (cases p; cases l; cases a) (simp_all add: runOutcome_def attempt_def andThen_apply)
  qed
qed

lemma runOutcome_frame:
  "\<exists>res dbs ac s'. runOutcome g tk name body s = (Inr (res, dbs, ac), s') \<and>
     dispatched s' = dispatched s \<and> spawned s' = spawned s \<and> (ac \<noteq> None \<longrightarrow> dbs \<noteq> None)"
proof -
  obtain res dbs ac s' where o: "runOutcome g tk name body s = (Inr (res, dbs, ac), s')" "ac \<noteq> None \<longrightarrow> dbs \<noteq> None"
    using runOutcome_outcome by blast
  moreover have "quiet (dispatched s) (spawned s) s'"
    by (rule keepsD [OF runOutcome_keeps _ o(1)]) simp
  ultimately show ?thesis by blast
qed

lemma finishRun_dispatches:
  "\<exists>res dbs more s'. finishRun g tk body db i s = (Inr (), s') \<and> spawned s' = spawned s \<and>
     dispatched s' = dispatched s @ [RunningSql False i, RunSql res dbs i] @ more \<and>
     (more = [] \<or> (dbs \<noteq> None \<and> (\<exists>a. more = [RunAutocompleteSql a])))"
proof -
  obtain res dbs ac s' where o: "runOutcome g tk (dbName db) body s = (Inr (res, dbs, ac), s')"
    "dispatched s' = dispatched s" "spawned s' = spawned s" "ac \<noteq> None \<longrightarrow> dbs \<noteq> None"
    using runOutcome_frame by blast
  then show ?thesis
    by (cases ac) (auto simp: finishRun_def dispatch_def)
qed

text \<open>
  A query that starts always ends: whatever the engine does, a run request with a token for a supported
  database returns, and dispatches the start, the end and the result of the run of its tab, in this
  order, and then at most the new completions.
\<close>

theorem run_always_ends:
  assumes "hasToken tk" and "\<not> isUnsupported db"
  shows "\<exists>res dbs more s'. middlewareReducer g tk (AskRunSql body db i) s = (Inr (), s') \<and>
    dispatched s' = dispatched s @ [RunningSql True i, RunningSql False i, RunSql res dbs i] @ more \<and>
    (more = [] \<or> (dbs \<noteq> None \<and> (\<exists>a. more = [RunAutocompleteSql a])))"
proof -
  from assms have st: "startRun tk db i s = (Inr True, s\<lparr> dispatched := dispatched s @ [RunningSql True i] \<rparr>)"
    by (simp add: startRun_def dispatch_def)
  obtain res dbs more s' where fin:
    "finishRun g (tokenText tk) body db i (s\<lparr> dispatched := dispatched s @ [RunningSql True i] \<rparr>) = (Inr (), s')"
    "dispatched s' = dispatched (s\<lparr> dispatched := dispatched s @ [RunningSql True i] \<rparr>) @
       [RunningSql False i, RunSql res dbs i] @ more"
    "more = [] \<or> (dbs \<noteq> None \<and> (\<exists>a. more = [RunAutocompleteSql a]))"
    using finishRun_dispatches by blast
  show ?thesis
    using st fin by (intro exI [of _ res] exI [of _ dbs] exI [of _ more] exI [of _ s']) simp
qed

lemma setUp_frame:
  "eachM (\<lambda>q. remotely (m q)) qs s = (x, s') \<Longrightarrow> quiet (dispatched s) (spawned s) s'"
  by (rule keepsD [OF keeps_eachM [OF keeps_remotely]]) auto

lemma guarded_remotely:
  obtains (ok) a s' where "guarded (remotely m) other s = (Inr (Some a), s')" "quiet (dispatched s) (spawned s) s'"
  | (failed) e s' where "guarded (remotely m) other s = (Inr None, s')"
      "quiet (dispatched s @ [Failed (orMessage e other)]) (spawned s) s'"
proof -
  obtain x s1 where m: "remotely m s = (x, s1)" by fastforce
  with remotely_frame [OF this] show thesis
    by (cases x) (auto simp: guarded_cases intro: ok failed)
qed

lemma orMessage_not_Nil: "other \<noteq> [] \<Longrightarrow> orMessage m other \<noteq> []"
  by (simp add: orMessage_def)

abbreviation reported :: "string + unit \<Rightarrow> event list \<Rightarrow> task list \<Rightarrow> 'w mid \<Rightarrow> bool" where
  "reported x d t s' \<equiv>
     (x = Inr () \<and> (\<exists>e. e \<noteq> [] \<and> quiet (d @ [Failed e]) t s')) \<or>
     (x = Inr () \<and> (\<exists>e name. e \<noteq> [] \<and> quiet (d @ [Failed e]) (t @ [Disconnecting name]) s')) \<or>
     (x = Inr () \<and> (\<exists>new dbs. quiet (d @ [NewDb new dbs]) t s')) \<or>
     quiet d t s'"

lemma finishAccount_reports:
  assumes "finishAccount g tk name dbAlias c new s = (x, s')"
  shows "reported x (dispatched s) (spawned s) s'"
proof -
  obtain a s1 where q: "eachM (\<lambda>q. remotely (runQuery g tk name q)) (setUpSql c) s = (a, s1)" by fastforce
  note f1 = setUp_frame [OF q]
  obtain l s2 where l: "remotely (listDbs g tk) s1 = (l, s2)" by fastforce
  note f2 = remotely_frame [OF l]
  show ?thesis
  proof (cases a)
    case (Inl e)
    with q f1 assms show ?thesis
      by (auto simp: finishAccount_def attempt_def andThen_apply spawn_def dispatch_def orMessage_not_Nil)
  next
    case (Inr u)
    show ?thesis
    proof (cases "truthy new")
      case False
      with Inr q f1 assms show ?thesis by (simp add: finishAccount_def attempt_def andThen_apply)
    next
      case True
      with Inr q f1 l f2 assms show ?thesis
        by (cases l) (auto simp: finishAccount_def attempt_def andThen_apply dispatch_def)
    qed
  qed
qed

lemma installAccount_reports:
  assumes "installAccount g tk name dbAlias c new s = (x, s')"
  shows "reported x (dispatched s) (spawned s) s'"
proof (cases rule: guarded_remotely [of "runQuery g tk name installAccountSql" "''Error adding aws_account '' @ name" s])
  case (failed e s1)
  with assms show ?thesis by (auto simp: installAccount_def andThen_apply orMessage_not_Nil)
next
  case (ok a s1)
  with assms have "finishAccount g tk name dbAlias c new s1 = (x, s')"
    by (simp add: installAccount_def andThen_apply)
  from finishAccount_reports [OF this] ok(2) show ?thesis by simp
qed

lemma connectNamed_reports:
  assumes "connectNamed g tk name dbAlias c s = (x, s')"
  shows "reported x (dispatched s) (spawned s) s'"
proof (cases rule: guarded_remotely [of "connectDb g tk name" "''Unexpected error connecting database '' @ name" s])
  case (failed e s1)
  with assms show ?thesis by (auto simp: connectNamed_def andThen_apply orMessage_not_Nil)
next
  case (ok new s1)
  with assms have "installAccount g tk name dbAlias c new s1 = (x, s')"
    by (simp add: connectNamed_def andThen_apply)
  from installAccount_reports [OF this] ok(2) show ?thesis by simp
qed

text \<open>
  Connecting an account reports once.  A failure or the new database is dispatched, one event in all
  (none when the engine returned no database); the database is disconnected again only when the
  credentials could not be set up, so it stays behind when \<open>aws_account\<close> could not be installed.
  Only the list of databases at the end may throw, and then nothing is dispatched: the failure of
  an account that was connected is never shown.
\<close>

theorem connect_reports:
  assumes "connectAccount g tk dbAlias c s = (x, s')"
  shows "reported x (dispatched s) (spawned s) s'"
proof (cases "hasToken tk")
  case False
  with assms show ?thesis by (auto simp: connectAccount_def dispatch_def noToken_def)
next
  case True
  define name where "name = (if dbAlias \<noteq> [] then dbAlias else uniqueName g (remote s))"
  from True assms have "connectNamed g (tokenText tk) name dbAlias c s = (x, s')"
    by (simp add: connectAccount_def name_def andThen_apply)
  then show ?thesis by (rule connectNamed_reports)
qed

section \<open>Completions\<close>

definition lookupCell :: "module_data \<Rightarrow> string \<Rightarrow> string \<Rightarrow> string \<Rightarrow> cell option" where
  "lookupCell ms m t c = map_of (orObj (map_of (orObj (map_of ms m)) t)) c"

lemma orObj_simps [simp]: "orObj (Some ob) = ob" "orObj None = []"
  by (simp_all add: orObj_def)

lemma lookupCell_addColumn:
  "lookupCell (addColumn counts r ms) m t c =
     (if m = colModule r \<and> t = colTable r
      then (if c = ''recordCount'' then Some (RecordCount (countOf counts t))
            else if c = colName r then Some (Column (columnOf r)) else lookupCell ms m t c)
      else lookupCell ms m t c)"
  by (simp add: lookupCell_def addColumn_def Let_def)

lemma lookupCell_fold_other:
  "\<forall>r \<in> set rs. (colModule r, colTable r, colName r) \<noteq> (m, t, c) \<Longrightarrow> c \<noteq> ''recordCount'' \<Longrightarrow>
     lookupCell (fold (addColumn counts) rs ms) m t c = lookupCell ms m t c"
  by (induction rs arbitrary: ms) (auto simp: lookupCell_addColumn)

lemma lookupCell_fold_count:
  "(\<exists>r \<in> set rs. colModule r = m \<and> colTable r = t) \<or>
     lookupCell ms m t ''recordCount'' = Some (RecordCount (countOf counts t)) \<Longrightarrow>
   lookupCell (fold (addColumn counts) rs ms) m t ''recordCount'' = Some (RecordCount (countOf counts t))"
  by (induction rs arbitrary: ms) (auto simp: lookupCell_addColumn)

text \<open>
  The tree of tables holds what the rows say: when a column is listed once, its cell has its type and
  whether it must be given, and every table has its number of records (0 when it is not counted).
\<close>

theorem autocomplete_columns:
  assumes once: "columnRows a = xs @ r # ys"
    "\<forall>r' \<in> set ys. (colModule r', colTable r', colName r') \<noteq> (colModule r, colTable r, colName r)"
    and name: "colName r \<noteq> ''recordCount''"
  shows "lookupCell (installedModules (loadAutocomplete a s)) (colModule r) (colTable r) (colName r) = Some (Column (columnOf r)) \<and>
    lookupCell (installedModules (loadAutocomplete a s)) (colModule r) (colTable r) ''recordCount'' =
      Some (RecordCount (countOf (countRows a) (colTable r)))"
  using assms
  by (simp_all add: loadAutocomplete_def lookupCell_fold_other lookupCell_fold_count lookupCell_addColumn)

section \<open>Examples\<close>

definition demoEngine :: "unit engine" where
  "demoEngine = \<lparr> listDbs = (\<lambda>_. throw ''offline''), getOldestVersion = (\<lambda>_. ret ''0.0.1''),
     getLatestVersion = (\<lambda>_. ret ''0.0.1''), connectDb = (\<lambda>_ _. ret (JObj [(''alias'', JStr ''db'')])),
     disconnectDb = (\<lambda>_ _. ret ()), runQuery = (\<lambda>_ _ _. throw ''denied''),
     initialize = (\<lambda>_ _. throw ''denied''), uniqueName = (\<lambda>_. ''red-fox'') \<rparr>"

definition demoMid :: "unit mid" where
  "demoMid = \<lparr> remote = (), dispatched = [], spawned = [] \<rparr>"

definition demoDb :: dbase where
  "demoDb = \<lparr> dbName = ''db'', dbVersion = ''0.0.1'', isUnsupported = False \<rparr>"

lemma run_always_ends_witness:
  "\<exists>res dbs more s'. middlewareReducer demoEngine (Some ''t'') (AskRunSql ''SELECT 1'' demoDb 0) demoMid = (Inr (), s') \<and>
     dispatched s' = dispatched demoMid @ [RunningSql True 0, RunningSql False 0, RunSql res dbs 0] @ more \<and>
     (more = [] \<or> (dbs \<noteq> None \<and> (\<exists>a. more = [RunAutocompleteSql a])))"
  by (rule run_always_ends) (simp_all add: hasToken_def tokenText_def demoDb_def)

definition demoColumn :: column_row where
  "demoColumn = \<lparr> colModule = ''aws_vpc'', colTable = ''vpc'', colName = ''id'', colType = ''integer'',
     colNullable = ''NO'', colDefault = None \<rparr>"

definition demoRows :: autocomplete where
  "demoRows = \<lparr> helpRows = [], columnRows = [demoColumn], moduleRows = [], countRows = [(''vpc'', 3)] \<rparr>"

lemma autocomplete_columns_witness:
  "lookupCell (installedModules (loadAutocomplete demoRows (initialState []))) ''aws_vpc'' ''vpc'' ''id'' =
     Some (Column \<lparr> dataType = ''integer'', isMandatory = True \<rparr>)"
  using autocomplete_columns [of demoRows "[]" demoColumn "[]" "initialState []"]
  by (simp add: demoRows_def demoColumn_def columnOf_def)

definition demoCreds :: credentials where
  "demoCreds = \<lparr> awsAccessKeyId = ''k'', awsSecretAccessKey = ''s'', awsSessionToken = [], awsRegion = ''us-east-1'' \<rparr>"

lemma connect_demo:
  "connectAccount demoEngine (Some ''t'') [] demoCreds demoMid =
     (Inr (), \<lparr> remote = (), dispatched = [Failed ''denied''], spawned = [] \<rparr>)"
  by (simp add: connectAccount_def connectNamed_def installAccount_def hasToken_def tokenText_def
      demoEngine_def demoMid_def guarded_cases remotely_def andThen_apply orMessage_def)

lemma connect_reports_witness:
  "reported (Inr ()) (dispatched demoMid) (spawned demoMid) \<lparr> remote = (), dispatched = [Failed ''denied''], spawned = [] \<rparr>"
  by (rule connect_reports [OF connect_demo])

end
