(* ===== verification/Dash_Editor.thy ===== *)
theory Dash_Editor
  imports Dash_Store
begin

text \<open>
  The tabs of the editor: the part of the user interface that dispatches to the store,
  \<open>src/dashboard/src/components/IasqlEditor.tsx\<close> with \<open>common/Tab.tsx\<close> and
  \<open>DatabaseManagement/DatabaseActions.tsx\<close>.

  \<open>ui_step\<close> is one interaction of the user, or the end of a query, together with the events the
  middleware dispatches for it at once and the effect that React runs afterwards (\<open>settle\<close>).  Queries
  run concurrently: \<open>jobs\<close> holds the tab index of each query that runs, with the title its tab had
  when it started.  The store knows tabs by position only, so a query is safe only when positions do
  not shift under it; \<open>result_reaches_its_tab\<close> shows they do not.
\<close>

record ui =
  app :: app_state
  jobs :: "(nat \<times> string) list"

fun runEvents :: "semver \<Rightarrow> app_state \<Rightarrow> event list \<Rightarrow> app_state option" where
  "runEvents v s [] = Some s"
| "runEvents v s (e # es) = Option.bind (reducer v s e) (\<lambda>s'. runEvents v s' es)"

definition titleAt :: "app_state \<Rightarrow> nat \<Rightarrow> string" where
  "titleAt s i = title (editorTabs s ! i)"

definition anyRunning :: "app_state \<Rightarrow> bool" where
  "anyRunning s = list_ex isRunning (editorTabs s)"

text \<open>The events and the started queries of a selection of a tab by the middleware.\<close>

definition selection :: "string \<Rightarrow> nat \<Rightarrow> app_state \<Rightarrow> event list \<times> task list" where
  "selection tk i s = (case selectTab (Some tk) i (selectedDb s) (forceRun s) (editorTabs s)
       \<lparr> remote = (), dispatched = [], spawned = [] \<rparr> of (_, m) \<Rightarrow> (dispatched m, spawned m))"

fun startedTabs :: "app_state \<Rightarrow> task list \<Rightarrow> (nat \<times> string) list" where
  "startedTabs s [] = []"
| "startedTabs s (Running _ _ i # ts) = (i, titleAt s i) # startedTabs s ts"
| "startedTabs s (Disconnecting _ # ts) = startedTabs s ts"

text \<open>When the number of tabs has changed, the last one before the \<open>+\<close> tab is selected.\<close>

definition settle :: "semver \<Rightarrow> string \<Rightarrow> nat \<Rightarrow> ui \<Rightarrow> ui option" where
  "settle v tk before u =
     (if length (editorTabs (app u)) = before then Some u
      else (case selection tk (length (editorTabs (app u)) - 2) (app u) of (es, ts) \<Rightarrow>
        map_option (\<lambda>s. \<lparr> app = s, jobs = jobs u @ startedTabs (app u) ts \<rparr>) (runEvents v (app u) es)))"

definition afterEvents :: "semver \<Rightarrow> string \<Rightarrow> event list \<Rightarrow> ui \<Rightarrow> ui option" where
  "afterEvents v tk es u = Option.bind (runEvents v (app u) es)
     (\<lambda>s. settle v tk (length (editorTabs (app u))) (u\<lparr> app := s \<rparr>))"

definition clickEvents :: "nat \<Rightarrow> app_state \<Rightarrow> event list" where
  "clickEvents i s =
     (let plus = (i = length (editorTabs s) - 1) in
      (if plus then [EditorNewTab] else []) @ [EditorSelectTab (if plus then i - 1 else i)])"

definition mayClose :: "nat \<Rightarrow> app_state \<Rightarrow> bool" where
  "mayClose i s = (i < length (editorTabs s) \<and> closable (editorTabs s ! i) \<and> editorSelectedTab s = i \<and>
     length (editorTabs s) > 2 \<and> \<not> anyRunning s)"

definition mayRun :: "string \<Rightarrow> string \<Rightarrow> app_state \<Rightarrow> bool" where
  "mayRun tk body s = (tk \<noteq> [] \<and> body \<noteq> [] \<and> editorSelectedTab s < length (editorTabs s) \<and>
     \<not> isRunning (editorTabs s ! editorSelectedTab s) \<and>
     (case selectedDb s of None \<Rightarrow> False | Some d \<Rightarrow> \<not> isUnsupported d))"

text \<open>The actions that other parts of the interface and the middleware dispatch.\<close>

fun elsewhere :: "event \<Rightarrow> bool" where
  "elsewhere (InstallModule _) = True"
| "elsewhere (UninstallModule _) = True"
| "elsewhere (SelectTable _) = True"
| "elsewhere (EditContent _) = True"
| "elsewhere EditorNewTab = False"
| "elsewhere (EditorSelectTab _) = False"
| "elsewhere (EditorCloseTab _) = False"
| "elsewhere (RunningSql _ _) = False"
| "elsewhere (RunSql _ _ _) = False"
| "elsewhere _ = True"

inductive ui_step :: "semver \<Rightarrow> string \<Rightarrow> ui \<Rightarrow> ui \<Rightarrow> bool" for v tk where
  click: "i < length (editorTabs (app u)) \<Longrightarrow> afterEvents v tk (clickEvents i (app u)) u = Some u' \<Longrightarrow> ui_step v tk u u'"
| close: "mayClose i (app u) \<Longrightarrow> afterEvents v tk [EditorCloseTab i] u = Some u' \<Longrightarrow> ui_step v tk u u'"
| other: "elsewhere e \<Longrightarrow> afterEvents v tk [e] u = Some u' \<Longrightarrow> ui_step v tk u u'"
| run: "mayRun tk body (app u) \<Longrightarrow>
     afterEvents v tk [RunningSql True (editorSelectedTab (app u))]
       (u\<lparr> jobs := jobs u @ [(editorSelectedTab (app u), titleAt (app u) (editorSelectedTab (app u)))] \<rparr>) = Some u' \<Longrightarrow>
     ui_step v tk u u'"
| finish: "jobs u = js @ (i, n) # js' \<Longrightarrow>
     afterEvents v tk ([RunningSql False i, RunSql res dbs i] @ (case ac of None \<Rightarrow> [] | Some a \<Rightarrow> [RunAutocompleteSql a]))
       (u\<lparr> jobs := js @ js' \<rparr>) = Some u' \<Longrightarrow>
     ui_step v tk u u'"

inductive reachable :: "semver \<Rightarrow> string \<Rightarrow> ui \<Rightarrow> bool" for v tk where
  start: "reachable v tk \<lparr> app = initialState gettingStarted, jobs = [] \<rparr>"
| step: "reachable v tk u \<Longrightarrow> ui_step v tk u u' \<Longrightarrow> reachable v tk u'"

section \<open>The invariant\<close>

definition known :: "nat \<Rightarrow> string \<Rightarrow> bool" where
  "known n t \<longleftrightarrow> t = ''Getting started'' \<or> (\<exists>k < n. t = ''Query-'' @ digits k)"

definition tabs_ok :: "nat \<Rightarrow> tab list \<Rightarrow> bool" where
  "tabs_ok n tabs \<longleftrightarrow> (\<exists>ts. tabs = ts @ [plusTab] \<and> ts \<noteq> [] \<and> distinct (map title ts) \<and>
     (\<forall>t \<in> set ts. known n (title t)))"

definition jobs_ok :: "tab list \<Rightarrow> (nat \<times> string) list \<Rightarrow> bool" where
  "jobs_ok tabs js \<longleftrightarrow> distinct (map fst js) \<and>
     (\<forall>(i, n) \<in> set js. Suc i < length tabs \<and> title (tabs ! i) = n \<and> isRunning (tabs ! i))"

definition editor_ok :: "ui \<Rightarrow> bool" where
  "editor_ok u \<longleftrightarrow> tabs_ok (editorTabsCreated (app u)) (editorTabs (app u)) \<and>
     jobs_ok (editorTabs (app u)) (jobs u) \<and>
     Suc (editorSelectedTab (app u)) < length (editorTabs (app u))"

definition core_ok :: "ui \<Rightarrow> bool" where
  "core_ok u \<longleftrightarrow> tabs_ok (editorTabsCreated (app u)) (editorTabs (app u)) \<and> jobs_ok (editorTabs (app u)) (jobs u)"

lemma editor_ok_core: "editor_ok u \<longleftrightarrow> core_ok u \<and> Suc (editorSelectedTab (app u)) < length (editorTabs (app u))"
  by (auto simp: editor_ok_def core_ok_def)

text \<open>Changes that leave the titles, what runs, and the \<open>+\<close> tab.\<close>

definition like :: "tab list \<Rightarrow> tab list \<Rightarrow> bool" where
  "like ts us \<longleftrightarrow> map title us = map title ts \<and> map isRunning us = map isRunning ts \<and>
     (last ts = plusTab \<longrightarrow> last us = plusTab)"

lemma like_refl [simp]: "like ts ts"
  by (simp add: like_def)

lemma like_length: "like ts us \<Longrightarrow> length us = length ts"
  unfolding like_def by (metis length_map)

lemma tabs_ok_like:
  assumes "tabs_ok n ts" "like ts us"
  shows "tabs_ok n us"
proof -
  from assms(1) obtain xs where xs: "ts = xs @ [plusTab]" "xs \<noteq> []" "distinct (map title xs)" "\<forall>t \<in> set xs. known n (title t)"
    by (auto simp: tabs_ok_def)
  have len: "length us = Suc (length xs)" using like_length [OF assms(2)] xs(1) by simp
  then have us: "us = butlast us @ [plusTab]"
    using assms(2) xs(1) by (metis append_butlast_last_id last_snoc length_0_conv like_def nat.distinct(1))
  have "map title (butlast us) = map title xs"
    using assms(2) xs(1) by (metis butlast_snoc like_def map_butlast)
  moreover have "title ` set (butlast us) = title ` set xs" using calculation by (metis list.set_map)
  moreover have "butlast us \<noteq> []" using len xs(2) by (metis length_butlast diff_Suc_1 length_0_conv)
  ultimately show ?thesis
    unfolding tabs_ok_def using us xs(3, 4) by (intro exI [of _ "butlast us"]) (metis image_iff)
qed

lemma jobs_ok_like:
  assumes "jobs_ok ts js" "like ts us"
  shows "jobs_ok us js"
proof -
  have "title (us ! i) = title (ts ! i) \<and> isRunning (us ! i) = isRunning (ts ! i)" if "i < length ts" for i
    using assms(2) that like_length [OF assms(2)] unfolding like_def by (metis nth_map)
  with assms(1) like_length [OF assms(2)] show ?thesis
    unfolding jobs_ok_def by (auto split: prod.splits)
qed

lemma like_forget: "like ts (forgetResults ts)"
  by (cases ts rule: rev_cases) (simp_all add: like_def forgetResults_def plusTab_def comp_def)

lemma like_update:
  assumes "Suc i < length ts" "title (f (ts ! i)) = title (ts ! i)" "isRunning (f (ts ! i)) = isRunning (ts ! i)"
  shows "like ts (ts[i := f (ts ! i)])"
proof -
  have "last (ts[i := f (ts ! i)]) = last ts"
    using assms(1) by (cases "ts = []") (simp_all add: last_conv_nth)
  moreover have "map title (ts[i := f (ts ! i)]) = map title ts" "map isRunning (ts[i := f (ts ! i)]) = map isRunning ts"
    using assms by (simp_all add: map_update list_update_same_conv)
  ultimately show ?thesis by (simp add: like_def)
qed

lemma fresh_title: "\<not> known n (''Query-'' @ digits n)"
  by (auto simp: known_def dest: digits_inj)

lemma known_Suc: "known n t \<Longrightarrow> known (Suc n) t"
  by (auto simp: known_def less_Suc_eq)

lemma tabs_ok_insert:
  assumes "tabs_ok (editorTabsCreated s) (editorTabs s)"
  shows "tabs_ok (editorTabsCreated (insertTab body s)) (editorTabs (insertTab body s))"
proof -
  from assms obtain ts where ts: "editorTabs s = ts @ [plusTab]" "ts \<noteq> []" "distinct (map title ts)"
    "\<forall>t \<in> set ts. known (editorTabsCreated s) (title t)" by (auto simp: tabs_ok_def)
  then have "''Query-'' @ digits (editorTabsCreated s) \<notin> title ` set ts"
    using ts(4) fresh_title [of "editorTabsCreated s"] by (metis imageE)
  with ts show ?thesis
    by (auto simp: tabs_ok_def insertTab_def Let_def known_Suc) (auto simp: known_def)
qed

lemma insertTab_nth:
  assumes "Suc i < length (editorTabs s)"
  shows "editorTabs (insertTab body s) ! i = editorTabs s ! i"
  using assms by (cases "editorTabs s" rule: rev_cases) (auto simp: insertTab_def Let_def nth_append)

lemma insertTab_length [simp]:
  "editorTabs s \<noteq> [] \<Longrightarrow> length (editorTabs (insertTab body s)) = Suc (length (editorTabs s))"
  by (cases "editorTabs s" rule: rev_cases) (auto simp: insertTab_def Let_def)

lemma insertTab_fresh:
  "editorTabs s \<noteq> [] \<Longrightarrow> \<not> isRunning (editorTabs (insertTab body s) ! (length (editorTabs s) - 1))"
  by (cases "editorTabs s" rule: rev_cases) (auto simp: insertTab_def Let_def nth_append)

lemma insertTab_selected [simp]: "editorSelectedTab (insertTab body s) = editorSelectedTab s"
  by (simp add: insertTab_def Let_def)

lemma jobs_ok_insert:
  assumes "jobs_ok (editorTabs s) js"
  shows "jobs_ok (editorTabs (insertTab body s)) js"
proof (cases "editorTabs s = []")
  case True
  with assms have "js = []" by (cases js) (auto simp: jobs_ok_def)
  then show ?thesis by (simp add: jobs_ok_def)
next
  case False
  with assms show ?thesis by (auto simp: jobs_ok_def insertTab_nth)
qed

lemma tabs_ok_remove:
  assumes ok: "tabs_ok n ts" and i: "i < length ts" "closable (ts ! i)" and len: "length ts > 2"
  shows "tabs_ok n (removeAt i ts)"
proof -
  from ok obtain xs where xs: "ts = xs @ [plusTab]" "distinct (map title xs)" "\<forall>t \<in> set xs. known n (title t)"
    by (auto simp: tabs_ok_def)
  with i have i': "i < length xs" by (cases "i = length xs") (auto simp: plusTab_def)
  have "removeAt i ts = (take i xs @ drop (Suc i) xs) @ [plusTab]" using xs(1) i' by (simp add: removeAt_def)
  moreover have "take i xs @ drop (Suc i) xs \<noteq> []" using len xs(1) i' by auto
  moreover have "distinct (map title (take i xs @ drop (Suc i) xs))"
  proof -
    have "map title xs = map title (take i xs) @ title (xs ! i) # map title (drop (Suc i) xs)"
      using arg_cong [OF id_take_nth_drop [OF i'], of "map title"] by (simp only: map_append list.map)
    with xs(2) show ?thesis by (simp only: map_append) auto
  qed
  ultimately show ?thesis
    unfolding tabs_ok_def using xs(3) by (intro exI [of _ "take i xs @ drop (Suc i) xs"]) (auto dest: in_set_takeD in_set_dropD)
qed

lemma jobs_ok_none_running: "jobs_ok (editorTabs s) js \<Longrightarrow> \<not> anyRunning s \<Longrightarrow> js = []"
  by (cases js) (auto simp: jobs_ok_def anyRunning_def list_ex_iff dest: nth_mem)

lemma removeAt_length [simp]: "i < length xs \<Longrightarrow> length (removeAt i xs) = length xs - 1"
  by (simp add: removeAt_def)

lemma set_removeAt: "set (removeAt i xs) \<subseteq> set xs"
  by (auto simp: removeAt_def dest: in_set_takeD in_set_dropD)

section \<open>Steps keep the invariant\<close>

lemma elsewhere_cases:
  assumes "elsewhere e" "reducer v s e = Some s'" "Suc (editorSelectedTab s) < length (editorTabs s)"
  shows "editorSelectedTab s' = editorSelectedTab s \<and>
    ((like (editorTabs s) (editorTabs s') \<and> editorTabsCreated s' = editorTabsCreated s) \<or>
     (\<exists>body. editorTabs s' = editorTabs (insertTab body s) \<and> editorTabsCreated s' = editorTabsCreated (insertTab body s)))"
proof (cases e)
  case (SelectDb db)
  with assms show ?thesis by (cases db) (auto simp: like_forget)
next
  case (EditContent c)
  with assms have "editorTabs s' = (editorTabs s)[editorSelectedTab s := (editorTabs s ! editorSelectedTab s)\<lparr> content := c \<rparr>]"
    by (auto simp: updateTab_def)
  with EditContent assms show ?thesis
    by (auto simp: updateTab_def intro!: like_update [where f = "\<lambda>t. t\<lparr> content := c \<rparr>"] split: if_splits)
qed (use assms in \<open>auto simp: like_forget loadAutocomplete_def insertTab_selected split: if_splits\<close>)

text \<open>What an event may do before the effect: the core holds, and a new last tab does not run.\<close>

definition settles :: "nat \<Rightarrow> ui \<Rightarrow> bool" where
  "settles before u \<longleftrightarrow> core_ok u \<and>
     (if length (editorTabs (app u)) = before then Suc (editorSelectedTab (app u)) < length (editorTabs (app u))
      else \<not> isRunning (editorTabs (app u) ! (length (editorTabs (app u)) - 2)))"

lemma tabs_ok_length: "tabs_ok n ts \<Longrightarrow> 2 \<le> length ts"
  by (auto simp: tabs_ok_def Suc_le_eq)

lemma selection_cases:
  "selection tk i s = ([EditorSelectTab i], []) \<or>
   (\<exists>body db. selection tk i s = ([RunningSql True i, EditorSelectTab i], [Running body db i]))"
  by (auto simp: selection_def selectTab_def startRun_def dispatch_def spawn_def andThen_apply hasToken_def tokenText_def
      Let_def split: option.split)

lemma jobs_ok_start:
  assumes ok: "jobs_ok ts js" and i: "Suc i < length ts" "\<not> isRunning (ts ! i)"
  shows "jobs_ok (ts[i := (ts ! i)\<lparr> isRunning := True \<rparr>]) (js @ [(i, title (ts ! i))])"
proof -
  have "i \<notin> fst ` set js" using ok i(2) by (auto simp: jobs_ok_def)
  with ok i show ?thesis by (auto simp: jobs_ok_def nth_list_update)
qed

lemma tabs_ok_running:
  assumes ok: "tabs_ok n ts" and i: "Suc i < length ts"
  shows "tabs_ok n (ts[i := (ts ! i)\<lparr> isRunning := b \<rparr>])"
proof -
  from ok obtain xs where xs: "ts = xs @ [plusTab]" "xs \<noteq> []" "distinct (map title xs)" "\<forall>t \<in> set xs. known n (title t)"
    by (auto simp: tabs_ok_def)
  with i have i': "i < length xs" by simp
  let ?ys = "xs[i := (xs ! i)\<lparr> isRunning := b \<rparr>]"
  have "map title ?ys = map title xs" using i' by (simp add: map_update list_update_same_conv)
  moreover have "title ` set ?ys = title ` set xs" using calculation by (metis list.set_map)
  moreover have "ts[i := (ts ! i)\<lparr> isRunning := b \<rparr>] = ?ys @ [plusTab]"
    using xs(1) i' by (simp add: nth_append list_update_append1)
  moreover have "?ys \<noteq> []" using xs(2) by simp
  ultimately show ?thesis
    unfolding tabs_ok_def using xs(3, 4) by (intro exI [of _ ?ys]) (metis image_iff)
qed

lemma settle_ok:
  assumes pre: "settles before u" and run: "settle v tk before u = Some u'"
  shows "editor_ok u'"
proof (cases "length (editorTabs (app u)) = before")
  case True
  with pre run show ?thesis by (simp add: settle_def settles_def editor_ok_core)
next
  case False
  let ?s = "app u" and ?i = "length (editorTabs (app u)) - 2"
  have core: "tabs_ok (editorTabsCreated ?s) (editorTabs ?s)" "jobs_ok (editorTabs ?s) (jobs u)"
    and idle: "\<not> isRunning (editorTabs ?s ! ?i)"
    using pre False by (simp_all add: settles_def core_ok_def)
  have i: "Suc ?i < length (editorTabs ?s)" using tabs_ok_length [OF core(1)] by linarith
  consider "selection tk ?i ?s = ([EditorSelectTab ?i], [])"
    | body db where "selection tk ?i ?s = ([RunningSql True ?i, EditorSelectTab ?i], [Running body db ?i])"
    using selection_cases by blast
  then show ?thesis
  proof cases
    case 1
    with False run have "u' = \<lparr> app = ?s\<lparr> editorSelectedTab := ?i \<rparr>, jobs = jobs u \<rparr>"
      by (auto simp: settle_def)
    with core i show ?thesis by (simp add: editor_ok_def)
  next
    case 2
    with False run i have "u' = \<lparr> app = ?s\<lparr> editorTabs := (editorTabs ?s)[?i := (editorTabs ?s ! ?i)\<lparr> isRunning := True \<rparr>],
        editorSelectedTab := ?i \<rparr>, jobs = jobs u @ [(?i, title (editorTabs ?s ! ?i))] \<rparr>"
      by (auto simp: settle_def updateTab_def titleAt_def)
    with jobs_ok_start [OF core(2) i idle] tabs_ok_running [OF core(1) i] i show ?thesis
      by (simp add: editor_ok_def)
  qed
qed

lemma afterEvents_ok:
  assumes "afterEvents v tk es u = Some u'"
    and "\<And>s. runEvents v (app u) es = Some s \<Longrightarrow> settles (length (editorTabs (app u))) (u\<lparr> app := s \<rparr>)"
  shows "editor_ok u'"
  using assms settle_ok by (auto simp: afterEvents_def bind_eq_Some_conv)

lemma insert_settles:
  assumes ok: "editor_ok u" and tabs: "editorTabs s = editorTabs (insertTab body (app u))"
    and n: "editorTabsCreated s = editorTabsCreated (insertTab body (app u))"
  shows "settles (length (editorTabs (app u))) (u\<lparr> app := s \<rparr>)"
proof -
  have "editorTabs (app u) \<noteq> []" using ok by (auto simp: editor_ok_def)
  with ok tabs n show ?thesis
    using insertTab_fresh [of "app u" body]
    by (simp add: settles_def core_ok_def editor_ok_def tabs_ok_insert jobs_ok_insert)
qed

lemma like_settles:
  assumes "editor_ok u" "like (editorTabs (app u)) (editorTabs s)" "editorTabsCreated s = editorTabsCreated (app u)"
    "Suc (editorSelectedTab s) < length (editorTabs s)"
  shows "settles (length (editorTabs (app u))) (u\<lparr> app := s \<rparr>)"
  using assms like_length [OF assms(2)]
  by (auto simp: settles_def core_ok_def editor_ok_def intro: tabs_ok_like jobs_ok_like)

lemma jobs_okD: "jobs_ok ts js \<Longrightarrow> (i, n) \<in> set js \<Longrightarrow> Suc i < length ts \<and> title (ts ! i) = n \<and> isRunning (ts ! i)"
  by (auto simp: jobs_ok_def)

lemma jobs_ok_finish:
  assumes "jobs_ok ts (js @ (i, n) # js')"
  shows "jobs_ok (ts[i := (ts ! i)\<lparr> isRunning := False \<rparr>]) (js @ js')"
proof -
  have "distinct (map fst (js @ (i, n) # js'))" using assms by (simp only: jobs_ok_def)
  then have other: "i \<notin> fst ` set (js @ js')" and d: "distinct (map fst (js @ js'))" by auto
  have "Suc j < length ts \<and> title (ts[i := (ts ! i)\<lparr> isRunning := False \<rparr>] ! j) = m \<and>
      isRunning (ts[i := (ts ! i)\<lparr> isRunning := False \<rparr>] ! j)" if m: "(j, m) \<in> set (js @ js')" for j m
  proof -
    have "j \<noteq> i" using other m by (metis fst_conv image_eqI)
    moreover have "(j, m) \<in> set (js @ (i, n) # js')" using m by auto
    ultimately show ?thesis using jobs_okD [OF assms] by simp
  qed
  with d show ?thesis by (simp only: jobs_ok_def length_list_update split_beta) auto
qed

lemma ui_step_ok:
  assumes "ui_step v tk u u'" "editor_ok u"
  shows "editor_ok u'"
  using assms
proof cases
  case (click i)
  show ?thesis
  proof (rule afterEvents_ok [OF click(2)])
    fix s assume run: "runEvents v (app u) (clickEvents i (app u)) = Some s"
    show "settles (length (editorTabs (app u))) (u\<lparr> app := s \<rparr>)"
    proof (cases "i = length (editorTabs (app u)) - 1")
      case True
      with run have "s = (insertTab [] (app u))\<lparr> editorSelectedTab := i - 1 \<rparr>" by (simp add: clickEvents_def)
      with assms(2) show ?thesis by (intro insert_settles [where body = "[]"]) simp_all
    next
      case False
      with run have "s = (app u)\<lparr> editorSelectedTab := i \<rparr>" by (simp add: clickEvents_def)
      with False click(1) assms(2) show ?thesis by (intro like_settles) simp_all
    qed
  qed
next
  case (close i)
  show ?thesis
  proof (rule afterEvents_ok [OF close(2)])
    fix s assume "runEvents v (app u) [EditorCloseTab i] = Some s"
    then have s: "s = (app u)\<lparr> editorTabs := removeAt i (editorTabs (app u)) \<rparr>" by simp
    have i: "i < length (editorTabs (app u))" "closable (editorTabs (app u) ! i)" "length (editorTabs (app u)) > 2"
      and idle: "\<not> anyRunning (app u)" using close(1) by (simp_all add: mayClose_def)
    have "jobs_ok (editorTabs (app u)) (jobs u)" using assms(2) by (simp add: editor_ok_def)
    then have "jobs u = []" using idle by (rule jobs_ok_none_running)
    moreover have "\<not> isRunning (removeAt i (editorTabs (app u)) ! (length (removeAt i (editorTabs (app u))) - 2))"
    proof -
      let ?r = "removeAt i (editorTabs (app u))"
      have none: "\<forall>t \<in> set (editorTabs (app u)). \<not> isRunning t" using idle by (simp add: anyRunning_def list_ex_iff)
      have "0 < length ?r" using i(1, 3) by (simp only: removeAt_length)
      then have "length ?r - 2 < length ?r" by (rule diff_less [rotated]) simp
      then have "?r ! (length ?r - 2) \<in> set (editorTabs (app u))" by (rule subsetD [OF set_removeAt nth_mem])
      with none show ?thesis by (rule bspec)
    qed
    moreover have "tabs_ok (editorTabsCreated (app u)) (removeAt i (editorTabs (app u)))"
      using assms(2) by (intro tabs_ok_remove [OF _ i]) (simp add: editor_ok_def)
    moreover have "length (removeAt i (editorTabs (app u))) \<noteq> length (editorTabs (app u))" using i by simp
    moreover have "jobs_ok ts []" for ts by (simp add: jobs_ok_def)
    ultimately show "settles (length (editorTabs (app u))) (u\<lparr> app := s \<rparr>)"
      unfolding settles_def core_ok_def s by (simp del: removeAt_length)
  qed
next
  case (other e)
  show ?thesis
  proof (rule afterEvents_ok [OF other(2)])
    fix s assume "runEvents v (app u) [e] = Some s"
    then have "reducer v (app u) e = Some s" by (simp add: bind_eq_Some_conv)
    from elsewhere_cases [OF other(1) this] assms(2)
    consider "editorSelectedTab s = editorSelectedTab (app u)" "like (editorTabs (app u)) (editorTabs s)" "editorTabsCreated s = editorTabsCreated (app u)"
      | body where "editorTabs s = editorTabs (insertTab body (app u))" "editorTabsCreated s = editorTabsCreated (insertTab body (app u))"
      by (auto simp: editor_ok_def)
    then show "settles (length (editorTabs (app u))) (u\<lparr> app := s \<rparr>)"
    proof cases
      case 1
      with assms(2) like_length [OF 1(2)] show ?thesis by (intro like_settles) (simp_all add: editor_ok_def)
    next
      case 2
      with assms(2) show ?thesis by (intro insert_settles)
    qed
  qed
next
  case (run body)
  let ?i = "editorSelectedTab (app u)" and ?ts = "editorTabs (app u)"
  have i: "Suc ?i < length ?ts" using assms(2) by (simp add: editor_ok_def)
  show ?thesis
  proof (rule afterEvents_ok [OF run(2)])
    fix s assume "runEvents v (app (u\<lparr> jobs := jobs u @ [(?i, titleAt (app u) ?i)] \<rparr>)) [RunningSql True ?i] = Some s"
    then have s: "s = (app u)\<lparr> editorTabs := ?ts[?i := (?ts ! ?i)\<lparr> isRunning := True \<rparr>] \<rparr>"
      using i by (simp add: updateTab_def)
    have idle: "\<not> isRunning (?ts ! ?i)" using run(1) by (simp add: mayRun_def)
    from s i assms(2) jobs_ok_start [OF _ i idle] tabs_ok_running [OF _ i]
    show "settles (length (editorTabs (app (u\<lparr> jobs := jobs u @ [(?i, titleAt (app u) ?i)] \<rparr>))))
        ((u\<lparr> jobs := jobs u @ [(?i, titleAt (app u) ?i)] \<rparr>)\<lparr> app := s \<rparr>)"
      by (simp add: settles_def core_ok_def editor_ok_def titleAt_def)
  qed
next
  case (finish js i n js' res dbs ac)
  let ?ts = "editorTabs (app u)"
  have ok: "jobs_ok ?ts (js @ (i, n) # js')" "tabs_ok (editorTabsCreated (app u)) ?ts"
    using assms(2) finish(1) by (simp_all add: editor_ok_def)
  then have i: "Suc i < length ?ts" by (simp add: jobs_ok_def)
  show ?thesis
  proof (rule afterEvents_ok [OF finish(2)])
    fix s assume r: "runEvents v (app (u\<lparr> jobs := js @ js' \<rparr>))
      ([RunningSql False i, RunSql res dbs i] @ (case ac of None \<Rightarrow> [] | Some a \<Rightarrow> [RunAutocompleteSql a])) = Some s"
    let ?us = "?ts[i := (?ts ! i)\<lparr> isRunning := False \<rparr>]"
    have tabs: "editorTabs s = ?us[i := (?us ! i)\<lparr> queryRes := res \<rparr>] \<and> editorTabsCreated s = editorTabsCreated (app u) \<and>
        editorSelectedTab s = editorSelectedTab (app u)"
      using r i by (auto simp: updateTab_def bind_eq_Some_conv loadAutocomplete_def split: option.splits if_splits)
    have l: "like ?us (?us[i := (?us ! i)\<lparr> queryRes := res \<rparr>])"
      using i by (intro like_update [where f = "\<lambda>t. t\<lparr> queryRes := res \<rparr>"]) simp_all
    have "tabs_ok (editorTabsCreated s) (editorTabs s)" "jobs_ok (editorTabs s) (js @ js')"
      using tabs tabs_ok_like [OF tabs_ok_running [OF ok(2) i] l] jobs_ok_like [OF jobs_ok_finish [OF ok(1)] l] by simp_all
    with tabs assms(2) show "settles (length (editorTabs (app (u\<lparr> jobs := js @ js' \<rparr>)))) ((u\<lparr> jobs := js @ js' \<rparr>)\<lparr> app := s \<rparr>)"
      by (simp add: settles_def core_ok_def editor_ok_def)
  qed
qed

section \<open>Claims\<close>

lemma reachable_ok: "reachable v tk u \<Longrightarrow> editor_ok u"
proof (induction rule: reachable.induct)
  case (start gettingStarted)
  show ?case
    by (auto simp: editor_ok_def tabs_ok_def jobs_ok_def known_def initialState_def
        intro!: exI [of _ "[\<lparr> title = ''Getting started'', content = gettingStarted, queryRes = JUndef, closable = True, isRunning = False \<rparr>]"])
next
  case (step u u')
  then show ?case by (blast intro: ui_step_ok)
qed

text \<open>
  C27. Whatever the user does and however queries interleave: the \<open>+\<close> tab stays last and is never selected,
  there is a tab beside it, titles are distinct (they are the keys of the rendered list), and every
  running query has a tab of its own that shows it runs.
\<close>

theorem editor_invariant:
  assumes "reachable v tk u"
  shows "\<exists>ts. editorTabs (app u) = ts @ [plusTab] \<and> editorSelectedTab (app u) < length ts \<and>
    distinct (map title (ts @ [plusTab])) \<and> distinct (map fst (jobs u)) \<and>
    (\<forall>(i, n) \<in> set (jobs u). i < length ts \<and> title (ts ! i) = n \<and> isRunning (ts ! i))"
proof -
  have ok: "editor_ok u" using assms by (rule reachable_ok)
  then obtain ts where ts: "editorTabs (app u) = ts @ [plusTab]" "distinct (map title ts)"
      "\<forall>t \<in> set ts. known (editorTabsCreated (app u)) (title t)"
    by (auto simp: editor_ok_def tabs_ok_def)
  have jobs: "jobs_ok (ts @ [plusTab]) (jobs u)" "editorSelectedTab (app u) < length ts"
    using ok ts(1) by (simp_all add: editor_ok_def)
  have "title plusTab \<notin> title ` set ts" using ts(3) by (auto simp: plusTab_def known_def)
  moreover have "i < length ts \<and> title (ts ! i) = n \<and> isRunning (ts ! i)" if "(i, n) \<in> set (jobs u)" for i n
    using jobs_okD [OF jobs(1) that] by (auto simp: nth_append)
  moreover have "distinct (map fst (jobs u))" using jobs(1) by (simp add: jobs_ok_def)
  ultimately show ?thesis
    using ts(1, 2) jobs(2) by (intro exI [of _ ts]) auto
qed

lemma plus_not_known: "\<not> known n ''+''"
  by (simp add: known_def)

lemma tabs_ok_distinct: "tabs_ok n ts \<Longrightarrow> distinct (map title ts)"
  by (auto simp: tabs_ok_def plusTab_def) (metis plus_not_known)

lemma update_by_title:
  assumes "distinct (map title ts)" "i < length ts"
  shows "ts[i := f (ts ! i)] = map (\<lambda>t. if title t = title (ts ! i) then f t else t) ts"
proof (rule nth_equalityI)
  fix j assume j: "j < length (ts[i := f (ts ! i)])"
  have "title (ts ! j) = title (ts ! i) \<longleftrightarrow> j = i"
    using assms j nth_eq_iff_index_eq [OF assms(1)] by simp
  with j assms(2) show "ts[i := f (ts ! i)] ! j = map (\<lambda>t. if title t = title (ts ! i) then f t else t) ts ! j"
    by simp
qed simp

text \<open>
  C10. The store, which addresses tabs by position, implements one that addresses them by title: when a query
  ends, its result is shown in exactly the tab that had the same title when the query was started,
  whatever was opened, closed and selected meanwhile.
\<close>

theorem result_reaches_its_tab:
  assumes "reachable v tk u" and "(i, n) \<in> set (jobs u)"
  shows "\<exists>s. runEvents v (app u) [RunningSql False i, RunSql res None i] = Some s \<and>
    editorTabs s = map (\<lambda>t. if title t = n then t\<lparr> isRunning := False, queryRes := res \<rparr> else t) (editorTabs (app u)) \<and>
    n \<in> title ` set (editorTabs (app u))"
proof -
  let ?ts = "editorTabs (app u)"
  have ok: "tabs_ok (editorTabsCreated (app u)) ?ts" "jobs_ok ?ts (jobs u)"
    using reachable_ok [OF assms(1)] by (simp_all add: editor_ok_def)
  from jobs_okD [OF ok(2) assms(2)] have i: "i < length ?ts" "title (?ts ! i) = n" by simp_all
  let ?f = "\<lambda>t. t\<lparr> isRunning := False, queryRes := res \<rparr>"
  have "\<exists>s. runEvents v (app u) [RunningSql False i, RunSql res None i] = Some s \<and>
      editorTabs s = ?ts[i := ?f (?ts ! i)]"
    using i by (simp add: updateTab_def)
  moreover have "?ts[i := ?f (?ts ! i)] = map (\<lambda>t. if title t = n then ?f t else t) ?ts"
    using update_by_title [OF tabs_ok_distinct [OF ok(1)] i(1), of ?f] i(2) by simp
  moreover have "n \<in> title ` set ?ts" using i by (metis image_eqI nth_mem)
  ultimately show ?thesis by auto
qed

section \<open>Examples\<close>

definition demoVersions :: semver where
  "demoVersions = \<lparr> valid = (\<lambda>v. v \<noteq> ''Unknown''), lessThan = (\<lambda>_ _. Some False) \<rparr>"

definition oldDb :: dbase where
  "oldDb = \<lparr> dbName = ''old'', dbVersion = ''Unknown'', isUnsupported = False \<rparr>"

definition firstTab :: tab where
  "firstTab = \<lparr> title = ''Getting started'', content = ''x'', queryRes = JUndef, closable = True, isRunning = False \<rparr>"

definition secondTab :: tab where
  "secondTab = \<lparr> title = ''Query-1'', content = installContent ''install'' ''m'', queryRes = JUndef, closable = True,
     isRunning = False \<rparr>"

definition ui0 :: ui where "ui0 = \<lparr> app = initialState ''x'', jobs = [] \<rparr>"

definition ui1 :: ui where
  "ui1 = ui0\<lparr> app := (initialState ''x'')\<lparr> selectedDb := Some (oldDb\<lparr> isUnsupported := True \<rparr>) \<rparr> \<rparr>"

definition ui2 :: ui where
  "ui2 = ui1\<lparr> app := (app ui1)\<lparr> editorTabs := [firstTab, secondTab, plusTab], editorTabsCreated := 2, forceRun := True,
     editorSelectedTab := 1 \<rparr> \<rparr>"

definition ui3 :: ui where
  "ui3 = ui2\<lparr> app := (app ui2)\<lparr> selectedDb := Some demoDb \<rparr> \<rparr>"

definition ui4 :: ui where
  "ui4 = \<lparr> app = (app ui3)\<lparr> editorTabs := [firstTab\<lparr> isRunning := True \<rparr>, plusTab], editorSelectedTab := 0 \<rparr>,
     jobs = [(0, ''Getting started'')] \<rparr>"

lemma digits_1: "digits 1 = ''1''"
  by code_simp

lemmas demo_simps = ui0_def ui1_def ui2_def ui3_def ui4_def initialState_def firstTab_def secondTab_def plusTab_def oldDb_def
  demoDb_def demoVersions_def

lemma demo_step1: "ui_step demoVersions ''t'' ui0 ui1"
  by (rule ui_step.other [where e = "SelectDb (Some oldDb)"])
    (simp_all add: afterEvents_def settle_def supportOf_def forgetResults_def demo_simps)

lemma demo_step2: "ui_step demoVersions ''t'' ui1 ui2"
  by (rule ui_step.other [where e = "InstallModule ''m''"])
    (simp_all add: afterEvents_def settle_def insertTab_def selection_def selectTab_def startRun_def hasToken_def tokenText_def
      dispatch_def installContent_def digits_1 [simplified] Let_def demo_simps)

lemma demo_step3: "ui_step demoVersions ''t'' ui2 ui3"
  by (rule ui_step.other [where e = "SelectDb (Some demoDb)"])
    (simp_all add: afterEvents_def settle_def supportOf_def forgetResults_def demo_simps)

lemma demo_step4: "ui_step demoVersions ''t'' ui3 ui4"
  by (rule ui_step.close [where i = 1])
    (simp_all add: afterEvents_def settle_def mayClose_def anyRunning_def removeAt_def selection_def selectTab_def startRun_def
      hasToken_def tokenText_def dispatch_def spawn_def updateTab_def titleAt_def andThen_apply Let_def demo_simps)

lemma demo_reachable: "reachable demoVersions ''t'' ui3" "reachable demoVersions ''t'' ui4"
proof -
  have "reachable demoVersions ''t'' ui0" unfolding ui0_def by (rule reachable.start)
  then show "reachable demoVersions ''t'' ui3" by (metis reachable.step demo_step1 demo_step2 demo_step3)
  then show "reachable demoVersions ''t'' ui4" using demo_step4 by (rule reachable.step)
qed

text \<open>
  Closing a tab can run a query nobody asked for: a module that is installed while an unsupported
  database is selected leaves \<open>forceRun\<close> set, and after a supported one was selected, closing a tab
  starts the content of the tab that is selected next.
\<close>

theorem closing_runs_a_query:
  "\<exists>v tk u i u'. reachable v tk u \<and> jobs u = [] \<and> mayClose i (app u) \<and>
     afterEvents v tk [EditorCloseTab i] u = Some u' \<and> jobs u' = [(0, ''Getting started'')]"
proof (intro exI conjI)
  show "reachable demoVersions ''t'' ui3" by (rule demo_reachable)
  show "afterEvents demoVersions ''t'' [EditorCloseTab 1] ui3 = Some ui4"
    by (simp add: afterEvents_def settle_def removeAt_def selection_def selectTab_def startRun_def
      hasToken_def tokenText_def dispatch_def spawn_def updateTab_def titleAt_def andThen_apply Let_def demo_simps)
qed (simp_all add: mayClose_def anyRunning_def demo_simps)

lemma editor_invariant_witness:
  "\<exists>ts. editorTabs (app ui4) = ts @ [plusTab] \<and> editorSelectedTab (app ui4) < length ts \<and>
    distinct (map title (ts @ [plusTab])) \<and> distinct (map fst (jobs ui4)) \<and>
    (\<forall>(i, n) \<in> set (jobs ui4). i < length ts \<and> title (ts ! i) = n \<and> isRunning (ts ! i))"
  by (rule editor_invariant [OF demo_reachable(2)])

lemma result_reaches_its_tab_witness:
  "\<exists>s. runEvents demoVersions (app ui4) [RunningSql False 0, RunSql (JStr ''ok'') None 0] = Some s \<and>
    editorTabs s = map (\<lambda>t. if title t = ''Getting started'' then t\<lparr> isRunning := False, queryRes := JStr ''ok'' \<rparr> else t)
      (editorTabs (app ui4)) \<and>
    ''Getting started'' \<in> title ` set (editorTabs (app ui4))"
  by (rule result_reaches_its_tab [OF demo_reachable(2)]) (simp add: ui4_def)

end
