(* ===== verification/Upgrade.thy ===== *)
theory Upgrade
  imports Connect Js_Value
begin

text \<open>
  Upgrading the databases of an earlier engine: \<open>upgrade\<close> in \<open>src/src/services/iasql.ts\<close>.

  The server keeps each database as \<open>OLD<name>\<close>.  Part 2 reads it, creates \<open>NEW<name>\<close> and copies the
  audit log; it runs for one database after the other (\<open>prepareDb\<close>).  Part 3 needs the engine, so a
  timer of its own per database polls for it (\<open>tick\<close>) and then restores the modules and swaps the
  databases.  What part 3 captures from part 2 is a \<open>job\<close>.  Parameters beside those of \<open>connect\<close>: the
  queries that read the old database, statements with arguments, and the health check.
\<close>

record creds =
  accessKeyId :: string
  secretAccessKey :: string
  sessionToken :: jsval

record 'w upgrade_env =
  conn_env :: "'w connect_env"
  auditLines :: "conn \<Rightarrow> ('w, jsval list option) dbop"
  modulesOf :: "conn \<Rightarrow> ('w, string list) dbop"
  credsOf :: "conn \<Rightarrow> ('w, creds option) dbop"
  enabledRegions :: "conn \<Rightarrow> ('w, string list) dbop"
  defaultRegion :: "conn \<Rightarrow> ('w, string option) dbop"
  dbNamed :: "conn \<Rightarrow> string \<Rightarrow> ('w, string option) dbop"      \<comment> \<open>\<open>datname\<close> in \<open>pg_database\<close>\<close>
  execPg :: "conn \<Rightarrow> string \<Rightarrow> jsval list \<Rightarrow> ('w, unit) dbop"
  health :: "('w, string) dbop"

text \<open>What the timer of a database closes over, with its two variables.\<close>

record job =
  jobDb :: database
  jobUser :: iasql_user
  jobModules :: "string list"
  jobCreds :: "creds option"
  jobRegions :: "string list"
  jobDefault :: string
  newConn :: conn

record timer =
  upgradeRunning :: bool
  cleared :: bool

definition oldName :: "database \<Rightarrow> string" where "oldName db = ''OLD'' @ pgName db"
definition newName :: "database \<Rightarrow> string" where "newName db = ''NEW'' @ pgName db"

section \<open>Part 2\<close>

definition logColumns :: "string list" where
  "logColumns = [''ts'', ''user'', ''table_name'', ''change_type'', ''change'', ''message'']"

definition insertLogSql :: string where
  "insertLogSql = ''INSERT INTO iasql_audit_log (ts, '' @ [CHR 0x22] @ ''user'' @ [CHR 0x22] @
     '', table_name, change_type, change, message) VALUES ($1, $2, $3, $4, $5, $6);''"

definition copyLog :: "'w upgrade_env \<Rightarrow> conn \<Rightarrow> jsval list \<Rightarrow> ('w, unit) dbop" where
  "copyLog v c ls =
     tryCatch (eachM (\<lambda>l. execPg v c insertLogSql (map (getProp l) logColumns)) ls) (\<lambda>_. ret ())"

text \<open>The account of a database: credentials, enabled regions and default region.\<close>

definition accountOf :: "'w upgrade_env \<Rightarrow> conn \<Rightarrow> string list \<Rightarrow> ('w, creds option \<times> string list \<times> string) dbop" where
  "accountOf v c mods =
     (if ''aws_account'' \<in> set mods
      then andThen (credsOf v c) (\<lambda>cr. andThen (enabledRegions v c) (\<lambda>rs. andThen (defaultRegion v c) (\<lambda>d.
        ret (cr, rs, case d of None \<Rightarrow> ''us-east-1'' | Some x \<Rightarrow> x))))
      else ret (None, [], []))"

text \<open>A database left by an upgrade that failed is dropped.\<close>

definition dropLeftover :: "'w upgrade_env \<Rightarrow> conn \<Rightarrow> database \<Rightarrow> ('w, unit) dbop" where
  "dropLeftover v c db = andThen (dbNamed v c (newName db)) (\<lambda>d.
     if d \<noteq> None \<and> d \<noteq> Some [] then runPg (conn_env v) c (fmt (conn_env v) ''DROP DATABASE %I'' [newName db]) else ret ())"

definition readOld :: "'w upgrade_env \<Rightarrow> database \<Rightarrow> ('w, jsval list \<times> string list \<times> creds option \<times> string list \<times> string) dbop" where
  "readOld v db =
     andThen (openPg (conn_env v) (oldName db)) (\<lambda>c.
     andThen (auditLines v c) (\<lambda>ls.
     andThen (modulesOf v c) (\<lambda>mods.
     andThen (accountOf v c mods) (\<lambda>(cr, rs, d).
     andThen (dropLeftover v c db) (\<lambda>_.
     andThen (closePg (conn_env v) c) (\<lambda>_.
     ret (case ls of None \<Rightarrow> [] | Some x \<Rightarrow> x, mods, cr, rs, d)))))))"

definition prepareDb :: "'w upgrade_env \<Rightarrow> database \<Rightarrow> ('w, job option) dbop" where
  "prepareDb v db =
     andThen (getUserFromDbId (metaRepo (conn_env v)) (pgName db)) (\<lambda>user.
       case user of None \<Rightarrow> ret None
       | Some u \<Rightarrow>
           andThen (readOld v db) (\<lambda>(ls, mods, cr, rs, d).
           andThen (connectDb (conn_env v) (''NEW'' @ aliasOf db) (userId u) (email u) (newName db) (Some (pgUser db, None))) (\<lambda>_.
           andThen (openPg (conn_env v) (newName db)) (\<lambda>c.
           andThen (copyLog v c ls) (\<lambda>_.
           ret (Some \<lparr> jobDb = db, jobUser = u, jobModules = mods, jobCreds = cr, jobRegions = rs, jobDefault = d, newConn = c \<rparr>))))))"

text \<open>The timers that were set when \<open>upgrade\<close> ends, and whether it threw.\<close>

fun prepareAll :: "'w upgrade_env \<Rightarrow> database list \<Rightarrow> 'w \<Rightarrow> (js_err thrown + unit) \<times> job list \<times> 'w" where
  "prepareAll v [] w = (Inr (), [], w)"
| "prepareAll v (db # dbs) w =
     (case prepareDb v db w of
        (Inl e, w') \<Rightarrow> (Inl e, [], w')
      | (Inr j, w') \<Rightarrow> (case prepareAll v dbs w' of (r, js, w'') \<Rightarrow> (r, (case j of None \<Rightarrow> js | Some x \<Rightarrow> x # js), w'')))"

definition upgrade :: "'w upgrade_env \<Rightarrow> 'w \<Rightarrow> (js_err thrown + unit) \<times> job list \<times> 'w" where
  "upgrade v w = (case getAllDbs (metaRepo (conn_env v)) w of
     (Inl e, w') \<Rightarrow> (Inl e, [], w') | (Inr dbs, w') \<Rightarrow> prepareAll v dbs w')"

section \<open>Part 3\<close>

definition installSql :: "string \<times> jsval list" where
  "installSql = (''SELECT iasql_install('' @ quote ''aws_account'' @ '');'', [])"

text \<open>The statements that restore a database, in their order.\<close>

definition accountStatements :: "job \<Rightarrow> (string \<times> jsval list) list" where
  "accountStatements j = (case jobCreds j of None \<Rightarrow> []
     | Some c \<Rightarrow> [installSql, (''SELECT iasql_begin();'', []),
         (''INSERT INTO aws_credentials (access_key_id, secret_access_key) VALUES ($1, $2);'',
           [JStr (accessKeyId c), JStr (secretAccessKey c)]),
         (''SELECT iasql_commit();'', [])]
       @ map (\<lambda>r. (''UPDATE aws_regions SET is_enabled = TRUE WHERE region = $1;'', [JStr r])) (jobRegions j)
       @ [(''UPDATE aws_regions SET is_default = TRUE WHERE region = $1;'', [JStr (jobDefault j)])])"

definition moduleStatements :: "job \<Rightarrow> (string \<times> jsval list) list" where
  "moduleStatements j = map (\<lambda>m. (''SELECT iasql_install($1);'', [JStr m])) (jobModules j)"

definition swallowed :: "'w upgrade_env \<Rightarrow> conn \<Rightarrow> string \<times> jsval list \<Rightarrow> ('w, unit) dbop" where
  "swallowed v c q = tryCatch (execPg v c (fst q) (snd q)) (\<lambda>_. ret ())"

definition restoreData :: "'w upgrade_env \<Rightarrow> job \<Rightarrow> ('w, unit) dbop" where
  "restoreData v j = andThen (eachM (swallowed v (newConn j)) (accountStatements j))
     (\<lambda>_. eachM (swallowed v (newConn j)) (moduleStatements j))"

definition swapStatements :: "'w upgrade_env \<Rightarrow> database \<Rightarrow> string list" where
  "swapStatements v db = (let f = fmt (conn_env v) in
     [f ''SELECT pg_terminate_backend( pid ) FROM pg_stat_activity WHERE pid <> pg_backend_pid( ) AND (datname = %L OR datname = %L);''
        [newName db, oldName db],
      f ''ALTER DATABASE %I RENAME TO %I;'' [newName db, pgName db],
      f ''DROP DATABASE %I;'' [oldName db]])"

definition restore :: "'w upgrade_env \<Rightarrow> job \<Rightarrow> ('w, unit) dbop" where
  "restore v j =
     andThen (restoreData v j) (\<lambda>_.
     andThen (closePg (conn_env v) (newConn j)) (\<lambda>_.
     andThen (openPg (conn_env v) ''iasql_metadata'') (\<lambda>c.
     andThen (eachM (runPg (conn_env v) c) (swapStatements v (jobDb j))) (\<lambda>_.
     andThen (saveDb (metaRepo (conn_env v)) (userId (jobUser j)) (email (jobUser j)) (jobDb j)) (\<lambda>_.
     ret ())))))"

text \<open>One call of the timer.  The check of \<open>upgradeRunning\<close> comes after the health check was awaited.\<close>

definition tick :: "'w upgrade_env \<Rightarrow> job \<Rightarrow> ('w \<times> timer, js_err thrown, unit) action" where
  "tick v j = (\<lambda>(w, t).
     if cleared t then (Inr (), w, t)
     else (case health v w of (h, w1) \<Rightarrow>
       if h \<noteq> Inr ''ok'' \<or> upgradeRunning t then (Inr (), w1, t)
       else (case restore v j w1 of
           (Inl e, w2) \<Rightarrow> (Inl e, w2, t\<lparr> upgradeRunning := True \<rparr>)
         | (Inr _, w2) \<Rightarrow> (Inr (), w2, t\<lparr> upgradeRunning := True, cleared := True \<rparr>))))"

fun ticks :: "'w upgrade_env \<Rightarrow> job \<Rightarrow> nat \<Rightarrow> 'w \<times> timer \<Rightarrow> 'w \<times> timer" where
  "ticks v j 0 s = s"
| "ticks v j (Suc n) s = ticks v j n (snd (tick v j s))"

definition freshTimer :: timer where
  "freshTimer = \<lparr> upgradeRunning = False, cleared = False \<rparr>"

section \<open>Claims\<close>

lemma eachM_swallowed:
  "eachM (swallowed v c) qs w = (Inr (), fold (\<lambda>q w. snd (execPg v c (fst q) (snd q) w)) qs w)"
proof (induction qs arbitrary: w)
  case (Cons q qs)
  have "swallowed v c q w = (Inr (), snd (execPg v c (fst q) (snd q) w))"
    by (auto simp: swallowed_def tryCatch_apply split: prod.split sum.split)
  with Cons show ?case by simp
qed simp

text \<open>
  Restoring the data tries everything: whichever statements fail, the credentials, every region and every
  module are attempted, each once and in order, and nothing is thrown.
\<close>

theorem restoreData_attempts_all:
  "restoreData v j w =
     (Inr (), fold (\<lambda>q w. snd (execPg v (newConn j) (fst q) (snd q) w)) (accountStatements j @ moduleStatements j) w)"
  by (simp add: restoreData_def eachM_swallowed)

fun poll :: "'w upgrade_env \<Rightarrow> nat \<Rightarrow> 'w \<Rightarrow> 'w" where
  "poll v 0 w = w"
| "poll v (Suc k) w = poll v k (snd (health v w))"

lemma ticks_cleared: "cleared t \<Longrightarrow> ticks v j n (w, t) = (w, t)"
  by (induction n) (simp_all add: tick_def)

lemma ticks_running: "upgradeRunning t \<Longrightarrow> \<not> cleared t \<Longrightarrow> ticks v j n (w, t) = (poll v n w, t)"
  by (induction n arbitrary: w) (simp_all add: tick_def split_beta)

definition restored :: "'w upgrade_env \<Rightarrow> job \<Rightarrow> nat \<Rightarrow> nat \<Rightarrow> 'w \<Rightarrow> 'w \<times> timer \<Rightarrow> bool" where
  "restored v j k n w s \<longleftrightarrow>
     (case restore v j (poll v (Suc k) w) of
        (Inr _, w2) \<Rightarrow> s = (w2, \<lparr> upgradeRunning = True, cleared = True \<rparr>)
      | (Inl _, w2) \<Rightarrow> s = (poll v (n - Suc k) w2, \<lparr> upgradeRunning = True, cleared = False \<rparr>))"

text \<open>
  A database is restored at most once, at the first poll that finds the engine healthy, however often the
  timer fires; when the restoration fails it is never tried again, and the timer polls on for ever.
\<close>

theorem restored_once:
  "(ticks v j n (w, freshTimer) = (poll v n w, freshTimer) \<and> (\<forall>i < n. fst (health v (poll v i w)) \<noteq> Inr ''ok'')) \<or>
   (\<exists>k < n. fst (health v (poll v k w)) = Inr ''ok'' \<and> (\<forall>i < k. fst (health v (poll v i w)) \<noteq> Inr ''ok'') \<and>
      restored v j k n w (ticks v j n (w, freshTimer)))"
proof (induction n arbitrary: w)
  case (Suc n)
  obtain h w1 where h: "health v w = (h, w1)" by fastforce
  show ?case
  proof (cases "h = Inr ''ok''")
    case True
    obtain r w2 where r: "restore v j w1 = (r, w2)" by fastforce
    have "restored v j 0 (Suc n) w (ticks v j (Suc n) (w, freshTimer))"
      using h True r by (cases r) (simp_all add: restored_def tick_def freshTimer_def ticks_cleared ticks_running)
    with h True show ?thesis by (intro disjI2 exI [of _ 0]) simp
  next
    case False
    then have t: "ticks v j (Suc n) (w, freshTimer) = ticks v j n (w1, freshTimer)"
      using h by (simp add: tick_def freshTimer_def)
    from Suc [of w1] show ?thesis
    proof (elim disjE conjE exE)
      assume a: "ticks v j n (w1, freshTimer) = (poll v n w1, freshTimer)"
        and none: "\<forall>i < n. fst (health v (poll v i w1)) \<noteq> Inr ''ok''"
      have "fst (health v (poll v i w)) \<noteq> Inr ''ok''" if "i < Suc n" for i
        using that none False h by (cases i) auto
      with a t h show ?thesis by simp
    next
      fix k assume k: "k < n" "fst (health v (poll v k w1)) = Inr ''ok''"
        and none: "\<forall>i < k. fst (health v (poll v i w1)) \<noteq> Inr ''ok''"
        and r: "restored v j k n w1 (ticks v j n (w1, freshTimer))"
      have "fst (health v (poll v i w)) \<noteq> Inr ''ok''" if "i < Suc k" for i
        using that none False h by (cases i) auto
      moreover have "restored v j (Suc k) (Suc n) w (ticks v j (Suc n) (w, freshTimer))"
        using r by (simp only: restored_def t diff_Suc_Suc poll.simps h snd_conv)
      ultimately show ?thesis using k h by (intro disjI2 exI [of _ "Suc k"]) simp
    qed
  qed
qed simp

text \<open>The session token of temporary credentials is read from the old database but not restored.\<close>

theorem session_token_lost:
  "accountStatements (j\<lparr> jobCreds := Some c \<rparr>) = accountStatements (j\<lparr> jobCreds := Some (c\<lparr> sessionToken := s \<rparr>) \<rparr>)"
  by (simp add: accountStatements_def)

text \<open>
  Databases are prepared in order up to the first one that fails; the databases after it are not touched,
  and only those before it get a timer.
\<close>

theorem upgrade_stops_at_first:
  assumes "\<forall>db \<in> set xs. \<forall>w. \<exists>j w'. prepareDb v db w = (Inr j, w')" and "\<forall>w. \<exists>e w'. prepareDb v db w = (Inl e, w')"
  shows "\<exists>e. fst (prepareAll v (xs @ db # ys) w) = Inl e \<and>
    snd (prepareAll v (xs @ db # ys) w) = snd (prepareAll v (xs @ [db]) w) \<and>
    length (fst (snd (prepareAll v (xs @ db # ys) w))) \<le> length xs"
  using assms(1)
proof (induction xs arbitrary: w)
  case Nil
  obtain e w' where "prepareDb v db w = (Inl e, w')" using assms(2) by blast
  then show ?case by simp
next
  case (Cons x xs)
  obtain j w' where j: "prepareDb v x w = (Inr j, w')" using Cons.prems by fastforce
  obtain e where "fst (prepareAll v (xs @ db # ys) w') = Inl e"
      "snd (prepareAll v (xs @ db # ys) w') = snd (prepareAll v (xs @ [db]) w')"
      "length (fst (snd (prepareAll v (xs @ db # ys) w'))) \<le> length xs"
    using Cons by fastforce
  with j show ?case
    by (cases "prepareAll v (xs @ db # ys) w'"; cases "prepareAll v (xs @ [db]) w'"; cases j) auto
qed

section \<open>Example\<close>

definition demoUpgrade :: "server upgrade_env" where
  "demoUpgrade = \<lparr> conn_env = demoServer, auditLines = (\<lambda>_. ret None), modulesOf = (\<lambda>_. ret [''aws_account'']),
     credsOf = (\<lambda>_. ret None), enabledRegions = (\<lambda>_. ret []), defaultRegion = (\<lambda>_. ret None),
     dbNamed = (\<lambda>_ _. ret None), execPg = (\<lambda>_ _ _. ret ()), health = ret ''ok'' \<rparr>"

definition demoJob :: job where
  "demoJob = \<lparr> jobDb = newDatabase ''db'' ''db'' ''u'', jobUser = \<lparr> userId = ''u'', email = ''m'', databases = [] \<rparr>,
     jobModules = [''aws_account''], jobCreds = None, jobRegions = [], jobDefault = [], newConn = 0 \<rparr>"

lemma restored_once_witness:
  "\<exists>k < 2. (\<forall>i < k. fst (health demoUpgrade (poll demoUpgrade i (demoServerWorld []))) \<noteq> Inr ''ok'') \<and>
     restored demoUpgrade demoJob k 2 (demoServerWorld []) (ticks demoUpgrade demoJob 2 (demoServerWorld [], freshTimer))"
proof -
  have "fst (health demoUpgrade w) = Inr ''ok''" for w by (simp add: demoUpgrade_def)
  then show ?thesis using restored_once [of demoUpgrade demoJob 2 "demoServerWorld []"] by (auto simp: less_2_cases_iff)
qed

end
