(* ===== verification/Route53.thy ===== *)
theory Route53
  imports Aws_Context
begin

text \<open>
  Hosted zones and their record sets: \<open>src/src/modules/aws_route53/index.ts\<close> and its entities.

  Parameters (\<open>r53_env\<close>) are the calls of the Route 53 client, the database side of both mappers, and
  the load balancers.  The state has the memo tables of the cloud, because the code relies on what
  \<open>Crud\<close> does to them: \<open>cloud.create(e)\<close> first copies \<open>e\<close> into the memoised object with its identity, so a
  reference to that object taken before sees the new values.  Reading pages may not end, so actions that
  read records are partial (\<open>paction\<close>).
\<close>

section \<open>Entities and AWS objects\<close>

record zone =
  zonePk :: "int option"
  hostedZoneId :: "string option"
  domainName :: string

record load_balancer =
  lbArn :: "string option"
  lbDns :: "string option"
  lbApplication :: bool                     \<comment> \<open>\<open>loadBalancerType\<close> is \<open>APPLICATION\<close>\<close>
  lbCanonical :: "string option"

record alias_target =
  targetLb :: "load_balancer option"
  evaluateTargetHealth :: "bool option"

record rrset =
  rrPk :: "int option"
  parentZone :: zone
  rrName :: string
  recordType :: string
  ttl :: "int option"
  rrRecord :: "string option"
  aliasTarget :: "alias_target option"

record aws_zone =
  azId :: "string option"
  azName :: "string option"

record aws_alias =
  aaZone :: "string option"
  aaHealth :: "bool option"
  aaDns :: "string option"

record aws_rrset =
  awName :: "string option"
  awType :: "string option"
  awTtl :: "int option"
  awRecords :: "string list option"         \<comment> \<open>the values\<close>
  awAlias :: "aws_alias option"
  awPolicy :: "string option"               \<comment> \<open>\<open>TrafficPolicyInstanceId\<close>\<close>

record rr_page =
  pgSets :: "aws_rrset list option"
  pgTruncated :: bool
  pgNext :: "string option"                 \<comment> \<open>\<open>NextRecordName\<close>\<close>

datatype change_action = CreateRR | DeleteRR

record 'w r53_env =
  createZone :: "string \<Rightarrow> ('w, aws_zone option) awsop"
  getZone :: "string \<Rightarrow> ('w, aws_zone option) awsop"
  listZones :: "('w, aws_zone list option) awsop"
  deleteZone :: "string option \<Rightarrow> ('w, unit) awsop"
  listRecords :: "string option \<Rightarrow> string option \<Rightarrow> ('w, rr_page) awsop"    \<comment> \<open>zone, first name\<close>
  changeRecord :: "change_action \<Rightarrow> string option \<Rightarrow> aws_rrset \<Rightarrow> ('w, unit) awsop"
  zoneDbRead :: "string \<Rightarrow> ('w, zone option) awsop"
  zoneDbUpdate :: "zone \<Rightarrow> ('w, unit) awsop"
  rrDbRead :: "('w, rrset list) awsop"
  rrDbCreate :: "rrset list \<Rightarrow> ('w, unit) awsop"
  rrDbUpdate :: "rrset list \<Rightarrow> ('w, unit) awsop"
  rrDbDelete :: "rrset list \<Rightarrow> ('w, unit) awsop"
  lbDbRead :: "('w, load_balancer list) awsop"
  lbCloudRead :: "('w, load_balancer list) awsop"
  ormFindRecords :: "(string \<times> string \<times> string) option \<Rightarrow> ('w, rrset list) awsop"   \<comment> \<open>\<open>id\<close> of the zone, name, type\<close>

record 'w r53_state =
  net :: 'w
  zoneMemo :: "zone obj option"
  rrMemo :: "rrset obj option"

type_synonym ('w, 'a) r53op = "('w r53_state, aws_err, 'a) action"
type_synonym ('w, 'a) r53pop = "('w r53_state, aws_err, 'a) paction"

definition onNet :: "('w, 'a) awsop \<Rightarrow> ('w, 'a) r53op" where
  "onNet m = (\<lambda>s. case m (net s) of (x, w) \<Rightarrow> (x, s\<lparr> net := w \<rparr>))"

definition onNetP :: "('w, aws_err, 'a) paction \<Rightarrow> ('w, 'a) r53pop" where
  "onNetP m = (\<lambda>s. case m (net s) of None \<Rightarrow> None | Some (x, w) \<Rightarrow> Some (x, s\<lparr> net := w \<rparr>))"

section \<open>Identities and comparison\<close>

definition zoneKey :: "zone \<Rightarrow> string" where
  "zoneKey e = entityId (Some [''hostedZoneId'']) ''id''
     [(''id'', optNum (zonePk e)), (''hostedZoneId'', optStr (hostedZoneId e)), (''domainName'', JStr (domainName e))]"

definition zoneEquals :: "zone \<Rightarrow> zone \<Rightarrow> bool" where
  "zoneEquals a b = (domainName a = domainName b)"

text \<open>The mapper's own \<open>generateId\<close>, for an object with fields of these names.\<close>

definition rrGenerateId :: "(string \<times> string option) list \<Rightarrow> aws_err + string" where
  "rrGenerateId given =
     (let required = [''hostedZoneId'', ''name'', ''recordType''] in
      if length given \<noteq> length required \<and> \<not> list_all (\<lambda>f. fst f \<in> set required) given
      then Inl (plainErr (''Id generation error. Valid fields to generate id are: '' @ joinWith '', '' required))
      else Inr (joinWith ''|'' (map (\<lambda>k. shownStr (Option.bind (map_of given k) (\<lambda>v. v))) required)))"

definition rrKey :: "rrset \<Rightarrow> string" where
  "rrKey e = shownStr (hostedZoneId (parentZone e)) @ ''|'' @ rrName e @ ''|'' @ recordType e"

definition rrIdFields :: "string \<Rightarrow> string option \<times> string option \<times> string option" where
  "rrIdFields i = (let ws = splitOn (CHR ''|'') i; at = (\<lambda>n. if n < length ws then Some (ws ! n) else None)
                   in (at 0, at 1, at 2))"

definition targetArn :: "rrset \<Rightarrow> string option" where
  "targetArn e = Option.bind (aliasTarget e) (\<lambda>a. Option.bind (targetLb a) lbArn)"

definition targetHealth :: "rrset \<Rightarrow> bool option" where
  "targetHealth e = Option.bind (aliasTarget e) evaluateTargetHealth"

definition rrEquals :: "rrset \<Rightarrow> rrset \<Rightarrow> bool" where
  "rrEquals a b = (hostedZoneId (parentZone a) = hostedZoneId (parentZone b) \<and> recordType a = recordType b \<and> ttl a = ttl b
     \<and> rrRecord a = rrRecord b \<and> targetArn a = targetArn b \<and> targetHealth a = targetHealth b)"

definition dropDot :: "string \<Rightarrow> string" where
  "dropDot d = (if d \<noteq> [] \<and> last d = CHR ''.'' then butlast d else d)"

definition equalDomains :: "string \<Rightarrow> string \<Rightarrow> bool" where
  "equalDomains d1 d2 = (dropDot d1 = dropDot d2)"

section \<open>Pages of records\<close>

text \<open>The \<open>do ... while (res?.IsTruncated)\<close> loop; only the name of the next record is passed on.\<close>

partial_function (option) recordPages ::
  "'w r53_env \<Rightarrow> string option \<Rightarrow> string option \<Rightarrow> aws_rrset list \<Rightarrow> 'w \<Rightarrow> ((aws_err + aws_rrset list) \<times> 'w) option" where
  "recordPages v z start acc w =
     (case listRecords v z start w of
        (Inl e, w') \<Rightarrow> Some (Inl e, w')
      | (Inr p, w') \<Rightarrow>
          (let acc' = acc @ (case pgSets p of None \<Rightarrow> [] | Some rs \<Rightarrow> rs) in
           if pgTruncated p then recordPages v z (truthyStr (pgNext p)) acc' w' else Some (Inr acc', w')))"

declare recordPages.simps [code]

definition getRecords :: "'w r53_env \<Rightarrow> string option \<Rightarrow> ('w, aws_err, aws_rrset list) paction" where
  "getRecords v z = recordPages v z None []"

definition getRecord :: "'w r53_env \<Rightarrow> string option \<Rightarrow> string \<Rightarrow> string \<Rightarrow> ('w, aws_err, aws_rrset option) paction" where
  "getRecord v z name typ = pThen (getRecords v z) (\<lambda>rs.
     always (ret (find (\<lambda>r. awType r = Some typ \<and> awName r = Some name) rs)))"

section \<open>Mapping\<close>

definition hostedZoneMapper :: "aws_zone \<Rightarrow> zone option" where
  "hostedZoneMapper hz = (case (truthyStr (azId hz), truthyStr (azName hz)) of
     (Some i, Some n) \<Rightarrow> Some \<lparr> zonePk = None, hostedZoneId = Some i, domainName = n \<rparr> | _ \<Rightarrow> None)"

definition hzCloudReadOne :: "'w r53_env \<Rightarrow> string \<Rightarrow> ('w, zone option) awsop" where
  "hzCloudReadOne v i = andThen (getZone v i) (\<lambda>z. ret (Option.bind z hostedZoneMapper))"

definition hzCloudRead :: "'w r53_env \<Rightarrow> ('w, zone list) awsop" where
  "hzCloudRead v = andThen (listZones v) (\<lambda>zs. ret (somes (map hostedZoneMapper (case zs of None \<Rightarrow> [] | Some x \<Rightarrow> x))))"

definition lbHasDns :: "string \<Rightarrow> load_balancer \<Rightarrow> bool" where
  "lbHasDns dns lb = (if lbApplication lb then dns = ''dualstack.'' @ shownStr (lbDns lb) else Some dns = lbDns lb)"

definition aliasTargetMapper :: "'w r53_env \<Rightarrow> aws_alias \<Rightarrow> ('w, alias_target option) awsop" where
  "aliasTargetMapper v a =
     (case aaDns a of
        None \<Rightarrow> throw jsTypeErr
      | Some d \<Rightarrow> if \<not> includesStr d ''.elb.'' then ret None
      else (let dns = dropDot d in
        andThen (lbDbRead v) (\<lambda>lbs.
          andThen (case find (lbHasDns dns) lbs of Some lb \<Rightarrow> ret (Some lb)
                   | None \<Rightarrow> andThen (lbCloudRead v) (\<lambda>lbs'. ret (find (lbHasDns dns) lbs'))) (\<lambda>lb.
            ret (case lb of None \<Rightarrow> None
                 | Some l \<Rightarrow> Some \<lparr> targetLb = Some l, evaluateTargetHealth = aaHealth a \<rparr>)))))"

text \<open>A zone without identifier has no records in AWS, so this is not asked for one.\<close>

definition zoneAnywhere :: "'w r53_env \<Rightarrow> string option \<Rightarrow> ('w, zone option) awsop" where
  "zoneAnywhere v z = (case truthyStr z of None \<Rightarrow> ret None
     | Some i \<Rightarrow> andThen (zoneDbRead v i) (\<lambda>d. case d of Some x \<Rightarrow> ret (Some x) | None \<Rightarrow> hzCloudReadOne v i))"

text \<open>A record set of a traffic policy, or with neither values nor a load balancer, is left out.\<close>

definition resourceRecordSetMapper :: "'w r53_env \<Rightarrow> aws_rrset \<Rightarrow> string option \<Rightarrow> ('w, rrset option) awsop" where
  "resourceRecordSetMapper v r z =
     (case (truthyStr (awName r), truthyStr (awType r)) of
        (Some n, Some t) \<Rightarrow>
          andThen (zoneAnywhere v z) (\<lambda>found. case found of
            None \<Rightarrow> throw (plainErr ''Hosted zone need to be loaded.'')
          | Some hz \<Rightarrow>
              (let out = \<lparr> rrPk = None, parentZone = hz, rrName = n, recordType = t, ttl = awTtl r, rrRecord = None,
                           aliasTarget = None \<rparr> in
               if (awRecords r = None \<or> awAlias r = None) \<and> truthyStr (awPolicy r) \<noteq> None then ret None
               else andThen (case awRecords r of
                     Some vs \<Rightarrow> ret (out\<lparr> rrRecord := Some (joinWith [CHR 0x0A] vs) \<rparr>)
                   | None \<Rightarrow> (case awAlias r of None \<Rightarrow> ret out
                       | Some a \<Rightarrow> andThen (aliasTargetMapper v a) (\<lambda>x. ret (out\<lparr> aliasTarget := x \<rparr>)))) (\<lambda>out'.
                 ret (if truthyStr (rrRecord out') = None \<and> aliasTarget out' = None then None else Some out'))))
      | _ \<Rightarrow> ret None)"

definition dbRecordToAwsObject :: "rrset \<Rightarrow> aws_rrset" where
  "dbRecordToAwsObject e =
     (let out = \<lparr> awName = Some (rrName e), awType = Some (recordType e), awTtl = ttl e, awRecords = None, awAlias = None,
                  awPolicy = None \<rparr> in
      case truthyStr (rrRecord e) of
        Some r \<Rightarrow> out\<lparr> awRecords := Some (splitOn (CHR 0x0A) r) \<rparr>
      | None \<Rightarrow> (case aliasTarget e of None \<Rightarrow> out
          | Some a \<Rightarrow> out\<lparr> awAlias := Some \<lparr> aaZone = Option.bind (targetLb a) lbCanonical, aaHealth = evaluateTargetHealth a,
              aaDns = (case targetLb a of None \<Rightarrow> None
                 | Some lb \<Rightarrow> if lbApplication lb then Some (''dualstack.'' @ shownStr (lbDns lb)) else lbDns lb) \<rparr> \<rparr>))"

section \<open>Hosted zones\<close>

text \<open>Copying properties: an entity mapped from AWS has no \<open>id\<close> of its own.\<close>

definition mergeZone :: "zone \<Rightarrow> zone \<Rightarrow> zone" where
  "mergeZone e old = e\<lparr> zonePk := (case zonePk e of None \<Rightarrow> zonePk old | Some n \<Rightarrow> Some n) \<rparr>"

definition memoZone :: "zone \<Rightarrow> ('w, zone) r53op" where
  "memoZone e = (\<lambda>s. case memoWith mergeZone (zoneKey e) e (zoneMemo s) of (e', m) \<Rightarrow> (Inr e', s\<lparr> zoneMemo := m \<rparr>))"

definition hzCreateOne :: "'w r53_env \<Rightarrow> zone \<Rightarrow> ('w, zone option) awsop" where
  "hzCreateOne v e = andThen (createZone v (domainName e)) (\<lambda>created.
     case Option.bind created (\<lambda>c. truthyStr (azId c)) of
       None \<Rightarrow> throw (plainErr ''How this happen!?'')
     | Some i \<Rightarrow> andThen (hzCloudReadOne v i) (\<lambda>n. case n of
           None \<Rightarrow> ret None
         | Some x \<Rightarrow> (let x' = x\<lparr> zonePk := zonePk e \<rparr> in andThen (zoneDbUpdate v x') (\<lambda>_. ret (Some x')))))"

definition hzCloudCreate :: "'w r53_env \<Rightarrow> zone list \<Rightarrow> ('w, zone list) awsop" where
  "hzCloudCreate v = collectM (hzCreateOne v)"

text \<open>\<open>this.module.hostedZone.cloud.create(e, ctx)\<close> of one zone, with what \<open>Crud\<close> does around it.\<close>

definition crudCreateZone :: "'w r53_env \<Rightarrow> zone \<Rightarrow> ('w, zone option) r53op" where
  "crudCreateZone v e = andThen (memoZone e) (\<lambda>_.
     tryCatch (andThen (onNet (hzCloudCreate v [e])) (\<lambda>zs. andThen (mapM memoZone zs) (\<lambda>zs'.
         ret (case zs' of [] \<Rightarrow> None | z # _ \<Rightarrow> Some z))))
       (\<lambda>err. andThen (modifyS (\<lambda>s. s\<lparr> zoneMemo := unmemoKey (zoneKey e) (zoneMemo s) \<rparr>)) (\<lambda>_.
          throw (relabel ''HostedZone cloud create error: '' err))))"

definition isDefaultType :: "rrset \<Rightarrow> bool" where
  "isDefaultType r = (recordType r \<in> {''NS'', ''SOA''})"

definition getNameFromDomain :: "string \<Rightarrow> string \<Rightarrow> string" where
  "getNameFromDomain recordName domain = (case indexOf recordName domain of None \<Rightarrow> [] | Some i \<Rightarrow> take i recordName)"

definition renameRecord :: "string \<Rightarrow> string \<Rightarrow> rrset \<Rightarrow> rrset" where
  "renameRecord old new r = (let name = getNameFromDomain (rrName r) old in
     r\<lparr> rrName := (if name \<noteq> [] then name @ new else new) \<rparr>)"

definition hzCloudDelete :: "'w r53_env \<Rightarrow> zone list \<Rightarrow> ('w, unit) awsop" where
  "hzCloudDelete v = eachM (\<lambda>e. deleteZone v (hostedZoneId e))"

section \<open>Record sets\<close>

definition rrDbReadId :: "'w r53_env \<Rightarrow> string option \<Rightarrow> ('w, rrset list) awsop" where
  "rrDbReadId v i =
     (case map_option rrIdFields (truthyStr i) of
        Some (z, n, t) \<Rightarrow> (case (truthyStr z, truthyStr n, truthyStr t) of
            (Some z', Some n', Some t') \<Rightarrow> ormFindRecords v (Some (z', n', t')) | _ \<Rightarrow> ormFindRecords v None)
      | None \<Rightarrow> ormFindRecords v None)"

text \<open>The records of all zones; a zone whose records cannot be read is left out.\<close>

definition allRecords :: "'w r53_env \<Rightarrow> ('w, (aws_rrset \<times> string option) list) r53pop" where
  "allRecords v = pThen (always (andThen (getS zoneMemo) (\<lambda>m. case m of
         Some t \<Rightarrow> ret (obj_values t) | None \<Rightarrow> onNet (hzCloudRead v)))) (\<lambda>zones.
     pThen (pMapM (\<lambda>z. pThen (pAttempt (onNetP (getRecords v (hostedZoneId z)))) (\<lambda>r.
         always (ret (case r of Inl _ \<Rightarrow> [] | Inr rs \<Rightarrow> map (\<lambda>x. (x, hostedZoneId z)) rs)))) zones) (\<lambda>rss.
       always (ret (concat rss))))"

definition mergeRr :: "rrset \<Rightarrow> rrset \<Rightarrow> rrset" where
  "mergeRr e old = e\<lparr> rrPk := (case rrPk e of None \<Rightarrow> rrPk old | Some n \<Rightarrow> Some n) \<rparr>"

definition memoRecord :: "rrset \<Rightarrow> ('w, rrset) r53op" where
  "memoRecord e = (\<lambda>s. case memoWith mergeRr (rrKey e) e (rrMemo s) of (e', m) \<Rightarrow> (Inr e', s\<lparr> rrMemo := m \<rparr>))"

definition rrCloudRead :: "'w r53_env \<Rightarrow> ('w, rrset list) r53pop" where
  "rrCloudRead v = pThen (allRecords v) (\<lambda>rs.
     always (collectM (\<lambda>(r, z). onNet (resourceRecordSetMapper v r z)) rs))"

text \<open>What \<open>Crud.read\<close> does around it without an identifier.\<close>

definition crudReadRecords :: "'w r53_env \<Rightarrow> ('w, rrset list) r53pop" where
  "crudReadRecords v = pThen (pCatch (rrCloudRead v) (\<lambda>e. always (throw (relabel ''ResourceRecordSet cloud read error: '' e))))
     (\<lambda>rs. always (mapM memoRecord rs))"

text \<open>
  With an identifier the function gives the AWS object itself, and only its name and type are compared.
  \<open>Crud.read\<close> then asks for the entity identifier of that object, which has no \<open>parentHostedZone\<close>; the
  placeholder it had put into the memo stays there.
\<close>

definition rrCloudReadOne :: "'w r53_env \<Rightarrow> string \<Rightarrow> ('w, aws_rrset option) r53pop" where
  "rrCloudReadOne v i = (case rrIdFields i of (_, n, t) \<Rightarrow>
     pThen (allRecords v) (\<lambda>rs. always (ret (map_option fst (find (\<lambda>(r, _). awName r = n \<and> awType r = t) rs)))))"

definition crudReadRecord :: "'w r53_env \<Rightarrow> string \<Rightarrow> ('w, rrset option) r53pop" where
  "crudReadRecord v i = pThen (always (getS (\<lambda>s. map_of (tableRows (rrMemo s)) i))) (\<lambda>hit. case hit of
       Some e \<Rightarrow> always (ret (Some e))
     | None \<Rightarrow> pThen (pCatch (rrCloudReadOne v i) (\<lambda>e. always (throw (relabel ''ResourceRecordSet cloud read error: '' e)))) (\<lambda>r.
         always (case r of None \<Rightarrow> ret None | Some _ \<Rightarrow> throw jsTypeErr)))"

definition rrCreateOne :: "'w r53_env \<Rightarrow> rrset \<Rightarrow> ('w, aws_err, rrset option) paction" where
  "rrCreateOne v e =
     pThen (always (changeRecord v CreateRR (hostedZoneId (parentZone e)) (dbRecordToAwsObject e))) (\<lambda>_.
       pThen (getRecord v (hostedZoneId (parentZone e)) (rrName e) (recordType e)) (\<lambda>found.
         always (case found of None \<Rightarrow> ret None
           | Some r \<Rightarrow> andThen (resourceRecordSetMapper v r (hostedZoneId (parentZone e))) (\<lambda>n. case n of
               None \<Rightarrow> ret None
             | Some x \<Rightarrow> (if rrPk e = None \<or> rrPk e = Some 0 then ret (Some x)
                         else (let x' = x\<lparr> rrPk := rrPk e \<rparr> in andThen (rrDbUpdate v [x']) (\<lambda>_. ret (Some x'))))))))"

definition rrCloudCreate :: "'w r53_env \<Rightarrow> rrset list \<Rightarrow> ('w, aws_err, rrset list) paction" where
  "rrCloudCreate v = pCollect (rrCreateOne v)"

definition crudCreateRecord :: "'w r53_env \<Rightarrow> rrset \<Rightarrow> ('w, rrset option) r53pop" where
  "crudCreateRecord v e = pThen (always (memoRecord e)) (\<lambda>_.
     pCatch (pThen (onNetP (rrCloudCreate v [e])) (\<lambda>rs. pThen (always (mapM memoRecord rs)) (\<lambda>rs'.
         always (ret (case rs' of [] \<Rightarrow> None | r # _ \<Rightarrow> Some r)))))
       (\<lambda>err. always (andThen (modifyS (\<lambda>s. s\<lparr> rrMemo := unmemoKey (rrKey e) (rrMemo s) \<rparr>)) (\<lambda>_.
          throw (relabel ''ResourceRecordSet cloud create error: '' err)))))"

text \<open>The records every zone has, which cannot be deleted, are put back into the database.\<close>

definition nonDeletable :: "rrset \<Rightarrow> bool" where
  "nonDeletable e = (recordType e = ''SOA'' \<or>
     (recordType e = ''NS'' \<and> equalDomains (rrName e) (domainName (parentZone e))))"

definition rrDeleteOne :: "'w r53_env \<Rightarrow> rrset \<Rightarrow> ('w, unit) awsop" where
  "rrDeleteOne v e = (if nonDeletable e then rrDbCreate v [e]
     else changeRecord v DeleteRR (hostedZoneId (parentZone e)) (dbRecordToAwsObject e))"

definition rrCloudDelete :: "'w r53_env \<Rightarrow> rrset list \<Rightarrow> ('w, unit) awsop" where
  "rrCloudDelete v = eachM (rrDeleteOne v)"

definition crudDeleteRecord :: "'w r53_env \<Rightarrow> rrset option \<Rightarrow> ('w, unit) r53op" where
  "crudDeleteRecord v e = (case e of
     None \<Rightarrow> throw (relabel ''ResourceRecordSet cloud delete error: '' jsTypeErr)
   | Some x \<Rightarrow> andThen (tryCatch (onNet (rrCloudDelete v [x])) (\<lambda>err. throw (relabel ''ResourceRecordSet cloud delete error: '' err)))
       (\<lambda>_. modifyS (\<lambda>s. s\<lparr> rrMemo := unmemoKey (rrKey x) (rrMemo s) \<rparr>)))"

text \<open>
  \<open>cloudRecord\<close> is the memoised object, so it is looked up again after the creation: by then the
  properties of \<open>e\<close> and of the created record set have been copied into it.
\<close>

definition rrUpdateOne :: "'w r53_env \<Rightarrow> rrset \<Rightarrow> ('w, rrset option) r53pop" where
  "rrUpdateOne v e = pThen (always (getS rrMemo)) (\<lambda>m. case m of
     None \<Rightarrow> always (throw jsTypeErr)
   | Some t \<Rightarrow> pThen (crudCreateRecord v e) (\<lambda>n. case n of
         None \<Rightarrow> always (ret None)
       | Some x \<Rightarrow> always (andThen (getS (\<lambda>s. if map_of t (rrKey e) = None then None else map_of (tableRows (rrMemo s)) (rrKey e)))
           (\<lambda>cloudRecord. andThen (crudDeleteRecord v cloudRecord) (\<lambda>_. ret (Some x))))))"

definition rrCloudUpdate :: "'w r53_env \<Rightarrow> rrset list \<Rightarrow> ('w, rrset list) r53pop" where
  "rrCloudUpdate v = pCollect (rrUpdateOne v)"

section \<open>Replacing a hosted zone\<close>

text \<open>As above, \<open>cloudRecord\<close> has the values of \<open>e\<close> once the new zone was created.\<close>

definition hzUpdateOne :: "'w r53_env \<Rightarrow> zone \<Rightarrow> ('w, zone option) r53pop" where
  "hzUpdateOne v e =
     (let k = (case hostedZoneId e of None \<Rightarrow> [] | Some i \<Rightarrow> i) in
      pThen (always (getS (\<lambda>s. map_of (tableRows (zoneMemo s)) k))) (\<lambda>before. case before of
        None \<Rightarrow> always (throw jsTypeErr)
      | Some old \<Rightarrow> pThen (always (crudCreateZone v e)) (\<lambda>created. case created of
          None \<Rightarrow> always (ret None)
        | Some n \<Rightarrow>
            pThen (always (getS (\<lambda>s. case map_of (tableRows (zoneMemo s)) k of None \<Rightarrow> old | Some c \<Rightarrow> c))) (\<lambda>cloudRecord.
            (let new = n\<lparr> zonePk := zonePk cloudRecord \<rparr> in
             pThen (always (modifyS (\<lambda>s. s\<lparr> zoneMemo := Some (obj_set (zoneKey n) new (tableRows (zoneMemo s))) \<rparr>))) (\<lambda>_.
             pThen (always (onNet (zoneDbUpdate v new))) (\<lambda>_.
             pThen (always (onNet (rrDbRead v))) (\<lambda>dbRecords.
             pThen (always (onNet (rrDbDelete v (filter (\<lambda>r. zonePk (parentZone r) = zonePk cloudRecord \<and> isDefaultType r) dbRecords)))) (\<lambda>_.
             pThen (crudReadRecords v) (\<lambda>cloudRecords.
             pThen (always (onNet (rrDbCreate v (filter (\<lambda>r. hostedZoneId (parentZone r) = hostedZoneId new \<and> isDefaultType r) cloudRecords)))) (\<lambda>_.
             pThen (always (onNet (rrDbUpdate v (map (renameRecord (domainName old) (domainName cloudRecord))
                 (filter (\<lambda>r. zonePk (parentZone r) = zonePk e \<and> \<not> isDefaultType r) dbRecords))))) (\<lambda>_.
             always (ret (Some new))))))))))))))"

definition hzCloudUpdate :: "'w r53_env \<Rightarrow> zone list \<Rightarrow> ('w, zone list) r53pop" where
  "hzCloudUpdate v = pCollect (hzUpdateOne v)"

section \<open>Claims about pages\<close>

text \<open>
  How Route 53 pages: it lists records in a fixed order by name, at most \<open>m\<close> at a time, from the first one
  with the given name on, and tells the name of the next one.
\<close>

definition fromName :: "aws_rrset list \<Rightarrow> string option \<Rightarrow> aws_rrset list" where
  "fromName rs start = (case start of None \<Rightarrow> rs | Some n \<Rightarrow> dropWhile (\<lambda>r. awName r \<noteq> Some n) rs)"

definition pageOf :: "aws_rrset list \<Rightarrow> nat \<Rightarrow> string option \<Rightarrow> rr_page" where
  "pageOf rs m start = (let rest = fromName rs start in
     \<lparr> pgSets = Some (take m rest), pgTruncated = m < length rest,
        pgNext = (if m < length rest then awName (rest ! m) else None) \<rparr>)"

definition servesPages :: "'w r53_env \<Rightarrow> string option \<Rightarrow> aws_rrset list \<Rightarrow> nat \<Rightarrow> bool" where
  "servesPages v z rs m \<longleftrightarrow> (\<forall>start w. listRecords v z start w = (Inr (pageOf rs m start), w))"

definition named :: "aws_rrset \<Rightarrow> bool" where
  "named r \<longleftrightarrow> awName r \<noteq> None \<and> awName r \<noteq> Some []"

lemma recordPages_step:
  assumes "servesPages v z rs m"
  shows "recordPages v z start acc w =
    (let rest = fromName rs start in
     if m < length rest then recordPages v z (truthyStr (awName (rest ! m))) (acc @ take m rest) w
     else Some (Inr (acc @ rest), w))"
  using assms by (subst recordPages.simps) (simp add: servesPages_def pageOf_def Let_def)

lemma dropWhile_names:
  assumes "distinct (map awName rs)" "k < length rs"
  shows "dropWhile (\<lambda>r. awName r \<noteq> awName (rs ! k)) rs = drop k rs"
proof -
  have "dropWhile (\<lambda>r. awName r \<noteq> awName (rs ! k)) (take k rs @ drop k rs) = drop k rs"
  proof (subst dropWhile_append2)
    fix r assume "r \<in> set (take k rs)"
    then obtain j where "j < k" "r = rs ! j" using assms(2) by (auto simp: in_set_conv_nth)
    with assms show "awName r \<noteq> awName (rs ! k)"
      using nth_eq_iff_index_eq [OF assms(1), of j k] by simp
  next
    show "dropWhile (\<lambda>r. awName r \<noteq> awName (rs ! k)) (drop k rs) = drop k rs"
      using assms(2) by (simp add: Cons_nth_drop_Suc [symmetric])
  qed
  then show ?thesis by simp
qed

lemma recordPages_from:
  assumes srv: "servesPages v z rs m" "0 < m" and names: "distinct (map awName rs)" "\<forall>r \<in> set rs. named r"
  shows "k \<le> length rs \<Longrightarrow> fromName rs start = drop k rs \<Longrightarrow> recordPages v z start acc w = Some (Inr (acc @ drop k rs), w)"
proof (induction "length rs - k" arbitrary: k start acc rule: less_induct)
  case less
  show ?case
  proof (cases "m < length (drop k rs)")
    case False
    with less.prems show ?thesis by (simp add: recordPages_step [OF srv(1)])
  next
    case True
    then have km: "k + m < length rs" by simp
    have "named (rs ! (k + m))" using names(2) km by simp
    then obtain n where n: "awName (rs ! (k + m)) = Some n" "n \<noteq> []" by (auto simp: named_def)
    then have from_n: "fromName rs (Some n) = drop (k + m) rs"
      using dropWhile_names [OF names(1) km] by (simp add: fromName_def)
    have "recordPages v z start acc w = recordPages v z (Some n) (acc @ take m (drop k rs)) w"
      using True less.prems n by (simp add: recordPages_step [OF srv(1), of start] truthyStr_def)
    also have "\<dots> = Some (Inr (acc @ take m (drop k rs) @ drop (k + m) rs), w)"
      using less.hyps [of "k + m" "Some n"] from_n km srv(2) by simp
    also have "take m (drop k rs) @ drop (k + m) rs = drop k rs"
      by (metis add.commute append_take_drop_id drop_drop)
    finally show ?thesis .
  qed
qed


lemma dropWhile_group:
  assumes "\<forall>r \<in> set xs. awName r \<noteq> Some n" "g \<noteq> []" "\<forall>r \<in> set g. awName r = Some n"
  shows "dropWhile (\<lambda>r. awName r \<noteq> Some n) (xs @ g @ ys) = g @ ys"
  using assms by (cases g) (simp_all add: dropWhile_append2)

text \<open>
  Only the name of the next record is passed on, not its type: when a page ends between two records of one
  name, those before the end are read twice.
\<close>

theorem getRecords_duplicates:
  assumes srv: "servesPages v z (xs @ g @ h @ ys) m" and m: "m = length (xs @ g)" "length (g @ h @ ys) \<le> m"
    and group: "g \<noteq> []" "h \<noteq> []" "\<forall>r \<in> set (g @ h). awName r = Some n" "n \<noteq> []" "\<forall>r \<in> set xs. awName r \<noteq> Some n"
  shows "getRecords v z w = Some (Inr (xs @ g @ g @ h @ ys), w)"
proof -
  let ?rs = "xs @ g @ h @ ys"
  have next_name: "awName (?rs ! m) = Some n" using m(1) group(2, 3) by (cases h) (simp_all add: nth_append)
  have second: "fromName ?rs (Some n) = g @ h @ ys"
    using dropWhile_group [OF group(5), of "g @ h" ys] group by (simp add: fromName_def)
  have "m < length ?rs" using m(1) group(2) by simp
  then have "recordPages v z None [] w = recordPages v z (Some n) (xs @ g) w"
    using next_name group(4) m(1) by (subst recordPages_step [OF srv]) (simp add: fromName_def truthyStr_def)
  also have "\<dots> = Some (Inr (xs @ g @ g @ h @ ys), w)"
    using m(2) by (subst recordPages_step [OF srv]) (simp add: second)
  finally show ?thesis by (simp add: getRecords_def)
qed

lemma recordPages_stuck:
  assumes srv: "servesPages v z rs m" and rs: "rs = g @ ys" and m: "m < length g"
    and group: "\<forall>r \<in> set g. awName r = Some n" "n \<noteq> []"
    and run: "recordPages v z start acc w = Some y" and start: "fromName rs start = rs"
  shows False
proof -
  have "v' = v \<longrightarrow> z' = z \<longrightarrow> fromName rs start' = rs \<longrightarrow> False" if "recordPages v' z' start' acc' w' = Some y'" for v' z' start' acc' w' y'
  proof (rule recordPages.raw_induct [where P = "\<lambda>v' z' start' acc' w' y'. v' = v \<longrightarrow> z' = z \<longrightarrow> fromName rs start' = rs \<longrightarrow> False", OF _ that])
    fix rec v' z' start' acc' w' y'
    assume IH: "\<And>v' z' start' acc' w' y'. rec v' z' start' acc' w' = Some y' \<Longrightarrow> v' = v \<longrightarrow> z' = z \<longrightarrow> fromName rs start' = rs \<longrightarrow> False"
      and body: "(case listRecords v' z' start' w' of (Inl e, w'') \<Rightarrow> Some (Inl e, w'')
        | (Inr p, w'') \<Rightarrow> let acc'' = acc' @ (case pgSets p of None \<Rightarrow> [] | Some rs \<Rightarrow> rs) in
            if pgTruncated p then rec v' z' (truthyStr (pgNext p)) acc'' w'' else Some (Inr acc'', w'')) = Some y'"
    show "v' = v \<longrightarrow> z' = z \<longrightarrow> fromName rs start' = rs \<longrightarrow> False"
    proof (intro impI)
      assume here: "v' = v" "z' = z" "fromName rs start' = rs"
      have name: "awName (rs ! m) = Some n" using rs m group by (simp add: nth_append)
      have "g \<noteq> []" using m by auto
      then have again: "fromName rs (Some n) = rs"
        using rs group by (cases g) (simp_all add: fromName_def)
      have page: "listRecords v z start' w' = (Inr (pageOf rs m start'), w')" using srv by (simp add: servesPages_def)
      have "m < length rs" using rs m by simp
      then have "rec v z (Some n) (acc' @ take m rs) w' = Some y'"
        using body page here name group(2) by (simp add: pageOf_def Let_def truthyStr_def)
      from IH [OF this] again show False by simp
    qed
  qed
  from this [OF run] start show False by simp
qed


section \<open>Claims about record sets\<close>

lemma find_append: "find P (xs @ ys) = (case find P xs of None \<Rightarrow> find P ys | Some x \<Rightarrow> Some x)"
  by (induction xs) simp_all

lemma joinWith_split_lines: "joinWith [CHR 0x0A] (splitOn (CHR 0x0A) r) = r"
  by (rule joinWith_splitOn)

lemma record_roundtrip_core:
  assumes vals: "rrRecord e = Some r" "r \<noteq> []" and shape: "rrName e \<noteq> []" "recordType e \<noteq> []" "aliasTarget e = None"
    and zone: "zoneAnywhere v (hostedZoneId (parentZone e)) w = (Inr (Some hz), w')" "hostedZoneId hz = hostedZoneId (parentZone e)"
  shows "\<exists>m. resourceRecordSetMapper v (dbRecordToAwsObject e) (hostedZoneId (parentZone e)) w = (Inr (Some m), w') \<and>
    rrEquals m e \<and> rrName m = rrName e"
  using assms
  by (simp add: resourceRecordSetMapper_def dbRecordToAwsObject_def Let_def truthyStr_def joinWith_split_lines rrEquals_def
      targetArn_def targetHealth_def)

text \<open>
  What is written to AWS for a record set with values reads back as an equal one, with any number of lines,
  when its zone is found under its identifier.
\<close>

theorem record_roundtrip:
  assumes vals: "rrRecord e = Some r" "r \<noteq> []" and shape: "rrName e \<noteq> []" "recordType e \<noteq> []" "aliasTarget e = None"
    and zone: "zoneAnywhere v (hostedZoneId (parentZone e)) w = (Inr (Some hz), w')" "hostedZoneId hz = hostedZoneId (parentZone e)"
  shows "\<exists>m. resourceRecordSetMapper v (dbRecordToAwsObject e) (hostedZoneId (parentZone e)) w = (Inr (Some m), w') \<and>
    rrEquals m e \<and> rrName m = rrName e"
  using assms by (rule record_roundtrip_core)

text \<open>The records every zone has are never deleted from AWS, whatever the call would do; they are put back.\<close>

theorem default_records_kept:
  assumes "\<forall>e \<in> set es. nonDeletable e"
  shows "rrCloudDelete (v\<lparr> changeRecord := f \<rparr>) es = eachM (\<lambda>e. rrDbCreate v [e]) es"
  using assms by (induction es) (simp_all add: rrCloudDelete_def rrDeleteOne_def)

text \<open>
  A renamed zone takes its records along: a record below the old domain keeps its own part, the record of the
  domain itself gets the new domain.  (The old domain is searched from the left.)
\<close>

lemma indexOf_iff: "indexOf s d = Some i \<longleftrightarrow> take (length d) (drop i s) = d \<and> i \<le> length s \<and> (\<forall>j < i. take (length d) (drop j s) \<noteq> d)"
proof -
  have "([0..<Suc (length s)] ! i) = i" if "i \<le> length s" for i using that by (simp del: upt_Suc)
  then show ?thesis
    by (auto simp: indexOf_def find_Some_iff simp del: upt_Suc intro!: exI [of _ i])
qed

theorem renameRecord_moves:
  assumes "rrName r = own @ old" and "indexOf (rrName r) old = Some (length own)"
  shows "rrName (renameRecord old new r) = own @ new"
  using assms by (simp add: renameRecord_def getNameFromDomain_def)

text \<open>Reading one record set from the cloud never gives one that was not memoised before.\<close>

theorem read_one_useless:
  assumes "map_of (tableRows (rrMemo s)) i = None" and "crudReadRecord v i s = Some (Inr x, s')"
  shows "x = None"
proof -
  have "pThen (pCatch (rrCloudReadOne v i) (\<lambda>e. always (throw (relabel ''ResourceRecordSet cloud read error: '' e))))
     (\<lambda>r. always (case r of None \<Rightarrow> ret None | Some _ \<Rightarrow> throw jsTypeErr)) s = Some (Inr x, s')"
    using assms by (simp add: crudReadRecord_def pThen_apply)
  then show ?thesis by (auto simp: pThen_Inr_iff split: option.splits)
qed

section \<open>The contract of record sets\<close>

text \<open>
  Route 53 refuses to create a record set when one of its name and type exists, and a refused change has no
  effect.
\<close>

locale record_server =
  fixes v :: "'w r53_env" and sets :: "'w \<Rightarrow> string option \<Rightarrow> aws_rrset list"
  assumes refuses: "\<lbrakk>r \<in> set (sets w z); awName r = awName x; awType r = awType x\<rbrakk> \<Longrightarrow>
    \<exists>e w'. changeRecord v CreateRR z x w = (Inl e, w') \<and> sets w' = sets w"
begin

lemma create_existing_fails:
  assumes "r \<in> set (sets w (hostedZoneId (parentZone e)))" "awName r = Some (rrName e)" "awType r = Some (recordType e)"
  shows "\<exists>err w'. rrCreateOne v e w = Some (Inl err, w') \<and> sets w' = sets w"
proof -
  have "awName (dbRecordToAwsObject e) = Some (rrName e)" "awType (dbRecordToAwsObject e) = Some (recordType e)"
    by (simp_all add: dbRecordToAwsObject_def Let_def split: option.split)
  with refuses [OF assms(1), of "dbRecordToAwsObject e"] assms obtain err w' where
    "changeRecord v CreateRR (hostedZoneId (parentZone e)) (dbRecordToAwsObject e) w = (Inl err, w')" "sets w' = sets w"
    by auto
  then show ?thesis by (simp add: rrCreateOne_def pThen_apply)
qed

lemma update_existing_fails:
  assumes "r \<in> set (sets (net s) (hostedZoneId (parentZone e)))" "awName r = Some (rrName e)" "awType r = Some (recordType e)"
  shows "\<exists>err s'. rrUpdateOne v e s = Some (Inl err, s') \<and> sets (net s') = sets (net s)"
proof (cases "rrMemo s")
  case None
  then show ?thesis by (simp add: rrUpdateOne_def pThen_apply)
next
  case (Some t)
  obtain e' tbl where "memoWith mergeRr (rrKey e) e (rrMemo s) = (e', tbl)" by fastforce
  then obtain s1 where m: "memoRecord e s = (Inr e', s1)" "net s1 = net s"
    by (simp add: memoRecord_def)
  from create_existing_fails [of r "net s1" e] assms m(2) obtain err w' where c: "rrCreateOne v e (net s1) = Some (Inl err, w')"
    "sets w' = sets (net s)" by auto
  have "\<exists>s'. crudCreateRecord v e s = Some (Inl (relabel ''ResourceRecordSet cloud create error: '' err), s') \<and> net s' = w'"
    using m c by (simp add: crudCreateRecord_def pThen_apply pCatch_def onNetP_def rrCloudCreate_def pCollect_def)
  with Some c(2) show ?thesis by (auto simp: rrUpdateOne_def pThen_apply)
qed

end

section \<open>A server over lists\<close>

definition sameSet :: "aws_rrset \<Rightarrow> aws_rrset \<Rightarrow> bool" where
  "sameSet x r \<longleftrightarrow> awName r = awName x \<and> awType r = awType x"

type_synonym zones = "string option \<Rightarrow> aws_rrset list"

definition changeIn :: "change_action \<Rightarrow> string option \<Rightarrow> aws_rrset \<Rightarrow> (zones, unit) awsop" where
  "changeIn a z x = (\<lambda>w.
     case a of
       CreateRR \<Rightarrow> if list_ex (sameSet x) (w z) then (Inl (plainErr ''InvalidChangeBatch''), w) else (Inr (), w(z := w z @ [x]))
     | DeleteRR \<Rightarrow> if x \<in> set (w z) then (Inr (), w(z := filter (\<lambda>r. r \<noteq> x) (w z))) else (Inl (plainErr ''InvalidChangeBatch''), w))"

definition zoneServer :: "zones r53_env" where
  "zoneServer = \<lparr> createZone = (\<lambda>n. ret (Some \<lparr> azId = Some n, azName = Some n \<rparr>)),
     getZone = (\<lambda>i. ret (Some \<lparr> azId = Some i, azName = Some i \<rparr>)), listZones = ret None, deleteZone = (\<lambda>_. ret ()),
     listRecords = (\<lambda>z start w. (Inr (pageOf (w z) 300 start), w)), changeRecord = changeIn,
     zoneDbRead = (\<lambda>i. ret (Some \<lparr> zonePk = None, hostedZoneId = Some i, domainName = i \<rparr>)),
     zoneDbUpdate = (\<lambda>_. ret ()), rrDbRead = ret [], rrDbCreate = (\<lambda>_. ret ()), rrDbUpdate = (\<lambda>_. ret ()),
     rrDbDelete = (\<lambda>_. ret ()), lbDbRead = ret [], lbCloudRead = ret [], ormFindRecords = (\<lambda>_. ret []) \<rparr>"

interpretation list_records: record_server zoneServer "\<lambda>w. w"
  by unfold_locales (auto simp: zoneServer_def changeIn_def sameSet_def list_ex_iff)


lemma getRecords_short:
  assumes "length (w z) \<le> 300"
  shows "getRecords zoneServer z w = Some (Inr (w z), w)"
proof -
  have "listRecords zoneServer z None w = (Inr (pageOf (w z) 300 None), w)" by (simp add: zoneServer_def)
  with assms show ?thesis
    unfolding getRecords_def by (subst recordPages.simps) (simp add: pageOf_def fromName_def Let_def)
qed

lemma zoneServer_update: "rrDbUpdate zoneServer rs = ret ()"
  by (simp add: zoneServer_def)


section \<open>Examples\<close>

definition demoSet :: "string \<Rightarrow> string \<Rightarrow> aws_rrset" where
  "demoSet n t = \<lparr> awName = Some n, awType = Some t, awTtl = Some 60, awRecords = Some [''x''], awAlias = None, awPolicy = None \<rparr>"

definition pagedDemo :: "aws_rrset list \<Rightarrow> nat \<Rightarrow> unit r53_env" where
  "pagedDemo rs m = \<lparr> createZone = (\<lambda>_. ret None), getZone = (\<lambda>_. ret None), listZones = ret None, deleteZone = (\<lambda>_. ret ()),
     listRecords = (\<lambda>z start. ret (pageOf rs m start)), changeRecord = (\<lambda>_ _ _. ret ()), zoneDbRead = (\<lambda>_. ret None),
     zoneDbUpdate = (\<lambda>_. ret ()), rrDbRead = ret [], rrDbCreate = (\<lambda>_. ret ()), rrDbUpdate = (\<lambda>_. ret ()),
     rrDbDelete = (\<lambda>_. ret ()), lbDbRead = ret [], lbCloudRead = ret [], ormFindRecords = (\<lambda>_. ret []) \<rparr>"

lemma pagedDemo_serves: "servesPages (pagedDemo rs m) z rs m"
  by (simp add: servesPages_def pagedDemo_def)


lemma getRecords_duplicates_witness:
  "getRecords (pagedDemo ([demoSet ''a'' ''A''] @ [demoSet ''b'' ''A''] @ [demoSet ''b'' ''TXT''] @ []) 2) None () =
     Some (Inr ([demoSet ''a'' ''A''] @ [demoSet ''b'' ''A''] @ [demoSet ''b'' ''A''] @ [demoSet ''b'' ''TXT''] @ []), ())"
  by (rule getRecords_duplicates [OF pagedDemo_serves, where n = "''b''"]) (simp_all add: demoSet_def)


definition demoRr :: rrset where
  "demoRr = \<lparr> rrPk = Some 1, parentZone = \<lparr> zonePk = Some 1, hostedZoneId = Some ''z'', domainName = ''z'' \<rparr>, rrName = ''a'',
     recordType = ''A'', ttl = Some 30, rrRecord = Some ''y'', aliasTarget = None \<rparr>"



end
