(* ===== verification/Aws_Account.thy ===== *)
theory Aws_Account
  imports Aws_Context Diff_Service
begin

text \<open>
  Credentials, regions and clients: \<open>src/src/modules/aws_account/index.ts\<close> and its entities.

  Parameters (\<open>acc_env\<close>) are the reads and writes of the ORM and the call of EC2 that lists regions.
  The state has the world of these, the cache of clients that lives in the context, and the memo of the
  database side of the regions, which \<open>Crud\<close> writes when the mapper calls it.  A client is the
  configuration it was made from.  The keys a JavaScript object inherits are not regions.
\<close>

section \<open>Entities\<close>

record credentials =
  crPk :: "int option"
  accessKeyId :: string
  secretAccessKey :: string
  sessionToken :: "string option"

record region_row =
  region :: string
  isDefaultRegion :: bool
  isEnabled :: bool

record aws_client =
  clRegion :: string
  clKey :: string
  clSecret :: string
  clToken :: "string option"

record 'w acc_env =
  findDefault :: "('w, region_row option) awsop"             \<comment> \<open>\<open>orm.findOne\<close> with \<open>isDefault\<close>\<close>
  findEnabled :: "('w, region_row list) awsop"               \<comment> \<open>\<open>orm.find\<close> with \<open>isEnabled\<close>\<close>
  findCredentials :: "('w, credentials option) awsop"        \<comment> \<open>\<open>orm.findOne\<close> with a key\<close>
  findCredentialsBy :: "string option \<Rightarrow> ('w, credentials list) awsop"
  describeRegions :: "aws_client \<Rightarrow> ('w, string option list option) awsop"  \<comment> \<open>the names\<close>
  saveRegions :: "region_row list \<Rightarrow> ('w, region_row list) awsop"
  removeRegions :: "region_row list \<Rightarrow> ('w, region_row list) awsop"

record 'w acc_state =
  accNet :: 'w
  awsClient :: "aws_client obj"                              \<comment> \<open>by region\<close>
  regionMemo :: "region_row obj option"                      \<comment> \<open>\<open>ctx.memo.db.AwsRegions\<close>\<close>

type_synonym ('w, 'a) accop = "('w acc_state, aws_err, 'a) action"

definition onAcc :: "('w, 'a) awsop \<Rightarrow> ('w, 'a) accop" where
  "onAcc m = (\<lambda>s. case m (accNet s) of (x, w) \<Rightarrow> (x, s\<lparr> accNet := w \<rparr>))"

section \<open>The context\<close>

definition fallbackRegion :: string where
  "fallbackRegion = ''us-east-1''"

definition getDefaultRegion :: "'w acc_env \<Rightarrow> ('w, string) accop" where
  "getDefaultRegion v = andThen (onAcc (findDefault v)) (\<lambda>r.
     ret (case r of None \<Rightarrow> fallbackRegion | Some x \<Rightarrow> region x))"

definition chooseRegion :: "'w acc_env \<Rightarrow> string option \<Rightarrow> ('w, string) accop" where
  "chooseRegion v selectedRegion = (case selectedRegion of Some r \<Rightarrow> ret r
     | None \<Rightarrow> andThen (onAcc (findDefault v)) (\<lambda>r. ret (case r of None \<Rightarrow> fallbackRegion | Some x \<Rightarrow> region x)))"

definition newClient :: "string \<Rightarrow> credentials \<Rightarrow> aws_client" where
  "newClient r c = \<lparr> clRegion = r, clKey = accessKeyId c, clSecret = secretAccessKey c, clToken = truthyStr (sessionToken c) \<rparr>"

definition getAwsClient :: "'w acc_env \<Rightarrow> string option \<Rightarrow> ('w, aws_client) accop" where
  "getAwsClient v selectedRegion =
     andThen (chooseRegion v selectedRegion) (\<lambda>r.
     andThen (getS (\<lambda>s. map_of (awsClient s) r)) (\<lambda>cached. case cached of
        Some c \<Rightarrow> ret c
      | None \<Rightarrow> andThen (onAcc (findCredentials v)) (\<lambda>found. case found of
            None \<Rightarrow> throw (plainErr ''No credentials found'')
          | Some creds \<Rightarrow>
              andThen (modifyS (\<lambda>s. s\<lparr> awsClient := obj_set r (newClient r creds) (awsClient s) \<rparr>)) (\<lambda>_.
                ret (newClient r creds)))))"

definition getEnabledAwsRegions :: "'w acc_env \<Rightarrow> ('w, string list) accop" where
  "getEnabledAwsRegions v = andThen (onAcc (findEnabled v)) (\<lambda>rs. ret (map region rs))"

section \<open>Credentials\<close>

definition credentialsEquals :: "credentials \<Rightarrow> credentials \<Rightarrow> bool" where
  "credentialsEquals a b = True"

definition credentialsCloudRead :: "'w acc_env \<Rightarrow> string option \<Rightarrow> ('w, credentials list) accop" where
  "credentialsCloudRead v i = onAcc (findCredentialsBy v (truthyStr i))"

definition credentialsCloudWrite :: "credentials list \<Rightarrow> ('w, unit) accop" where
  "credentialsCloudWrite es = ret ()"

section \<open>Regions\<close>

definition regionEquals :: "region_row \<Rightarrow> region_row \<Rightarrow> bool" where
  "regionEquals a b = (region a = region b)"

definition regionKey :: "region_row \<Rightarrow> string" where
  "regionKey e = entityId (Some [''region'']) ''region''
     [(''region'', JStr (region e)), (''isDefault'', JBool (isDefaultRegion e)), (''isEnabled'', JBool (isEnabled e))]"

definition getRegions :: "'w acc_env \<Rightarrow> aws_client \<Rightarrow> ('w, string list) awsop" where
  "getRegions v = (\<lambda>c. crudBuilderFormat (\<lambda>cl (_ :: unit). describeRegions v cl) (\<lambda>_. ())
     (\<lambda>res _. case res of None \<Rightarrow> []
        | Some ns \<Rightarrow> filter (\<lambda>r. r \<noteq> []) (map (\<lambda>n. case n of None \<Rightarrow> [] | Some x \<Rightarrow> x) ns)) c ())"

definition cloudRegion :: "string \<Rightarrow> region_row" where
  "cloudRegion r = \<lparr> region = r, isDefaultRegion = False, isEnabled = True \<rparr>"

text \<open>Without credentials nothing is read.  A region asked for by name is not looked up.\<close>

definition regionsCloudRead :: "'w acc_env \<Rightarrow> string option \<Rightarrow> ('w, region_row list) accop" where
  "regionsCloudRead v name = andThen (attempt (getAwsClient v None)) (\<lambda>client. case client of
     Inl _ \<Rightarrow> ret []
   | Inr c \<Rightarrow> (case truthyStr name of
         Some r \<Rightarrow> ret [cloudRegion r]
       | None \<Rightarrow> andThen (onAcc (getRegions v c)) (\<lambda>rs. ret (map cloudRegion rs))))"

text \<open>\<open>this.module.awsRegions.db.delete(e, ctx)\<close> and \<open>db.create(e, ctx)\<close>, with what \<open>Crud\<close> does around them\<close>

definition memoRegion :: "region_row \<Rightarrow> ('w, region_row) accop" where
  "memoRegion e = (\<lambda>s. case memoWith (\<lambda>e old. e) (regionKey e) e (regionMemo s) of (e', m) \<Rightarrow> (Inr e', s\<lparr> regionMemo := m \<rparr>))"

definition unmemoRegions :: "region_row list \<Rightarrow> ('w, unit) accop" where
  "unmemoRegions es = modifyS (\<lambda>s. s\<lparr> regionMemo := fold (\<lambda>e. unmemoKey (regionKey e)) es (regionMemo s) \<rparr>)"

definition regionsDbDelete :: "'w acc_env \<Rightarrow> region_row list \<Rightarrow> ('w, region_row list) accop" where
  "regionsDbDelete v es =
     andThen (tryCatch (onAcc (removeRegions v es)) (\<lambda>e. throw (relabel ''AwsRegions db delete error: '' e))) (\<lambda>out.
     andThen (unmemoRegions es) (\<lambda>_. ret out))"

definition regionsDbCreate :: "'w acc_env \<Rightarrow> region_row list \<Rightarrow> ('w, region_row list) accop" where
  "regionsDbCreate v es = andThen (mapM memoRegion es) (\<lambda>_.
     tryCatch (andThen (onAcc (saveRegions v es)) (mapM memoRegion))
       (\<lambda>e. andThen (unmemoRegions es) (\<lambda>_. throw (relabel ''AwsRegions db create error: '' e))))"

definition regionsCloudCreate :: "'w acc_env \<Rightarrow> region_row list \<Rightarrow> ('w, region_row list) accop" where
  "regionsCloudCreate v es = regionsDbDelete v es"

definition regionsCloudUpdate :: "region_row list \<Rightarrow> ('w, unit) accop" where
  "regionsCloudUpdate es = ret ()"

definition regionsCloudDelete :: "'w acc_env \<Rightarrow> region_row list \<Rightarrow> ('w, region_row list) accop" where
  "regionsCloudDelete v es = regionsDbCreate v es"

section \<open>Claims about clients\<close>

definition clientsInPlace :: "'w acc_state \<Rightarrow> bool" where
  "clientsInPlace s \<longleftrightarrow> (\<forall>r c. map_of (awsClient s) r = Some c \<longrightarrow> clRegion c = r)"

lemma onAcc_frame:
  "onAcc m s = (x, s') \<Longrightarrow> awsClient s' = awsClient s \<and> regionMemo s' = regionMemo s"
  by (auto simp: onAcc_def split: prod.splits)

lemma chooseRegion_frame: "chooseRegion v r s = (x, s') \<Longrightarrow> awsClient s' = awsClient s"
  by (cases r) (auto simp: chooseRegion_def andThen_apply dest: onAcc_frame split: prod.splits sum.splits)

lemma getAwsClient_cached:
  "map_of (awsClient s) r = Some c \<Longrightarrow> getAwsClient v (Some r) s = (Inr c, s)"
  by (simp add: getAwsClient_def chooseRegion_def andThen_apply)

lemma getAwsClient_fresh:
  assumes "map_of (awsClient s) r = None" and "findCredentials v (accNet s) = (Inr (Some creds), w)"
  shows "getAwsClient v (Some r) s =
    (Inr (newClient r creds), s\<lparr> accNet := w, awsClient := obj_set r (newClient r creds) (awsClient s) \<rparr>)"
  using assms by (simp add: getAwsClient_def chooseRegion_def andThen_apply onAcc_def)

lemma getAwsClient_keeps: "map_of (awsClient s) r = Some c \<Longrightarrow> getAwsClient v q s = (x, s') \<Longrightarrow> map_of (awsClient s') r = Some c"
  by (auto simp: getAwsClient_def andThen_apply dest!: chooseRegion_frame onAcc_frame split: prod.splits sum.splits option.splits if_splits)

lemma getAwsClient_core:
  assumes "getAwsClient v q s = (Inr c, s')"
  shows "\<exists>r. (\<forall>x. q = Some x \<longrightarrow> r = x) \<and>
    (map_of (awsClient s) r = Some c \<and> awsClient s' = awsClient s \<or>
     map_of (awsClient s) r = None \<and> clRegion c = r \<and> awsClient s' = obj_set r c (awsClient s))"
proof -
  from assms obtain r s1 where r: "chooseRegion v q s = (Inr r, s1)"
    unfolding getAwsClient_def andThen_Inr_iff by blast
  have a: "awsClient s1 = awsClient s" using chooseRegion_frame [OF r] .
  have q: "\<forall>x. q = Some x \<longrightarrow> r = x" using r by (auto simp: chooseRegion_def)
  have g: "getAwsClient v (Some r) s1 = (Inr c, s')"
    using assms r by (simp add: getAwsClient_def chooseRegion_def [of v "Some r"] andThen_apply)
  show ?thesis
  proof (cases "map_of (awsClient s1) r")
    case (Some d)
    with g have "d = c" "s' = s1" by (simp_all add: getAwsClient_cached)
    with Some q a show ?thesis by auto
  next
    case None
    with g obtain creds w where f: "findCredentials v (accNet s1) = (Inr (Some creds), w)"
      by (auto simp: getAwsClient_def chooseRegion_def andThen_apply onAcc_def split: prod.splits sum.splits option.splits)
    with g None a q show ?thesis
      by (intro exI [of _ r]) (auto simp: getAwsClient_fresh newClient_def)
  qed
qed

text \<open>
  Within one context the clients stay where they belong: a call that returns gives a client of the region
  asked for, which is from then on the cached client of that region, and no cached client of another
  region changes.
\<close>

theorem getAwsClient_region:
  assumes "clientsInPlace s" and "getAwsClient v q s = (Inr c, s')"
  shows "clientsInPlace s' \<and> map_of (awsClient s') (clRegion c) = Some c
    \<and> (\<forall>r. q = Some r \<longrightarrow> clRegion c = r)
    \<and> (\<forall>r. r \<noteq> clRegion c \<longrightarrow> map_of (awsClient s') r = map_of (awsClient s) r)"
  using getAwsClient_core [OF assms(2)] assms(1) by (auto simp: clientsInPlace_def split: if_splits)

text \<open>What may happen in one context: calls that ask for clients, and anything outside of the cache.\<close>

inductive calls :: "'w acc_env \<Rightarrow> 'w acc_state \<Rightarrow> 'w acc_state \<Rightarrow> bool" for v where
  calls_none: "calls v s s"
| calls_client: "calls v s s1 \<Longrightarrow> getAwsClient v q s1 = (x, s2) \<Longrightarrow> calls v s s2"
| calls_else: "calls v s s1 \<Longrightarrow> awsClient s2 = awsClient s1 \<Longrightarrow> calls v s s2"

lemma calls_keep: "calls v s s' \<Longrightarrow> map_of (awsClient s) r = Some c \<Longrightarrow> map_of (awsClient s') r = Some c"
  by (induction rule: calls.induct) (auto intro: getAwsClient_keeps)

text \<open>
  C40. A client is made once per region and context: whatever is called and written after it was made, the
  credentials in the database included, asking for the region gives the same client and reads nothing.
\<close>

theorem same_client:
  assumes "clientsInPlace s" and "getAwsClient v q s = (Inr c, s1)" and "calls v s1 s2"
  shows "getAwsClient v (Some (clRegion c)) s2 = (Inr c, s2)"
proof -
  from getAwsClient_core [OF assms(2)] assms(1) have "map_of (awsClient s1) (clRegion c) = Some c"
    by (auto simp: clientsInPlace_def)
  with assms(3) show ?thesis using calls_keep getAwsClient_cached by blast
qed

section \<open>Claims about regions\<close>

text \<open>How the ORM writes the table of regions, whose primary key is the name.\<close>

definition withoutRows :: "region_row list \<Rightarrow> region_row list \<Rightarrow> region_row list" where
  "withoutRows es rs = filter (\<lambda>r. region r \<notin> region ` set es) rs"

definition servesTable :: "'w acc_env \<Rightarrow> ('w \<Rightarrow> region_row list) \<Rightarrow> bool" where
  "servesTable v rows \<longleftrightarrow>
     (\<forall>es w. \<exists>w'. removeRegions v es w = (Inr es, w') \<and> rows w' = withoutRows es (rows w)) \<and>
     (\<forall>es w. \<exists>w'. saveRegions v es w = (Inr es, w') \<and> rows w' = withoutRows es (rows w) @ es) \<and>
     (\<forall>w. findDefault v w = (Inr (find isDefaultRegion (rows w)), w))"

text \<open>One round of \<open>iasql_apply\<close> over the regions: the rows only in the database, then those only in AWS.\<close>

definition applyRegions :: "'w acc_env \<Rightarrow> region_row list \<Rightarrow> region_row list \<Rightarrow> ('w, unit) accop" where
  "applyRegions v db cloud = (let d = findDiff db cloud region regionEquals in
     andThen (regionsCloudCreate v (entitiesInDbOnly d)) (\<lambda>_.
     andThen (regionsCloudDelete v (entitiesInAwsOnly d)) (\<lambda>_. ret ())))"

lemma mapM_memoRegion: "\<exists>es' m. mapM memoRegion es s = (Inr es', s\<lparr> regionMemo := m \<rparr>)"
proof (induction es arbitrary: s)
  case Nil
  then show ?case by (intro exI [of _ "[]"] exI [of _ "regionMemo s"]) simp
next
  case (Cons e es)
  obtain x m where "memoWith (\<lambda>e old. e) (regionKey e) e (regionMemo s) = (x, m)" by (rule prod.exhaust)
  then have 1: "memoRegion e s = (Inr x, s\<lparr> regionMemo := m \<rparr>)" by (simp add: memoRegion_def)
  from Cons [of "s\<lparr> regionMemo := m \<rparr>"] obtain es' n where
    "mapM memoRegion es (s\<lparr> regionMemo := m \<rparr>) = (Inr es', s\<lparr> regionMemo := n \<rparr>)" by auto
  with 1 show ?case by (simp add: andThen_apply) blast
qed

lemma regionsDbDelete_rows:
  assumes "servesTable v rows"
  shows "\<exists>w m. regionsDbDelete v es s = (Inr es, s\<lparr> accNet := w, regionMemo := m \<rparr>) \<and> rows w = withoutRows es (rows (accNet s))"
proof -
  from assms obtain w where "removeRegions v es (accNet s) = (Inr es, w)" "rows w = withoutRows es (rows (accNet s))"
    unfolding servesTable_def by blast
  then show ?thesis
    by (simp add: regionsDbDelete_def andThen_apply tryCatch_apply onAcc_def unmemoRegions_def) blast
qed

lemma regionsDbCreate_rows:
  assumes "servesTable v rows"
  shows "\<exists>w m out. regionsDbCreate v es s = (Inr out, s\<lparr> accNet := w, regionMemo := m \<rparr>)
    \<and> rows w = withoutRows es (rows (accNet s)) @ es"
proof -
  from mapM_memoRegion [of es s] obtain es' m where 1: "mapM memoRegion es s = (Inr es', s\<lparr> regionMemo := m \<rparr>)" by auto
  from assms obtain w where 2: "saveRegions v es (accNet s) = (Inr es, w)" "rows w = withoutRows es (rows (accNet s)) @ es"
    unfolding servesTable_def by blast
  from mapM_memoRegion [of es "s\<lparr> regionMemo := m, accNet := w \<rparr>"] obtain es2 m2 where
    3: "mapM memoRegion es (s\<lparr> regionMemo := m, accNet := w \<rparr>) = (Inr es2, s\<lparr> accNet := w, regionMemo := m2 \<rparr>)" by auto
  from 1 2 3 show ?thesis
    by (simp add: regionsDbCreate_def andThen_apply tryCatch_apply onAcc_def) blast
qed

lemma set_withoutRows: "set (withoutRows es rs) = {r \<in> set rs. region r \<notin> region ` set es}"
  by (auto simp: withoutRows_def)

lemma region_cloudRegion [simp]: "region (cloudRegion n) = n"
  by (simp add: cloudRegion_def)

lemma applyRegions_rows:
  assumes "servesTable v rows" and "distinct (map region (rows (accNet s)))" and "distinct ns"
  shows "\<exists>w m. applyRegions v (rows (accNet s)) (map cloudRegion ns) s = (Inr (), s\<lparr> accNet := w, regionMemo := m \<rparr>)
    \<and> set (rows w) = {r \<in> set (rows (accNet s)). region r \<in> set ns} \<union> {cloudRegion n |n. n \<in> set ns \<and> n \<notin> region ` set (rows (accNet s))}"
proof -
  let ?db = "rows (accNet s)" and ?d = "findDiff (rows (accNet s)) (map cloudRegion ns) region regionEquals"
  have n: "map region (map cloudRegion ns) = ns" by (simp add: cloudRegion_def comp_def)
  then have "region ` set (map cloudRegion ns) = set ns" by (metis list.set_map)
  then have D: "set (entitiesInDbOnly ?d) = {d \<in> set ?db. region d \<notin> set ns}"
    using dbOnly_distinct [OF assms(2), of "map cloudRegion ns"] by simp
  have A: "set (entitiesInAwsOnly ?d) = {c \<in> cloudRegion ` set ns. region c \<notin> region ` set ?db}"
    using awsOnly_distinct [of region "map cloudRegion ns" ?db] assms(3) n by simp
  obtain w m where 1: "regionsDbDelete v (entitiesInDbOnly ?d) s = (Inr (entitiesInDbOnly ?d), s\<lparr> accNet := w, regionMemo := m \<rparr>)"
    "rows w = withoutRows (entitiesInDbOnly ?d) ?db"
    using regionsDbDelete_rows [OF assms(1)] by blast
  obtain w2 m2 out where 2: "regionsDbCreate v (entitiesInAwsOnly ?d) (s\<lparr> accNet := w, regionMemo := m \<rparr>)
      = (Inr out, s\<lparr> accNet := w2, regionMemo := m2 \<rparr>)"
    "rows w2 = withoutRows (entitiesInAwsOnly ?d) (rows w) @ entitiesInAwsOnly ?d"
    using regionsDbCreate_rows [OF assms(1), of "entitiesInAwsOnly ?d" "s\<lparr> accNet := w, regionMemo := m \<rparr>"] by auto
  have W: "set (rows w) = {r \<in> set ?db. region r \<in> set ns}"
    unfolding 1(2) set_withoutRows D by force
  have "region r \<notin> region ` set (entitiesInAwsOnly ?d)" if "r \<in> set (rows w)" for r
    using that unfolding W A by force
  then have "set (rows w2) = set (rows w) \<union> set (entitiesInAwsOnly ?d)"
    unfolding 2(2) set_append set_withoutRows by blast
  also have "set (entitiesInAwsOnly ?d) = {cloudRegion n |n. n \<in> set ns \<and> n \<notin> region ` set ?db}"
    unfolding A by force
  finally have "set (rows w2) = {r \<in> set ?db. region r \<in> set ns} \<union> {cloudRegion n |n. n \<in> set ns \<and> n \<notin> region ` set ?db}"
    unfolding W .
  moreover have "applyRegions v ?db (map cloudRegion ns) s = (Inr (), s\<lparr> accNet := w2, regionMemo := m2 \<rparr>)"
    by (simp add: applyRegions_def Let_def regionsCloudCreate_def regionsCloudDelete_def andThen_apply 1(1) 2(1))
  ultimately show ?thesis by blast
qed


text \<open>
  A default region that was deleted does not come back as one: when no row is the default, which is so
  after the row of the default region was deleted, then after a round the default region is
  \<open>us-east-1\<close>, whatever it was before.
\<close>

theorem deleted_default_falls_back:
  assumes "servesTable v rows" and "distinct (map region (rows (accNet s)))" and "distinct ns"
    and "list_all (\<lambda>r. \<not> isDefaultRegion r) (rows (accNet s))"
  shows "fst (andThen (applyRegions v (rows (accNet s)) (map cloudRegion ns)) (\<lambda>_. getDefaultRegion v) s) = Inr ''us-east-1''"
proof -
  obtain w m where a: "applyRegions v (rows (accNet s)) (map cloudRegion ns) s = (Inr (), s\<lparr> accNet := w, regionMemo := m \<rparr>)"
    "set (rows w) = {r \<in> set (rows (accNet s)). region r \<in> set ns} \<union> {cloudRegion n |n. n \<in> set ns \<and> n \<notin> region ` set (rows (accNet s))}"
    using applyRegions_rows [OF assms(1-3)] by blast
  have "find isDefaultRegion (rows w) = None"
    using assms(4) by (auto simp: find_None_iff a(2) cloudRegion_def list_all_iff)
  moreover have "findDefault v w = (Inr (find isDefaultRegion (rows w)), w)" using assms(1) unfolding servesTable_def by blast
  ultimately show ?thesis by (simp add: andThen_apply a(1) getDefaultRegion_def onAcc_def fallbackRegion_def)
qed

section \<open>Instances\<close>

text \<open>The world is the table of regions.\<close>

definition demoAcc :: "region_row list acc_env" where
  "demoAcc = \<lparr> findDefault = (\<lambda>w. (Inr (find isDefaultRegion w), w)), findEnabled = (\<lambda>w. (Inr (filter isEnabled w), w)),
     findCredentials = ret (Some \<lparr> crPk = Some 1, accessKeyId = ''k'', secretAccessKey = ''s'', sessionToken = None \<rparr>),
     findCredentialsBy = (\<lambda>_. ret []), describeRegions = (\<lambda>_. ret (Some [Some ''r1'', None, Some ''r2''])),
     saveRegions = (\<lambda>es w. (Inr es, withoutRows es w @ es)), removeRegions = (\<lambda>es w. (Inr es, withoutRows es w)) \<rparr>"

definition demoAccState :: "region_row list acc_state" where
  "demoAccState = \<lparr> accNet = [\<lparr> region = ''r1'', isDefaultRegion = False, isEnabled = False \<rparr>, cloudRegion ''gone''],
     awsClient = [], regionMemo = None \<rparr>"

definition demoClient :: "string \<Rightarrow> aws_client" where
  "demoClient r = \<lparr> clRegion = r, clKey = ''k'', clSecret = ''s'', clToken = None \<rparr>"

lemma demoAcc_serves: "servesTable demoAcc (\<lambda>w. w)"
  by (simp add: servesTable_def demoAcc_def)

lemma demo_client:
  "getAwsClient demoAcc (Some ''r1'') demoAccState = (Inr (demoClient ''r1''), demoAccState\<lparr> awsClient := [(''r1'', demoClient ''r1'')] \<rparr>)"
  by (simp add: getAwsClient_def chooseRegion_def andThen_apply demoAcc_def demoAccState_def onAcc_def newClient_def demoClient_def
      truthyStr_def obj_set_def)

lemma demo_in_place: "clientsInPlace demoAccState"
  by (simp add: clientsInPlace_def demoAccState_def)

theorem getAwsClient_region_witness:
  "clientsInPlace (demoAccState\<lparr> awsClient := [(''r1'', demoClient ''r1'')] \<rparr>)"
  using getAwsClient_region [OF demo_in_place demo_client] by (rule conjunct1)

theorem same_client_witness:
  "getAwsClient demoAcc (Some ''r1'') (demoAccState\<lparr> awsClient := [(''r1'', demoClient ''r1'')], accNet := [] \<rparr>)
     = (Inr (demoClient ''r1''), demoAccState\<lparr> awsClient := [(''r1'', demoClient ''r1'')], accNet := [] \<rparr>)"
proof -
  have "calls demoAcc (demoAccState\<lparr> awsClient := [(''r1'', demoClient ''r1'')] \<rparr>)
    (demoAccState\<lparr> awsClient := [(''r1'', demoClient ''r1'')], accNet := [] \<rparr>)"
    by (rule calls_else [OF calls_none]) simp
  from same_client [OF demo_in_place demo_client this] show ?thesis by (simp add: demoClient_def)
qed

lemma demo_distinct: "distinct (map region (accNet demoAccState))"
  by (simp add: demoAccState_def cloudRegion_def)


theorem deleted_default_falls_back_witness:
  "fst (andThen (applyRegions demoAcc (accNet demoAccState) (map cloudRegion [''r1'', ''r2''])) (\<lambda>_. getDefaultRegion demoAcc) demoAccState)
     = Inr ''us-east-1''"
  by (rule deleted_default_falls_back [OF demoAcc_serves demo_distinct]) (simp_all add: demoAccState_def cloudRegion_def)

end
