(* ===== verification/S3.thy ===== *)
theory S3
  imports Aws_Context Iam_Policy
begin

text \<open>
  Buckets, their objects, their public access blocks and their web sites: \<open>src/src/modules/aws_s3\<close>, and the
  tags of \<open>src/src/modules/aws_vpc/mappers/tags.ts\<close>.

  Parameters (\<open>s3_env\<close>) are the calls of the S3 client (the first argument is the region it was made
  for), the database side of the mappers, and \<open>JSON\<close> of policies.  The state has the memo tables that the
  mappers use.  A date is its number of milliseconds.
\<close>

section \<open>Entities and AWS objects\<close>

record bucket =
  bkName :: string
  bkPolicy :: "policy option"
  bkCreated :: "int option"
  bkTags :: "tags option"
  bkRegion :: string

record bucket_object =
  boPk :: "int option"
  boKey :: "string option"
  boBucketName :: "string option"
  boBucket :: "bucket option"
  boRegion :: "string option"
  boTag :: "string option"

record access_block =
  blockAcls :: "bool option"
  ignoreAcls :: "bool option"
  blockPolicy :: "bool option"
  restrictBuckets :: "bool option"
  abBucketName :: string
  abBucket :: bucket

record website =
  indexDocument :: "string option"
  errorDocument :: "string option"
  wsBucketName :: string
  wsBucket :: bucket

record aws_bucket =
  abName :: "string option"
  abCreation :: "int option"

record aws_tag =
  tagKey :: "string option"
  tagValue :: "string option"

record aws_object =
  aoKey :: "string option"
  aoTag :: "string option"

record aws_block =
  awsAcls :: "bool option"
  awsIgnore :: "bool option"
  awsPolicy :: "bool option"
  awsRestrict :: "bool option"

record aws_website =
  awIndex :: "string option"
  awError :: "string option"

record 'w s3_env =
  s3Regions :: "('w, string list) awsop"                     \<comment> \<open>\<open>ctx.getEnabledAwsRegions()\<close>\<close>
  s3Default :: "('w, string) awsop"                          \<comment> \<open>\<open>ctx.getDefaultRegion()\<close>\<close>
  listBuckets :: "string \<Rightarrow> ('w, aws_bucket list option) awsop"
  locateBucket :: "string \<Rightarrow> string option \<Rightarrow> ('w, string option) awsop"
  headBucket :: "string \<Rightarrow> string \<Rightarrow> ('w, unit) awsop"
  createBucket :: "string \<Rightarrow> string \<Rightarrow> ('w, unit) awsop"
  deleteBucket :: "string \<Rightarrow> string \<Rightarrow> ('w, unit) awsop"
  getPolicyCall :: "string \<Rightarrow> string option \<Rightarrow> ('w, string option) awsop"
  putPolicy :: "string \<Rightarrow> string \<Rightarrow> string \<Rightarrow> ('w, unit) awsop"
  getTagging :: "string \<Rightarrow> string \<Rightarrow> ('w, aws_tag list option) awsop"
  putTagging :: "string \<Rightarrow> string \<Rightarrow> aws_tag list \<Rightarrow> ('w, unit) awsop"
  listObjects :: "string \<Rightarrow> string \<Rightarrow> string option \<Rightarrow> ('w, aws_object list) awsop"   \<comment> \<open>of all pages\<close>
  deleteObject :: "string \<Rightarrow> string \<Rightarrow> string \<Rightarrow> ('w, unit) awsop"
  waitObjectGone :: "string \<Rightarrow> string \<Rightarrow> string \<Rightarrow> ('w, unit) awsop"
  getBlock :: "string \<Rightarrow> string \<Rightarrow> ('w, aws_block option option) awsop"   \<comment> \<open>the result, and its configuration\<close>
  putBlock :: "string \<Rightarrow> string \<Rightarrow> aws_block \<Rightarrow> ('w, unit) awsop"
  deleteBlock :: "string \<Rightarrow> string \<Rightarrow> ('w, unit) awsop"
  getWebsite :: "string \<Rightarrow> string \<Rightarrow> ('w, aws_website option) awsop"
  putWebsite :: "string \<Rightarrow> string \<Rightarrow> string option \<Rightarrow> string option \<Rightarrow> ('w, unit) awsop"
  deleteWebsite :: "string \<Rightarrow> string \<Rightarrow> ('w, unit) awsop"
  parsePolicy :: "string \<Rightarrow> policy option"                    \<comment> \<open>\<open>JSON.parse\<close>, \<open>None\<close> when it throws\<close>
  policyText :: "policy \<Rightarrow> string"                            \<comment> \<open>\<open>JSON.stringify\<close>\<close>
  bucketDbRead :: "string \<Rightarrow> ('w, bucket option) awsop"
  bucketDbSave :: "bucket \<Rightarrow> ('w, unit) awsop"
  objectDbSave :: "bucket_object \<Rightarrow> ('w, unit) awsop"
  objectDbRemove :: "bucket_object list \<Rightarrow> ('w, unit) awsop"

record 'w s3_state =
  s3Net :: 'w
  cloudBuckets :: "bucket obj option"
  dbBuckets :: "bucket obj option"
  cloudObjects :: "bucket_object obj option"
  dbObjects :: "bucket_object obj option"

type_synonym ('w, 'a) s3op = "('w s3_state, aws_err, 'a) action"

definition onS3 :: "('w, 'a) awsop \<Rightarrow> ('w, 'a) s3op" where
  "onS3 m = (\<lambda>s. case m (s3Net s) of (x, w) \<Rightarrow> (x, s\<lparr> s3Net := w \<rparr>))"

section \<open>Tags\<close>

definition convertTagsFromAws :: "aws_tag list option \<Rightarrow> tags" where
  "convertTagsFromAws inputTags =
     fold (\<lambda>t. case (tagKey t, tagValue t) of (Some k, Some x) \<Rightarrow> obj_set k x | _ \<Rightarrow> id)
       (case inputTags of None \<Rightarrow> [] | Some ts \<Rightarrow> ts) []"

definition convertTagsForAws :: "tags \<Rightarrow> aws_tag list" where
  "convertTagsForAws ts = map (\<lambda>k. \<lparr> tagKey = Some k, tagValue = map_of ts k \<rparr>) (obj_keys ts)"

section \<open>Buckets\<close>

definition bucketKey :: "bucket \<Rightarrow> string" where
  "bucketKey e = entityId (Some [''name'', ''region'']) ''name'' [(''name'', JStr (bkName e)), (''region'', JStr (bkRegion e))]"

definition bucketEquals :: "bucket \<Rightarrow> bucket \<Rightarrow> bool" where
  "bucketEquals a b = (bkCreated a = bkCreated b \<and> policiesAreSame (bkPolicy a) (bkPolicy b) \<and> eqTags (bkTags a) (bkTags b))"

definition bucketMapper :: "aws_bucket \<Rightarrow> string \<Rightarrow> aws_err + bucket" where
  "bucketMapper i r = (case truthyStr (abName i) of
     None \<Rightarrow> Inl (plainErr ''Received a bucket without a name'')
   | Some n \<Rightarrow> Inr \<lparr> bkName = n, bkPolicy = None, bkCreated = abCreation i, bkTags = None, bkRegion = r \<rparr>)"

definition getBuckets :: "'w s3_env \<Rightarrow> string \<Rightarrow> ('w, aws_bucket list) awsop" where
  "getBuckets v client = andThen (listBuckets v client) (\<lambda>res. ret (case res of None \<Rightarrow> [] | Some bs \<Rightarrow> bs))"

definition getBucketPolicy :: "'w s3_env \<Rightarrow> string \<Rightarrow> string option \<Rightarrow> ('w, string option) awsop" where
  "getBucketPolicy v client name = tryCatch (getPolicyCall v client name) (\<lambda>_. ret None)"

definition getBucketTags :: "'w s3_env \<Rightarrow> string \<Rightarrow> string \<Rightarrow> ('w, tags option) awsop" where
  "getBucketTags v client name =
     tryCatch (andThen (getTagging v client name) (\<lambda>ts. ret (Some (convertTagsFromAws ts)))) (\<lambda>_. ret None)"

definition setBucketTags :: "'w s3_env \<Rightarrow> string \<Rightarrow> bucket \<Rightarrow> ('w, unit) awsop" where
  "setBucketTags v client b = putTagging v client (bkName b) (convertTagsForAws (case bkTags b of None \<Rightarrow> [] | Some t \<Rightarrow> t))"

text \<open>\<open>JSON.parse\<close> of a policy that is there, or \<open>undefined\<close>\<close>

definition readPolicy :: "'w s3_env \<Rightarrow> string option \<Rightarrow> ('w, policy option) awsop" where
  "readPolicy v text = (case truthyStr text of None \<Rightarrow> ret None
     | Some t \<Rightarrow> (case parsePolicy v t of None \<Rightarrow> throw (plainErr ''SyntaxError'') | Some p \<Rightarrow> ret (Some p)))"

definition memoDbBucket :: "bucket \<Rightarrow> ('w, unit) s3op" where
  "memoDbBucket b = modifyS (\<lambda>s. s\<lparr> dbBuckets := Some (obj_set (bucketKey b) b (tableRows (dbBuckets s))) \<rparr>)"

text \<open>\<open>this.module.bucket.db.update(b, ctx)\<close>, with what \<open>Crud\<close> does around it\<close>

definition bucketDbUpdate :: "'w s3_env \<Rightarrow> bucket \<Rightarrow> ('w, unit) s3op" where
  "bucketDbUpdate v b =
     andThen (tryCatch (onS3 (bucketDbSave v b)) (\<lambda>e. throw (relabel ''Bucket db update error: '' e))) (\<lambda>_. memoDbBucket b)"

definition createBucketPolicy :: "'w s3_env \<Rightarrow> string \<Rightarrow> bucket \<Rightarrow> ('w, policy option) s3op" where
  "createBucketPolicy v client b =
     andThen (onS3 (putPolicy v client (bkName b) (case bkPolicy b of None \<Rightarrow> ''{}'' | Some p \<Rightarrow> policyText v p))) (\<lambda>_.
     andThen (onS3 (getBucketPolicy v client (Some (bkName b)))) (\<lambda>t.
     andThen (onS3 (readPolicy v t)) (\<lambda>p.
     andThen (bucketDbUpdate v (b\<lparr> bkPolicy := p \<rparr>)) (\<lambda>_. ret p))))"

text \<open>
  The error thrown when the bucket exists is thrown inside of the \<open>try\<close>, whose \<open>catch\<close> ignores it.
\<close>

definition checkBucket :: "'w s3_env \<Rightarrow> bucket \<Rightarrow> string \<Rightarrow> ('w, unit) awsop" where
  "checkBucket v e r = tryCatch (andThen (headBucket v r (bkName e)) (\<lambda>_.
     throw (plainErr ''Cannot create the bucket, it already exists in another region''))) (\<lambda>_. ret ())"

definition bucketCreateOne :: "'w s3_env \<Rightarrow> string list \<Rightarrow> bucket \<Rightarrow> ('w, bucket) awsop" where
  "bucketCreateOne v regions e = andThen (eachM (checkBucket v e) regions) (\<lambda>_.
     andThen (createBucket v (bkRegion e) (bkName e)) (\<lambda>_. ret e))"

definition bucketCloudCreate :: "'w s3_env \<Rightarrow> bucket list \<Rightarrow> ('w, bucket list) awsop" where
  "bucketCloudCreate v es = andThen (s3Regions v) (\<lambda>regions. mapM (bucketCreateOne v regions) es)"

text \<open>The policy is read before the name is looked at.\<close>

definition fullBucket :: "'w s3_env \<Rightarrow> string \<Rightarrow> aws_bucket \<Rightarrow> string \<Rightarrow> ('w, bucket) awsop" where
  "fullBucket v client raw r =
     andThen (getBucketPolicy v client (abName raw)) (\<lambda>t.
     case bucketMapper raw r of Inl e \<Rightarrow> throw e
     | Inr b \<Rightarrow> andThen (getBucketTags v client (bkName b)) (\<lambda>ts.
         andThen (readPolicy v t) (\<lambda>p. ret (b\<lparr> bkTags := ts, bkPolicy := p \<rparr>))))"

definition bucketLocation :: "'w s3_env \<Rightarrow> string \<Rightarrow> aws_bucket \<Rightarrow> ('w, string) awsop" where
  "bucketLocation v client raw = andThen (tryCatch (locateBucket v client (abName raw)) (\<lambda>_. ret None)) (\<lambda>l.
     ret (case truthyStr l of None \<Rightarrow> ''us-east-1'' | Some x \<Rightarrow> x))"

definition bucketCloudRead :: "'w s3_env \<Rightarrow> ('w, bucket list) awsop" where
  "bucketCloudRead v =
     andThen (s3Default v) (\<lambda>client. andThen (s3Regions v) (\<lambda>regions. andThen (getBuckets v client) (\<lambda>raws.
       collectM (\<lambda>raw. andThen (bucketLocation v client raw) (\<lambda>l.
         if l \<in> set regions then andThen (fullBucket v l raw l) (\<lambda>b. ret (Some b)) else ret None)) raws)))"

definition bucketIdFields :: "string \<Rightarrow> string option \<times> string option" where
  "bucketIdFields i = (let ws = splitOn (CHR ''|'') i in (Some (ws ! 0), if 1 < length ws then Some (ws ! 1) else None))"

text \<open>Of one bucket the location is not asked for: it is in the region of the identifier.\<close>

definition bucketCloudReadOne :: "'w s3_env \<Rightarrow> string \<Rightarrow> ('w, bucket option) awsop" where
  "bucketCloudReadOne v i =
     andThen (s3Default v) (\<lambda>client. andThen (s3Regions v) (\<lambda>regions.
       case bucketIdFields i of (name, Some r) \<Rightarrow>
         if r \<in> set regions
         then andThen (getBuckets v client) (\<lambda>raws. case find (\<lambda>b. abName b = name) raws of
                None \<Rightarrow> ret None | Some raw \<Rightarrow> andThen (fullBucket v client raw r) (\<lambda>b. ret (Some b)))
         else ret None
       | _ \<Rightarrow> ret None))"

datatype update_kind = Update | Replace

definition bucketUpdateOrReplace :: "bucket \<Rightarrow> bucket \<Rightarrow> update_kind" where
  "bucketUpdateOrReplace a b =
     (if \<not> policiesAreSame (bkPolicy a) (bkPolicy b) \<or> \<not> eqTags (bkTags a) (bkTags b) then Update else Replace)"

definition bucketUpdateOne :: "'w s3_env \<Rightarrow> string list \<Rightarrow> bucket \<Rightarrow> ('w, bucket option) s3op" where
  "bucketUpdateOne v regions e =
     (if bkRegion e \<notin> set regions then ret None
      else andThen (getS (\<lambda>s. map_of (tableRows (cloudBuckets s)) (bucketKey e))) (\<lambda>found. case found of
        None \<Rightarrow> throw jsTypeErr
      | Some cloudRecord \<Rightarrow>
         (case bucketUpdateOrReplace cloudRecord e of
            Update \<Rightarrow>
              (let e1 = e\<lparr> bkCreated := bkCreated cloudRecord \<rparr> in
               andThen (if policiesAreSame (bkPolicy cloudRecord) (bkPolicy e) then ret e1
                        else andThen (createBucketPolicy v (bkRegion e) e1) (\<lambda>p. ret (e1\<lparr> bkPolicy := p \<rparr>))) (\<lambda>e2.
               andThen (if eqTags (bkTags cloudRecord) (bkTags e2) then ret () else onS3 (setBucketTags v (bkRegion e) e2)) (\<lambda>_.
               ret (Some e2))))
          | Replace \<Rightarrow> andThen (bucketDbUpdate v cloudRecord) (\<lambda>_. andThen (memoDbBucket cloudRecord) (\<lambda>_. ret (Some cloudRecord))))))"

definition bucketCloudUpdate :: "'w s3_env \<Rightarrow> bucket list \<Rightarrow> ('w, bucket list) s3op" where
  "bucketCloudUpdate v es = andThen (onS3 (s3Regions v)) (\<lambda>regions. collectM (bucketUpdateOne v regions) es)"

definition waitingText :: "aws_object list \<Rightarrow> string" where
  "waitingText os = ''Waiting for deletion of '' @ joinWith '', '' (map (\<lambda>ob. case aoKey ob of None \<Rightarrow> [] | Some k \<Rightarrow> k) os)"

definition bucketDeleteOne :: "'w s3_env \<Rightarrow> bucket \<Rightarrow> ('w, unit) awsop" where
  "bucketDeleteOne v e = andThen (listObjects v (bkRegion e) (bkName e) None) (\<lambda>remaining.
     if remaining \<noteq> [] then throw (plainErr (waitingText remaining)) else deleteBucket v (bkRegion e) (bkName e))"

definition bucketCloudDelete :: "'w s3_env \<Rightarrow> bucket list \<Rightarrow> ('w, unit) awsop" where
  "bucketCloudDelete v = eachM (bucketDeleteOne v)"

text \<open>\<open>this.module.bucket.cloud.read(ctx)\<close> and with an identifier, with what \<open>Crud\<close> does around them\<close>

definition memoCloudBucket :: "bucket \<Rightarrow> ('w, bucket) s3op" where
  "memoCloudBucket b = (\<lambda>s. case memoWith (\<lambda>e old. e) (bucketKey b) b (cloudBuckets s) of (b', m) \<Rightarrow> (Inr b', s\<lparr> cloudBuckets := m \<rparr>))"

definition crudReadBuckets :: "'w s3_env \<Rightarrow> ('w, bucket list) s3op" where
  "crudReadBuckets v =
     andThen (tryCatch (onS3 (bucketCloudRead v)) (\<lambda>e. throw (relabel ''Bucket cloud read error: '' e))) (mapM memoCloudBucket)"

definition crudReadBucket :: "'w s3_env \<Rightarrow> string \<Rightarrow> ('w, bucket option) s3op" where
  "crudReadBucket v i = andThen (getS (\<lambda>s. map_of (tableRows (cloudBuckets s)) i)) (\<lambda>hit. case hit of
       Some b \<Rightarrow> ret (Some b)
     | None \<Rightarrow> andThen (tryCatch (onS3 (bucketCloudReadOne v i)) (\<lambda>e. throw (relabel ''Bucket cloud read error: '' e))) (\<lambda>r.
         case r of None \<Rightarrow> ret None | Some b \<Rightarrow> andThen (memoCloudBucket b) (\<lambda>b'. ret (Some b'))))"

section \<open>Objects\<close>

definition objectFields :: "bucket_object \<Rightarrow> entity_obj" where
  "objectFields e = [(''id'', optNum (boPk e)), (''key'', optStr (boKey e)), (''bucketName'', optStr (boBucketName e))]"

definition objectKey :: "bucket_object \<Rightarrow> string" where
  "objectKey e = entityId (Some [''key'', ''bucketName'']) ''id'' (objectFields e)"

definition objectEquals :: "bucket_object \<Rightarrow> bucket_object \<Rightarrow> bool" where
  "objectEquals a b = (boTag a = boTag b)"

definition noObject :: bucket_object where                   \<comment> \<open>\<open>new BucketObject()\<close>\<close>
  "noObject = \<lparr> boPk = None, boKey = None, boBucketName = None, boBucket = None, boRegion = None, boTag = None \<rparr>"

definition bucketObjectMapper :: "'w s3_env \<Rightarrow> aws_object \<Rightarrow> string \<Rightarrow> string \<Rightarrow> ('w, bucket_object) s3op" where
  "bucketObjectMapper v i bucketName r =
     (case truthyStr (aoKey i) of
        None \<Rightarrow> throw (plainErr ''Received a bucket object without a key'')
      | Some k \<Rightarrow>
          andThen (onS3 (bucketDbRead v (bucketName @ ''|'' @ r))) (\<lambda>d.
          andThen (case d of Some b \<Rightarrow> ret (Some b) | None \<Rightarrow> crudReadBucket v (bucketName @ ''|'' @ r)) (\<lambda>found.
          ret (case found of None \<Rightarrow> noObject
             | Some b \<Rightarrow> noObject\<lparr> boBucketName := Some (bkName b), boBucket := Some b, boRegion := Some r, boTag := aoTag i,
                 boKey := Some k \<rparr>))))"

text \<open>The database rows are removed: objects cannot be created by a row.\<close>

definition objectsDbDelete :: "'w s3_env \<Rightarrow> bucket_object list \<Rightarrow> ('w, unit) s3op" where
  "objectsDbDelete v es =
     andThen (tryCatch (onS3 (objectDbRemove v es)) (\<lambda>e. throw (relabel ''BucketObject db delete error: '' e))) (\<lambda>_.
       modifyS (\<lambda>s. s\<lparr> dbObjects := fold (\<lambda>e. unmemoKey (objectKey e)) es (dbObjects s) \<rparr>))"

definition objectCloudCreate :: "'w s3_env \<Rightarrow> bucket_object list \<Rightarrow> ('w, bucket_object list) s3op" where
  "objectCloudCreate v es = andThen (objectsDbDelete v es) (\<lambda>_. ret [])"

definition objectAt :: "'w s3_env \<Rightarrow> string list \<Rightarrow> jsval \<Rightarrow> jsval \<Rightarrow> jsval \<Rightarrow> ('w, bucket_object option) s3op" where
  "objectAt v regions bucketName key region = (case (bucketName, key, region) of
     (JStr b, JStr k, JStr r) \<Rightarrow>
       if r \<in> set regions
       then andThen (onS3 (listObjects v r b (truthyStr (Some k)))) (\<lambda>os. case os of
              [] \<Rightarrow> ret None | x # _ \<Rightarrow> andThen (bucketObjectMapper v x b r) (\<lambda>y. ret (Some y)))
       else ret None
   | _ \<Rightarrow> ret None)"

text \<open>\<open>const { bucketName, key, region } = this.idFields(id)\<close>\<close>

definition objectCloudReadOne :: "'w s3_env \<Rightarrow> string \<Rightarrow> ('w, bucket_object option) s3op" where
  "objectCloudReadOne v i = andThen (onS3 (s3Regions v)) (\<lambda>regions.
     (let f = idFields (Some [''key'', ''bucketName'']) ''id'' i in
      objectAt v regions (field f ''bucketName'') (field f ''key'') (field f ''region'')))"

text \<open>\<open>try { for (const x of xs) out.push(f(x)) } catch (e) {}\<close>: what was pushed before the error stays.\<close>

fun pushUntil :: "('a \<Rightarrow> ('s, 'e, 'b) action) \<Rightarrow> 'a list \<Rightarrow> ('s, 'e, 'b list) action" where
  "pushUntil f [] = ret []"
| "pushUntil f (x # xs) = (\<lambda>s. case f x s of
      (Inl _, s') \<Rightarrow> (Inr [], s')
    | (Inr y, s') \<Rightarrow> andThen (pushUntil f xs) (\<lambda>ys. ret (y # ys)) s')"

definition objectsOf :: "'w s3_env \<Rightarrow> bucket \<Rightarrow> ('w, bucket_object list) s3op" where
  "objectsOf v b = tryCatch (andThen (onS3 (listObjects v (bkRegion b) (bkName b) None))
     (pushUntil (\<lambda>ob. bucketObjectMapper v ob (bkName b) (bkRegion b)))) (\<lambda>_. ret [])"

definition objectCloudRead :: "'w s3_env \<Rightarrow> ('w, bucket_object list) s3op" where
  "objectCloudRead v = andThen (crudReadBuckets v) (\<lambda>bs. andThen (mapM (objectsOf v) bs) (\<lambda>oss. ret (concat oss)))"

text \<open>A changed row is overwritten with the object in the cloud.\<close>

definition objectUpdateOne :: "'w s3_env \<Rightarrow> bucket_object \<Rightarrow> ('w, bucket_object) s3op" where
  "objectUpdateOne v e = andThen (getS (\<lambda>s. map_of (tableRows (cloudObjects s)) (objectKey e))) (\<lambda>found. case found of
       None \<Rightarrow> throw jsTypeErr
     | Some c \<Rightarrow> andThen (tryCatch (onS3 (objectDbSave v c)) (\<lambda>e. throw (relabel ''BucketObject db update error: '' e))) (\<lambda>_.
         andThen (modifyS (\<lambda>s. s\<lparr> dbObjects := Some (obj_set (objectKey c) c (tableRows (dbObjects s))) \<rparr>)) (\<lambda>_. ret c)))"

definition objectCloudUpdate :: "'w s3_env \<Rightarrow> bucket_object list \<Rightarrow> ('w, bucket_object list) s3op" where
  "objectCloudUpdate v = mapM (objectUpdateOne v)"

definition objectDeleteOne :: "'w s3_env \<Rightarrow> bucket_object \<Rightarrow> ('w, unit) awsop" where
  "objectDeleteOne v e = (case (truthyStr (boKey e), truthyStr (boBucketName e)) of
     (Some k, Some b) \<Rightarrow> (let r = shownStr (boRegion e) in
        andThen (deleteObject v r b k) (\<lambda>_. waitObjectGone v r b k))
   | _ \<Rightarrow> ret ())"

definition objectCloudDelete :: "'w s3_env \<Rightarrow> bucket_object list \<Rightarrow> ('w, unit) awsop" where
  "objectCloudDelete v = eachM (objectDeleteOne v)"

section \<open>Public access blocks\<close>

definition publicAccessBlockMapper :: "aws_block \<Rightarrow> bucket \<Rightarrow> access_block" where
  "publicAccessBlockMapper raw b = \<lparr> blockAcls = awsAcls raw, ignoreAcls = awsIgnore raw, blockPolicy = awsPolicy raw,
     restrictBuckets = awsRestrict raw, abBucketName = bkName b, abBucket = b \<rparr>"

definition blockEquals :: "access_block \<Rightarrow> access_block \<Rightarrow> bool" where
  "blockEquals a b = (blockAcls a = blockAcls b \<and> ignoreAcls a = ignoreAcls b \<and> blockPolicy a = blockPolicy b
     \<and> restrictBuckets a = restrictBuckets b)"

definition getPublicAccessBlockForBucket :: "'w s3_env \<Rightarrow> bucket \<Rightarrow> ('w, access_block) awsop" where
  "getPublicAccessBlockForBucket v b = andThen (getBlock v (bkRegion b) (bkName b)) (\<lambda>res. case res of
     Some (Some raw) \<Rightarrow> ret (publicAccessBlockMapper raw b) | _ \<Rightarrow> throw jsTypeErr)"

text \<open>The memoised buckets if there are any, else all.\<close>

definition knownBuckets :: "'w s3_env \<Rightarrow> ('w, bucket list) s3op" where
  "knownBuckets v = andThen (getS (\<lambda>s. obj_values (tableRows (cloudBuckets s)))) (\<lambda>bs.
     if bs \<noteq> [] then ret bs else crudReadBuckets v)"

text \<open>What both mappers of settings of buckets do to read them: one bucket, or all that have one.\<close>

definition readSetting :: "'w s3_env \<Rightarrow> (bucket \<Rightarrow> ('w, 'a) awsop) \<Rightarrow> string option \<Rightarrow> ('w, 'a list) s3op" where
  "readSetting v get i = andThen (knownBuckets v) (\<lambda>bs. case truthyStr i of
       Some n \<Rightarrow> (case find (\<lambda>b. bkName b = n) bs of
           None \<Rightarrow> throw (plainErr ''No such bucket was found'')
         | Some b \<Rightarrow> andThen (onS3 (get b)) (\<lambda>x. ret [x]))
     | None \<Rightarrow> collectM (\<lambda>b. tryCatch (andThen (onS3 (get b)) (\<lambda>x. ret (Some x))) (\<lambda>_. ret None)) bs)"

definition blockCloudRead :: "'w s3_env \<Rightarrow> string option \<Rightarrow> ('w, access_block list) s3op" where
  "blockCloudRead v = readSetting v (getPublicAccessBlockForBucket v)"

definition savePublicAccessBlock :: "'w s3_env \<Rightarrow> access_block \<Rightarrow> ('w, unit) awsop" where
  "savePublicAccessBlock v e = putBlock v (bkRegion (abBucket e)) (abBucketName e)
     \<lparr> awsAcls = blockAcls e, awsIgnore = ignoreAcls e, awsPolicy = blockPolicy e, awsRestrict = restrictBuckets e \<rparr>"

definition blockCloudSave :: "'w s3_env \<Rightarrow> access_block list \<Rightarrow> ('w, access_block list) awsop" where
  "blockCloudSave v = mapM (\<lambda>e. andThen (savePublicAccessBlock v e) (\<lambda>_. ret e))"

definition blockCloudDelete :: "'w s3_env \<Rightarrow> access_block list \<Rightarrow> ('w, access_block list) awsop" where
  "blockCloudDelete v = mapM (\<lambda>e. andThen (deleteBlock v (bkRegion (abBucket e)) (abBucketName e)) (\<lambda>_. ret e))"

section \<open>Web sites\<close>

definition websiteEquals :: "website \<Rightarrow> website \<Rightarrow> bool" where
  "websiteEquals a b = (indexDocument a = indexDocument b \<and> errorDocument a = errorDocument b)"

definition bucketWebsiteMapper :: "aws_website \<Rightarrow> bucket \<Rightarrow> website" where
  "bucketWebsiteMapper raw b = \<lparr> indexDocument = awIndex raw, errorDocument = awError raw, wsBucketName = bkName b, wsBucket = b \<rparr>"

definition getBucketWebsiteForBucket :: "'w s3_env \<Rightarrow> bucket \<Rightarrow> ('w, website) awsop" where
  "getBucketWebsiteForBucket v b = andThen (getWebsite v (bkRegion b) (bkName b)) (\<lambda>res. case res of
     None \<Rightarrow> throw jsTypeErr | Some raw \<Rightarrow> ret (bucketWebsiteMapper raw b))"

definition websiteCloudRead :: "'w s3_env \<Rightarrow> string option \<Rightarrow> ('w, website list) s3op" where
  "websiteCloudRead v = readSetting v (getBucketWebsiteForBucket v)"

definition putBucketWebsite :: "'w s3_env \<Rightarrow> website \<Rightarrow> ('w, unit) awsop" where
  "putBucketWebsite v e = putWebsite v (bkRegion (wsBucket e)) (wsBucketName e) (indexDocument e) (truthyStr (errorDocument e))"

definition websiteCloudSave :: "'w s3_env \<Rightarrow> website list \<Rightarrow> ('w, website list) awsop" where
  "websiteCloudSave v = mapM (\<lambda>e. andThen (putBucketWebsite v e) (\<lambda>_. ret e))"

definition websiteCloudDelete :: "'w s3_env \<Rightarrow> website list \<Rightarrow> ('w, website list) awsop" where
  "websiteCloudDelete v = mapM (\<lambda>e. andThen (deleteWebsite v (bkRegion (wsBucket e)) (wsBucketName e)) (\<lambda>_. ret e))"

section \<open>Claims\<close>

lemma mapM_single: "mapM f [x] = andThen (f x) (\<lambda>y. ret [y])"
  by (rule ext) (simp add: andThen_apply split: prod.split sum.split)

lemma checkBucket_passes:
  assumes "\<And>r n w. snd (headBucket v r n w) = w"
  shows "checkBucket v e r w = (Inr (), w)"
  using assms [of r "bkName e" w]
  by (cases "headBucket v r (bkName e) w") (auto simp: checkBucket_def tryCatch_apply andThen_apply split: sum.split)

lemma eachM_noop: "(\<And>x. x \<in> set xs \<Longrightarrow> f x w = (Inr (), w)) \<Longrightarrow> eachM f xs w = (Inr (), w)"
  by (induction xs) (auto simp: andThen_apply)

text \<open>
  C33. The check that a bucket does not exist in another region decides nothing: whatever the requests for it
  answer, the creation is asked for, and a bucket that AWS creates is created.
\<close>

theorem exists_check_ignored:
  assumes "\<forall>r n w. snd (headBucket v r n w) = w"
    and "s3Regions v w = (Inr regions, w1)" and "createBucket v (bkRegion e) (bkName e) w1 = (Inr (), w2)"
  shows "bucketCloudCreate v [e] w = (Inr [e], w2)"
proof -
  have "eachM (checkBucket v e) regions w1 = (Inr (), w1)"
    using assms(1) by (intro eachM_noop checkBucket_passes) simp
  with assms(2,3) show ?thesis
    by (simp add: bucketCloudCreate_def mapM_single bucketCreateOne_def andThen_apply)
qed

lemma object_id_without_region:
  "field (idFields (Some [''key'', ''bucketName'']) ''id'' i) ''region'' = JUndef"
proof -
  have "map_of (idFields (Some [''key'', ''bucketName'']) ''id'' i) ''region'' = None"
    by (simp add: idFields_def Let_def obj_of_find map_of_eq_None_iff upt_rec)
  then show ?thesis by (simp add: field_def)
qed

lemma no_region_no_read: "objectAt v regions a b JUndef = ret None"
  by (cases a; cases b) (simp_all add: objectAt_def)

text \<open>
  An object asked for by its identifier is never found: the identifier has the key and the bucket, not the
  region that the read needs.
\<close>

theorem object_read_one_useless:
  assumes "objectCloudReadOne v i s = (Inr x, s')"
  shows "x = None"
  using assms
  by (auto simp: objectCloudReadOne_def Let_def object_id_without_region no_region_no_read andThen_Inr_iff)

text \<open>A bucket with objects is not deleted: the handler throws, after having listed the objects.\<close>

theorem full_bucket_is_kept:
  assumes "listObjects v (bkRegion e) (bkName e) None w = (Inr os, w')" and "os \<noteq> []"
  shows "bucketCloudDelete v (e # es) w = (Inl (plainErr (waitingText os)), w')"
  using assms by (simp add: bucketCloudDelete_def bucketDeleteOne_def andThen_apply)

lemma collectM_all:
  "collectM f xs s = (Inr ys, s') \<Longrightarrow> (\<And>x y s s'. x \<in> set xs \<Longrightarrow> f x s = (Inr (Some y), s') \<Longrightarrow> P y) \<Longrightarrow> \<forall>y \<in> set ys. P y"
proof (induction xs arbitrary: s ys)
  case (Cons x xs)
  from Cons.prems(1) obtain y s1 zs where f: "f x s = (Inr y, s1)" "collectM f xs s1 = (Inr zs, s')"
    and ys: "ys = (case y of None \<Rightarrow> zs | Some z \<Rightarrow> z # zs)"
    by (auto simp: collectM_Cons andThen_Inr_iff)
  have "\<forall>y \<in> set zs. P y" by (rule Cons.IH [OF f(2)]) (use Cons.prems(2) in auto)
  with f(1) ys Cons.prems(2) [of x] show ?case by (auto split: option.splits)
qed simp

lemma bucketMapper_region: "bucketMapper raw r = Inr b \<Longrightarrow> bkRegion b = r \<and> bkCreated b = abCreation raw"
  by (auto simp: bucketMapper_def split: option.splits)

lemma fullBucket_region: "fullBucket v client raw r w = (Inr b, w') \<Longrightarrow> bkRegion b = r"
  by (cases "bucketMapper raw r") (auto simp: fullBucket_def andThen_Inr_iff dest!: bucketMapper_region)

text \<open>Every bucket that is read lies in an enabled region.\<close>

theorem buckets_in_enabled_regions:
  assumes "\<forall>w. s3Regions v w = (Inr regions, w)" and "bucketCloudRead v w = (Inr bs, w')"
  shows "\<forall>b \<in> set bs. bkRegion b \<in> set regions"
proof -
  from assms obtain client raws w1 where
    c: "collectM (\<lambda>raw. andThen (bucketLocation v client raw) (\<lambda>l.
         if l \<in> set regions then andThen (fullBucket v l raw l) (\<lambda>b. ret (Some b)) else ret None)) raws w1 = (Inr bs, w')"
    by (auto simp: bucketCloudRead_def andThen_Inr_iff)
  show ?thesis
    by (rule collectM_all [OF c]) (auto simp: andThen_Inr_iff dest: fullBucket_region split: if_splits)
qed

section \<open>The contract of a bucket\<close>

text \<open>
  S3 keeps what is put, for each bucket, and answers what it keeps; a text that is not a policy is refused.
  Writing to the database does not touch S3.
\<close>

locale bucket_server =
  fixes v :: "'w s3_env" and kept :: "'w \<Rightarrow> string \<Rightarrow> string option" and tagged :: "'w \<Rightarrow> string \<Rightarrow> aws_tag list option"
  assumes put_policy: "t \<noteq> ''{}'' \<Longrightarrow> \<exists>w'. putPolicy v r n t w = (Inr (), w') \<and> kept w' = (kept w)(n := Some t) \<and> tagged w' = tagged w"
    and put_nothing: "\<exists>err w'. putPolicy v r n ''{}'' w = (Inl err, w') \<and> kept w' = kept w \<and> tagged w' = tagged w"
    and put_tags: "\<exists>w'. putTagging v r n ts w = (Inr (), w') \<and> kept w' = kept w \<and> tagged w' = (tagged w)(n := Some ts)"
    and get_policy: "\<exists>err. getPolicyCall v r (Some n) w = ((case kept w n of None \<Rightarrow> Inl err | Some t \<Rightarrow> Inr (Some t)), w)"
    and get_tags: "\<exists>err. getTagging v r n w = ((case tagged w n of None \<Rightarrow> Inl err | Some ts \<Rightarrow> Inr (Some ts)), w)"
    and save: "\<exists>w'. bucketDbSave v b w = (Inr (), w') \<and> kept w' = kept w \<and> tagged w' = tagged w"
begin

lemma get_policy_is: "getBucketPolicy v r (Some n) w = (Inr (kept w n), w)"
  using get_policy [of r n w] by (auto simp: getBucketPolicy_def tryCatch_apply split: option.splits)

lemma get_tags_is: "getBucketTags v r n w = (Inr (map_option (\<lambda>ts. convertTagsFromAws (Some ts)) (tagged w n)), w)"
  using get_tags [of r n w] by (auto simp: getBucketTags_def tryCatch_apply andThen_apply split: option.splits)

text \<open>The bucket as a read gives it, when the policy that is kept parses.\<close>

definition bucketNow :: "'w \<Rightarrow> string \<Rightarrow> int option \<Rightarrow> string \<Rightarrow> policy option \<Rightarrow> bucket" where
  "bucketNow w n c r p = \<lparr> bkName = n, bkPolicy = p, bkCreated = c,
     bkTags = map_option (\<lambda>ts. convertTagsFromAws (Some ts)) (tagged w n), bkRegion = r \<rparr>"

lemma fullBucket_now:
  assumes "n \<noteq> []" and "readPolicy v (kept w n) w = (Inr p, w)"
  shows "fullBucket v client \<lparr> abName = Some n, abCreation = c \<rparr> r w = (Inr (bucketNow w n c r p), w)"
  using assms
  by (simp add: fullBucket_def andThen_apply get_policy_is get_tags_is bucketMapper_def truthyStr_def bucketNow_def)

lemma createBucketPolicy_puts:
  assumes "bkPolicy b = Some q" and "parsePolicy v (policyText v q) = Some q'" and "policyText v q \<notin> {[], ''{}''}"
  shows "\<exists>s'. createBucketPolicy v r b s = (Inr (Some q'), s') \<and> kept (s3Net s') = (kept (s3Net s))(bkName b := Some (policyText v q))
    \<and> tagged (s3Net s') = tagged (s3Net s)"
proof -
  from put_policy [of "policyText v q" r "bkName b" "s3Net s"] assms(3) obtain w where
    1: "putPolicy v r (bkName b) (policyText v q) (s3Net s) = (Inr (), w)"
      "kept w = (kept (s3Net s))(bkName b := Some (policyText v q))" "tagged w = tagged (s3Net s)" by auto
  from save [of "b\<lparr> bkPolicy := Some q' \<rparr>" w] obtain w' where
    2: "bucketDbSave v (b\<lparr> bkPolicy := Some q' \<rparr>) w = (Inr (), w')" "kept w' = kept w" "tagged w' = tagged w" by auto
  from 1 2 assms show ?thesis
    by (simp add: createBucketPolicy_def andThen_apply onS3_def get_policy_is readPolicy_def truthyStr_def
        bucketDbUpdate_def tryCatch_apply memoDbBucket_def)
qed

lemma no_empty_policy:
  assumes "bkRegion e \<in> set regions" and "map_of (tableRows (cloudBuckets s)) (bucketKey e) = Some c"
    and "bkPolicy e = None" and "bkPolicy c = Some p"
  shows "\<exists>err s'. bucketUpdateOne v regions e s = (Inl err, s') \<and> kept (s3Net s') = kept (s3Net s)"
proof -
  from put_nothing [of "bkRegion e" "bkName e" "s3Net s"] obtain err w where
    "putPolicy v (bkRegion e) (bkName e) ''{}'' (s3Net s) = (Inl err, w)" "kept w = kept (s3Net s)" by auto
  with assms show ?thesis
    by (simp add: bucketUpdateOne_def andThen_apply bucketUpdateOrReplace_def policiesAreSame_def Let_def
        createBucketPolicy_def onS3_def)
qed

end

lemma policiesAreSame_refl: "policiesAreSame p p"
  by (cases p) (simp_all add: policiesAreSame_def policyEq_def normalizePolicy_def list_all2_map1 list_all2_map2
      list_all2_refl normal_statementEq)

lemma convert_fold:
  "map_of (fold (\<lambda>t. case (tagKey t, tagValue t) of (Some k, Some x) \<Rightarrow> obj_set k x | _ \<Rightarrow> id)
      (map (\<lambda>k. \<lparr> tagKey = Some k, tagValue = m k \<rparr>) ks) acc) k' =
   (if k' \<in> set ks \<and> m k' \<noteq> None then m k' else map_of acc k')"
  by (induction ks arbitrary: acc) (auto split: option.splits)

lemma convert_wf: "wf_keys acc \<Longrightarrow>
  wf_keys (fold (\<lambda>t. case (tagKey t, tagValue t) of (Some k, Some x) \<Rightarrow> obj_set k x | _ \<Rightarrow> id) ts acc)"
  by (induction ts arbitrary: acc) (auto split: option.splits simp: jsobj.invar_put)

lemma tags_roundtrip:
  assumes "wf_keys t"
  shows "eqTags (Some (convertTagsFromAws (Some (convertTagsForAws t)))) (Some t)"
proof (subst eqTags_as_maps)
  show "tagMap (Some (convertTagsFromAws (Some (convertTagsForAws t)))) = tagMap (Some t)"
  proof
    fix x
    show "tagMap (Some (convertTagsFromAws (Some (convertTagsForAws t)))) x = tagMap (Some t) x"
      unfolding tagMap_def convertTagsFromAws_def convertTagsForAws_def option.case convert_fold
      by (cases "map_of t x") (auto simp: obj_keys_def dest!: map_of_SomeD intro: rev_image_eqI)
  qed
next
  show "\<forall>x. Some (convertTagsFromAws (Some (convertTagsForAws t))) = Some x \<longrightarrow> wf_keys x"
    using convert_wf [of "[]" "convertTagsForAws t"] by (simp add: convertTagsFromAws_def)
qed (simp add: assms)

text \<open>One update sends all: read back, the bucket has nothing that would be sent again.\<close>

context bucket_server
begin

lemma policy_step:
  assumes now: "readPolicy v (kept (s3Net s) (bkName e)) = ret (bkPolicy c)"
    and sendable: "policiesAreSame (bkPolicy c) (bkPolicy e) \<or>
      (\<exists>q. bkPolicy e = Some q \<and> parsePolicy v (policyText v q) = Some q \<and> policyText v q \<notin> {[], ''{}''})"
  shows "\<exists>e2 s1 p. (if policiesAreSame (bkPolicy c) (bkPolicy e) then ret e
       else andThen (createBucketPolicy v r e) (\<lambda>p. ret (e\<lparr> bkPolicy := p \<rparr>))) s = (Inr e2, s1)
    \<and> tagged (s3Net s1) = tagged (s3Net s) \<and> bkTags e2 = bkTags e \<and> bkName e2 = bkName e \<and> bkCreated e2 = bkCreated e
    \<and> readPolicy v (kept (s3Net s1) (bkName e)) = ret p \<and> policiesAreSame p (bkPolicy e2)"
proof (cases "policiesAreSame (bkPolicy c) (bkPolicy e)")
  case True
  with now show ?thesis by (intro exI [of _ e] exI [of _ s] exI [of _ "bkPolicy c"]) simp
next
  case False
  with sendable obtain q where q: "bkPolicy e = Some q" "parsePolicy v (policyText v q) = Some q" "policyText v q \<notin> {[], ''{}''}"
    by auto
  from createBucketPolicy_puts [OF q, of r s] obtain s1 where
    "createBucketPolicy v r e s = (Inr (Some q), s1)" "kept (s3Net s1) (bkName e) = Some (policyText v q)"
    "tagged (s3Net s1) = tagged (s3Net s)" by auto
  with False q show ?thesis
    by (intro exI [of _ "e\<lparr> bkPolicy := Some q \<rparr>"] exI [of _ s1] exI [of _ "Some q"])
      (auto simp: andThen_apply readPolicy_def truthyStr_def policiesAreSame_refl)
qed

lemma tags_step:
  assumes "bkTags c = map_option (\<lambda>ts. convertTagsFromAws (Some ts)) (tagged (s3Net s) (bkName e))"
    and "\<forall>t. bkTags e = Some t \<longrightarrow> wf_keys t"
  shows "\<exists>s1. (if eqTags (bkTags c) (bkTags e) then ret () else onS3 (setBucketTags v r e)) s = (Inr (), s1)
    \<and> kept (s3Net s1) = kept (s3Net s)
    \<and> eqTags (map_option (\<lambda>ts. convertTagsFromAws (Some ts)) (tagged (s3Net s1) (bkName e))) (bkTags e)"
proof (cases "eqTags (bkTags c) (bkTags e)")
  case False
  let ?t = "case bkTags e of None \<Rightarrow> [] | Some t \<Rightarrow> t"
  from put_tags [of r "bkName e" "convertTagsForAws ?t" "s3Net s"] obtain w where
    w: "putTagging v r (bkName e) (convertTagsForAws ?t) (s3Net s) = (Inr (), w)" "kept w = kept (s3Net s)"
      "tagged w (bkName e) = Some (convertTagsForAws ?t)" by auto
  have "eqTags (Some (convertTagsFromAws (Some (convertTagsForAws ?t)))) (Some ?t)"
    using assms(2) by (intro tags_roundtrip) (auto split: option.split)
  then have "eqTags (Some (convertTagsFromAws (Some (convertTagsForAws ?t)))) (bkTags e)"
    by (auto simp: eqTags_def split: option.splits)
  with w False show ?thesis by (simp add: setBucketTags_def onS3_def)
qed (simp add: assms(1) [symmetric])

lemma update_sends_all:
  assumes region: "bkRegion e \<in> set regions" and memo: "map_of (tableRows (cloudBuckets s)) (bucketKey e) = Some c"
    and now: "readPolicy v (kept (s3Net s) (bkName e)) = ret (bkPolicy c)"
      "bkTags c = map_option (\<lambda>ts. convertTagsFromAws (Some ts)) (tagged (s3Net s) (bkName e))"
    and sendable: "policiesAreSame (bkPolicy c) (bkPolicy e) \<or>
      (\<exists>q. bkPolicy e = Some q \<and> parsePolicy v (policyText v q) = Some q \<and> policyText v q \<notin> {[], ''{}''})"
    and wf: "\<forall>t. bkTags e = Some t \<longrightarrow> wf_keys t" and name: "bkName e \<noteq> []" and upd: "bucketUpdateOrReplace c e = Update"
  shows "\<exists>e' s' b. bucketUpdateOne v regions e s = (Inr (Some e'), s')
    \<and> fullBucket v client \<lparr> abName = Some (bkName e), abCreation = bkCreated c \<rparr> (bkRegion e) (s3Net s') = (Inr b, s3Net s')
    \<and> bkCreated e' = bkCreated b \<and> bucketUpdateOrReplace b e' = Replace"
proof -
  let ?e1 = "e\<lparr> bkCreated := bkCreated c \<rparr>"
  have E: "bkPolicy ?e1 = bkPolicy e" "bkName ?e1 = bkName e" "bkTags ?e1 = bkTags e" "bkCreated ?e1 = bkCreated c" by simp_all
  obtain e2 s1 p where
    1: "(if policiesAreSame (bkPolicy c) (bkPolicy e) then ret ?e1
       else andThen (createBucketPolicy v (bkRegion e) ?e1) (\<lambda>p. ret (?e1\<lparr> bkPolicy := p \<rparr>))) s = (Inr e2, s1)"
    and 2: "tagged (s3Net s1) = tagged (s3Net s)" "bkTags e2 = bkTags e" "bkName e2 = bkName e" "bkCreated e2 = bkCreated c"
      "readPolicy v (kept (s3Net s1) (bkName e)) = ret p" "policiesAreSame p (bkPolicy e2)"
    using policy_step [of s ?e1 c "bkRegion e"] now(1) sendable unfolding E by blast
  obtain s2 where
    3: "(if eqTags (bkTags c) (bkTags e2) then ret () else onS3 (setBucketTags v (bkRegion e) e2)) s1 = (Inr (), s2)"
    and 4: "kept (s3Net s2) = kept (s3Net s1)"
      "eqTags (map_option (\<lambda>ts. convertTagsFromAws (Some ts)) (tagged (s3Net s2) (bkName e))) (bkTags e2)"
    using tags_step [of c s1 e2 "bkRegion e"] now(2) wf unfolding 2(1-3) by blast
  have "bucketUpdateOne v regions e s = (Inr (Some e2), s2)"
    by (simp add: bucketUpdateOne_def Let_def region memo upd 1 3)
  moreover have "fullBucket v client \<lparr> abName = Some (bkName e), abCreation = bkCreated c \<rparr> (bkRegion e) (s3Net s2)
      = (Inr (bucketNow (s3Net s2) (bkName e) (bkCreated c) (bkRegion e) p), s3Net s2)"
    using name 2(5) 4(1) by (intro fullBucket_now) simp_all
  moreover have "bucketUpdateOrReplace (bucketNow (s3Net s2) (bkName e) (bkCreated c) (bkRegion e) p) e2 = Replace"
    using 2(6) 4(2) by (simp add: bucketUpdateOrReplace_def bucketNow_def)
  moreover have "bkCreated e2 = bkCreated (bucketNow (s3Net s2) (bkName e) (bkCreated c) (bkRegion e) p)"
    using 2(4) by (simp add: bucketNow_def)
  ultimately show ?thesis by blast
qed

end

section \<open>A server\<close>

type_synonym s3_world = "(string \<Rightarrow> string option) \<times> (string \<Rightarrow> aws_tag list option)"

definition bucketServer :: "(policy \<Rightarrow> string) \<Rightarrow> (string \<Rightarrow> policy option) \<Rightarrow> s3_world s3_env" where
  "bucketServer enc dec = \<lparr> s3Regions = ret [''r'', ''q''], s3Default = ret ''r'',
     listBuckets = (\<lambda>_. ret (Some [\<lparr> abName = Some ''b'', abCreation = Some 7 \<rparr>])), locateBucket = (\<lambda>_ _. ret (Some ''r'')),
     headBucket = (\<lambda>_ _. ret ()), createBucket = (\<lambda>_ _. ret ()), deleteBucket = (\<lambda>_ _. ret ()),
     getPolicyCall = (\<lambda>_ n w. (case Option.bind n (fst w) of None \<Rightarrow> Inl (plainErr ''NoSuchBucketPolicy'') | Some t \<Rightarrow> Inr (Some t), w)),
     putPolicy = (\<lambda>_ n t w. if t = ''{}'' then (Inl (plainErr ''MalformedPolicy''), w) else (Inr (), ((fst w)(n := Some t), snd w))),
     getTagging = (\<lambda>_ n w. (case snd w n of None \<Rightarrow> Inl (plainErr ''NoSuchTagSet'') | Some ts \<Rightarrow> Inr (Some ts), w)),
     putTagging = (\<lambda>_ n ts w. (Inr (), (fst w, (snd w)(n := Some ts)))),
     listObjects = (\<lambda>_ _ _. ret [\<lparr> aoKey = Some ''k'', aoTag = None \<rparr>]), deleteObject = (\<lambda>_ _ _. ret ()), waitObjectGone = (\<lambda>_ _ _. ret ()),
     getBlock = (\<lambda>_ _. ret None), putBlock = (\<lambda>_ _ _. ret ()), deleteBlock = (\<lambda>_ _. ret ()),
     getWebsite = (\<lambda>_ _. ret None), putWebsite = (\<lambda>_ _ _ _. ret ()), deleteWebsite = (\<lambda>_ _. ret ()),
     parsePolicy = dec, policyText = enc, bucketDbRead = (\<lambda>_. ret None), bucketDbSave = (\<lambda>_. ret ()),
     objectDbSave = (\<lambda>_. ret ()), objectDbRemove = (\<lambda>_. ret ()) \<rparr>"

interpretation s3_server: bucket_server "bucketServer enc dec" fst snd for enc dec
  by unfold_locales (auto simp: bucketServer_def split: option.split)


text \<open>
  The policy of a bucket cannot be taken away: an update whose entity has none asks S3 to put \<open>{}\<close>, which is
  refused, so the update throws and S3 keeps the policy.
\<close>

theorem policy_cannot_be_removed:
  assumes "bkRegion e \<in> set regions" and "map_of (tableRows (cloudBuckets s)) (bucketKey e) = Some c"
    and "bkPolicy e = None" and "bkPolicy c = Some p"
  shows "\<exists>err s'. bucketUpdateOne (bucketServer enc dec) regions e s = (Inl err, s') \<and> fst (s3Net s') = fst (s3Net s)"
  using assms by (rule s3_server.no_empty_policy)

section \<open>Instances\<close>

definition demoBucket :: "tags option \<Rightarrow> bucket" where
  "demoBucket ts = \<lparr> bkName = ''b'', bkPolicy = None, bkCreated = Some 7, bkTags = ts, bkRegion = ''r'' \<rparr>"

definition demoS3 :: "s3_world s3_env" where
  "demoS3 = bucketServer (\<lambda>_. ''P'') (\<lambda>_. None)"

definition s3At :: "bucket option \<Rightarrow> s3_world s3_state" where
  "s3At c = \<lparr> s3Net = (\<lambda>_. None, \<lambda>_. None), cloudBuckets = map_option (\<lambda>b. [(bucketKey b, b)]) c, dbBuckets = None,
     cloudObjects = None, dbObjects = None \<rparr>"

theorem exists_check_ignored_witness:
  "bucketCloudCreate demoS3 [demoBucket None] (s3Net (s3At None)) = (Inr [demoBucket None], s3Net (s3At None))"
  by (rule exists_check_ignored) (simp_all add: demoS3_def bucketServer_def)

theorem object_read_one_useless_witness:
  "objectCloudReadOne demoS3 ''k|b'' (s3At None) = (Inr None, s3At None)"
proof -
  have "\<exists>x. objectCloudReadOne demoS3 ''k|b'' (s3At None) = (Inr x, s3At None)"
    by (simp add: objectCloudReadOne_def Let_def object_id_without_region no_region_no_read andThen_apply onS3_def demoS3_def bucketServer_def)
  then obtain x where x: "objectCloudReadOne demoS3 ''k|b'' (s3At None) = (Inr x, s3At None)" ..
  with object_read_one_useless [OF x] show ?thesis by simp
qed

theorem full_bucket_is_kept_witness:
  "bucketCloudDelete demoS3 [demoBucket None] w = (Inl (plainErr (waitingText [\<lparr> aoKey = Some ''k'', aoTag = None \<rparr>])), w)"
  by (rule full_bucket_is_kept) (simp_all add: demoS3_def bucketServer_def)

lemma demo_read:
  "bucketCloudRead demoS3 (s3Net (s3At None)) = (Inr [demoBucket None], s3Net (s3At None))"
  by (simp add: bucketCloudRead_def getBuckets_def collectM_Cons bucketLocation_def fullBucket_def getBucketPolicy_def getBucketTags_def
      readPolicy_def bucketMapper_def truthyStr_def andThen_apply tryCatch_apply demoS3_def bucketServer_def s3At_def demoBucket_def)

theorem buckets_in_enabled_regions_witness:
  "\<forall>b \<in> set [demoBucket None]. bkRegion b \<in> set [''r'', ''q'']"
  by (rule buckets_in_enabled_regions [OF _ demo_read]) (simp add: demoS3_def bucketServer_def)


theorem policy_cannot_be_removed_witness:
  "\<exists>err s'. bucketUpdateOne demoS3 [''r''] (demoBucket None) (s3At (Some ((demoBucket None)\<lparr> bkPolicy := Some (demoPolicy (ManyStatements [])) \<rparr>)))
      = (Inl err, s') \<and> fst (s3Net s') = (\<lambda>_. None)"
  using policy_cannot_be_removed [of "demoBucket None" "[''r'']" "s3At (Some ((demoBucket None)\<lparr> bkPolicy := Some (demoPolicy (ManyStatements [])) \<rparr>))"
      "(demoBucket None)\<lparr> bkPolicy := Some (demoPolicy (ManyStatements [])) \<rparr>" _ "\<lambda>_. ''P''" "\<lambda>_. None"]
  by (simp add: demoS3_def s3At_def demoBucket_def bucketKey_def tableRows_def)

end
