(* ===== verification/Ecs_Cluster.thy ===== *)
theory Ecs_Cluster
  imports Aws_Context
begin

text \<open>
  Clusters of ECS: \<open>src/src/modules/aws_ecs_fargate/mappers/cluster.ts\<close>, its entity, and what of
  \<open>mappers/service.ts\<close> works on the services of AWS without mapping them (\<open>getServices\<close>,
  \<open>deleteService\<close>, \<open>deleteServiceOnly\<close>).

  Parameters (\<open>ecs_env\<close>) are the calls of the clients, given the region they were made for, and the
  database side of the mapper.  A paginator gives its pages.  A waiter of the SDK is given the function that looks at
  a reply and says whether to try again; it returns when the function says no, and throws when its time is over.
\<close>

section \<open>Entities and AWS objects\<close>

record cluster =
  clPk :: "int option"
  clusterName :: string
  clusterArn :: "string option"
  clusterStatus :: "string option"
  clRegion :: string

record aws_cluster =
  acName :: "string option"
  acArn :: "string option"
  acStatus :: "string option"

record net_conf =
  ncPublicIp :: "string option"
  ncGroups :: "string list option"
  ncSubnets :: "string list option"

record aws_service =
  asArn :: "string option"
  asName :: "string option"
  asStatus :: "string option"
  asCluster :: "string option"
  asDesired :: "int option"
  asTask :: "string option"
  asBalancers :: "string option list"                  \<comment> \<open>their target groups\<close>
  asNet :: "net_conf option"
  asLaunch :: "string option"

record service_update =
  suService :: "string option"
  suCluster :: "string option"
  suTask :: "string option"
  suDesired :: "int option"

type_synonym services_reply = "aws_service list option"
type_synonym enis_reply = "(aws_err + nat option)"     \<comment> \<open>an error, or how many interfaces there are\<close>

record 'w ecs_env =
  ecsRegions :: "('w, string list) awsop"
  regionOfArn :: "string \<Rightarrow> aws_err + string"             \<comment> \<open>\<open>parseArn(arn).region\<close>\<close>
  createCluster :: "string \<Rightarrow> string \<Rightarrow> ('w, aws_cluster option) awsop"
  getCluster :: "string \<Rightarrow> string \<Rightarrow> ('w, aws_cluster option) awsop"
  clusterArnPages :: "string \<Rightarrow> ('w, string list option list) awsop"
  describeClusters :: "string \<Rightarrow> string list \<Rightarrow> ('w, aws_cluster list option) awsop"
  deleteClusterCall :: "string \<Rightarrow> string \<Rightarrow> ('w, unit) awsop"
  taskPages :: "string \<Rightarrow> string \<Rightarrow> string option \<Rightarrow> ('w, string list option list) awsop"
  waitTasksStopped :: "string \<Rightarrow> string \<Rightarrow> string list \<Rightarrow> ('w, unit) awsop"
  servicePages :: "string \<Rightarrow> string \<Rightarrow> ('w, string list option list) awsop"
  describeServices :: "string \<Rightarrow> string option \<Rightarrow> string list \<Rightarrow> ('w, services_reply) awsop"
  updateService :: "string \<Rightarrow> service_update \<Rightarrow> ('w, aws_service option) awsop"
  deleteServiceCall :: "string \<Rightarrow> string \<Rightarrow> string option \<Rightarrow> ('w, unit) awsop"
  waitServices :: "string \<Rightarrow> (services_reply \<Rightarrow> bool) \<Rightarrow> string option \<Rightarrow> string list \<Rightarrow> ('w, unit) awsop"
  taskAttachments :: "string \<Rightarrow> string \<Rightarrow> string list \<Rightarrow> ('w, (string option list option) list option) awsop"
  waitEnis :: "string \<Rightarrow> (enis_reply \<Rightarrow> bool) \<Rightarrow> string list \<Rightarrow> ('w, unit) awsop"
  clusterDbRead :: "string \<Rightarrow> ('w, cluster option) awsop"
  clusterDbSave :: "cluster \<Rightarrow> ('w, unit) awsop"

record 'w ecs_state =
  ecsNet :: 'w
  cloudClusters :: "cluster obj option"
  dbClusters :: "cluster obj option"

type_synonym ('w, 'a) ecsop = "('w ecs_state, aws_err, 'a) action"

definition onEcs :: "('w, 'a) awsop \<Rightarrow> ('w, 'a) ecsop" where
  "onEcs m = (\<lambda>s. case m (ecsNet s) of (x, w) \<Rightarrow> (x, s\<lparr> ecsNet := w \<rparr>))"

section \<open>Services of AWS\<close>

definition allPages :: "'a list option list \<Rightarrow> 'a list" where
  "allPages ps = concat (map (\<lambda>p. case p of None \<Rightarrow> [] | Some xs \<Rightarrow> xs) ps)"

definition describeBatch :: nat where
  "describeBatch = 10"

text \<open>\<open>for (let i = 0; i < xs.length; i += batchSize) xs.slice(i, i + batchSize)\<close>\<close>

function slices :: "'a list \<Rightarrow> 'a list list" where
  "slices xs = (if xs = [] then [] else take describeBatch xs # slices (drop describeBatch xs))"
  by pat_completeness auto
termination
  by (relation "measure length") (auto simp: describeBatch_def)

declare slices.simps [simp del]

definition describeSome :: "'w ecs_env \<Rightarrow> string \<Rightarrow> string \<Rightarrow> string list \<Rightarrow> ('w, aws_service list) awsop" where
  "describeSome v client i arns = andThen (describeServices v client (Some i) arns) (\<lambda>res.
     ret (case res of None \<Rightarrow> [] | Some ss \<Rightarrow> ss))"

definition servicesOf :: "'w ecs_env \<Rightarrow> string \<Rightarrow> string \<Rightarrow> ('w, aws_service list) awsop" where
  "servicesOf v client i = andThen (servicePages v client i) (\<lambda>ps.
     (let arns = allPages ps in
      if arns = [] then ret []
      else if length arns > describeBatch
      then andThen (mapM (describeSome v client i) (slices arns)) (\<lambda>sss. ret (concat sss))
      else describeSome v client i arns))"

definition getServices :: "'w ecs_env \<Rightarrow> string \<Rightarrow> string list \<Rightarrow> ('w, aws_service list) awsop" where
  "getServices v client is = andThen (mapM (servicesOf v client) is) (\<lambda>sss. ret (concat sss))"

definition draining :: "services_reply \<Rightarrow> bool" where
  "draining r = (case r of Some (s # _) \<Rightarrow> asStatus s = Some ''DRAINING'' | _ \<Rightarrow> False)"

definition deleteServiceOnly :: "'w ecs_env \<Rightarrow> string \<Rightarrow> string \<Rightarrow> string option \<Rightarrow> ('w, unit) awsop" where
  "deleteServiceOnly v client name c = andThen (deleteServiceCall v client name c) (\<lambda>_.
     waitServices v client draining c [name])"

definition enisRemain :: "enis_reply \<Rightarrow> bool" where
  "enisRemain r = (case r of Inl _ \<Rightarrow> True | Inr n \<Rightarrow> n \<noteq> None \<and> n \<noteq> Some 0)"

text \<open>\<open>tasks.map(t => t.attachments?.map(a => a.id)).flat()\<close>: a task without attachments stays as \<open>undefined\<close>.\<close>

definition attachmentIds :: "(string option list option) list \<Rightarrow> string option list" where
  "attachmentIds ts = concat (map (\<lambda>t. case t of None \<Rightarrow> [None] | Some as \<Rightarrow> as) ts)"

definition waitForInterfaces :: "'w ecs_env \<Rightarrow> string \<Rightarrow> string \<Rightarrow> string list \<Rightarrow> ('w, unit) awsop" where
  "waitForInterfaces v client c tasks = andThen (taskAttachments v client c tasks) (\<lambda>ts. case ts of
       None \<Rightarrow> ret ()
     | Some xs \<Rightarrow> if attachmentIds xs = [] then ret ()
         else waitEnis v client enisRemain (map (\<lambda>i. ''*'' @ shownStr i) (attachmentIds xs)))"

definition deleteService :: "'w ecs_env \<Rightarrow> string \<Rightarrow> string \<Rightarrow> string \<Rightarrow> string list \<Rightarrow> ('w, unit) awsop" where
  "deleteService v client name c tasks =
     andThen (deleteServiceCall v client name (Some c)) (\<lambda>_.
     andThen (waitServices v client draining (Some c) [name]) (\<lambda>_.
       tryCatch (waitForInterfaces v client c tasks) (\<lambda>_. ret ())))"

section \<open>Clusters\<close>

definition clusterEquals :: "cluster \<Rightarrow> cluster \<Rightarrow> bool" where
  "clusterEquals a b = (clusterArn a = clusterArn b \<and> clusterName a = clusterName b \<and> clusterStatus a = clusterStatus b)"

definition clusterKey :: "cluster \<Rightarrow> string" where
  "clusterKey e = entityId (Some [''clusterArn'']) ''id'' [(''id'', optNum (clPk e)), (''clusterArn'', optStr (clusterArn e))]"

definition clusterMapper :: "aws_cluster \<Rightarrow> string \<Rightarrow> cluster" where
  "clusterMapper c r = \<lparr> clPk = None, clusterName = (case acName c of None \<Rightarrow> ''default'' | Some n \<Rightarrow> n), clusterArn = acArn c,
     clusterStatus = acStatus c, clRegion = r \<rparr>"

definition getClusters :: "'w ecs_env \<Rightarrow> string \<Rightarrow> ('w, aws_cluster list) awsop" where
  "getClusters v client = andThen (clusterArnPages v client) (\<lambda>ps.
     andThen (describeClusters v client (allPages ps)) (\<lambda>cs. ret (case cs of None \<Rightarrow> [] | Some xs \<Rightarrow> xs)))"

definition getTasksArns :: "'w ecs_env \<Rightarrow> string \<Rightarrow> string \<Rightarrow> string option \<Rightarrow> ('w, string list) awsop" where
  "getTasksArns v client c service = andThen (taskPages v client c (truthyStr service)) (\<lambda>ps. ret (allPages ps))"

text \<open>
  \<open>for (const s of clusterServices) { if (!s.serviceName) continue; ...; return ... }\<close>: the first service with a
  name is deleted, and the cluster only when there is none.
\<close>

definition deleteCluster :: "'w ecs_env \<Rightarrow> string \<Rightarrow> string \<Rightarrow> ('w, unit) awsop" where
  "deleteCluster v client i = andThen (getServices v client [i]) (\<lambda>ss.
     case find (\<lambda>s. truthyStr (asName s) \<noteq> None) ss of
       Some s \<Rightarrow> (let n = the (asName s) in
         andThen (getTasksArns v client i (Some n)) (\<lambda>tasks.
         andThen (updateService v client \<lparr> suService = Some n, suCluster = Some i, suTask = None, suDesired = Some 0 \<rparr>) (\<lambda>_.
           deleteService v client n i tasks)))
     | None \<Rightarrow> andThen (getTasksArns v client i None) (\<lambda>tasks.
         andThen (if tasks = [] then ret () else waitTasksStopped v client i tasks) (\<lambda>_. deleteClusterCall v client i)))"

definition clusterCreateOne :: "'w ecs_env \<Rightarrow> cluster \<Rightarrow> ('w, cluster option) awsop" where
  "clusterCreateOne v e = andThen (createCluster v (clRegion e) (clusterName e)) (\<lambda>res.
     case Option.bind res acArn of None \<Rightarrow> throw (plainErr ''what should we do here?'')
     | Some arn \<Rightarrow> andThen (getCluster v (clRegion e) arn) (\<lambda>found. case found of
         None \<Rightarrow> ret None
       | Some c \<Rightarrow> (let n = (clusterMapper c (clRegion e))\<lparr> clPk := clPk e \<rparr> in
           andThen (clusterDbSave v n) (\<lambda>_. ret (Some n)))))"

definition clusterCloudCreate :: "'w ecs_env \<Rightarrow> cluster list \<Rightarrow> ('w, cluster list) awsop" where
  "clusterCloudCreate v = collectM (clusterCreateOne v)"

definition clusterCloudReadOne :: "'w ecs_env \<Rightarrow> string \<Rightarrow> ('w, cluster option) awsop" where
  "clusterCloudReadOne v arn = andThen (ecsRegions v) (\<lambda>regions. case regionOfArn v arn of
     Inl e \<Rightarrow> throw e
   | Inr r \<Rightarrow> if r \<in> set regions then andThen (getCluster v r arn) (\<lambda>c. ret (map_option (\<lambda>x. clusterMapper x r) c)) else ret None)"

definition clusterCloudRead :: "'w ecs_env \<Rightarrow> ('w, cluster list) awsop" where
  "clusterCloudRead v = andThen (ecsRegions v) (\<lambda>regions.
     andThen (mapM (\<lambda>r. andThen (getClusters v r) (\<lambda>cs. ret (map (\<lambda>c. clusterMapper c r) cs))) regions) (\<lambda>css.
       ret (concat css)))"

definition clusterReplaced :: "cluster \<Rightarrow> cluster \<Rightarrow> bool" where   \<comment> \<open>\<open>updateOrReplace\<close> is \<open>'replace'\<close>\<close>
  "clusterReplaced prev nxt = (clusterName prev \<noteq> clusterName nxt)"

definition clusterDeleteOne :: "'w ecs_env \<Rightarrow> cluster \<Rightarrow> ('w, unit) awsop" where
  "clusterDeleteOne v e =
     (if clusterStatus e = Some ''INACTIVE'' \<and> clusterName e = ''default''
      then andThen (clusterDbRead v (clusterKey e)) (\<lambda>d. case d of Some _ \<Rightarrow> ret () | None \<Rightarrow> clusterDbSave v e)
      else deleteCluster v (clRegion e) (clusterName e))"

definition clusterCloudDelete :: "'w ecs_env \<Rightarrow> cluster list \<Rightarrow> ('w, unit) awsop" where
  "clusterCloudDelete v = eachM (clusterDeleteOne v)"

text \<open>\<open>cluster.cloud.delete(c, ctx)\<close> and \<open>cluster.cloud.create(e, ctx)\<close>, with what \<open>Crud\<close> does around them\<close>

definition mergeCluster :: "cluster \<Rightarrow> cluster \<Rightarrow> cluster" where
  "mergeCluster e old = e\<lparr> clPk := (case clPk e of None \<Rightarrow> clPk old | Some n \<Rightarrow> Some n) \<rparr>"

definition memoCluster :: "cluster \<Rightarrow> ('w, cluster) ecsop" where
  "memoCluster e = (\<lambda>s. case memoWith mergeCluster (clusterKey e) e (cloudClusters s) of (e', m) \<Rightarrow> (Inr e', s\<lparr> cloudClusters := m \<rparr>))"

definition unmemoCluster :: "cluster \<Rightarrow> ('w, unit) ecsop" where
  "unmemoCluster e = modifyS (\<lambda>s. s\<lparr> cloudClusters := unmemoKey (clusterKey e) (cloudClusters s) \<rparr>)"

definition crudDeleteCluster :: "'w ecs_env \<Rightarrow> cluster \<Rightarrow> ('w, unit) ecsop" where
  "crudDeleteCluster v c = andThen (tryCatch (onEcs (clusterCloudDelete v [c]))
     (\<lambda>e. throw (relabel ''Cluster cloud delete error: '' e))) (\<lambda>_. unmemoCluster c)"

definition crudCreateCluster :: "'w ecs_env \<Rightarrow> cluster \<Rightarrow> ('w, cluster option) ecsop" where
  "crudCreateCluster v e = andThen (memoCluster e) (\<lambda>_.
     tryCatch (andThen (onEcs (clusterCloudCreate v [e])) (\<lambda>cs. andThen (mapM memoCluster cs) (\<lambda>cs'.
         ret (case cs' of [] \<Rightarrow> None | c # _ \<Rightarrow> Some c))))
       (\<lambda>err. andThen (unmemoCluster e) (\<lambda>_. throw (relabel ''Cluster cloud create error: '' err))))"

definition crudSaveCluster :: "'w ecs_env \<Rightarrow> cluster \<Rightarrow> ('w, unit) ecsop" where
  "crudSaveCluster v c = andThen (tryCatch (onEcs (clusterDbSave v c)) (\<lambda>e. throw (relabel ''Cluster db update error: '' e)))
     (\<lambda>_. modifyS (\<lambda>s. s\<lparr> dbClusters := snd (memoWith mergeCluster (clusterKey c) c (dbClusters s)) \<rparr>))"

text \<open>What is not renamed is restored; the result of a creation is pushed even when there is none.\<close>

definition clusterUpdateOne :: "'w ecs_env \<Rightarrow> cluster \<Rightarrow> ('w, cluster option) ecsop" where
  "clusterUpdateOne v e = andThen (getS (\<lambda>s. map_of (tableRows (cloudClusters s)) (clusterKey e))) (\<lambda>found. case found of
       None \<Rightarrow> throw jsTypeErr
     | Some c \<Rightarrow> (let cloudRecord = c\<lparr> clPk := clPk e \<rparr> in
         andThen (modifyS (\<lambda>s. s\<lparr> cloudClusters := Some (obj_set (clusterKey e) cloudRecord (tableRows (cloudClusters s))) \<rparr>)) (\<lambda>_.
         if clusterReplaced cloudRecord e
         then andThen (crudDeleteCluster v cloudRecord) (\<lambda>_. crudCreateCluster v e)
         else andThen (crudSaveCluster v cloudRecord) (\<lambda>_. ret (Some cloudRecord)))))"

definition clusterCloudUpdate :: "'w ecs_env \<Rightarrow> cluster list \<Rightarrow> ('w, cluster option list) ecsop" where
  "clusterCloudUpdate v = mapM (clusterUpdateOne v)"

section \<open>Claims about services\<close>

lemma concat_slices: "concat (slices xs) = xs"
  by (induction xs rule: slices.induct) (subst slices.simps, simp)

lemma slices_bound: "b \<in> set (slices xs) \<Longrightarrow> b \<noteq> [] \<and> length b \<le> describeBatch \<and> set b \<subseteq> set xs"
proof (induction xs rule: slices.induct)
  case (1 xs)
  then have x: "xs \<noteq> []" by (auto simp: slices.simps)
  with "1.prems" have "b = take describeBatch xs \<or> b \<in> set (slices (drop describeBatch xs))"
    by (subst (asm) slices.simps) simp
  with "1.IH" [OF x] x show ?case
    by (auto simp: describeBatch_def dest: in_set_takeD in_set_dropD)
qed

lemma mapM_same: "(\<And>x. x \<in> set xs \<Longrightarrow> f x w = (Inr (g x), w)) \<Longrightarrow> mapM f xs w = (Inr (map g xs), w)"
  by (induction xs) (auto simp: andThen_apply)

lemma describeSome_is:
  "describeServices v client (Some i) arns w = (Inr (Some (map f arns)), w) \<Longrightarrow> describeSome v client i arns w = (Inr (map f arns), w)"
  by (simp add: describeSome_def andThen_apply)

lemma servicesOf_all:
  assumes "servicePages v client i w = (Inr ps, w)"
    and "\<And>arns. set arns \<subseteq> set (allPages ps) \<Longrightarrow> arns \<noteq> [] \<Longrightarrow> length arns \<le> 10 \<Longrightarrow>
      describeServices v client (Some i) arns w = (Inr (Some (map f arns)), w)"
  shows "servicesOf v client i w = (Inr (map f (allPages ps)), w)"
proof -
  have d: "describeSome v client i b w = (Inr (map f b), w)" if "b \<in> set (slices (allPages ps))" for b
    using slices_bound [OF that] assms(2) [of b] by (intro describeSome_is) (auto simp: describeBatch_def)
  have "mapM (describeSome v client i) (slices (allPages ps)) w = (Inr (map (map f) (slices (allPages ps))), w)"
    using d by (rule mapM_same)
  moreover have "concat (map (map f) (slices (allPages ps))) = map f (allPages ps)"
    by (metis concat_slices map_concat)
  moreover have "allPages ps = [] \<or> length (allPages ps) \<le> 10 \<Longrightarrow> allPages ps \<noteq> [] \<Longrightarrow>
      describeSome v client i (allPages ps) w = (Inr (map f (allPages ps)), w)"
    using assms(2) [of "allPages ps"] by (intro describeSome_is) auto
  ultimately show ?thesis
    by (auto simp: servicesOf_def andThen_apply assms(1) Let_def describeBatch_def)
qed

text \<open>
  Services are described in requests of at most ten identifiers, none of them empty, and all together they give
  every service of the cluster once and in the order of the list.
\<close>

theorem services_all_described:
  assumes "servicePages v client i w = (Inr ps, w)"
    and "\<forall>arns. set arns \<subseteq> set (allPages ps) \<and> arns \<noteq> [] \<and> length arns \<le> 10 \<longrightarrow>
      describeServices v client (Some i) arns w = (Inr (Some (map f arns)), w)"
  shows "getServices v client [i] w = (Inr (map f (allPages ps)), w)"
proof -
  have "servicesOf v client i w = (Inr (map f (allPages ps)), w)"
    using assms by (intro servicesOf_all) auto
  then show ?thesis by (simp add: getServices_def andThen_apply)
qed

text \<open>The default cluster, once inactive, is never deleted in AWS, whatever the calls would do; its row comes back.\<close>

theorem inactive_default_kept:
  assumes "clusterStatus e = Some ''INACTIVE''" and "clusterName e = ''default''"
    and "clusterDbRead v (clusterKey e) w = (Inr None, w1)"
  shows "clusterCloudDelete (v\<lparr> deleteClusterCall := f, deleteServiceCall := g \<rparr>) [e] w = andThen (clusterDbSave v e) (\<lambda>_. ret ()) w1"
  using assms by (simp add: clusterCloudDelete_def clusterDeleteOne_def andThen_apply)

section \<open>The contract of a cluster\<close>

text \<open>
  What ECS does with the services of a cluster: they are listed by identifiers, have distinct names, and are
  deleted by name.  \<open>up\<close> says that the cluster is there.
\<close>

locale cluster_server =
  fixes v :: "'w ecs_env" and ok :: "'w \<Rightarrow> bool" and ids :: "'w \<Rightarrow> string \<Rightarrow> string list" and up :: "'w \<Rightarrow> string \<Rightarrow> bool"
    and nameOf :: "string \<Rightarrow> string" and serviceOf :: "string \<Rightarrow> aws_service"
  assumes listed: "\<exists>ps. servicePages v r c w = (Inr ps, w) \<and> allPages ps = ids w c"
    and described: "describeServices v r (Some c) arns w = (Inr (Some (map serviceOf arns)), w)"
    and named: "asName (serviceOf a) = Some (nameOf a)" "nameOf a \<noteq> []"
    and distinct: "ok w \<Longrightarrow> distinct (map nameOf (ids w c))"
    and scaled: "ok w \<Longrightarrow> \<exists>x w'. updateService v r u w = (Inr x, w') \<and> ok w' \<and> ids w' = ids w \<and> up w' = up w"
    and deleted: "ok w \<Longrightarrow> \<exists>w'. deleteServiceCall v r n (Some c) w = (Inr (), w') \<and> ok w'
        \<and> ids w' c = filter (\<lambda>a. nameOf a \<noteq> n) (ids w c) \<and> up w' = up w"
    and drained: "ok w \<Longrightarrow> \<exists>w'. waitServices v r check c' ns w = (Inr (), w') \<and> ok w' \<and> ids w' = ids w \<and> up w' = up w"
    and tasks: "\<exists>ps. taskPages v r c q w = (Inr ps, w)"
    and stopped: "ok w \<Longrightarrow> \<exists>w'. waitTasksStopped v r c ts w = (Inr (), w') \<and> ok w' \<and> ids w' = ids w \<and> up w' = up w"
    and attached: "ok w \<Longrightarrow> \<exists>x w'. taskAttachments v r c ts w = (x, w') \<and> ok w' \<and> ids w' = ids w \<and> up w' = up w"
    and released: "ok w \<Longrightarrow> \<exists>x w'. waitEnis v r check' fs w = (x, w') \<and> ok w' \<and> ids w' = ids w \<and> up w' = up w"
    and removed: "ok w \<Longrightarrow> \<exists>w'. deleteClusterCall v r c w = (Inr (), w') \<and> ok w' \<and> ids w' = ids w \<and> \<not> up w' c"
begin

lemma services_are: "getServices v r [c] w = (Inr (map serviceOf (ids w c)), w)"
proof -
  obtain ps where p: "servicePages v r c w = (Inr ps, w)" "allPages ps = ids w c" using listed by blast
  have "servicesOf v r c w = (Inr (map serviceOf (allPages ps)), w)"
    by (rule servicesOf_all [OF p(1)]) (rule described)
  with p(2) show ?thesis by (simp add: getServices_def andThen_apply)
qed

lemma tasks_are: "\<exists>ts. getTasksArns v r c q w = (Inr ts, w)"
  using tasks [of r c "truthyStr q" w] by (auto simp: getTasksArns_def andThen_apply)

definition same :: "'w \<Rightarrow> 'w \<Rightarrow> bool" where
  "same w w' \<longleftrightarrow> ok w' \<and> ids w' = ids w \<and> up w' = up w"

lemma interfaces_wait: "ok w \<Longrightarrow> \<exists>w'. tryCatch (waitForInterfaces v r c ts) (\<lambda>_. ret ()) w = (Inr (), w') \<and> same w w'"
proof -
  assume k: "ok w"
  obtain x w1 where 1: "taskAttachments v r c ts w = (x, w1)" "same w w1" using attached [OF k] unfolding same_def by blast
  then have k1: "ok w1" by (simp add: same_def)
  have "\<exists>y w'. waitForInterfaces v r c ts w = (y, w') \<and> same w w'"
  proof (cases "\<exists>xs. x = Inr (Some xs) \<and> attachmentIds xs \<noteq> []")
    case True
    then obtain xs where x: "x = Inr (Some xs)" "attachmentIds xs \<noteq> []" by blast
    obtain y w2 where "waitEnis v r enisRemain (map (\<lambda>i. ''*'' @ shownStr i) (attachmentIds xs)) w1 = (y, w2)" "same w1 w2"
      using released [OF k1] unfolding same_def by blast
    with 1 x show ?thesis by (auto simp: waitForInterfaces_def andThen_apply same_def)
  next
    case False
    with 1 show ?thesis by (auto simp: waitForInterfaces_def andThen_apply split: sum.split option.split)
  qed
  then show ?thesis by (auto simp: tryCatch_apply split: sum.split)
qed

lemma delete_service:
  assumes "ok w"
  shows "\<exists>w'. deleteService v r n c ts w = (Inr (), w') \<and> ok w' \<and> ids w' c = filter (\<lambda>a. nameOf a \<noteq> n) (ids w c) \<and> up w' = up w"
proof -
  obtain w1 where 1: "deleteServiceCall v r n (Some c) w = (Inr (), w1)" "ok w1"
    "ids w1 c = filter (\<lambda>a. nameOf a \<noteq> n) (ids w c)" "up w1 = up w" using deleted [OF assms] by blast
  obtain w2 where 2: "waitServices v r draining (Some c) [n] w1 = (Inr (), w2)" "same w1 w2"
    using drained [OF 1(2)] unfolding same_def by blast
  then have "ok w2" by (simp add: same_def)
  then obtain w3 where 3: "tryCatch (waitForInterfaces v r c ts) (\<lambda>_. ret ()) w2 = (Inr (), w3)" "same w2 w3"
    using interfaces_wait by blast
  with 1 2 show ?thesis by (simp add: deleteService_def andThen_apply same_def)
qed

lemma one_service_less:
  assumes k: "ok w" and ids: "ids w c = a # as"
  shows "\<exists>w'. deleteCluster v r c w = (Inr (), w') \<and> ok w' \<and> ids w' c = as \<and> up w' = up w"
proof -
  have f: "find (\<lambda>s. truthyStr (asName s) \<noteq> None) (map serviceOf (ids w c)) = Some (serviceOf a)"
    using ids named by (simp add: truthyStr_def)
  obtain ts where t: "getTasksArns v r c (Some (nameOf a)) w = (Inr ts, w)" using tasks_are by blast
  obtain x w1 where 1: "updateService v r \<lparr> suService = Some (nameOf a), suCluster = Some c, suTask = None, suDesired = Some 0 \<rparr> w = (Inr x, w1)"
    "same w w1" using scaled [OF k] unfolding same_def by blast
  then have "ok w1" by (simp add: same_def)
  then obtain w2 where 2: "deleteService v r (nameOf a) c ts w1 = (Inr (), w2)" "ok w2"
    "ids w2 c = filter (\<lambda>b. nameOf b \<noteq> nameOf a) (ids w1 c)" "up w2 = up w1" using delete_service by blast
  have "filter (\<lambda>b. nameOf b \<noteq> nameOf a) (ids w1 c) = as"
    using distinct [OF k, of c] ids 1(2) by (auto simp: same_def image_iff intro!: filter_True)
  with 1 2 f t named show ?thesis
    by (simp add: deleteCluster_def andThen_apply services_are Let_def same_def)
qed

lemma no_service_no_cluster:
  assumes k: "ok w" and ids: "ids w c = []"
  shows "\<exists>w'. deleteCluster v r c w = (Inr (), w') \<and> \<not> up w' c"
proof -
  obtain ts where t: "getTasksArns v r c None w = (Inr ts, w)" using tasks_are by blast
  obtain w1 where 1: "(if ts = [] then ret () else waitTasksStopped v r c ts) w = (Inr (), w1)" "ok w1"
    using stopped [OF k] k by (cases "ts = []") (auto, blast)
  obtain w2 where "deleteClusterCall v r c w1 = (Inr (), w2)" "\<not> up w2 c" using removed [OF 1(2)] by blast
  with 1 t ids show ?thesis by (simp add: deleteCluster_def andThen_apply services_are)
qed

lemma cluster_rounds:
  "ok w \<Longrightarrow> length (ids w c) = n \<Longrightarrow> up w c \<Longrightarrow>
   (\<exists>w'. eachM (\<lambda>_. deleteCluster v r c) (replicate n ()) w = (Inr (), w') \<and> up w' c \<and> ids w' c = [] \<and> ok w')"
proof (induction n arbitrary: w)
  case (Suc n)
  then obtain a as where ids: "ids w c = a # as" "length as = n" by (metis length_Suc_conv)
  obtain w1 where 1: "deleteCluster v r c w = (Inr (), w1)" "ok w1" "ids w1 c = as" "up w1 = up w"
    using one_service_less [OF Suc.prems(1) ids(1)] by blast
  then obtain w2 where 2: "eachM (\<lambda>_. deleteCluster v r c) (replicate n ()) w1 = (Inr (), w2)" "up w2 c" "ids w2 c = []" "ok w2"
    using Suc.IH [of w1] ids(2) Suc.prems(3) by auto
  with 1(1) show ?case by (simp add: andThen_apply)
qed simp

lemma cluster_goes:
  assumes "ok w" and "up w c"
  shows "\<exists>w1 w2. eachM (\<lambda>_. deleteCluster v r c) (replicate (length (ids w c)) ()) w = (Inr (), w1) \<and> up w1 c
    \<and> deleteCluster v r c w1 = (Inr (), w2) \<and> \<not> up w2 c"
proof -
  obtain w1 where 1: "eachM (\<lambda>_. deleteCluster v r c) (replicate (length (ids w c)) ()) w = (Inr (), w1)" "up w1 c" "ids w1 c = []" "ok w1"
    using cluster_rounds [OF assms(1) refl assms(2)] by blast
  with no_service_no_cluster [OF 1(4,3)] show ?thesis by blast
qed

end

section \<open>A server\<close>

text \<open>The names of the services of each cluster, and which clusters there are.\<close>

type_synonym ecs_world = "(string \<Rightarrow> string list) \<times> (string \<Rightarrow> bool)"

definition serviceNamed :: "string \<Rightarrow> aws_service" where
  "serviceNamed n = \<lparr> asArn = Some n, asName = Some (''s'' @ n), asStatus = Some ''ACTIVE'', asCluster = None, asDesired = Some 1,
     asTask = None, asBalancers = [], asNet = None, asLaunch = Some ''FARGATE'' \<rparr>"

definition ecsServer :: "ecs_world ecs_env" where
  "ecsServer = \<lparr> ecsRegions = ret [''r''], regionOfArn = (\<lambda>_. Inr ''r''),
     createCluster = (\<lambda>_ n. ret (Some \<lparr> acName = Some n, acArn = Some n, acStatus = None \<rparr>)), getCluster = (\<lambda>_ _. ret None),
     clusterArnPages = (\<lambda>_. ret []), describeClusters = (\<lambda>_ _. ret None),
     deleteClusterCall = (\<lambda>_ c w. (Inr (), (fst w, (snd w)(c := False)))),
     taskPages = (\<lambda>_ _ _. ret [Some [''t'']]), waitTasksStopped = (\<lambda>_ _ _. ret ()),
     servicePages = (\<lambda>_ c w. (Inr [None, Some (fst w c)], w)),
     describeServices = (\<lambda>_ _ arns. ret (Some (map serviceNamed arns))), updateService = (\<lambda>_ _. ret None),
     deleteServiceCall = (\<lambda>_ n c w. (Inr (), ((fst w)(the c := filter (\<lambda>a. ''s'' @ a \<noteq> n) (fst w (the c))), snd w))),
     waitServices = (\<lambda>_ _ _ _. ret ()), taskAttachments = (\<lambda>_ _ _. ret (Some [None])), waitEnis = (\<lambda>_ _ _. ret ()),
     clusterDbRead = (\<lambda>_. ret None), clusterDbSave = (\<lambda>_. ret ()) \<rparr>"

definition distinctNames :: "ecs_world \<Rightarrow> bool" where
  "distinctNames w \<longleftrightarrow> (\<forall>c. distinct (fst w c))"

interpretation list_cluster: cluster_server ecsServer distinctNames fst snd "\<lambda>n. ''s'' @ n" serviceNamed
  by unfold_locales
    (auto simp: ecsServer_def distinctNames_def serviceNamed_def allPages_def distinct_map inj_on_def fun_eq_iff)


section \<open>Instances\<close>

definition demoEcs :: ecs_world where
  "demoEcs = (\<lambda>_. [''a'', ''b''], \<lambda>_. True)"


theorem services_all_described_witness:
  "getServices ecsServer ''r'' [''c''] demoEcs = (Inr (map serviceNamed (allPages [None, Some [''a'', ''b'']])), demoEcs)"
  by (rule services_all_described) (simp_all add: ecsServer_def demoEcs_def)

definition demoCluster :: cluster where
  "demoCluster = \<lparr> clPk = Some 1, clusterName = ''default'', clusterArn = Some ''arn'', clusterStatus = Some ''INACTIVE'', clRegion = ''r'' \<rparr>"

theorem inactive_default_kept_witness:
  "clusterCloudDelete (ecsServer\<lparr> deleteClusterCall := (\<lambda>_ _. throw (plainErr ''x'')), deleteServiceCall := (\<lambda>_ _ _. throw (plainErr ''x'')) \<rparr>)
     [demoCluster] demoEcs = andThen (clusterDbSave ecsServer demoCluster) (\<lambda>_. ret ()) demoEcs"
  by (rule inactive_default_kept) (simp_all add: demoCluster_def ecsServer_def)

end
