(* ===== verification/Ecs_Task.thy ===== *)
theory Ecs_Task
  imports Ecs_Cluster
begin

text \<open>
  Task definitions of ECS: \<open>src/src/modules/aws_ecs_fargate/mappers/task_definition.ts\<close> and the entities
  \<open>TaskDefinition\<close> and \<open>ContainerDefinition\<close>.

  Parameters (\<open>task_env\<close>) are the calls of the clients, among them those of \<open>Ecs_Cluster\<close>, the reads of the
  mappers of other modules, and the database side of the mapper.  Numbers in texts are decimals, as AWS writes
  them; dividing by 1024 is exact for them, in decimals as in doubles of this size.
\<close>

section \<open>Entities and AWS objects\<close>

record repository =
  repoPk :: "int option"
  repoName :: string
  repoUri :: "string option"

record log_group =
  lgName :: string
  lgArn :: "string option"

record iam_role =
  roleName :: string
  roleArn :: "string option"

record container =
  cdPk :: "int option"
  cdName :: string
  cdImage :: "string option"
  cdTag :: "string option"
  cdDigest :: "string option"
  cdRepository :: "repository option"
  cdPublic :: "repository option"
  cdEssential :: "bool option"
  cdCpu :: "int option"
  cdMemory :: "int option"
  cdReservation :: "int option"
  cdHostPort :: "int option"
  cdPort :: "int option"
  cdProtocol :: "string option"
  cdEnv :: jsval                                   \<comment> \<open>a JSON column, so any value\<close>
  cdLog :: "log_group option"
  cdRegion :: string

record task_def =
  tdPk :: "int option"
  tdArn :: "string option"
  tdFamily :: string
  tdRevision :: "int option"
  tdRole :: "iam_role option"
  tdExecution :: "iam_role option"
  tdStatus :: "string option"
  tdCpuMemory :: "string option"
  tdContainers :: "container list"
  tdRegion :: string

record port_mapping =
  pmContainer :: "int option"
  pmHost :: "int option"
  pmProtocol :: "string option"

record aws_container =
  ctName :: string
  ctImage :: "string option"
  ctCpu :: "int option"
  ctEnv :: "(string \<times> string) list option"
  ctEssential :: "bool option"
  ctMemory :: "int option"
  ctReservation :: "int option"
  ctPorts :: "port_mapping list option"
  ctLog :: "(string \<times> string) option"             \<comment> \<open>the driver and its \<open>awslogs-group\<close>\<close>

record aws_task =
  atArn :: "string option"
  atFamily :: string
  atRevision :: "int option"
  atStatus :: "string option"
  atCpu :: "string option"
  atMemory :: "string option"
  atRole :: "string option"
  atExecution :: "string option"
  atContainers :: "aws_container list"
  atCompatible :: "string list option"

record 'w task_env =
  ecs :: "'w ecs_env"
  registerTask :: "string \<Rightarrow> aws_task \<Rightarrow> ('w, string option option) awsop"   \<comment> \<open>the definition made, and its ARN\<close>
  getTask :: "string \<Rightarrow> string \<Rightarrow> ('w, aws_task option) awsop"
  deregisterTask :: "string \<Rightarrow> string option \<Rightarrow> ('w, unit) awsop"
  activePages :: "string \<Rightarrow> ('w, string list option list) awsop"
  repoDb :: "string \<Rightarrow> string \<Rightarrow> ('w, repository option) awsop"             \<comment> \<open>name and region\<close>
  repoCloud :: "string \<Rightarrow> string \<Rightarrow> ('w, repository option) awsop"
  publicDb :: "string \<Rightarrow> ('w, repository option) awsop"
  publicCloud :: "string \<Rightarrow> ('w, repository option) awsop"
  logDb :: "string \<Rightarrow> string \<Rightarrow> ('w, log_group option) awsop"
  logCloud :: "string \<Rightarrow> string \<Rightarrow> ('w, log_group option) awsop"
  roleDb :: "string \<Rightarrow> ('w, iam_role option) awsop"
  roleCloud :: "string \<Rightarrow> ('w, iam_role option) awsop"
  attachedTasks :: "('w, string option list) awsop"      \<comment> \<open>what the services of the cloud use\<close>
  taskDbRead :: "string option \<Rightarrow> ('w, task_def option) awsop"
  taskDbSave :: "task_def \<Rightarrow> ('w, unit) awsop"

record 'w task_state =
  taskNet :: 'w
  cloudTasks :: "task_def obj option"
  dbTasks :: "task_def obj option"
  cloudRoles :: "iam_role obj option"

type_synonym ('w, 'a) taskop = "('w task_state, aws_err, 'a) action"

definition onTask :: "('w, 'a) awsop \<Rightarrow> ('w, 'a) taskop" where
  "onTask m = (\<lambda>s. case m (taskNet s) of (x, w) \<Rightarrow> (x, s\<lparr> taskNet := w \<rparr>))"

section \<open>Decimals\<close>

text \<open>A decimal \<open>n / 10 ^ k\<close> is \<open>(n, k)\<close>, what is not a number is \<open>None\<close>.\<close>

type_synonym decimal = "(nat \<times> nat) option"

definition readDecimal :: "string option \<Rightarrow> decimal" where
  "readDecimal s = (case map_option (splitOn (CHR ''.'')) s of
     Some [i] \<Rightarrow> map_option (\<lambda>n. (n, 0)) (digits_value 0 i)
   | Some [i, f] \<Rightarrow> map_option (\<lambda>n. (n, length f)) (digits_value 0 (i @ f))
   | _ \<Rightarrow> None)"

definition padded :: "nat \<Rightarrow> nat \<Rightarrow> string" where
  "padded k n = (let d = digits n in replicate (k - length d) (CHR ''0'') @ d)"

definition showDecimal :: "decimal \<Rightarrow> string" where
  "showDecimal d = (case d of None \<Rightarrow> ''NaN''
     | Some (n, k) \<Rightarrow> (let f = (if k = 0 then [] else rev (dropWhile (\<lambda>c. c = CHR ''0'') (rev (padded k (n mod 10 ^ k))))) in
         digits (n div 10 ^ k) @ (if f = [] then [] else ''.'' @ f)))"

definition by1024 :: "decimal \<Rightarrow> decimal" where              \<comment> \<open>\<open>x / 1024\<close>\<close>
  "by1024 d = map_option (\<lambda>(n, k). (n * 9765625, k + 10)) d"

definition times1024 :: "decimal \<Rightarrow> decimal" where
  "times1024 d = map_option (\<lambda>(n, k). (n * 1024, k)) d"

section \<open>Texts\<close>

text \<open>\<open>s.split(d)[1]\<close> and \<open>s.split(d)[0]\<close>\<close>

definition beforeFirst :: "string \<Rightarrow> string \<Rightarrow> string" where
  "beforeFirst d s = (case indexOf s d of None \<Rightarrow> s | Some i \<Rightarrow> take i s)"

definition afterFirst :: "string \<Rightarrow> string \<Rightarrow> string option" where
  "afterFirst d s = map_option (\<lambda>i. beforeFirst d (drop (i + length d) s)) (indexOf s d)"

definition cpuMemoryText :: "string option \<Rightarrow> string option \<Rightarrow> string" where
  "cpuMemoryText cpu memory =
     ''vCPU'' @ showDecimal (by1024 (readDecimal (Some (case cpu of None \<Rightarrow> ''256'' | Some x \<Rightarrow> x)))) @ ''-''
     @ showDecimal (by1024 (readDecimal (Some (case memory of None \<Rightarrow> ''512'' | Some x \<Rightarrow> x)))) @ ''GB''"

definition cpuText :: "string \<Rightarrow> string" where
  "cpuText combination = showDecimal (times1024 (readDecimal (afterFirst ''vCPU'' (splitOn (CHR ''-'') combination ! 0))))"

definition memoryText :: "string \<Rightarrow> aws_err + string" where
  "memoryText combination = (let ws = splitOn (CHR ''-'') combination in
     if 1 < length ws then Inr (showDecimal (times1024 (readDecimal (Some (beforeFirst ''GB'' (ws ! 1)))))) else Inl jsTypeErr)"

definition cpuMemPairs :: "(string \<times> string) list" where
  "cpuMemPairs = [(''0.25'', ''0.5''), (''0.25'', ''1''), (''0.25'', ''2'')]
     @ map (Pair ''0.5'') (map digits [1..<5]) @ map (Pair ''1'') (map digits [2..<9])
     @ map (Pair ''2'') (map digits [4..<17]) @ map (Pair ''4'') (map digits [8..<31])"

definition cpuMemCombinations :: "string list" where
  "cpuMemCombinations = map (\<lambda>(c, m). ''vCPU'' @ c @ ''-'' @ m @ ''GB'') cpuMemPairs"

text \<open>An image is a name with a digest, or a name with a tag.\<close>

definition parseImage :: "string option \<Rightarrow> string option \<times> string option \<times> string option" where
  "parseImage img = (case img of None \<Rightarrow> (None, None, None)
     | Some i \<Rightarrow>
        if includesStr i ''@'' then (let ws = splitOn (CHR ''@'') i in (Some (ws ! 0), None, Some (ws ! 1)))
        else if includesStr i '':'' then (let ws = splitOn (CHR '':'') i in (Some (ws ! 0), Some (ws ! 1), None))
        else (Some i, None, None))"

definition imageText :: "string option \<Rightarrow> string option \<Rightarrow> string option \<Rightarrow> string option" where
  "imageText img tag digest = (case truthyStr digest of
     Some d \<Rightarrow> Some (shownStr img @ ''@'' @ d)
   | None \<Rightarrow> (case truthyStr tag of Some t \<Rightarrow> Some (shownStr img @ '':'' @ t) | None \<Rightarrow> img))"

definition roleNameFromArn :: "string \<Rightarrow> string" where
  "roleNameFromArn arn = last (splitOn (CHR ''/'') arn)"

section \<open>Comparison\<close>

text \<open>\<open>Object.is\<close> of values that were parsed separately: objects are never the same.\<close>

definition sameValue :: "jsval \<Rightarrow> jsval \<Rightarrow> bool" where
  "sameValue a b = (a = b \<and> (a = JNull \<or> \<not> isObject a))"

definition envEntries :: "jsval \<Rightarrow> (string \<times> jsval) list" where    \<comment> \<open>of \<open>v ?? {}\<close>\<close>
  "envEntries v = (case ownEntries v of None \<Rightarrow> [] | Some es \<Rightarrow> es)"

definition sameEnv :: "jsval \<Rightarrow> jsval \<Rightarrow> bool" where
  "sameEnv a b = (length (envEntries a) = length (envEntries b) \<and>
     list_all (\<lambda>(k, x). list_ex (\<lambda>(k', y). k = k' \<and> sameValue x y) (envEntries b)) (envEntries a))"

definition containersEq :: "container \<Rightarrow> container \<Rightarrow> bool" where
  "containersEq a b = (cdCpu a = cdCpu b \<and> sameEnv (cdEnv a) (cdEnv b) \<and> cdEssential a = cdEssential b
     \<and> Option.bind (cdLog a) lgArn = Option.bind (cdLog b) lgArn \<and> cdMemory a = cdMemory b \<and> cdReservation a = cdReservation b
     \<and> cdName a = cdName b \<and> cdPort a = cdPort b \<and> cdHostPort a = cdHostPort b \<and> cdProtocol a = cdProtocol b
     \<and> map_option repoName (cdPublic a) = map_option repoName (cdPublic b)
     \<and> Option.bind (cdRepository a) repoPk = Option.bind (cdRepository b) repoPk
     \<and> cdImage a = cdImage b \<and> cdDigest a = cdDigest b \<and> cdTag a = cdTag b)"

definition taskEquals :: "task_def \<Rightarrow> task_def \<Rightarrow> bool" where
  "taskEquals a b = (tdCpuMemory a = tdCpuMemory b \<and> Option.bind (tdExecution a) roleArn = Option.bind (tdExecution b) roleArn
     \<and> tdFamily a = tdFamily b \<and> tdRevision a = tdRevision b \<and> tdStatus a = tdStatus b \<and> tdArn a = tdArn b
     \<and> Option.bind (tdRole a) roleArn = Option.bind (tdRole b) roleArn
     \<and> length (tdContainers a) = length (tdContainers b)
     \<and> list_all (\<lambda>ac. list_ex (containersEq ac) (tdContainers b)) (tdContainers a))"

definition taskKey :: "task_def \<Rightarrow> string" where
  "taskKey e = entityId (Some [''taskDefinitionArn'']) ''id'' [(''id'', optNum (tdPk e)), (''taskDefinitionArn'', optStr (tdArn e))]"

section \<open>From AWS\<close>

text \<open>What the database has, else what the cloud has.\<close>

definition dbElseCloud :: "('w, 'a option) awsop \<Rightarrow> ('w, 'a option) awsop \<Rightarrow> ('w, 'a option) awsop" where
  "dbElseCloud db cloud = andThen db (\<lambda>d. case d of Some x \<Rightarrow> ret (Some x) | None \<Rightarrow> cloud)"

definition orUndefined :: "('w, 'a option) awsop \<Rightarrow> ('w, 'a option) awsop" where   \<comment> \<open>\<open>catch\<close> that logs\<close>
  "orUndefined m = tryCatch m (\<lambda>_. ret None)"

definition envFromAws :: "(string \<times> string) list \<Rightarrow> jsval" where
  "envFromAws evs = JObj (fold (\<lambda>(k, x). obj_set k (JStr x)) evs [])"

definition lastPort :: "aws_container \<Rightarrow> port_mapping option" where
  "lastPort c = (case ctPorts c of None \<Rightarrow> None | Some ps \<Rightarrow> if ps = [] then None else Some (last ps))"

text \<open>The repositories an image names: a private and a public one.\<close>

definition findRepositories :: "'w task_env \<Rightarrow> string option \<Rightarrow> string \<Rightarrow> ('w, repository option \<times> repository option) awsop" where
  "findRepositories v name r = (case name of None \<Rightarrow> ret (None, None)
     | Some i \<Rightarrow> (let short = last (splitOn (CHR ''/'') i) in
        if includesStr i ''amazonaws.com''
        then andThen (orUndefined (dbElseCloud (repoDb v short r) (repoCloud v short r))) (\<lambda>x. ret (x, None))
        else if includesStr i ''public.ecr.aws''
        then andThen (orUndefined (dbElseCloud (publicDb v short) (publicCloud v short))) (\<lambda>x. ret (None, x))
        else ret (None, None)))"

definition findLogGroup :: "'w task_env \<Rightarrow> aws_container \<Rightarrow> string \<Rightarrow> ('w, log_group option) awsop" where
  "findLogGroup v c r = (case ctLog c of
     Some (driver, g) \<Rightarrow> if driver = ''awslogs'' then dbElseCloud (logDb v g r) (logCloud v g r) else ret None
   | None \<Rightarrow> ret None)"

definition containerDefinitionMapper :: "'w task_env \<Rightarrow> aws_container \<Rightarrow> string \<Rightarrow> ('w, container) awsop" where
  "containerDefinitionMapper v c r = (case ctEnv c of
     None \<Rightarrow> throw jsTypeErr
   | Some evs \<Rightarrow> (case parseImage (ctImage c) of (name, tag, digest) \<Rightarrow>
       andThen (findRepositories v name r) (\<lambda>(repo, public).
       andThen (findLogGroup v c r) (\<lambda>lg.
         ret \<lparr> cdPk = None, cdName = ctName c, cdImage = (if repo = None \<and> public = None then name else None), cdTag = tag,
           cdDigest = digest, cdRepository = repo, cdPublic = public, cdEssential = ctEssential c, cdCpu = ctCpu c,
           cdMemory = ctMemory c, cdReservation = ctReservation c, cdHostPort = Option.bind (lastPort c) pmHost,
           cdPort = Option.bind (lastPort c) pmContainer, cdProtocol = Option.bind (lastPort c) pmProtocol,
           cdEnv = envFromAws evs, cdLog = lg, cdRegion = r \<rparr>))))"

definition findRole :: "'w task_env \<Rightarrow> string option \<Rightarrow> ('w, iam_role option) taskop" where
  "findRole v arn = (case truthyStr arn of None \<Rightarrow> ret None
     | Some a \<Rightarrow> (let n = roleNameFromArn a in
         andThen (getS (\<lambda>s. tableRows (cloudRoles s))) (\<lambda>roles.
           if roles = [] then onTask (orUndefined (dbElseCloud (roleDb v n) (roleCloud v n)))
           else onTask (dbElseCloud (roleDb v n) (ret (map_of roles n))))))"

definition taskDefinitionMapper :: "'w task_env \<Rightarrow> aws_task \<Rightarrow> string \<Rightarrow> ('w, task_def) taskop" where
  "taskDefinitionMapper v td r =
     andThen (onTask (mapM (\<lambda>c. containerDefinitionMapper v c r) (atContainers td))) (\<lambda>cs.
     andThen (findRole v (atExecution td)) (\<lambda>execution.
     andThen (findRole v (atRole td)) (\<lambda>role.
       ret \<lparr> tdPk = None, tdArn = atArn td, tdFamily = atFamily td, tdRevision = atRevision td, tdRole = role,
         tdExecution = execution, tdStatus = atStatus td, tdCpuMemory = Some (cpuMemoryText (atCpu td) (atMemory td)),
         tdContainers = cs, tdRegion = r \<rparr>)))"

text \<open>The inactive definitions that services use, once for each service, then the active ones.\<close>

definition getTaskDefinitions :: "'w task_env \<Rightarrow> string \<Rightarrow> ('w, aws_task option list) awsop" where
  "getTaskDefinitions v client =
     andThen (activePages v client) (\<lambda>ps. (let active = allPages ps in
     andThen (getClusters (ecs v) client) (\<lambda>cs.
     andThen (getServices (ecs v) client (map (\<lambda>c. shownStr (acArn c)) cs)) (\<lambda>ss.
     andThen (mapM (getTask v client) (filter (\<lambda>t. t \<notin> set active) (map (\<lambda>s. shownStr (asTask s)) ss))) (\<lambda>inactive.
     andThen (mapM (getTask v client) active) (\<lambda>tds. ret (inactive @ tds)))))))"

definition isFargate :: "aws_task \<Rightarrow> bool" where
  "isFargate td = (case atCompatible td of None \<Rightarrow> False | Some cs \<Rightarrow> ''FARGATE'' \<in> set cs)"

definition taskCloudReadOne :: "'w task_env \<Rightarrow> string \<Rightarrow> ('w, task_def option) taskop" where
  "taskCloudReadOne v arn = andThen (onTask (ecsRegions (ecs v))) (\<lambda>regions. case regionOfArn (ecs v) arn of
     Inl e \<Rightarrow> throw e
   | Inr r \<Rightarrow> if r \<notin> set regions then ret None
       else andThen (onTask (getTask v r arn)) (\<lambda>td. case td of None \<Rightarrow> ret None
         | Some x \<Rightarrow> if isFargate x then andThen (taskDefinitionMapper v x r) (\<lambda>t. ret (Some t)) else ret None))"

text \<open>\<open>td.compatibilities.includes('FARGATE')\<close> throws for a definition that was not found or has none.\<close>

definition readRegion :: "'w task_env \<Rightarrow> string \<Rightarrow> ('w, task_def list) taskop" where
  "readRegion v r = andThen (onTask (getTaskDefinitions v r)) (\<lambda>tds.
     if list_ex (\<lambda>td. case td of None \<Rightarrow> True | Some x \<Rightarrow> atCompatible x = None) tds then throw jsTypeErr
     else mapM (\<lambda>td. taskDefinitionMapper v td r) (filter isFargate (somes tds)))"

definition taskCloudRead :: "'w task_env \<Rightarrow> ('w, task_def list) taskop" where
  "taskCloudRead v = andThen (onTask (ecsRegions (ecs v))) (\<lambda>regions.
     andThen (mapM (readRegion v) regions) (\<lambda>tdss. ret (concat tdss)))"

section \<open>To AWS\<close>

definition imageOf :: "container \<Rightarrow> aws_err + string option" where
  "imageOf c = (case truthyStr (cdImage c) of Some i \<Rightarrow> Inr (Some i)
     | None \<Rightarrow> (case cdRepository c of
         Some rp \<Rightarrow> (case truthyStr (repoUri rp) of None \<Rightarrow> Inl (plainErr ''Repository need to be created first'') | Some u \<Rightarrow> Inr (Some u))
       | None \<Rightarrow> (case cdPublic c of
           Some rp \<Rightarrow> (case truthyStr (repoUri rp) of None \<Rightarrow> Inl (plainErr ''Public repository need to be created first'')
               | Some u \<Rightarrow> Inr (Some u))
         | None \<Rightarrow> Inr None)))"

definition truthyNum :: "int option \<Rightarrow> bool" where
  "truthyNum n = (n \<noteq> None \<and> n \<noteq> Some 0)"

definition portsOf :: "container \<Rightarrow> port_mapping list option" where
  "portsOf c = (if truthyNum (cdPort c) \<and> truthyNum (cdHostPort c) \<and> truthyStr (cdProtocol c) \<noteq> None
     then Some [\<lparr> pmContainer = cdPort c, pmHost = cdHostPort c, pmProtocol = cdProtocol c \<rparr>] else None)"

definition isArrayValue :: "jsval \<Rightarrow> bool" where
  "isArrayValue v = (case v of JArr _ \<Rightarrow> True | _ \<Rightarrow> False)"

definition containerInput :: "container \<Rightarrow> aws_err + aws_container" where
  "containerInput c = (case imageOf c of Inl e \<Rightarrow> Inl e
     | Inr i \<Rightarrow> if isArrayValue (cdEnv c) then Inl (plainErr ''Invalid environment variables format'')
       else Inr \<lparr> ctName = cdName c, ctImage = imageText i (cdTag c) (cdDigest c), ctCpu = cdCpu c,
         ctEnv = Some (map (\<lambda>(k, x). (k, toStr x)) (envEntries (cdEnv c))), ctEssential = cdEssential c, ctMemory = cdMemory c,
         ctReservation = cdReservation c, ctPorts = portsOf c, ctLog = map_option (\<lambda>g. (''awslogs'', lgName g)) (cdLog c) \<rparr>)"

fun allInputs :: "container list \<Rightarrow> aws_err + aws_container list" where
  "allInputs [] = Inr []"
| "allInputs (c # cs) = (case containerInput c of Inl e \<Rightarrow> Inl e
     | Inr x \<Rightarrow> (case allInputs cs of Inl e \<Rightarrow> Inl e | Inr xs \<Rightarrow> Inr (x # xs)))"

definition noContainers :: "task_def \<Rightarrow> aws_err" where
  "noContainers e = plainErr (''Task definition '' @ tdFamily e
     @ (if truthyNum (tdRevision e) then '':'' @ intStr (the (tdRevision e)) else []) @ '' does not have any container associated.'')"

definition taskInput :: "task_def \<Rightarrow> aws_err + aws_task" where
  "taskInput e = (case allInputs (tdContainers e) of Inl err \<Rightarrow> Inl err
     | Inr cs \<Rightarrow> if cs = [] then Inl (noContainers e)
       else (let input = \<lparr> atArn = None, atFamily = tdFamily e, atRevision = None, atStatus = None, atCpu = None, atMemory = None,
               atRole = Option.bind (tdRole e) roleArn, atExecution = Option.bind (tdExecution e) roleArn, atContainers = cs,
               atCompatible = Some [''FARGATE''] \<rparr> in
         case truthyStr (tdCpuMemory e) of None \<Rightarrow> Inr input
         | Some m \<Rightarrow> (case memoryText m of Inl err \<Rightarrow> Inl err
             | Inr mem \<Rightarrow> Inr (input\<lparr> atCpu := Some (cpuText m), atMemory := Some mem \<rparr>))))"

text \<open>The containers keep the rows of the containers with their names.\<close>

definition keepIds :: "container list \<Rightarrow> container list \<Rightarrow> container list" where
  "keepIds old new = map (\<lambda>nc. fold (\<lambda>c x. if cdName x = cdName c then x\<lparr> cdPk := cdPk c, cdRegion := cdRegion c \<rparr> else x) old nc) new"

definition mergeTask :: "task_def \<Rightarrow> task_def \<Rightarrow> task_def" where
  "mergeTask e old = e\<lparr> tdPk := (case tdPk e of None \<Rightarrow> tdPk old | Some n \<Rightarrow> Some n) \<rparr>"

text \<open>\<open>taskDefinition.db.update(t, ctx)\<close> and \<open>db.create(t, ctx)\<close>, with what \<open>Crud\<close> does around them\<close>

definition memoRow :: "task_def \<Rightarrow> ('w, unit) taskop" where
  "memoRow t = modifyS (\<lambda>s. s\<lparr> dbTasks := snd (memoWith mergeTask (taskKey t) t (dbTasks s)) \<rparr>)"

definition crudSaveTask :: "'w task_env \<Rightarrow> task_def \<Rightarrow> ('w, unit) taskop" where
  "crudSaveTask v t = andThen (tryCatch (onTask (taskDbSave v t)) (\<lambda>e. throw (relabel ''TaskDefinition db update error: '' e)))
     (\<lambda>_. memoRow t)"

definition crudRestoreTask :: "'w task_env \<Rightarrow> task_def \<Rightarrow> ('w, unit) taskop" where
  "crudRestoreTask v t = andThen (memoRow t) (\<lambda>_.
     tryCatch (andThen (onTask (taskDbSave v t)) (\<lambda>_. memoRow t))
       (\<lambda>e. andThen (modifyS (\<lambda>s. s\<lparr> dbTasks := unmemoKey (taskKey t) (dbTasks s) \<rparr>)) (\<lambda>_.
          throw (relabel ''TaskDefinition db create error: '' e))))"

definition taskCreateOne :: "'w task_env \<Rightarrow> task_def \<Rightarrow> ('w, task_def option) taskop" where
  "taskCreateOne v e = (case taskInput e of Inl err \<Rightarrow> throw err
     | Inr input \<Rightarrow> andThen (onTask (registerTask v (tdRegion e) input)) (\<lambda>res. case res of
         None \<Rightarrow> throw (plainErr ''what should we do here?'')
       | Some arn \<Rightarrow> andThen (onTask (getTask v (tdRegion e) (case arn of None \<Rightarrow> [] | Some a \<Rightarrow> a))) (\<lambda>found. case found of
           None \<Rightarrow> ret None
         | Some td \<Rightarrow> andThen (taskDefinitionMapper v td (tdRegion e)) (\<lambda>n.
             (let n' = n\<lparr> tdPk := tdPk e, tdContainers := keepIds (tdContainers e) (tdContainers n) \<rparr> in
              andThen (crudSaveTask v n') (\<lambda>_. ret (Some n')))))))"

definition taskCloudCreate :: "'w task_env \<Rightarrow> task_def list \<Rightarrow> ('w, task_def list) taskop" where
  "taskCloudCreate v = collectM (taskCreateOne v)"

definition memoTask :: "task_def \<Rightarrow> ('w, task_def) taskop" where
  "memoTask e = (\<lambda>s. case memoWith mergeTask (taskKey e) e (cloudTasks s) of (e', m) \<Rightarrow> (Inr e', s\<lparr> cloudTasks := m \<rparr>))"

definition crudCreateTask :: "'w task_env \<Rightarrow> task_def \<Rightarrow> ('w, task_def option) taskop" where
  "crudCreateTask v e = andThen (memoTask e) (\<lambda>_.
     tryCatch (andThen (taskCloudCreate v [e]) (\<lambda>ts. andThen (mapM memoTask ts) (\<lambda>ts'.
         ret (case ts' of [] \<Rightarrow> None | t # _ \<Rightarrow> Some t))))
       (\<lambda>err. andThen (modifyS (\<lambda>s. s\<lparr> cloudTasks := unmemoKey (taskKey e) (cloudTasks s) \<rparr>)) (\<lambda>_.
          throw (relabel ''TaskDefinition cloud create error: '' err))))"

text \<open>A change is registered as a new definition without identifiers, and the old one is restored.\<close>

definition adoptIds :: "container list \<Rightarrow> container list \<Rightarrow> container list" where
  "adoptIds es crcs = map (\<lambda>crc. case find (\<lambda>ec. containersEq ec crc) es of None \<Rightarrow> crc | Some c \<Rightarrow> crc\<lparr> cdPk := cdPk c \<rparr>) crcs"

definition freshCopy :: "task_def \<Rightarrow> task_def" where
  "freshCopy e = e\<lparr> tdPk := None, tdArn := None, tdContainers := map (\<lambda>c. c\<lparr> cdPk := None \<rparr>) (tdContainers e) \<rparr>"

definition taskUpdateOne :: "'w task_env \<Rightarrow> task_def \<Rightarrow> ('w, task_def) taskop" where
  "taskUpdateOne v e = andThen (getS (\<lambda>s. map_of (tableRows (cloudTasks s)) (taskKey e))) (\<lambda>found. case found of
       None \<Rightarrow> throw jsTypeErr
     | Some c \<Rightarrow> (let cloudRecord = c\<lparr> tdPk := tdPk e, tdContainers := adoptIds (tdContainers e) (tdContainers c) \<rparr> in
         andThen (modifyS (\<lambda>s. s\<lparr> cloudTasks := Some (obj_set (taskKey e) cloudRecord (tableRows (cloudTasks s))) \<rparr>)) (\<lambda>_.
         andThen (crudCreateTask v (freshCopy e)) (\<lambda>_.
         andThen (crudSaveTask v cloudRecord) (\<lambda>_. ret cloudRecord)))))"

definition taskCloudUpdate :: "'w task_env \<Rightarrow> task_def list \<Rightarrow> ('w, task_def list) taskop" where
  "taskCloudUpdate v = mapM (taskUpdateOne v)"

text \<open>Definitions in use are kept, inactive ones come back as rows, and the others are deregistered.\<close>

definition sortForDelete :: "'w task_env \<Rightarrow> string option list \<Rightarrow> task_def \<Rightarrow> ('w, task_def option) taskop" where
  "sortForDelete v used e =
     (if tdArn e \<in> set used then ret None
      else if tdStatus e = Some ''INACTIVE''
      then andThen (onTask (taskDbRead v (tdArn e))) (\<lambda>d. case d of Some _ \<Rightarrow> ret None
             | None \<Rightarrow> andThen (crudRestoreTask v e) (\<lambda>_. ret None))
      else ret (Some e))"

definition taskCloudDelete :: "'w task_env \<Rightarrow> task_def list \<Rightarrow> ('w, unit) taskop" where
  "taskCloudDelete v es = andThen (onTask (attachedTasks v)) (\<lambda>used.
     andThen (collectM (sortForDelete v used) es) (\<lambda>toDelete.
     andThen (eachM (\<lambda>e. onTask (deregisterTask v (tdRegion e) (tdArn e))) toDelete) (\<lambda>_.
       if list_ex (\<lambda>e. tdArn e \<in> set used) es
       then throw (plainErr ''Some tasks could not be deleted. They are attached to an existing service.'') else ret ())))"

section \<open>Claims about texts\<close>

definition digitChar :: "char \<Rightarrow> bool" where
  "digitChar c \<longleftrightarrow> 48 \<le> (of_char c :: nat) \<and> (of_char c :: nat) \<le> 57"

definition decimalText :: "string \<Rightarrow> bool" where
  "decimalText s \<longleftrightarrow> list_all (\<lambda>c. c = CHR ''.'' \<or> digitChar c) s"

lemma other_chars: "\<not> digitChar (CHR ''-'')" "\<not> digitChar (CHR ''v'')" "\<not> digitChar (CHR ''G'')" "\<not> digitChar (CHR ''.'')"
  by (simp_all add: digitChar_def)

lemma decimal_chars:
  assumes "decimalText s"
  shows "CHR ''-'' \<notin> set s \<and> CHR ''v'' \<notin> set s \<and> CHR ''G'' \<notin> set s"
proof -
  have d: "c = CHR ''.'' \<or> digitChar c" if "c \<in> set s" for c
    using assms that unfolding decimalText_def list_all_iff by blast
  have "CHR ''-'' \<noteq> CHR ''.''" "CHR ''v'' \<noteq> CHR ''.''" "CHR ''G'' \<noteq> CHR ''.''" by simp_all
  then show ?thesis using d other_chars by blast
qed

lemma digit_digitChar: "n < 10 \<Longrightarrow> digitChar (char_of (48 + n :: nat))"
  by (simp add: digitChar_def)

lemma digits_digitChar: "list_all digitChar (digits n)"
proof (induction n rule: digits.induct)
  case (1 n)
  then show ?case by (subst digits.simps) (auto simp: digit_digitChar)
qed

lemma digits_decimal: "decimalText (digits n)"
  using digits_digitChar [of n] by (auto simp: decimalText_def list_all_iff)

lemma read_digits: "readDecimal (Some (digits n)) = Some (n, 0)"
proof -
  have "CHR ''.'' \<notin> set (digits n)" using digits_digitChar [of n] other_chars by (auto simp: list_all_iff)
  then show ?thesis by (simp add: readDecimal_def splitOn_no_sep digits_value_digits)
qed

text \<open>A text whose product with 1024 is written \<open>C\<close>, and which is what \<open>C\<close> divided by 1024 is written.\<close>

definition scales :: "string \<Rightarrow> string \<Rightarrow> bool" where
  "scales c C \<longleftrightarrow> decimalText c \<and> showDecimal (times1024 (readDecimal (Some c))) = C \<and> showDecimal (by1024 (readDecimal (Some C))) = c"

lemma scales_digits: "scales (digits n) (digits (n * 1024))"
proof -
  have "n * 1024 * 9765625 = n * 10 ^ 10" by simp
  then have "by1024 (readDecimal (Some (digits (n * 1024)))) = Some (n * 10 ^ 10, 10)"
    by (simp add: read_digits by1024_def)
  moreover have "dropWhile (\<lambda>c. c = CHR ''0'') (rev (padded 10 0)) = []" by code_simp
  ultimately show ?thesis
    by (simp add: scales_def digits_decimal read_digits times1024_def showDecimal_def Let_def)
qed

lemma digit_texts:
  "char_of (48::nat) = CHR ''0''" "char_of (49::nat) = CHR ''1''" "char_of (50::nat) = CHR ''2''" "char_of (51::nat) = CHR ''3''"
  "char_of (52::nat) = CHR ''4''" "char_of (53::nat) = CHR ''5''" "char_of (54::nat) = CHR ''6''" "char_of (55::nat) = CHR ''7''"
  "char_of (56::nat) = CHR ''8''" "char_of (57::nat) = CHR ''9''"
  by code_simp+

lemma read_fractions:
  "readDecimal (Some ''0.25'') = Some (25, 2)" "readDecimal (Some ''0.5'') = Some (5, 1)"
  "readDecimal (Some ''256'') = Some (256, 0)" "readDecimal (Some ''512'') = Some (512, 0)"
  by code_simp+

lemma scales_fractions: "scales ''0.25'' ''256''" "scales ''0.5'' ''512''"
  by (simp_all add: scales_def decimalText_def digitChar_def read_fractions times1024_def by1024_def showDecimal_def padded_def
      Let_def digits.simps digit_texts)

lemma indexOf_absent: "c \<notin> set s \<Longrightarrow> indexOf s (c # ds) = None"
proof -
  assume c: "c \<notin> set s"
  have "take (length (c # ds)) (drop i s) \<noteq> c # ds" for i
  proof
    assume "take (length (c # ds)) (drop i s) = c # ds"
    then have "c \<in> set (drop i s)" by (metis in_set_takeD list.set_intros(1))
    with c show False by (meson in_set_dropD)
  qed
  then show ?thesis unfolding indexOf_def find_None_iff by blast
qed

lemma find_first: "(\<And>i. i < n \<Longrightarrow> \<not> P i) \<Longrightarrow> P n \<Longrightarrow> n \<le> m \<Longrightarrow> find P [0..<Suc m] = Some n"
  by (auto simp: find_Some_iff simp del: upt_Suc intro!: exI [of _ n])

lemma indexOf_first: "c \<notin> set m \<Longrightarrow> indexOf (m @ c # ds) (c # ds) = Some (length m)"
proof -
  assume c: "c \<notin> set m"
  have "take (length (c # ds)) (drop i (m @ c # ds)) \<noteq> c # ds" if "i < length m" for i
  proof
    assume "take (length (c # ds)) (drop i (m @ c # ds)) = c # ds"
    moreover have "hd (drop i (m @ c # ds)) = m ! i" using that by (simp add: hd_drop_conv_nth nth_append)
    ultimately have "m ! i = c" by (metis hd_take list.sel(1) length_Cons zero_less_Suc)
    with c that show False by auto
  qed
  then show ?thesis unfolding indexOf_def by (rule find_first) simp_all
qed

lemma combination_core:
  assumes "scales c C" and "scales m M"
  shows "cpuText (''vCPU'' @ c @ ''-'' @ m @ ''GB'') = C \<and> memoryText (''vCPU'' @ c @ ''-'' @ m @ ''GB'') = Inr M
    \<and> cpuMemoryText (Some C) (Some M) = ''vCPU'' @ c @ ''-'' @ m @ ''GB''"
proof -
  from assms have ch: "CHR ''-'' \<notin> set c" "CHR ''v'' \<notin> set c" "CHR ''-'' \<notin> set m" "CHR ''G'' \<notin> set m"
    using decimal_chars [of c] decimal_chars [of m] by (auto simp: scales_def)
  have s: "splitOn (CHR ''-'') (''vCPU'' @ c @ ''-'' @ m @ ''GB'') = [''vCPU'' @ c, m @ ''GB'']"
    using splitOn_append_sep [of "CHR ''-''" "''vCPU'' @ c" "m @ ''GB''"] ch by (simp add: splitOn_no_sep)
  have "indexOf (''vCPU'' @ c) ''vCPU'' = Some 0"
    unfolding indexOf_def by (rule find_first) simp_all
  then have a: "afterFirst ''vCPU'' (''vCPU'' @ c) = Some c"
    using indexOf_absent [of "CHR ''v''" c "''CPU''"] ch by (simp add: afterFirst_def beforeFirst_def)
  have b: "beforeFirst ''GB'' (m @ ''GB'') = m"
    using indexOf_first [of "CHR ''G''" m "''B''"] ch by (simp add: beforeFirst_def)
  have C: "cpuText (''vCPU'' @ c @ ''-'' @ m @ ''GB'') = C" "memoryText (''vCPU'' @ c @ ''-'' @ m @ ''GB'') = Inr M"
    unfolding cpuText_def memoryText_def s Let_def using assms a b by (simp_all add: scales_def)
  with assms show ?thesis by (simp add: cpuMemoryText_def scales_def)
qed

lemma pairs_scale: "(x, m) \<in> set cpuMemPairs \<Longrightarrow> (\<exists>X. scales x X) \<and> (\<exists>M. scales m M)"
proof -
  have d: "\<exists>M. scales (digits n) M" for n using scales_digits by blast
  have "''1'' = digits 1" "''2'' = digits 2" "''4'' = digits 4" by (simp_all add: digits.simps digit_texts)
  with d have e: "\<exists>X. scales ''0.25'' X" "\<exists>X. scales ''0.5'' X" "\<exists>X. scales ''1'' X" "\<exists>X. scales ''2'' X" "\<exists>X. scales ''4'' X"
    using scales_fractions by metis+
  show "(x, m) \<in> set cpuMemPairs \<Longrightarrow> ?thesis"
    unfolding cpuMemPairs_def set_append set_map list.set Un_iff insert_iff image_iff prod.inject using d e by fastforce
qed

text \<open>
  C32. Every combination of CPU and memory that the column allows is sent to ECS as two numbers that read back as the
  same combination.
\<close>

theorem combinations_roundtrip:
  "list_all (\<lambda>m. case memoryText m of Inl _ \<Rightarrow> False | Inr mem \<Rightarrow> cpuMemoryText (Some (cpuText m)) (Some mem) = m) cpuMemCombinations"
  unfolding list_all_iff
proof
  fix c assume "c \<in> set cpuMemCombinations"
  then obtain x m where c: "c = ''vCPU'' @ x @ ''-'' @ m @ ''GB''" "(x, m) \<in> set cpuMemPairs"
    unfolding cpuMemCombinations_def set_map by fast
  from pairs_scale [OF c(2)] obtain X M where "scales x X" "scales m M" by blast
  from combination_core [OF this] c(1)
  show "case memoryText c of Inl _ \<Rightarrow> False | Inr mem \<Rightarrow> cpuMemoryText (Some (cpuText c)) (Some mem) = c" by (simp only: sum.case)
qed

lemma includesStr_single: "includesStr s [c] \<longleftrightarrow> c \<in> set s"
proof -
  have "find (\<lambda>i. take (length [c]) (drop i s) = [c]) [0..<Suc (length s)] \<noteq> None \<longleftrightarrow> (\<exists>i \<in> set [0..<Suc (length s)]. take (length [c]) (drop i s) = [c])"
    unfolding find_None_iff by blast
  also have "\<dots> \<longleftrightarrow> (\<exists>i < length s. s ! i = c)"
  proof
    assume "\<exists>i \<in> set [0..<Suc (length s)]. take (length [c]) (drop i s) = [c]"
    then obtain i where i: "take 1 (drop i s) = [c]" by auto
    then have "i < length s" by (cases "i < length s") auto
    with i show "\<exists>i < length s. s ! i = c" by (auto simp: Cons_nth_drop_Suc [symmetric])
  next
    assume "\<exists>i < length s. s ! i = c"
    then obtain i where "i < length s" "s ! i = c" by blast
    then show "\<exists>i \<in> set [0..<Suc (length s)]. take (length [c]) (drop i s) = [c]"
      by (intro bexI [of _ i]) (auto simp: Cons_nth_drop_Suc [symmetric])
  qed
  finally show ?thesis by (auto simp: includesStr_def indexOf_def in_set_conv_nth)
qed

lemma splitOn_pair: "c \<notin> set xs \<Longrightarrow> c \<notin> set ys \<Longrightarrow> splitOn c (xs @ c # ys) = [xs, ys]"
  by (simp add: splitOn_append_sep splitOn_no_sep)

lemma image_roundtrip_core:
  assumes "CHR ''@'' \<notin> set i" and "CHR '':'' \<notin> set i" and "tag = None \<or> digest = None"
    and "\<forall>t. tag = Some t \<longrightarrow> t \<noteq> [] \<and> CHR ''@'' \<notin> set t \<and> CHR '':'' \<notin> set t"
    and "\<forall>d. digest = Some d \<longrightarrow> d \<noteq> [] \<and> CHR ''@'' \<notin> set d"
  shows "parseImage (imageText (Some i) tag digest) = (Some i, tag, digest)"
proof (cases digest)
  case (Some d)
  with assms show ?thesis
    by (simp add: imageText_def parseImage_def truthyStr_def shownStr_def includesStr_single splitOn_pair Let_def)
next
  case None
  with assms show ?thesis
    by (cases tag) (simp_all add: imageText_def parseImage_def truthyStr_def shownStr_def includesStr_single splitOn_pair Let_def)
qed

text \<open>
  An image with a tag or a digest is sent as a text that reads back as the same three parts, when its name has no
  colon and no at sign.
\<close>

theorem image_roundtrip:
  assumes "CHR ''@'' \<notin> set i" and "CHR '':'' \<notin> set i" and "tag = None \<or> digest = None"
    and "\<forall>t. tag = Some t \<longrightarrow> t \<noteq> [] \<and> CHR ''@'' \<notin> set t \<and> CHR '':'' \<notin> set t"
    and "\<forall>d. digest = Some d \<longrightarrow> d \<noteq> [] \<and> CHR ''@'' \<notin> set d"
  shows "parseImage (imageText (Some i) tag digest) = (Some i, tag, digest)"
  using assms by (rule image_roundtrip_core)

text \<open>A registry with a port is not read back: its path becomes the tag and the tag is lost.\<close>

theorem registry_port_misread:
  "parseImage (imageText (Some ''host:5000/app'') (Some ''v1'') None) = (Some ''host'', Some ''5000/app'', None)"
  by code_simp

section \<open>Claims about containers\<close>

lemma obj_set_length: "k \<notin> fst ` set ob \<Longrightarrow> length (obj_set k x ob) = Suc (length ob)"
proof -
  assume "k \<notin> fst ` set ob"
  moreover have "length (obj_insert k x ob) = Suc (length ob)" by (induction k x ob rule: obj_insert.induct) auto
  ultimately show ?thesis by (simp add: obj_set_def)
qed

lemma set_obj_set_new: "k \<notin> fst ` set ob \<Longrightarrow> set (obj_set k x ob) = insert (k, x) (set ob)"
  by (simp add: obj_set_def)

lemma fold_env:
  "wf_keys (acc @ es) \<Longrightarrow>
   length (fold (\<lambda>(k, x). obj_set k (JStr x)) (map (\<lambda>(k, x). (k, toStr x)) es) acc) = length acc + length es
   \<and> set (fold (\<lambda>(k, x). obj_set k (JStr x)) (map (\<lambda>(k, x). (k, toStr x)) es) acc) = set acc \<union> (\<lambda>(k, x). (k, JStr (toStr x))) ` set es"
proof (induction es arbitrary: acc)
  case (Cons e es)
  obtain k x where e: "e = (k, x)" by (rule prod.exhaust)
  have new: "k \<notin> fst ` set acc" using Cons.prems e by auto
  have "wf_keys (obj_set k (JStr (toStr x)) acc @ es)"
    using Cons.prems e new by (auto simp: jsobj.invar_put)
  from Cons.IH [OF this] new e show ?case by (simp add: obj_set_length set_obj_set_new)
qed simp

lemma env_roundtrip:
  assumes "wf_keys es" and "\<forall>(k, x) \<in> set es. \<exists>t. x = JStr t"
  shows "sameEnv (JObj es) (envFromAws (map (\<lambda>(k, x). (k, toStr x)) es))"
proof -
  have f: "length (fold (\<lambda>(k, x). obj_set k (JStr x)) (map (\<lambda>(k, x). (k, toStr x)) es) []) = length es"
    "set (fold (\<lambda>(k, x). obj_set k (JStr x)) (map (\<lambda>(k, x). (k, toStr x)) es) []) = (\<lambda>(k, x). (k, JStr (toStr x))) ` set es"
    using fold_env [of "[]" es] assms(1) by simp_all
  have "\<exists>p \<in> (\<lambda>(k, x). (k, JStr (toStr x))) ` set es. case p of (k', y) \<Rightarrow> k = k' \<and> sameValue x y" if "(k, x) \<in> set es" for k x
  proof -
    from assms(2) that obtain t where x: "x = JStr t" by blast
    with that have "(k, JStr t) \<in> (\<lambda>(k, x). (k, JStr (toStr x))) ` set es" by (auto simp: image_iff intro!: bexI [of _ "(k, JStr t)"])
    with x show ?thesis by (intro bexI [of _ "(k, JStr t)"]) (simp_all add: sameValue_def)
  qed
  with f show ?thesis
    by (auto simp: sameEnv_def envFromAws_def envEntries_def list_all_iff list_ex_iff)
qed

text \<open>A container whose ports are all given, or none of them.\<close>

definition portsComplete :: "container \<Rightarrow> bool" where
  "portsComplete c \<longleftrightarrow> portsOf c \<noteq> None \<or> (cdPort c = None \<and> cdHostPort c = None \<and> cdProtocol c = None)"


text \<open>A container with a port but without the host's port or protocol is registered without any port.\<close>

theorem incomplete_ports_lost:
  assumes "cdPort c = Some p" and "cdHostPort c = None \<or> cdProtocol c = None" and "containerInput c = Inr x"
    and "containerDefinitionMapper v x r w = (Inr c', w')"
  shows "cdPort c' = None \<and> \<not> containersEq c c'"
proof -
  have "portsOf c = None" using assms(2) by (auto simp: portsOf_def truthyNum_def truthyStr_def)
  then have "lastPort x = None" using assms(3) by (auto simp: containerInput_def lastPort_def split: sum.splits if_splits)
  then have "cdPort c' = None"
    using assms(4) by (auto simp: containerDefinitionMapper_def andThen_Inr_iff split: option.splits prod.splits)
  with assms(1) show ?thesis by (simp add: containersEq_def)
qed

section \<open>Claims about task definitions\<close>

lemma eachM_onTask_same:
  "(\<And>e. e \<in> set es \<Longrightarrow> f e = g e) \<Longrightarrow> eachM f es s = eachM g es s"
  by (induction es arbitrary: s) (auto simp: andThen_apply split: prod.split sum.split)

lemma sortForDelete_unused: "sortForDelete v used e s = (Inr (Some x), s') \<Longrightarrow> x = e \<and> tdArn e \<notin> set used"
  by (auto simp: sortForDelete_def andThen_Inr_iff split: if_splits option.splits)

lemma collectM_from:
  "collectM f xs s = (Inr ys, s') \<Longrightarrow> (\<And>x y s s'. f x s = (Inr (Some y), s') \<Longrightarrow> Q y) \<Longrightarrow> y \<in> set ys \<Longrightarrow> Q y"
proof (induction xs arbitrary: s ys)
  case (Cons x xs)
  from Cons.prems(1) obtain z s1 zs where f: "f x s = (Inr z, s1)" "collectM f xs s1 = (Inr zs, s')"
    and ys: "ys = (case z of None \<Rightarrow> zs | Some z' \<Rightarrow> z' # zs)"
    by (auto simp: collectM_Cons andThen_Inr_iff)
  from Cons.IH [OF f(2) Cons.prems(2)] have "y \<in> set zs \<Longrightarrow> Q y" .
  with f(1) ys Cons.prems(2) [of x] Cons.prems(3) show ?case by (auto split: option.splits)
qed simp

text \<open>
  A definition that a service of the cloud uses is never deregistered: whatever that call would do for such
  definitions, the deletion is the same, and it reports that some could not be deleted.
\<close>

theorem used_task_kept:
  assumes "attachedTasks v (taskNet s) = (Inr used, w)" and "e \<in> set es" and "tdArn e \<in> set used"
  shows "taskCloudDelete (v\<lparr> deregisterTask := \<lambda>r a. if a \<in> set used then f r a else deregisterTask v r a \<rparr>) es s = taskCloudDelete v es s
    \<and> (\<exists>err. fst (taskCloudDelete v es s) = Inl err)"
proof -
  let ?v = "v\<lparr> deregisterTask := \<lambda>r a. if a \<in> set used then f r a else deregisterTask v r a \<rparr>"
  have so: "sortForDelete ?v used = sortForDelete v used"
    by (intro ext) (simp add: sortForDelete_def crudRestoreTask_def)
  have ex: "list_ex (\<lambda>e. tdArn e \<in> set used) es" using assms(2,3) by (auto simp: list_ex_iff)
  obtain r s2 where c: "collectM (sortForDelete v used) es (s\<lparr> taskNet := w \<rparr>) = (r, s2)" by (rule prod.exhaust)
  have att: "onTask (attachedTasks v) s = (Inr used, s\<lparr> taskNet := w \<rparr>)" "onTask (attachedTasks ?v) s = (Inr used, s\<lparr> taskNet := w \<rparr>)"
    using assms(1) by (simp_all add: onTask_def)
  show ?thesis
  proof (cases r)
    case (Inl err)
    with c att show ?thesis by (simp add: taskCloudDelete_def so)
  next
    case (Inr ds)
    have "tdArn d \<notin> set used" if "d \<in> set ds" for d
      using collectM_from [OF c [unfolded Inr], where Q = "\<lambda>d. tdArn d \<notin> set used"] sortForDelete_unused that by blast
    then have e: "eachM (\<lambda>e. onTask (deregisterTask ?v (tdRegion e) (tdArn e))) ds s2 = eachM (\<lambda>e. onTask (deregisterTask v (tdRegion e) (tdArn e))) ds s2"
      by (intro eachM_onTask_same) simp
    obtain q s3 where "eachM (\<lambda>e. onTask (deregisterTask v (tdRegion e) (tdArn e))) ds s2 = (q, s3)" by (rule prod.exhaust)
    with c Inr att e ex show ?thesis by (cases q) (simp_all add: taskCloudDelete_def so)
  qed
qed

text \<open>
  A definition is never changed in place: an update registers a new definition with the values of the row and
  writes the definition of the cloud, with the row's identifier, back over the row.
\<close>

theorem changed_task_restored:
  assumes "map_of (tableRows (cloudTasks s)) (taskKey e) = Some c" and "taskUpdateOne v e s = (Inr t, s')"
  shows "tdArn t = tdArn c \<and> tdRevision t = tdRevision c \<and> tdCpuMemory t = tdCpuMemory c \<and> tdPk t = tdPk e
    \<and> (\<exists>input s1 res s2. taskInput (freshCopy e) = Inr input \<and> registerTask v (tdRegion e) input s1 = (Inr (Some res), s2))"
proof -
  let ?c = "c\<lparr> tdPk := tdPk e, tdContainers := adoptIds (tdContainers e) (tdContainers c) \<rparr>"
  from assms obtain s1 x s2 where t: "t = ?c" and cr: "crudCreateTask v (freshCopy e) s1 = (Inr x, s2)"
    by (auto simp: taskUpdateOne_def andThen_Inr_iff Let_def)
  from cr obtain s3 ts s4 where "taskCloudCreate v [freshCopy e] s3 = (Inr ts, s4)"
    by (auto simp: crudCreateTask_def andThen_Inr_iff tryCatch_apply andThen_apply split: prod.splits sum.splits)
  then obtain y s5 where "taskCreateOne v (freshCopy e) s3 = (Inr y, s5)"
    by (auto simp: taskCloudCreate_def collectM_Cons andThen_Inr_iff)
  then obtain input where i: "taskInput (freshCopy e) = Inr input" by (auto simp: taskCreateOne_def split: sum.splits)
  have r: "tdRegion (freshCopy e) = tdRegion e" by (simp add: freshCopy_def)
  obtain q s6 where q: "onTask (registerTask v (tdRegion e) input) s3 = (q, s6)" by (rule prod.exhaust)
  with \<open>taskCreateOne v (freshCopy e) s3 = (Inr y, s5)\<close> i r obtain res where "q = Inr (Some res)"
    by (cases q; cases "projr q") (simp_all add: taskCreateOne_def)
  with q have "onTask (registerTask v (tdRegion e) input) s3 = (Inr (Some res), s6)" by simp
  then have "\<exists>s1 res s2. registerTask v (tdRegion e) input s1 = (Inr (Some res), s2)"
    by (auto simp: onTask_def split: prod.splits)
  with i t show ?thesis by auto
qed

section \<open>Instances\<close>

definition demoAwsTask :: aws_task where
  "demoAwsTask = \<lparr> atArn = Some ''t:2'', atFamily = ''t'', atRevision = Some 2, atStatus = Some ''ACTIVE'', atCpu = Some ''256'',
     atMemory = Some ''512'', atRole = None, atExecution = None, atContainers = [], atCompatible = Some [''FARGATE''] \<rparr>"

definition demoTask :: "ecs_world task_env" where
  "demoTask = \<lparr> ecs = ecsServer, registerTask = (\<lambda>_ _. ret (Some (Some ''t:2''))), getTask = (\<lambda>_ _. ret (Some demoAwsTask)),
     deregisterTask = (\<lambda>_ _. ret ()), activePages = (\<lambda>_. ret []), repoDb = (\<lambda>_ _. ret None), repoCloud = (\<lambda>_ _. ret None),
     publicDb = (\<lambda>_. ret None), publicCloud = (\<lambda>_. ret None), logDb = (\<lambda>_ _. ret None), logCloud = (\<lambda>_ _. ret None),
     roleDb = (\<lambda>_. ret None), roleCloud = (\<lambda>_. ret None), attachedTasks = ret [Some ''t:1''], taskDbRead = (\<lambda>_. ret None),
     taskDbSave = (\<lambda>_. ret ()) \<rparr>"

definition demoContainer :: "int option \<Rightarrow> container" where
  "demoContainer port = \<lparr> cdPk = Some 1, cdName = ''c'', cdImage = Some ''nginx'', cdTag = Some ''v1'', cdDigest = None, cdRepository = None,
     cdPublic = None, cdEssential = Some True, cdCpu = None, cdMemory = None, cdReservation = None, cdHostPort = None, cdPort = port,
     cdProtocol = None, cdEnv = JObj [(''K'', JStr ''V'')], cdLog = None, cdRegion = ''r'' \<rparr>"

definition demoDef :: task_def where
  "demoDef = \<lparr> tdPk = Some 7, tdArn = Some ''t:1'', tdFamily = ''t'', tdRevision = Some 1, tdRole = None, tdExecution = None,
     tdStatus = Some ''ACTIVE'', tdCpuMemory = None, tdContainers = [demoContainer None], tdRegion = ''r'' \<rparr>"

definition demoTasks :: "ecs_world task_state" where
  "demoTasks = \<lparr> taskNet = demoEcs, cloudTasks = Some [(taskKey demoDef, demoDef\<lparr> tdPk := None, tdCpuMemory := Some ''x'' \<rparr>)],
     dbTasks = None, cloudRoles = None \<rparr>"

lemma demo_image: "imageText (Some ''nginx'') (Some ''v1'') None = Some ''nginx:v1''"
  by (simp add: imageText_def truthyStr_def shownStr_def)

theorem image_roundtrip_witness:
  "parseImage (imageText (Some ''nginx'') None (Some ''sha256:0'')) = (Some ''nginx'', None, Some ''sha256:0'')"
  by (rule image_roundtrip) simp_all

lemma demo_plain: "\<not> includesStr ''nginx'' ''amazonaws.com''" "\<not> includesStr ''nginx'' ''public.ecr.aws''"
  by code_simp+


lemma demo_incomplete:
  "\<exists>x c'. containerInput (demoContainer (Some 80)) = Inr x \<and> containerDefinitionMapper demoTask x ''r'' demoEcs = (Inr c', demoEcs)"
proof -
  have "parseImage (Some ''nginx:v1'') = (Some ''nginx'', Some ''v1'', None)" by code_simp
  then show ?thesis
    by (simp add: containerInput_def imageOf_def demoContainer_def truthyStr_def isArrayValue_def imageText_def shownStr_def
        containerDefinitionMapper_def andThen_apply findRepositories_def Let_def demo_plain findLogGroup_def)
qed

theorem incomplete_ports_lost_witness:
  "\<exists>x c'. containerInput (demoContainer (Some 80)) = Inr x \<and> containerDefinitionMapper demoTask x ''r'' demoEcs = (Inr c', demoEcs)
    \<and> cdPort c' = None"
proof -
  obtain x c' where x: "containerInput (demoContainer (Some 80)) = Inr x" "containerDefinitionMapper demoTask x ''r'' demoEcs = (Inr c', demoEcs)"
    using demo_incomplete by blast
  have p: "cdPort (demoContainer (Some 80)) = Some 80" "cdHostPort (demoContainer (Some 80)) = None \<or> cdProtocol (demoContainer (Some 80)) = None"
    by (simp_all add: demoContainer_def)
  from incomplete_ports_lost [OF p x] x show ?thesis by blast
qed

theorem used_task_kept_witness:
  "\<exists>err. fst (taskCloudDelete demoTask [demoDef] demoTasks) = Inl err"
proof -
  have "attachedTasks demoTask (taskNet demoTasks) = (Inr [Some ''t:1''], demoEcs)" by (simp add: demoTask_def demoTasks_def)
  from used_task_kept [OF this, of demoDef "[demoDef]"] show ?thesis by (simp add: demoDef_def)
qed

lemma memoTask_ok: "\<exists>x s'. memoTask e s = (Inr x, s')"
  by (cases "memoWith mergeTask (taskKey e) e (cloudTasks s)") (simp add: memoTask_def)

lemma demo_input: "\<exists>i. taskInput (freshCopy demoDef) = Inr i"
  by (simp add: taskInput_def freshCopy_def demoDef_def demoContainer_def containerInput_def imageOf_def truthyStr_def isArrayValue_def Let_def)

lemma crudSaveTask_ok: "taskDbSave v t w = (Inr (), w') \<Longrightarrow> taskNet s = w \<Longrightarrow> \<exists>s'. crudSaveTask v t s = (Inr (), s')"
  by (simp add: crudSaveTask_def andThen_apply tryCatch_apply onTask_def memoRow_def)

lemma demo_saves: "\<exists>s'. crudSaveTask demoTask t s = (Inr (), s')"
  by (rule crudSaveTask_ok [OF _ refl, where w' = "taskNet s"]) (simp add: demoTask_def)

lemma demo_task_read: "\<exists>t. taskDefinitionMapper demoTask demoAwsTask r s = (Inr t, s)"
  by (simp add: taskDefinitionMapper_def demoAwsTask_def findRole_def truthyStr_def andThen_apply onTask_def)

lemma demo_registered: "\<exists>y s1. taskCreateOne demoTask (freshCopy demoDef) s = (Inr (Some y), s1)"
proof -
  obtain i where i: "taskInput (freshCopy demoDef) = Inr i" using demo_input by blast
  have a: "onTask (registerTask demoTask r i) s = (Inr (Some (Some ''t:2'')), s)" "onTask (getTask demoTask r a) s = (Inr (Some demoAwsTask), s)" for r a
    by (simp_all add: onTask_def demoTask_def)
  obtain t where t: "taskDefinitionMapper demoTask demoAwsTask (tdRegion (freshCopy demoDef)) s = (Inr t, s)" using demo_task_read by blast
  obtain s' where "crudSaveTask demoTask (t\<lparr> tdPk := tdPk (freshCopy demoDef), tdContainers := keepIds (tdContainers (freshCopy demoDef)) (tdContainers t) \<rparr>) s = (Inr (), s')"
    using demo_saves by blast
  with t show ?thesis by (simp add: taskCreateOne_def i andThen_apply a Let_def)
qed

lemma demo_crud: "\<exists>x s1. crudCreateTask demoTask (freshCopy demoDef) s = (Inr x, s1)"
proof -
  obtain x s1 where 1: "memoTask (freshCopy demoDef) s = (Inr x, s1)" using memoTask_ok by blast
  obtain y s2 where 2: "taskCreateOne demoTask (freshCopy demoDef) s1 = (Inr (Some y), s2)" using demo_registered by blast
  obtain z s3 where 3: "memoTask y s2 = (Inr z, s3)" using memoTask_ok by blast
  have "taskCloudCreate demoTask [freshCopy demoDef] s1 = (Inr [y], s2)"
    using 2 by (simp add: taskCloudCreate_def collectM_Cons andThen_apply)
  with 1 3 show ?thesis by (simp add: crudCreateTask_def andThen_apply tryCatch_apply)
qed

lemma demo_memo: "map_of (tableRows (cloudTasks demoTasks)) (taskKey demoDef) = Some (demoDef\<lparr> tdPk := None, tdCpuMemory := Some ''x'' \<rparr>)"
  by (simp add: demoTasks_def tableRows_def)

lemma demo_update: "\<exists>t s'. taskUpdateOne demoTask demoDef demoTasks = (Inr t, s')"
proof -
  let ?c = "(demoDef\<lparr> tdPk := None, tdCpuMemory := Some ''x'' \<rparr>)\<lparr> tdPk := tdPk demoDef, tdContainers := adoptIds (tdContainers demoDef)
    (tdContainers (demoDef\<lparr> tdPk := None, tdCpuMemory := Some ''x'' \<rparr>)) \<rparr>"
  let ?s = "demoTasks\<lparr> cloudTasks := Some (obj_set (taskKey demoDef) ?c (tableRows (cloudTasks demoTasks))) \<rparr>"
  obtain x s1 where 1: "crudCreateTask demoTask (freshCopy demoDef) ?s = (Inr x, s1)" using demo_crud by blast
  obtain s2 where 2: "crudSaveTask demoTask ?c s1 = (Inr (), s2)" using demo_saves by blast
  have "taskUpdateOne demoTask demoDef demoTasks = (Inr ?c, s2)"
    by (simp only: taskUpdateOne_def andThen_apply getS_apply demo_memo prod.case sum.case option.case Let_def modifyS_apply 1 2 ret_apply)
  then show ?thesis by blast
qed

theorem changed_task_restored_witness:
  "\<exists>t s'. taskUpdateOne demoTask demoDef demoTasks = (Inr t, s') \<and> tdCpuMemory t = Some ''x'' \<and> tdPk t = Some 7"
proof -
  obtain t s' where t: "taskUpdateOne demoTask demoDef demoTasks = (Inr t, s')" using demo_update by blast
  from changed_task_restored [OF demo_memo t] have "tdCpuMemory t = Some ''x''" "tdPk t = Some 7" by (simp_all add: demoDef_def)
  with t show ?thesis by blast
qed

end
