(* ===== verification/Ecs_Service.thy ===== *)
theory Ecs_Service
  imports Ecs_Task Security_Group
begin

text \<open>
  Services of ECS: \<open>src/src/modules/aws_ecs_fargate/mappers/service.ts\<close> and its entity.

  Parameters (\<open>service_env\<close>) are the calls of the clients, among them those of \<open>Ecs_Cluster\<close>, the reads of the
  mappers the services refer to (with the cache around them), and the database side of the mapper.
\<close>

section \<open>Entities\<close>

record target_group =
  tgArn :: "string option"

record service =
  svPk :: "int option"
  svName :: "string option"
  svArn :: "string option"
  svStatus :: "string option"
  svCluster :: "cluster option"
  svTask :: "task_def option"
  svDesired :: "int option"
  svSubnets :: "string list option"
  svGroups :: "sgroup list option"
  svPublicIp :: "string option"
  svTarget :: "target_group option"
  svRegion :: string

record service_input =
  siName :: "string option"
  siTask :: string
  siCluster :: "string option"
  siDesired :: "int option"
  siSubnets :: "string list"
  siGroups :: "string option list"
  siPublicIp :: "string option"
  siBalancer :: "(string option \<times> string \<times> int) option"   \<comment> \<open>target group, container and its port\<close>

record 'w service_env =
  ecsCalls :: "'w ecs_env"
  createServiceCall :: "string \<Rightarrow> service_input \<Rightarrow> ('w, aws_service option) awsop"
  clusterDb :: "string \<Rightarrow> ('w, cluster option) awsop"
  clusterCloud :: "string \<Rightarrow> ('w, cluster option) awsop"
  clustersCloud :: "('w, cluster list) awsop"
  taskDb :: "string option \<Rightarrow> ('w, task_def option) awsop"
  taskCloud :: "string option \<Rightarrow> ('w, task_def option) awsop"
  targetDb :: "string option \<Rightarrow> ('w, target_group option) awsop"
  targetCloud :: "string option \<Rightarrow> ('w, target_group option) awsop"
  groupDb :: "string \<Rightarrow> string \<Rightarrow> ('w, sgroup option) awsop"       \<comment> \<open>identifier and region\<close>
  groupCloud :: "string \<Rightarrow> string \<Rightarrow> ('w, sgroup option) awsop"
  subnetDb :: "string \<Rightarrow> string \<Rightarrow> ('w, bool) awsop"               \<comment> \<open>whether there is one\<close>
  subnetCloud :: "string \<Rightarrow> string \<Rightarrow> ('w, bool) awsop"
  serviceDbSave :: "service \<Rightarrow> ('w, unit) awsop"

record 'w service_state =
  svNet :: 'w
  cloudServices :: "service obj option"
  dbServices :: "service obj option"
  knownClusters :: "cluster obj option"                \<comment> \<open>\<open>ctx.memo.cloud.Cluster\<close>\<close>

type_synonym ('w, 'a) svop = "('w service_state, aws_err, 'a) action"

definition onSv :: "('w, 'a) awsop \<Rightarrow> ('w, 'a) svop" where
  "onSv m = (\<lambda>s. case m (svNet s) of (x, w) \<Rightarrow> (x, s\<lparr> svNet := w \<rparr>))"

section \<open>Comparison\<close>

text \<open>\<open>Object.is(a?.length, b?.length) && (a?.every(x => !!b?.find(y => same(x, y))) ?? false)\<close>\<close>

definition everyIn :: "('a \<Rightarrow> 'a \<Rightarrow> bool) \<Rightarrow> 'a list option \<Rightarrow> 'a list option \<Rightarrow> bool" where
  "everyIn same a b = (map_option length a = map_option length b \<and>
     (case a of None \<Rightarrow> False | Some xs \<Rightarrow> list_all (\<lambda>x. list_ex (same x) (case b of None \<Rightarrow> [] | Some ys \<Rightarrow> ys)) xs))"

definition sameGroup :: "sgroup \<Rightarrow> sgroup \<Rightarrow> bool" where
  "sameGroup a b = (groupId a = groupId b)"

definition taskArn :: "service \<Rightarrow> string option" where
  "taskArn e = Option.bind (svTask e) tdArn"

definition clusterNameOf :: "service \<Rightarrow> string option" where
  "clusterNameOf e = map_option clusterName (svCluster e)"

definition clusterArnOf :: "service \<Rightarrow> string option" where
  "clusterArnOf e = Option.bind (svCluster e) clusterArn"

definition targetArnOf :: "service \<Rightarrow> string option" where
  "targetArnOf e = Option.bind (svTarget e) tgArn"

definition serviceEquals :: "service \<Rightarrow> service \<Rightarrow> bool" where
  "serviceEquals a b = (svDesired a = svDesired b \<and> taskArn a = taskArn b \<and> clusterNameOf a = clusterNameOf b
     \<and> svArn a = svArn b \<and> targetArnOf a = targetArnOf b \<and> svName a = svName b \<and> svStatus a = svStatus b
     \<and> svPublicIp a = svPublicIp b \<and> everyIn sameGroup (svGroups a) (svGroups b) \<and> everyIn (=) (svSubnets a) (svSubnets b))"

definition serviceReplaced :: "service \<Rightarrow> service \<Rightarrow> bool" where     \<comment> \<open>\<open>updateOrReplace\<close> is \<open>'replace'\<close>\<close>
  "serviceReplaced prev nxt = (\<not> (svName prev = svName nxt \<and> clusterArnOf prev = clusterArnOf nxt \<and> svPublicIp prev = svPublicIp nxt
     \<and> everyIn sameGroup (svGroups prev) (svGroups nxt) \<and> everyIn (=) (svSubnets prev) (svSubnets nxt)
     \<and> targetArnOf prev = targetArnOf nxt))"

definition serviceKey :: "service \<Rightarrow> string" where
  "serviceKey e = entityId (Some [''arn'']) ''id'' [(''id'', optNum (svPk e)), (''arn'', optStr (svArn e))]"

section \<open>From AWS\<close>

text \<open>What cannot be read is left out.\<close>

definition findGroup :: "'w service_env \<Rightarrow> string \<Rightarrow> string \<Rightarrow> ('w, sgroup option) awsop" where
  "findGroup v r g = tryCatch (dbElseCloud (groupDb v g r) (groupCloud v g r)) (\<lambda>_. ret None)"

text \<open>Whether a subnet is known; an error other than that there is none is ignored.\<close>

definition subnetKnown :: "'w service_env \<Rightarrow> string \<Rightarrow> string \<Rightarrow> ('w, bool) awsop" where
  "subnetKnown v r sn = tryCatch (andThen (subnetDb v sn r) (\<lambda>d. if d then ret True else subnetCloud v sn r))
     (\<lambda>e. ret (errCode e \<noteq> ''InvalidSubnetID.NotFound''))"

fun subnetsKnown :: "'w service_env \<Rightarrow> string \<Rightarrow> string list \<Rightarrow> ('w, bool) awsop" where
  "subnetsKnown v r [] = ret True"
| "subnetsKnown v r (sn # sns) = andThen (subnetKnown v r sn) (\<lambda>b. if b then subnetsKnown v r sns else ret False)"

text \<open>\<open>None\<close>: the target group cannot be read, and the service is left out.\<close>

definition findTarget :: "'w service_env \<Rightarrow> aws_service \<Rightarrow> ('w, target_group option option) awsop" where
  "findTarget v s = (if asBalancers s = [] then ret (Some None)
     else tryCatch (andThen (dbElseCloud (targetDb v (last (asBalancers s))) (targetCloud v (last (asBalancers s)))) (\<lambda>t. ret (Some t)))
       (\<lambda>_. ret None))"

definition withNetwork :: "'w service_env \<Rightarrow> string \<Rightarrow> net_conf option \<Rightarrow> service \<Rightarrow> ('w, service option) awsop" where
  "withNetwork v r net out = (case net of None \<Rightarrow> ret (Some out)
     | Some n \<Rightarrow>
        andThen (mapM (findGroup v r) (case ncGroups n of None \<Rightarrow> [] | Some gs \<Rightarrow> gs)) (\<lambda>gs.
        (let sns = (case ncSubnets n of None \<Rightarrow> [] | Some x \<Rightarrow> x) in
         andThen (subnetsKnown v r sns) (\<lambda>known.
           ret (if known then Some (out\<lparr> svPublicIp := ncPublicIp n, svGroups := Some (somes gs), svSubnets := Some sns \<rparr>) else None)))))"

definition serviceMapper :: "'w service_env \<Rightarrow> aws_service option \<Rightarrow> string \<Rightarrow> ('w, service option) awsop" where
  "serviceMapper v raw r = (case raw of None \<Rightarrow> throw jsTypeErr
     | Some s \<Rightarrow>
        andThen (case truthyStr (asCluster s) of None \<Rightarrow> ret None | Some c \<Rightarrow> dbElseCloud (clusterDb v c) (clusterCloud v c)) (\<lambda>cl.
        andThen (dbElseCloud (taskDb v (asTask s)) (taskCloud v (asTask s))) (\<lambda>td. case td of
          None \<Rightarrow> throw (plainErr ''Task definitions need to be loaded first'')
        | Some t \<Rightarrow> andThen (findTarget v s) (\<lambda>tg. case tg of
            None \<Rightarrow> ret None
          | Some target \<Rightarrow> withNetwork v r (asNet s) \<lparr> svPk = None, svName = asName s, svArn = asArn s, svStatus = asStatus s,
              svCluster = cl, svTask = Some t, svDesired = asDesired s, svSubnets = None, svGroups = None, svPublicIp = None,
              svTarget = target, svRegion = r \<rparr>))))"

definition getService :: "'w service_env \<Rightarrow> string \<Rightarrow> string \<Rightarrow> string option \<Rightarrow> ('w, aws_service option) awsop" where
  "getService v client i c = andThen (describeServices (ecsCalls v) client c [i]) (\<lambda>res.
     ret (case res of Some (s # _) \<Rightarrow> Some s | _ \<Rightarrow> None))"

section \<open>Creation\<close>

definition essentialContainer :: "task_def \<Rightarrow> container option" where
  "essentialContainer t = find (\<lambda>c. cdEssential c = Some True) (tdContainers t)"

definition balancerOf :: "service \<Rightarrow> task_def \<Rightarrow> (string option \<times> string \<times> int) option" where
  "balancerOf e t = (case (svTarget e, essentialContainer t) of
     (Some tg, Some c) \<Rightarrow> (case cdPort c of Some p \<Rightarrow> if p \<noteq> 0 then Some (tgArn tg, cdName c, p) else None | None \<Rightarrow> None)
   | _ \<Rightarrow> None)"

definition serviceInput :: "service \<Rightarrow> aws_err + service_input" where
  "serviceInput e = (case (svTask e, truthyStr (taskArn e)) of
     (Some t, Some arn) \<Rightarrow> (case svGroups e of None \<Rightarrow> Inl jsTypeErr
       | Some gs \<Rightarrow> Inr \<lparr> siName = svName e, siTask = arn, siCluster = clusterNameOf e, siDesired = svDesired e,
           siSubnets = (case svSubnets e of None \<Rightarrow> [] | Some x \<Rightarrow> x), siGroups = map groupId gs, siPublicIp = svPublicIp e,
           siBalancer = balancerOf e t \<rparr>)
   | _ \<Rightarrow> Inl (plainErr ''task definition need to be created first''))"

definition mergeService :: "service \<Rightarrow> service \<Rightarrow> service" where
  "mergeService e old = e\<lparr> svPk := (case svPk e of None \<Rightarrow> svPk old | Some n \<Rightarrow> Some n) \<rparr>"

definition crudSaveService :: "'w service_env \<Rightarrow> service \<Rightarrow> ('w, unit) svop" where
  "crudSaveService v e = andThen (tryCatch (onSv (serviceDbSave v e)) (\<lambda>err. throw (relabel ''Service db update error: '' err)))
     (\<lambda>_. modifyS (\<lambda>s. s\<lparr> dbServices := snd (memoWith mergeService (serviceKey e) e (dbServices s)) \<rparr>))"

definition serviceCreateOne :: "'w service_env \<Rightarrow> service \<Rightarrow> ('w, service option) svop" where
  "serviceCreateOne v e = (case serviceInput e of Inl err \<Rightarrow> throw err
     | Inr input \<Rightarrow> andThen (onSv (createServiceCall v (svRegion e) input)) (\<lambda>res.
         case (Option.bind res asName, Option.bind res asCluster) of
           (Some n, Some c) \<Rightarrow>
             andThen (onSv (getService v (svRegion e) n (Some c))) (\<lambda>raw.
             andThen (onSv (serviceMapper v raw (svRegion e))) (\<lambda>new. case new of None \<Rightarrow> ret None
               | Some x \<Rightarrow> (let x' = x\<lparr> svPk := svPk e \<rparr> in andThen (crudSaveService v x') (\<lambda>_. ret (Some x')))))
         | _ \<Rightarrow> throw (plainErr ''what should we do here?'')))"

definition serviceCloudCreate :: "'w service_env \<Rightarrow> service list \<Rightarrow> ('w, service list) svop" where
  "serviceCloudCreate v = collectM (serviceCreateOne v)"

section \<open>Reading\<close>

definition regionServices :: "'w service_env \<Rightarrow> cluster list \<Rightarrow> string \<Rightarrow> ('w, service list) awsop" where
  "regionServices v cs r =
     andThen (getServices (ecsCalls v) r (map (\<lambda>c. shownStr (clusterArn c)) (filter (\<lambda>c. clRegion c = r) cs))) (\<lambda>ss.
       collectM (\<lambda>s. serviceMapper v (Some s) r) (filter (\<lambda>s. asLaunch s = Some ''FARGATE'') ss))"

definition serviceCloudRead :: "'w service_env \<Rightarrow> ('w, service list) svop" where
  "serviceCloudRead v = andThen (onSv (ecsRegions (ecsCalls v))) (\<lambda>regions.
     andThen (andThen (getS knownClusters) (\<lambda>m. case m of Some t \<Rightarrow> ret (obj_values t) | None \<Rightarrow> onSv (clustersCloud v))) (\<lambda>cs.
     andThen (mapM (\<lambda>r. onSv (regionServices v cs r)) regions) (\<lambda>sss. ret (concat sss))))"

definition memoService :: "service \<Rightarrow> ('w, service) svop" where
  "memoService e = (\<lambda>s. case memoWith mergeService (serviceKey e) e (cloudServices s) of (e', m) \<Rightarrow> (Inr e', s\<lparr> cloudServices := m \<rparr>))"

definition crudReadServices :: "'w service_env \<Rightarrow> ('w, service list) svop" where
  "crudReadServices v = andThen (tryCatch (serviceCloudRead v) (\<lambda>e. throw (relabel ''Service cloud read error: '' e))) (mapM memoService)"

definition serviceCloudReadOne :: "'w service_env \<Rightarrow> string \<Rightarrow> ('w, service option) svop" where
  "serviceCloudReadOne v arn = andThen (onSv (ecsRegions (ecsCalls v))) (\<lambda>regions. case regionOfArn (ecsCalls v) arn of
     Inl e \<Rightarrow> throw e
   | Inr r \<Rightarrow> if r \<notin> set regions then ret None
       else andThen (andThen (getS cloudServices) (\<lambda>m. case m of Some t \<Rightarrow> ret (obj_values t) | None \<Rightarrow> crudReadServices v)) (\<lambda>ss.
         case find (\<lambda>s. svArn s = Some arn) ss of None \<Rightarrow> ret None
         | Some s \<Rightarrow> (case svCluster s of None \<Rightarrow> throw jsTypeErr
             | Some c \<Rightarrow> andThen (onSv (getService v r arn (clusterArn c))) (\<lambda>raw. case raw of None \<Rightarrow> ret None
                 | Some x \<Rightarrow> onSv (serviceMapper v (Some x) r)))))"

section \<open>Deletion and update\<close>

definition serviceDeleteOne :: "'w service_env \<Rightarrow> service \<Rightarrow> ('w, unit) awsop" where
  "serviceDeleteOne v e =
     andThen (updateService (ecsCalls v) (svRegion e) \<lparr> suService = svName e, suCluster = clusterNameOf e, suTask = None, suDesired = Some 0 \<rparr>) (\<lambda>_.
       deleteServiceOnly (ecsCalls v) (svRegion e) (shownStr (svName e)) (clusterArnOf e))"

definition serviceCloudDelete :: "'w service_env \<Rightarrow> service list \<Rightarrow> ('w, unit) awsop" where
  "serviceCloudDelete v = eachM (serviceDeleteOne v)"

definition crudDeleteService :: "'w service_env \<Rightarrow> service \<Rightarrow> ('w, unit) svop" where
  "crudDeleteService v e = andThen (tryCatch (onSv (serviceCloudDelete v [e])) (\<lambda>err. throw (relabel ''Service cloud delete error: '' err)))
     (\<lambda>_. modifyS (\<lambda>s. s\<lparr> cloudServices := unmemoKey (serviceKey e) (cloudServices s) \<rparr>))"

definition crudCreateService :: "'w service_env \<Rightarrow> service \<Rightarrow> ('w, service option) svop" where
  "crudCreateService v e = andThen (memoService e) (\<lambda>_.
     tryCatch (andThen (serviceCloudCreate v [e]) (\<lambda>ss. andThen (mapM memoService ss) (\<lambda>ss'.
         ret (case ss' of [] \<Rightarrow> None | x # _ \<Rightarrow> Some x))))
       (\<lambda>err. andThen (modifyS (\<lambda>s. s\<lparr> cloudServices := unmemoKey (serviceKey e) (cloudServices s) \<rparr>)) (\<lambda>_.
          throw (relabel ''Service cloud create error: '' err))))"

datatype pushed = Skipped | Pushed "service option"    \<comment> \<open>the creation of a replacement may give nothing\<close>

definition serviceUpdateOne :: "'w service_env \<Rightarrow> service \<Rightarrow> ('w, pushed) svop" where
  "serviceUpdateOne v e = andThen (getS (\<lambda>s. map_of (tableRows (cloudServices s)) (serviceKey e))) (\<lambda>found. case found of
       None \<Rightarrow> throw jsTypeErr
     | Some c \<Rightarrow> (let cloudRecord = c\<lparr> svPk := svPk e \<rparr> in
         andThen (modifyS (\<lambda>s. s\<lparr> cloudServices := Some (obj_set (serviceKey e) cloudRecord (tableRows (cloudServices s))) \<rparr>)) (\<lambda>_.
         if serviceReplaced cloudRecord e
         then andThen (crudDeleteService v cloudRecord) (\<lambda>_. andThen (crudCreateService v e) (\<lambda>n. ret (Pushed n)))
         else if svDesired e = svDesired cloudRecord \<and> taskArn e = taskArn cloudRecord
         then andThen (crudSaveService v cloudRecord) (\<lambda>_. ret (Pushed (Some cloudRecord)))
         else andThen (onSv (updateService (ecsCalls v) (svRegion e)
                \<lparr> suService = svName e, suCluster = clusterNameOf e, suTask = taskArn e, suDesired = svDesired e \<rparr>)) (\<lambda>raw.
              andThen (onSv (serviceMapper v raw (svRegion e))) (\<lambda>new. case new of None \<Rightarrow> ret Skipped
                | Some x \<Rightarrow> (let x' = x\<lparr> svPk := svPk e \<rparr> in andThen (crudSaveService v x') (\<lambda>_. ret (Pushed (Some x')))))))))"

fun allPushed :: "pushed list \<Rightarrow> service option list" where
  "allPushed [] = []"
| "allPushed (Skipped # ps) = allPushed ps"
| "allPushed (Pushed x # ps) = x # allPushed ps"

definition serviceCloudUpdate :: "'w service_env \<Rightarrow> service list \<Rightarrow> ('w, service option list) svop" where
  "serviceCloudUpdate v es = andThen (mapM (serviceUpdateOne v) es) (\<lambda>ps. ret (allPushed ps))"

section \<open>Claims about comparison\<close>

lemma everyIn_refl: "(\<And>x. same x x) \<Longrightarrow> everyIn same a a \<longleftrightarrow> a \<noteq> None"
  by (cases a) (auto simp: everyIn_def list_all_iff list_ex_iff)

text \<open>
  A service equals itself exactly when it has its list of security groups and its list of subnets: one that AWS runs
  without a network configuration is different from every row, its own included, for ever.
\<close>

theorem serviceEquals_self: "serviceEquals a a \<longleftrightarrow> svGroups a \<noteq> None \<and> svSubnets a \<noteq> None"
  by (simp add: serviceEquals_def everyIn_refl sameGroup_def)

text \<open>
  C34. A replacement deletes first: when the row has no task definition that AWS knows, the old service is gone by the
  time the update throws, and no new one was asked for.
\<close>

theorem replaced_service_lost:
  assumes "map_of (tableRows (cloudServices s)) (serviceKey e) = Some c" and "serviceReplaced (c\<lparr> svPk := svPk e \<rparr>) e"
    and "serviceInput e = Inl err" and "serviceDeleteOne v (c\<lparr> svPk := svPk e \<rparr>) (svNet s) = (Inr (), w)"
  shows "\<exists>s'. serviceUpdateOne v e s = (Inl (relabel ''Service cloud create error: '' err), s') \<and> svNet s' = w"
proof -
  let ?c = "c\<lparr> svPk := svPk e \<rparr>"
  let ?s = "s\<lparr> cloudServices := Some (obj_set (serviceKey e) ?c (tableRows (cloudServices s))) \<rparr>"
  have "serviceCloudDelete v [?c] (svNet ?s) = (Inr (), w)"
    using assms(4) by (simp add: serviceCloudDelete_def andThen_apply)
  then obtain s1 where 1: "crudDeleteService v ?c ?s = (Inr (), s1)" "svNet s1 = w"
    by (simp add: crudDeleteService_def andThen_apply tryCatch_apply onSv_def)
  obtain e' m where "memoWith mergeService (serviceKey e) e (cloudServices s1) = (e', m)" by (rule prod.exhaust)
  then have 2: "memoService e s1 = (Inr e', s1\<lparr> cloudServices := m \<rparr>)" by (simp add: memoService_def)
  have "crudCreateService v e s1 = (Inl (relabel ''Service cloud create error: '' err),
      s1\<lparr> cloudServices := unmemoKey (serviceKey e) m \<rparr>)"
    by (simp add: crudCreateService_def andThen_apply 2 tryCatch_apply serviceCloudCreate_def collectM_Cons serviceCreateOne_def assms(3))
  then have "serviceUpdateOne v e s = (Inl (relabel ''Service cloud create error: '' err), s1\<lparr> cloudServices := unmemoKey (serviceKey e) m \<rparr>)"
    using assms(1,2) 1(1) by (simp add: serviceUpdateOne_def andThen_apply Let_def)
  with 1(2) show ?thesis by simp
qed

section \<open>The contract of services\<close>

text \<open>What AWS reports of a service that was made from an input.\<close>

definition reflects :: "service_input \<Rightarrow> string \<Rightarrow> aws_service \<Rightarrow> bool" where
  "reflects i c raw \<longleftrightarrow> asName raw = siName i \<and> asCluster raw = Some c \<and> asDesired raw = siDesired i \<and> asTask raw = Some (siTask i)
     \<and> asBalancers raw = (case siBalancer i of None \<Rightarrow> [] | Some (tg, _) \<Rightarrow> [tg])
     \<and> asNet raw = Some \<lparr> ncPublicIp = siPublicIp i, ncGroups = Some (somes (siGroups i)), ncSubnets = Some (siSubnets i) \<rparr>"

text \<open>
  AWS makes the service and describes it; the mappers find what it refers to, in the database or in the cloud.
\<close>

locale service_server =
  fixes v :: "'w service_env" and arnOf :: "string option \<Rightarrow> string" and clusterAt :: "string \<Rightarrow> cluster option"
    and taskAt :: "string option \<Rightarrow> task_def option" and targetAt :: "string option \<Rightarrow> target_group option"
    and groupAt :: "string \<Rightarrow> string \<Rightarrow> sgroup option"
  assumes creates: "siName i \<noteq> None \<Longrightarrow> \<exists>raw w'. createServiceCall v r i w = (Inr (Some raw), w') \<and> reflects i (arnOf (siCluster i)) raw
        \<and> getService v r (the (siName i)) (Some (arnOf (siCluster i))) w' = (Inr (Some raw), w')"
    and arns: "arnOf c \<noteq> []"
    and cluster: "dbElseCloud (clusterDb v a) (clusterCloud v a) w = (Inr (clusterAt a), w)"
    and task: "dbElseCloud (taskDb v b) (taskCloud v b) w = (Inr (taskAt b), w)"
    and target: "dbElseCloud (targetDb v b) (targetCloud v b) w = (Inr (targetAt b), w)"
    and group: "dbElseCloud (groupDb v g r) (groupCloud v g r) w = (Inr (groupAt g r), w)"
    and subnet: "subnetKnown v r sn w = (Inr True, w)"
    and save: "\<exists>w'. serviceDbSave v e w = (Inr (), w')"
begin

lemma subnets_known: "subnetsKnown v r sns w = (Inr True, w)"
  by (induction sns) (simp_all add: andThen_apply subnet)

lemma groups_found: "mapM (findGroup v r) gs w = (Inr (map (\<lambda>g. groupAt g r) gs), w)"
  by (rule mapM_same) (simp add: findGroup_def tryCatch_apply group)

lemma target_found: "findTarget v raw w = (Inr (Some (if asBalancers raw = [] then None else targetAt (last (asBalancers raw)))), w)"
  by (simp add: findTarget_def tryCatch_apply andThen_apply target)

text \<open>A created service, when its task definition is known.\<close>

lemma created:
  assumes "serviceInput e = Inr i" and "svName e \<noteq> None" and "taskAt (Some (siTask i)) = Some t"
  shows "\<exists>n s'. serviceCreateOne v e s = (Inr (Some n), s') \<and> svName n = svName e \<and> svCluster n = clusterAt (arnOf (siCluster i))
    \<and> svTask n = Some t \<and> svDesired n = svDesired e \<and> svPublicIp n = svPublicIp e
    \<and> svSubnets n = Some (siSubnets i) \<and> svGroups n = Some (somes (map (\<lambda>g. groupAt g (svRegion e)) (somes (siGroups i))))
    \<and> svTarget n = (case siBalancer i of None \<Rightarrow> None | Some (tg, _) \<Rightarrow> targetAt tg)"
proof -
  have i: "siName i = svName e" "siDesired i = svDesired e" "siPublicIp i = svPublicIp e"
    using assms(1) by (auto simp: serviceInput_def split: option.splits)
  obtain nm where nm: "siName i = Some nm" using assms(2) i(1) by auto
  obtain raw w1 where raw: "createServiceCall v (svRegion e) i (svNet s) = (Inr (Some raw), w1)" "reflects i (arnOf (siCluster i)) raw"
    "getService v (svRegion e) nm (Some (arnOf (siCluster i))) w1 = (Inr (Some raw), w1)"
    using creates [of i "svRegion e" "svNet s"] nm by auto
  have seen: "asName raw = Some nm" "asCluster raw = Some (arnOf (siCluster i))" using raw(2) nm by (simp_all add: reflects_def)
  define n where "n = \<lparr> svPk = None, svName = svName e, svArn = asArn raw, svStatus = asStatus raw,
    svCluster = clusterAt (arnOf (siCluster i)), svTask = Some t, svDesired = svDesired e, svSubnets = Some (siSubnets i),
    svGroups = Some (somes (map (\<lambda>g. groupAt g (svRegion e)) (somes (siGroups i)))), svPublicIp = svPublicIp e,
    svTarget = (case siBalancer i of None \<Rightarrow> None | Some (tg, _) \<Rightarrow> targetAt tg), svRegion = svRegion e \<rparr>"
  have "serviceMapper v (Some raw) (svRegion e) w1 = (Inr (Some n), w1)"
    using raw(2) arns i assms(3)
    by (auto simp: serviceMapper_def reflects_def truthyStr_def andThen_apply cluster task target_found withNetwork_def groups_found
        subnets_known Let_def n_def split: option.split)
  moreover obtain w2 where "serviceDbSave v (n\<lparr> svPk := svPk e \<rparr>) w1 = (Inr (), w2)" using save by blast
  ultimately have "\<exists>s'. serviceCreateOne v e s = (Inr (Some (n\<lparr> svPk := svPk e \<rparr>)), s')"
    using raw(1,3) assms(1) seen
    by (simp add: serviceCreateOne_def andThen_apply onSv_def Let_def crudSaveService_def tryCatch_apply)
  then show ?thesis by (auto simp: n_def)
qed

lemma created_settles:
  assumes i: "serviceInput e = Inr i" and name: "svName e \<noteq> None" and t: "svTask e = Some t" "taskAt (tdArn t) = Some t"
    and cl: "svCluster e = clusterAt (arnOf (clusterNameOf e))" and gs: "svGroups e = Some gs" "\<forall>g \<in> set gs. \<exists>x. groupId g = Some x \<and> groupAt x (svRegion e) = Some g"
    and sns: "svSubnets e \<noteq> None" and tg: "svTarget e = None \<or> (balancerOf e t \<noteq> None \<and> targetAt (targetArnOf e) = svTarget e)"
  shows "\<exists>n s'. serviceCreateOne v e s = (Inr (Some n), s') \<and> \<not> serviceReplaced n e \<and> svDesired n = svDesired e \<and> taskArn n = taskArn e"
proof -
  have f: "siCluster i = clusterNameOf e" "Some (siTask i) = tdArn t" "siGroups i = map groupId gs" "svSubnets e = Some (siSubnets i)"
    "siBalancer i = balancerOf e t"
    using i t(1) gs(1) sns by (auto simp: serviceInput_def taskArn_def truthyStr_def split: option.splits if_splits)
  have g: "somes (map (\<lambda>g. groupAt g (svRegion e)) (somes (map groupId gs))) = gs"
    using gs(2) by (induction gs) auto
  have b: "(case balancerOf e t of None \<Rightarrow> None | Some (tg, _) \<Rightarrow> targetAt tg) = svTarget e"
    using tg by (auto simp: balancerOf_def targetArnOf_def split: option.splits if_splits)
  obtain n s' where n: "serviceCreateOne v e s = (Inr (Some n), s')" "svName n = svName e" "svCluster n = svCluster e"
    "svTask n = svTask e" "svDesired n = svDesired e" "svPublicIp n = svPublicIp e" "svSubnets n = svSubnets e" "svGroups n = svGroups e"
    "svTarget n = svTarget e"
    using created [OF i name, of t s] t f cl g b gs(1) by auto
  then have "\<not> serviceReplaced n e"
    using gs(1) sns by (simp add: serviceReplaced_def clusterArnOf_def targetArnOf_def everyIn_refl sameGroup_def)
  with n show ?thesis by (auto simp: taskArn_def)
qed

lemma unported_balancer:
  assumes i: "serviceInput e = Inr i" and name: "svName e \<noteq> None" and t: "svTask e = Some t" "taskAt (tdArn t) = Some t"
    and tg: "targetArnOf e \<noteq> None" "balancerOf e t = None"
  shows "\<exists>n s'. serviceCreateOne v e s = (Inr (Some n), s') \<and> serviceReplaced n e"
proof -
  have f: "Some (siTask i) = tdArn t" "siBalancer i = None"
    using i t(1) tg(2) by (auto simp: serviceInput_def taskArn_def truthyStr_def split: option.splits if_splits)
  obtain n s' where n: "serviceCreateOne v e s = (Inr (Some n), s')" "svTarget n = None"
    using created [OF i name, of t s] t f by auto
  with tg(1) show ?thesis by (auto simp: serviceReplaced_def targetArnOf_def)
qed

end

section \<open>A server\<close>

text \<open>
  The services there are, the newest first; the tables of what they refer to are fixed.
\<close>

type_synonym service_world = "aws_service list"

definition madeService :: "service_input \<Rightarrow> aws_service" where
  "madeService i = \<lparr> asArn = map_option (\<lambda>n. ''arn:'' @ n) (siName i), asName = siName i, asStatus = Some ''ACTIVE'',
     asCluster = Some (''arn:'' @ shownStr (siCluster i)), asDesired = siDesired i, asTask = Some (siTask i),
     asBalancers = (case siBalancer i of None \<Rightarrow> [] | Some (tg, _) \<Rightarrow> [tg]),
     asNet = Some \<lparr> ncPublicIp = siPublicIp i, ncGroups = Some (somes (siGroups i)), ncSubnets = Some (siSubnets i) \<rparr>,
     asLaunch = Some ''FARGATE'' \<rparr>"

definition clusterOfArn :: "string \<Rightarrow> cluster option" where
  "clusterOfArn a = Some \<lparr> clPk = Some 1, clusterName = drop 4 a, clusterArn = Some a, clusterStatus = Some ''ACTIVE'', clRegion = ''r'' \<rparr>"

definition serverCalls :: "service_world ecs_env" where
  "serverCalls = \<lparr> ecsRegions = ret [''r''], regionOfArn = (\<lambda>_. Inr ''r''), createCluster = (\<lambda>_ _. ret None), getCluster = (\<lambda>_ _. ret None),
     clusterArnPages = (\<lambda>_. ret []), describeClusters = (\<lambda>_ _. ret None), deleteClusterCall = (\<lambda>_ _. ret ()),
     taskPages = (\<lambda>_ _ _. ret []), waitTasksStopped = (\<lambda>_ _ _. ret ()),
     servicePages = (\<lambda>_ c w. (Inr [Some (somes (map asName (filter (\<lambda>s. asCluster s = Some c) w)))], w)),
     describeServices = (\<lambda>_ c ns w. (Inr (Some (filter (\<lambda>s. asCluster s = c \<and> asName s \<in> Some ` set ns) w)), w)),
     updateService = (\<lambda>_ _. ret None),
     deleteServiceCall = (\<lambda>_ n c w. (Inr (), filter (\<lambda>s. \<not> (asName s = Some n \<and> asCluster s = c)) w)),
     waitServices = (\<lambda>_ _ _ _. ret ()), taskAttachments = (\<lambda>_ _ _. ret None), waitEnis = (\<lambda>_ _ _. ret ()),
     clusterDbRead = (\<lambda>_. ret None), clusterDbSave = (\<lambda>_. ret ()) \<rparr>"

definition serviceServer :: "(string option \<Rightarrow> task_def option) \<Rightarrow> (string option \<Rightarrow> target_group option)
    \<Rightarrow> (string \<Rightarrow> string \<Rightarrow> sgroup option) \<Rightarrow> service_world service_env" where
  "serviceServer ts tgs gs = \<lparr> ecsCalls = serverCalls, createServiceCall = (\<lambda>_ i w. (Inr (Some (madeService i)), madeService i # w)),
     clusterDb = (\<lambda>a. ret (clusterOfArn a)), clusterCloud = (\<lambda>_. ret None), clustersCloud = ret [],
     taskDb = (\<lambda>b. ret (ts b)), taskCloud = (\<lambda>b. ret (ts b)), targetDb = (\<lambda>_. ret None), targetCloud = (\<lambda>b. ret (tgs b)),
     groupDb = (\<lambda>g r. ret (gs g r)), groupCloud = (\<lambda>g r. ret (gs g r)), subnetDb = (\<lambda>_ _. ret False), subnetCloud = (\<lambda>_ _. ret True),
     serviceDbSave = (\<lambda>_. ret ()) \<rparr>"

interpretation aws: service_server "serviceServer ts tgs gs" "\<lambda>c. ''arn:'' @ shownStr c" clusterOfArn ts tgs gs for ts tgs gs
  by unfold_locales
    (auto simp: serviceServer_def serverCalls_def madeService_def reflects_def dbElseCloud_def andThen_apply getService_def
       clusterOfArn_def subnetKnown_def tryCatch_apply split: option.split)

section \<open>Claims about creation\<close>


text \<open>
  A service with a target group whose task definition has no essential container with a port is made without
  the balancer: what comes back has to be replaced again, so that every round deletes the service and makes it anew.
\<close>

theorem unported_balancer_replaced:
  assumes "serviceInput e = Inr i" and "svName e \<noteq> None" and "svTask e = Some t" and "ts (tdArn t) = Some t"
    and "targetArnOf e \<noteq> None" and "balancerOf e t = None"
  shows "\<exists>n s'. serviceCreateOne (serviceServer ts tgs gs) e s = (Inr (Some n), s') \<and> serviceReplaced n e"
  using assms by (rule aws.unported_balancer)

section \<open>Instances\<close>

definition demoGroup :: sgroup where
  "demoGroup = \<lparr> sgPk = None, sgDescription = None, groupName = None, ownerId = None, groupId = Some ''sg-1'', sgVpc = None, sgRegion = ''r'' \<rparr>"

definition demoService :: "bool \<Rightarrow> service" where
  "demoService balanced = \<lparr> svPk = Some 1, svName = Some ''web'', svArn = Some ''arn:web'', svStatus = None, svCluster = clusterOfArn ''arn:c'',
     svTask = Some demoDef, svDesired = Some 1, svSubnets = Some [''subnet-1''], svGroups = Some [demoGroup],
     svPublicIp = None, svTarget = (if balanced then Some \<lparr> tgArn = Some ''tg'' \<rparr> else None), svRegion = ''r'' \<rparr>"

definition demoServices :: "service option \<Rightarrow> service_world service_state" where
  "demoServices x = \<lparr> svNet = [], cloudServices = map_option (\<lambda>e. [(serviceKey e, e)]) x, dbServices = None, knownClusters = None \<rparr>"

definition demoServer :: "service_world service_env" where
  "demoServer = serviceServer (\<lambda>_. Some demoDef) (\<lambda>_. None) (\<lambda>_ _. Some demoGroup)"

lemma demo_service_input: "\<exists>i. serviceInput (demoService b) = Inr i"
  by (simp add: serviceInput_def demoService_def demoDef_def taskArn_def truthyStr_def)


theorem unported_balancer_replaced_witness:
  "\<exists>n s'. serviceCreateOne demoServer (demoService True) (demoServices None) = (Inr (Some n), s') \<and> serviceReplaced n (demoService True)"
proof -
  obtain i where i: "serviceInput (demoService True) = Inr i" using demo_service_input by blast
  show ?thesis unfolding demoServer_def
    by (rule unported_balancer_replaced [OF i, of demoDef])
      (simp_all add: demoService_def demoDef_def demoContainer_def targetArnOf_def balancerOf_def essentialContainer_def)
qed

theorem replaced_service_lost_witness:
  "\<exists>s'. serviceUpdateOne demoServer (demoService True\<lparr> svTask := None \<rparr>) (demoServices (Some (demoService False)))
     = (Inl (relabel ''Service cloud create error: '' (plainErr ''task definition need to be created first'')), s') \<and> svNet s' = []"
  by (rule replaced_service_lost [where c = "demoService False"])
    (simp_all add: demoServices_def demoService_def serviceKey_def tableRows_def serviceReplaced_def targetArnOf_def
      serviceInput_def serviceDeleteOne_def deleteServiceOnly_def demoServer_def serviceServer_def serverCalls_def andThen_apply)

end
