(* ===== verification/Spec2Isabelle.thy ===== *)
theory Spec2Isabelle
  imports Diff_Service Lazy_Dep Mod_Sort Aws_Diff Iam_Policy Mapper_Id Crud_Cache Sg_Rule Router Rpcs Dash_Run Dash_Editor
    Upgrade Route53 Aws_Account S3 Ecs_Service
begin

text \<open>
  A model of the IaSQL engine, which keeps a PostgreSQL database and a cloud account in step.

  \<^bold>\<open>The program.\<close>  The engine (\<open>src/src\<close>) serves a directory of databases, one for each connected AWS account.
  Triggers in a database write every change to an audit log.  \<open>iasql_begin\<close> opens a transaction there,
  \<open>iasql_commit\<close> computes the difference between the rows and the cloud, creates, updates and deletes
  cloud resources until both agree (apply), reads the cloud back (sync), and closes the transaction;
  when it fails, the changes of the transaction are undone from the log.  Modules add tables and RPCs,
  and mappers that compare, read and write one kind of resource.  The dashboard (\<open>src/dashboard\<close>) is a
  client that runs SQL against a database.

  \<^bold>\<open>How code is modelled.\<close>  An \<open>async\<close> function that reads and writes state and may throw is an action: a
  function from the state to an outcome (\<open>Inl\<close> what was thrown, \<open>Inr\<close> what was returned) and the state
  at that moment (\<open>Prelude\<close>).  A loop that may run for ever returns \<open>None\<close> when it does (\<open>paction\<close>).
  Objects and \<open>Map\<close>s are association lists in the language's own key order, with their laws as the
  locale \<open>keyed_store\<close> (\<open>Js_Object\<close>).  Values that the code inspects dynamically are \<open>jsval\<close>
  (\<open>Js_Value\<close>).  PostgreSQL, TypeORM, the AWS SDK, the SQL parsers, random numbers and clocks are
  arguments, collected in one record for each component; what the code needs of them is a locale
  (\<open>audit_store\<close>, \<open>clocked_store\<close>, \<open>meta_store\<close>, \<open>pg_server\<close>, \<open>pg_disconnect\<close>, and for AWS those of the mappers
  such as \<open>bucket_server\<close>, \<open>cluster_server\<close> and \<open>service_server\<close>), each interpreted for a store over lists.

  \<^bold>\<open>The theories.\<close>
  \<^item> Services without state: \<open>Diff_Service\<close> (\<open>services/diff.ts\<close>), \<open>Lazy_Dep\<close> (\<open>lazy-dep.ts\<close>), \<open>Mod_Sort\<close>
    (\<open>mod-sort.ts\<close>), \<open>Aws_Diff\<close> (\<open>aws-diff.ts\<close>), \<open>Iam_Policy\<close> (\<open>canonical-iam-policy.ts\<close>), \<open>Mapper_Id\<close>
    (\<open>cloud-id.ts\<close> and the identifiers of \<open>modules/interfaces.ts\<close>), \<open>Aws_Macros\<close> (\<open>aws_macros.ts\<close>).
  \<^item> The cache and the ORM: \<open>Crud_Cache\<close> (class \<open>Crud\<close> of \<open>interfaces.ts\<close>; objects have addresses, as the
    memo table shares them), \<open>Typeorm\<close> (\<open>typeorm.ts\<close>).
  \<^item> The transaction: \<open>Audit_Log\<close>, \<open>Rpc_Call\<close>, \<open>Commit_Plan\<close>, \<open>Changes\<close>, \<open>Queries\<close>, \<open>Reconcile\<close> and \<open>Commit\<close> follow
    \<open>modules/iasql_functions/iasql.ts\<close> from the log to \<open>commit\<close>, \<open>rollback\<close> and \<open>revert\<close>.
  \<^item> Modules and RPCs: \<open>Install\<close> (\<open>install\<close>, \<open>uninstall\<close>), \<open>Rpc_Sql\<close> and \<open>Module_Base\<close> (\<open>RpcBase\<close>, \<open>ModuleBase\<close>),
    \<open>Rpcs\<close> (\<open>iasql_functions/rpcs\<close>).
  \<^item> Databases: \<open>Metadata\<close> (\<open>services/repositories/metadata.ts\<close>), \<open>Db_Manager\<close>, \<open>Connect\<close>, \<open>Upgrade\<close>
    (\<open>services/iasql.ts\<close>), \<open>Router\<close> (\<open>router/db.ts\<close>).
  \<^item> Mappers: \<open>Security_Group\<close> and \<open>Sg_Rule\<close> (\<open>modules/aws_security_group\<close>), \<open>Route53\<close> (\<open>modules/aws_route53\<close>),
    \<open>Aws_Account\<close> (\<open>modules/aws_account\<close>), \<open>S3\<close> (\<open>modules/aws_s3\<close>), \<open>Ecs_Cluster\<close>,
    \<open>Ecs_Task\<close> and \<open>Ecs_Service\<close> (\<open>modules/aws_ecs_fargate\<close>).
  \<^item> The dashboard: \<open>Dash_Run\<close> (\<open>pages/api/run.ts\<close>), \<open>Dash_Store\<close> (\<open>providers/AppProvider.tsx\<close>), \<open>Dash_Editor\<close>
    (\<open>IasqlEditor.tsx\<close>, \<open>Tab.tsx\<close>).
  A definition has the name of its function in the source, or of its role there; \<open>commit\<close>, \<open>apply\<close> and other names
  taken in HOL have a prefix or suffix.

  \<^bold>\<open>What is shown.\<close>
  \<^item> Reconciliation: \<open>findDiff\<close> puts every entity in exactly one of four classes; a round of \<open>apply\<close> or \<open>sync\<close>
    ends only when a full read of both sides agrees; the loader of dependencies runs every generator that
    can succeed; modules are ordered so that each follows its dependencies.
  \<^item> Transactions: an open transaction is closed, whatever fails in between; the log window of a commit
    holds exactly the changes of its transaction; undoing the logged changes restores the rows.
  \<^item> State: the memo table keeps one object per identity; the directory of databases implements a map from
    users and aliases (refinement); a failing \<open>connect\<close> leaves nothing behind; requests give back their connections.
  \<^item> Mappers: what is created is found in step afterwards; default resources are not touched; caches follow.
  \<^item> The dashboard: tab indices implement tab names (refinement), a started query always ends.
  Several claims state what the code does where that is not what it means to do; the findings of the manifest
  name them.

  \<^bold>\<open>Bounds and fuel.\<close>  \<open>lazyLoader\<close> ends because each round drops a generator.  Loops that may not end have fuel and
  give \<open>None\<close> without it: the rounds of \<open>apply\<close> and \<open>sync\<close>, the module sort (\<open>sortModules_returns\<close> gives
  the fuel that is enough, \<open>sortModules_diverges\<close> when none is), pages of an AWS read.  Retries are
  bounded as in the source: 120 polls of \<open>maybeOpenTransaction\<close>, 10 tries of a grant (\<open>grantLoop\<close>).
  Numbers are integers: no modelled code depends on rounding or overflow of doubles.

  \<^bold>\<open>Not modelled.\<close>  Telemetry (Sentry, PostHog, LogDNA), logging and configuration files: no effect on the state.  The
  class \<open>AWS\<close>, which constructs SDK clients, the migrations, which are declarations for
  TypeORM, and generated enumerations.  The mappers of the other \<open>aws_*\<close> and of the \<open>ssh_*\<close> modules, which follow
  the same interface as those modelled.  The rendering of the dashboard, its service worker and
  the documentation site.  The SQL text of a module's migration (triggers and \<open>query_cron\<close>) runs inside PostgreSQL.
  Interleaving of two requests is modelled where the code relies on it (audit log, timer of \<open>upgrade\<close>, queries of the
  dashboard); elsewhere actions run one after the other.
\<close>

end
